(* ===== verification/Prelude.thy ===== *)
theory Prelude
  imports Main "HOL-Library.Word" "HOL-Library.Multiset"
begin

section \<open>Shared types, containers and automation\<close>

text \<open>
  The names of Rust's integer types, the list and map operations the source takes from its
  standard library, decimal printing, and the interfaces that several components share: a
  transition system with an invariant (\<open>inv_system\<close>), and the laws of a share function that
  splits a number of layers over a list (\<open>layer_split\<close>, in the theory of the same name).

  Unsigned integers are words, so that \<open>+\<close>, \<open>-\<close> and \<open>*\<close> wrap as they do in a release build
  (the workspace sets no \<open>overflow-checks\<close>).  Lengths and indices of vectors (\<open>usize\<close>) are
  natural numbers: they never get near \<open>2^64\<close>.  An \<open>Instant\<close> is a number of nanoseconds.
\<close>

type_synonym u8 = "8 word"
type_synonym u16 = "16 word"
type_synonym u32 = "32 word"
type_synonym u64 = "64 word"
type_synonym i64 = "64 word"
type_synonym usize = nat
type_synonym uuid = "128 word"
type_synonym instant = nat
type_synonym f32_bits = u32

text \<open>A Rust \<open>Result\<close> is a sum with the error on the left.\<close>

type_synonym ('e, 'a) result = "'e + 'a"

text \<open>Facts about unsigned arithmetic that does not overflow, and about map updates.\<close>

named_theorems word_nat
named_theorems map_facts

definition from_secs :: "nat \<Rightarrow> instant" where
  "from_secs s = s * 1000000000"

subsection \<open>Unsigned words\<close>

lemmas word_le_nat [word_nat] = word_le_nat_alt
lemmas word_less_nat [word_nat] = word_less_nat_alt

lemma unat_add_le [word_nat]:
  fixes c s t :: "'a::len word"
  assumes "c \<le> t" and "s \<le> t - c"
  shows "unat (c + s) = unat c + unat s"
proof -
  have "unat (t - c) = unat t - unat c" using assms(1) by (simp add: unat_sub word_le_nat_alt)
  then have "unat c + unat s \<le> unat t" using assms by (simp add: word_le_nat_alt)
  also have "\<dots> < 2 ^ LENGTH('a)" by simp
  finally show ?thesis by (simp add: unat_add_lem)
qed

lemma unat_Suc_word [word_nat]: "Suc (unat w) < 2 ^ LENGTH('a) \<Longrightarrow> unat (w + 1) = Suc (unat w)" for w :: "'a::len word"
  by (metis Suc_eq_plus1 unat_1 unat_add_lem)

lemma unat_inj_word: "unat a = unat b \<longleftrightarrow> a = b" for a b :: "'a::len word"
  by (metis unsigned_word_eqI)

lemma word_add_le_total:
  fixes c s t :: "'a::len word"
  shows "c \<le> t \<Longrightarrow> s \<le> t - c \<Longrightarrow> c + s \<le> t"
  by (rule le_plus')

lemma word_diff_pos: "(c::'a::len word) < t \<Longrightarrow> 0 < t - c"
  by (simp add: word_neq_0_conv [symmetric])

text \<open>\<open>saturating_sub\<close>, and \<open>checked_div\<close>, which is \<open>None\<close> for a zero divisor.\<close>

definition saturating_sub :: "'a::len word \<Rightarrow> 'a word \<Rightarrow> 'a word" where
  "saturating_sub a b = (if b \<le> a then a - b else 0)"

lemma unat_saturating_sub: "unat (saturating_sub a b) = unat a - unat b"
  by (auto simp: saturating_sub_def unat_sub word_le_nat_alt)

definition checked_div :: "'a::len word \<Rightarrow> 'a word \<Rightarrow> 'a word option" where
  "checked_div a b = (if b = 0 then None else Some (a div b))"

text \<open>Wrapping sum of a list of words, as \<open>Iterator::sum\<close> computes it in a release build.\<close>

definition wsum :: "'a::len word list \<Rightarrow> 'a word" where
  "wsum ws = foldl (+) 0 ws"

lemma wsum_sum_list: "wsum ws = sum_list ws"
  by (simp add: wsum_def foldl_conv_fold add.commute fold_plus_sum_list_rev)

lemma wsum_mset: "mset xs = mset ys \<Longrightarrow> wsum xs = wsum ys"
  by (metis sum_mset_sum_list wsum_sum_list)

subsection \<open>Vectors\<close>

text \<open>\<open>iter().position(p)\<close>: the index of the first element that satisfies \<open>p\<close>.\<close>

fun position :: "('a \<Rightarrow> bool) \<Rightarrow> 'a list \<Rightarrow> nat option" where
  "position p [] = None"
| "position p (x # xs) = (if p x then Some 0 else map_option Suc (position p xs))"

lemma position_Some: "position p xs = Some i \<Longrightarrow> i < length xs \<and> p (xs ! i) \<and> (\<forall>j < i. \<not> p (xs ! j))"
proof (induction xs arbitrary: i)
  case (Cons x xs)
  then show ?case by (cases i) (auto split: if_splits simp: nth_Cons')
qed simp

lemma position_None: "position p xs = None \<longleftrightarrow> (\<forall>x \<in> set xs. \<not> p x)"
  by (induction xs) auto

text \<open>\<open>Vec::remove(i)\<close> for an index in range.\<close>

definition remove_at :: "nat \<Rightarrow> 'a list \<Rightarrow> 'a list" where
  "remove_at i xs = take i xs @ drop (Suc i) xs"

lemma length_remove_at [simp]: "i < length xs \<Longrightarrow> length (remove_at i xs) = length xs - 1"
  by (simp add: remove_at_def)

lemma nth_remove_at:
  "i < length xs \<Longrightarrow> j < length xs - 1 \<Longrightarrow> remove_at i xs ! j = (if j < i then xs ! j else xs ! Suc j)"
  by (simp add: remove_at_def nth_append)

lemma mset_remove_at: "i < length xs \<Longrightarrow> mset (remove_at i xs) = mset xs - {#xs ! i#}"
proof -
  assume i: "i < length xs"
  have "mset xs = mset (take i xs @ xs ! i # drop (Suc i) xs)"
    using i by (simp add: id_take_nth_drop [symmetric])
  then show ?thesis by (simp add: remove_at_def)
qed

lemma set_remove_at_subset: "set (remove_at i xs) \<subseteq> set xs"
  by (auto simp: remove_at_def dest: in_set_takeD in_set_dropD)

text \<open>\<open>max_by_key\<close> returns the last of the largest elements, \<open>min_by_key\<close> the first of the smallest.\<close>

fun max_by_key :: "('a \<Rightarrow> 'k::linorder) \<Rightarrow> 'a list \<Rightarrow> 'a option" where
  "max_by_key f [] = None"
| "max_by_key f (x # xs) = (case max_by_key f xs of None \<Rightarrow> Some x
     | Some y \<Rightarrow> if f x \<le> f y then Some y else Some x)"

fun min_by_key :: "('a \<Rightarrow> 'k::linorder) \<Rightarrow> 'a list \<Rightarrow> 'a option" where
  "min_by_key f [] = None"
| "min_by_key f (x # xs) = (case min_by_key f xs of None \<Rightarrow> Some x
     | Some y \<Rightarrow> if f x \<le> f y then Some x else Some y)"

lemma max_by_key_None [simp]: "max_by_key f xs = None \<longleftrightarrow> xs = []"
  by (induction xs) (auto split: option.splits)

lemma min_by_key_None [simp]: "min_by_key f xs = None \<longleftrightarrow> xs = []"
  by (induction xs) (auto split: option.splits)

lemma max_by_key_Some: "max_by_key f xs = Some y \<Longrightarrow> y \<in> set xs \<and> (\<forall>x \<in> set xs. f x \<le> f y)"
  by (induction xs arbitrary: y) (fastforce split: option.splits if_splits)+

lemma min_by_key_Some: "min_by_key f xs = Some y \<Longrightarrow> y \<in> set xs \<and> (\<forall>x \<in> set xs. f y \<le> f x)"
  by (induction xs arbitrary: y) (fastforce split: option.splits if_splits)+

subsection \<open>Stable sorting by a comparator\<close>

text \<open>
  \<open>slice::sort_by\<close> is stable.  For a comparator that is a total preorder every stable sort
  gives the same list; insertion sort is one.  \<open>gt x y\<close> says that the comparator answers
  \<open>Greater\<close> for \<open>x\<close> and \<open>y\<close>.
\<close>

fun insert_by :: "('a \<Rightarrow> 'a \<Rightarrow> bool) \<Rightarrow> 'a \<Rightarrow> 'a list \<Rightarrow> 'a list" where
  "insert_by gt x [] = [x]"
| "insert_by gt x (y # ys) = (if gt x y then y # insert_by gt x ys else x # y # ys)"

definition sort_by :: "('a \<Rightarrow> 'a \<Rightarrow> bool) \<Rightarrow> 'a list \<Rightarrow> 'a list" where
  "sort_by gt xs = foldr (insert_by gt) xs []"

lemma sort_by_Nil [simp]: "sort_by gt [] = []"
  by (simp add: sort_by_def)

lemma sort_by_Cons [simp]: "sort_by gt (x # xs) = insert_by gt x (sort_by gt xs)"
  by (simp add: sort_by_def)

lemma mset_insert_by [simp]: "mset (insert_by gt x xs) = add_mset x (mset xs)"
  by (induction xs) auto

lemma mset_sort_by [simp]: "mset (sort_by gt xs) = mset xs"
  by (induction xs) auto

lemma set_sort_by [simp]: "set (sort_by gt xs) = set xs"
  by (metis mset_sort_by set_mset_mset)

lemma length_sort_by [simp]: "length (sort_by gt xs) = length xs"
  by (metis mset_sort_by size_mset)

lemma sort_by_eq_Nil [simp]: "sort_by gt xs = [] \<longleftrightarrow> xs = []"
  by (metis length_0_conv length_sort_by)

lemma set_insert_by [simp]: "set (insert_by gt x xs) = insert x (set xs)"
  by (induction xs) auto

lemma sorted_insert_by:
  assumes tot: "\<And>x y. gt x y \<Longrightarrow> \<not> gt y x"
    and trans: "\<And>x y z. \<not> gt x y \<Longrightarrow> \<not> gt y z \<Longrightarrow> \<not> gt x z"
  shows "sorted_wrt (\<lambda>x y. \<not> gt x y) xs \<Longrightarrow> sorted_wrt (\<lambda>x y. \<not> gt x y) (insert_by gt x xs)"
proof (induction xs)
  case (Cons y ys)
  show ?case
  proof (cases "gt x y")
    case True
    then show ?thesis using Cons tot [OF True] by simp
  next
    case False
    then have "\<forall>z \<in> set (y # ys). \<not> gt x z" using Cons.prems by (auto dest: trans [OF False])
    then show ?thesis using False Cons.prems by simp
  qed
qed simp

lemma sorted_sort_by:
  assumes "\<And>x y. gt x y \<Longrightarrow> \<not> gt y x"
    and "\<And>x y z. \<not> gt x y \<Longrightarrow> \<not> gt y z \<Longrightarrow> \<not> gt x z"
  shows "sorted_wrt (\<lambda>x y. \<not> gt x y) (sort_by gt xs)"
proof (induction xs)
  case (Cons x xs)
  from sorted_insert_by [OF assms Cons.IH] show ?case by simp
qed simp

text \<open>Stability: elements that the comparator does not separate keep their order.\<close>

lemma filter_insert_by:
  assumes "\<And>y. P y \<Longrightarrow> P x \<Longrightarrow> \<not> gt x y"
  shows "filter P (insert_by gt x ys) = (if P x then x # filter P ys else filter P ys)"
  using assms by (induction ys) auto

lemma sort_by_stable:
  assumes "\<And>x y. P x \<Longrightarrow> P y \<Longrightarrow> \<not> gt x y"
  shows "filter P (sort_by gt xs) = filter P xs"
  using assms by (induction xs) (simp_all add: filter_insert_by)

subsection \<open>Hash maps\<close>

text \<open>
  \<open>HashMap\<close> and \<open>DashMap\<close> are maps.  Their iteration order is unspecified, so a function that
  iterates takes the order as an argument \<open>ks\<close>, any enumeration of the keys without
  repetition; its theorems hold for every such order.
\<close>

definition iter_order :: "'k list \<Rightarrow> ('k \<rightharpoonup> 'v) \<Rightarrow> bool" where
  "iter_order ks m \<longleftrightarrow> distinct ks \<and> set ks = dom m"

fun entries :: "'k list \<Rightarrow> ('k \<rightharpoonup> 'v) \<Rightarrow> ('k \<times> 'v) list" where
  "entries [] m = []"
| "entries (k # ks) m = (case m k of None \<Rightarrow> entries ks m | Some v \<Rightarrow> (k, v) # entries ks m)"

lemma set_entries [simp]: "set (entries ks m) = {(k, v). k \<in> set ks \<and> m k = Some v}"
  by (induction ks) (auto split: option.splits)

lemma iter_order_entries: "iter_order ks m \<Longrightarrow> (k, v) \<in> set (entries ks m) \<longleftrightarrow> m k = Some v"
  by (auto simp: iter_order_def)

lemma length_entries: "set ks \<subseteq> dom m \<Longrightarrow> length (entries ks m) = length ks"
  by (induction ks) auto

lemma iter_order_length: "iter_order ks m \<Longrightarrow> length ks = card (dom m)"
  by (metis distinct_card iter_order_def)

lemma map_fst_entries: "set ks \<subseteq> dom m \<Longrightarrow> map fst (entries ks m) = ks"
  by (induction ks) auto

lemma distinct_entries: "distinct ks \<Longrightarrow> distinct (map fst (entries ks m))"
  by (induction ks) (auto split: option.splits)

lemma entries_mset:
  assumes "iter_order ks m" and "iter_order ks' m"
  shows "mset (entries ks m) = mset (entries ks' m)"
proof -
  have "distinct (entries ks m)" "distinct (entries ks' m)"
    using assms distinct_entries by (metis distinct_map iter_order_def)+
  moreover have "set (entries ks m) = set (entries ks' m)"
    using assms by (auto simp: iter_order_def)
  ultimately show ?thesis using set_eq_iff_mset_eq_distinct by blast
qed

text \<open>\<open>retain\<close>: keep the entries that satisfy a predicate.\<close>

definition retain :: "('k \<Rightarrow> 'v \<Rightarrow> bool) \<Rightarrow> ('k \<rightharpoonup> 'v) \<Rightarrow> ('k \<rightharpoonup> 'v)" where
  "retain p m = (\<lambda>k. case m k of None \<Rightarrow> None | Some v \<Rightarrow> if p k v then Some v else None)"

lemma retain_Some [map_facts]: "retain p m k = Some v \<longleftrightarrow> m k = Some v \<and> p k v"
  by (auto simp: retain_def split: option.splits)

lemma retain_None [map_facts]: "retain p m k = None \<longleftrightarrow> (\<forall>v. m k = Some v \<longrightarrow> \<not> p k v)"
  by (auto simp: retain_def split: option.splits)

lemma dom_retain [map_facts]: "dom (retain p m) = {k. \<exists>v. m k = Some v \<and> p k v}"
  by (simp add: dom_def retain_Some flip: not_None_eq) (auto simp: retain_Some)

subsection \<open>Strings\<close>

fun show_nat :: "nat \<Rightarrow> string" where
  "show_nat n = (if n < 10 then [char_of (48 + n)] else show_nat (n div 10) @ [char_of (48 + n mod 10)])"

declare show_nat.simps [simp del]

fun read_digits :: "string \<Rightarrow> nat" where
  "read_digits cs = foldl (\<lambda>n c. 10 * n + (of_char c - 48)) 0 cs"

lemma read_show_nat: "read_digits (show_nat n) = n"
proof (induction n rule: show_nat.induct)
  case (1 n)
  then show ?case by (subst show_nat.simps) (auto)
qed

lemma show_nat_inj: "show_nat m = show_nat n \<longleftrightarrow> m = n"
  by (metis read_show_nat)

lemma show_nat_digits: "c \<in> set (show_nat n) \<Longrightarrow> 48 \<le> (of_char c :: nat) \<and> (of_char c :: nat) < 58"
proof (induction n rule: show_nat.induct)
  case (1 n)
  show ?case
  proof (cases "n < 10")
    case True
    then show ?thesis using "1.prems" by (subst (asm) show_nat.simps) (auto)
  next
    case False
    have "n mod 10 < 10" by simp
    then have "(48 + n mod 10) mod 256 = 48 + n mod 10" by simp
    then show ?thesis using "1.prems" "1.IH" False
      by (subst (asm) show_nat.simps) (auto)
  qed
qed

text \<open>\<open>str::contains\<close> and \<open>str::starts_with\<close> with a string pattern.\<close>

definition starts_with :: "string \<Rightarrow> string \<Rightarrow> bool" where
  "starts_with p s \<longleftrightarrow> take (length p) s = p"

fun str_contains :: "string \<Rightarrow> string \<Rightarrow> bool" where
  "str_contains p [] = (p = [])"
| "str_contains p (c # cs) = (starts_with p (c # cs) \<or> str_contains p cs)"

text \<open>
  \<open>to_lowercase\<close> on ASCII; the source only compares its result with ASCII literals made of
  letters that no character outside ASCII lowers to.
\<close>

definition lower_char :: "char \<Rightarrow> char" where
  "lower_char c = (let n = (of_char c :: nat) in if 65 \<le> n \<and> n \<le> 90 then char_of (n + 32) else c)"

definition to_lowercase :: "string \<Rightarrow> string" where
  "to_lowercase s = map lower_char s"

lemma starts_with_append: "starts_with p s \<longleftrightarrow> (\<exists>t. s = p @ t)"
  unfolding starts_with_def by (metis append_eq_conv_conj append_take_drop_id)

lemma str_contains_iff: "str_contains p s \<longleftrightarrow> (\<exists>a b. s = a @ p @ b)"
proof (induction s)
  case (Cons c cs)
  show ?case
  proof
    assume "str_contains p (c # cs)"
    then consider "starts_with p (c # cs)" | "str_contains p cs" by auto
    then show "\<exists>a b. c # cs = a @ p @ b"
    proof cases
      case 1
      then show ?thesis by (metis append_Nil starts_with_append)
    next
      case 2
      then show ?thesis using Cons.IH by (metis append_Cons)
    qed
  next
    assume "\<exists>a b. c # cs = a @ p @ b"
    then obtain a b where ab: "c # cs = a @ p @ b" by blast
    show "str_contains p (c # cs)"
    proof (cases a)
      case Nil
      then have "starts_with p (c # cs)" using ab by (simp add: starts_with_append)
      then show ?thesis by simp
    next
      case (Cons d ds)
      then show ?thesis using ab Cons.IH by auto
    qed
  qed
qed simp

subsection \<open>Transition systems\<close>

text \<open>
  A component with state is an initial state and a step for each event.  What every
  operation keeps holds in every state the component can reach; the components interpret
  this locale with their own operations and invariant.
\<close>

locale inv_system =
  fixes init :: "'s" and step :: "'e \<Rightarrow> 's \<Rightarrow> 's" and invar :: "'s \<Rightarrow> bool"
  assumes invar_init: "invar init"
    and invar_step: "invar s \<Longrightarrow> invar (step e s)"
begin

lemma invar_run: "invar s \<Longrightarrow> invar (fold step es s)"
  by (induction es arbitrary: s) (simp_all add: invar_step)

lemma invar_reachable: "invar (fold step es init)"
  by (rule invar_run) (rule invar_init)

end

end
