(* ===== verification/F64.thy ===== *)
theory F64
  imports Prelude Complex_Main "HOL-Library.Log_Nat"
begin

section \<open>IEEE 754 binary64\<close>

text \<open>
  The scheduler, the swarm code and the reputation code compute with Rust's \<open>f64\<close>.
  A finite value is kept as the rational number it denotes, and every operation computes
  the exact rational result and rounds it once (\<open>fround\<close>: to nearest, ties to even, 53
  bits of precision, gradual underflow, overflow to infinity), which is what IEEE 754
  prescribes and what Rust guarantees for its operators.  The two zeros are identified:
  no modelled function divides by a negative zero or looks at its sign.
\<close>

datatype f64 = Fin rat | PInf | NInf | NaN

subsection \<open>Rounding\<close>

definition pow2 :: "int \<Rightarrow> rat" where
  "pow2 e = (if 0 \<le> e then 2 ^ nat e else 1 / 2 ^ nat (- e))"

text \<open>Round half to even, on rationals.\<close>

definition rne :: "rat \<Rightarrow> int" where
  "rne x = (let f = \<lfloor>x\<rfloor>; r = x - of_int f in
     if r < 1/2 then f else if r > 1/2 then f + 1 else if even f then f else f + 1)"

text \<open>The exponent of the binade of a positive rational: the \<open>e\<close> with \<open>2^e \<le> x < 2^(e+1)\<close>.\<close>

definition ilog2 :: "rat \<Rightarrow> int" where
  "ilog2 x = (let (n, d) = quotient_of x;
                  e = int (floorlog 2 (nat n)) - int (floorlog 2 (nat d))
              in if pow2 e \<le> x then e else e - 1)"

definition ulp :: "rat \<Rightarrow> rat" where
  "ulp x = pow2 (max (ilog2 x) (-1022) - 52)"

definition fround :: "rat \<Rightarrow> f64" where
  "fround x = (if x = 0 then Fin 0
     else let u = ulp \<bar>x\<bar>; y = of_int (rne (x / u)) * u in
       if 2 ^ 1024 \<le> y then PInf else if y \<le> - (2 ^ 1024) then NInf else Fin y)"

subsection \<open>Operations\<close>

text \<open>A decimal literal of the source is rounded to the nearest \<open>f64\<close> by the compiler.\<close>

abbreviation lit :: "rat \<Rightarrow> f64" where "lit \<equiv> fround"

definition f64_of_u64 :: "u64 \<Rightarrow> f64" where
  "f64_of_u64 w = fround (of_nat (unat w))"

definition f64_of_u32 :: "u32 \<Rightarrow> f64" where
  "f64_of_u32 w = fround (of_nat (unat w))"

definition f64_of_nat :: "nat \<Rightarrow> f64" where
  "f64_of_nat n = fround (of_nat n)"

fun fneg :: "f64 \<Rightarrow> f64" where
  "fneg (Fin x) = Fin (- x)"
| "fneg PInf = NInf"
| "fneg NInf = PInf"
| "fneg NaN = NaN"

fun fadd :: "f64 \<Rightarrow> f64 \<Rightarrow> f64" where
  "fadd (Fin x) (Fin y) = fround (x + y)"
| "fadd NaN _ = NaN"
| "fadd _ NaN = NaN"
| "fadd PInf NInf = NaN"
| "fadd NInf PInf = NaN"
| "fadd PInf _ = PInf"
| "fadd _ PInf = PInf"
| "fadd NInf _ = NInf"
| "fadd _ NInf = NInf"

definition fsub :: "f64 \<Rightarrow> f64 \<Rightarrow> f64" where
  "fsub a b = fadd a (fneg b)"

fun fsgn :: "f64 \<Rightarrow> rat" where
  "fsgn (Fin x) = sgn x"
| "fsgn PInf = 1"
| "fsgn NInf = - 1"
| "fsgn NaN = 0"

text \<open>An infinity with the sign of a non-zero number.\<close>

definition finf :: "rat \<Rightarrow> f64" where
  "finf s = (if 0 < s then PInf else if s < 0 then NInf else NaN)"

fun fmul :: "f64 \<Rightarrow> f64 \<Rightarrow> f64" where
  "fmul (Fin x) (Fin y) = fround (x * y)"
| "fmul NaN _ = NaN"
| "fmul _ NaN = NaN"
| "fmul a b = finf (fsgn a * fsgn b)"

fun fdiv :: "f64 \<Rightarrow> f64 \<Rightarrow> f64" where
  "fdiv (Fin x) (Fin y) = (if y = 0 then finf x else fround (x / y))"
| "fdiv NaN _ = NaN"
| "fdiv _ NaN = NaN"
| "fdiv (Fin x) _ = Fin 0"
| "fdiv a (Fin y) = (if y = 0 then a else finf (fsgn a * sgn y))"
| "fdiv _ _ = NaN"

fun flt :: "f64 \<Rightarrow> f64 \<Rightarrow> bool" where
  "flt (Fin x) (Fin y) = (x < y)"
| "flt NaN _ = False"
| "flt _ NaN = False"
| "flt NInf b = (b \<noteq> NInf)"
| "flt _ NInf = False"
| "flt PInf _ = False"
| "flt _ PInf = True"

definition fle :: "f64 \<Rightarrow> f64 \<Rightarrow> bool" where
  "fle a b \<longleftrightarrow> flt a b \<or> (a = b \<and> a \<noteq> NaN)"

text \<open>The comparison operators of the source are \<open><\<close> and \<open>\<le>\<close> of \<open>f64\<close>; with a NaN both are false.\<close>

instantiation f64 :: ord
begin
definition less_f64 :: "f64 \<Rightarrow> f64 \<Rightarrow> bool" where "less_f64 = flt"
definition less_eq_f64 :: "f64 \<Rightarrow> f64 \<Rightarrow> bool" where "less_eq_f64 = fle"
instance ..
end

instantiation f64 :: "{plus, minus, times, inverse, uminus, zero, one}"
begin
definition zero_f64 :: f64 where "zero_f64 = Fin 0"
definition one_f64 :: f64 where "one_f64 = Fin 1"
definition plus_f64 :: "f64 \<Rightarrow> f64 \<Rightarrow> f64" where "plus_f64 = fadd"
definition minus_f64 :: "f64 \<Rightarrow> f64 \<Rightarrow> f64" where "minus_f64 = fsub"
definition times_f64 :: "f64 \<Rightarrow> f64 \<Rightarrow> f64" where "times_f64 = fmul"
definition divide_f64 :: "f64 \<Rightarrow> f64 \<Rightarrow> f64" where "divide_f64 = fdiv"
definition inverse_f64 :: "f64 \<Rightarrow> f64" where "inverse_f64 a = fdiv (Fin 1) a"
definition uminus_f64 :: "f64 \<Rightarrow> f64" where "uminus_f64 = fneg"
instance ..
end

lemma f64_order_simps [simp]:
  "Fin x < Fin y \<longleftrightarrow> x < y" "Fin x \<le> Fin y \<longleftrightarrow> x \<le> y"
  "\<not> NaN < a" "\<not> a < NaN" "\<not> NaN \<le> a" "\<not> a \<le> NaN" "\<not> PInf < a" "\<not> a < NInf"
  "Fin x < PInf" "Fin x \<le> PInf" "NInf < Fin x" "NInf \<le> Fin x" "\<not> PInf \<le> Fin x" "\<not> Fin x \<le> NInf"
  by (cases a; auto simp: less_f64_def less_eq_f64_def fle_def)+

text \<open>\<open>f64::max\<close> and \<open>f64::min\<close> ignore a NaN operand; \<open>f64::clamp\<close> keeps it.\<close>

definition f_max :: "f64 \<Rightarrow> f64 \<Rightarrow> f64" where
  "f_max a b = (if a = NaN then b else if b = NaN then a else if a < b then b else a)"

definition f_min :: "f64 \<Rightarrow> f64 \<Rightarrow> f64" where
  "f_min a b = (if a = NaN then b else if b = NaN then a else if b < a then b else a)"

definition f_clamp :: "f64 \<Rightarrow> f64 \<Rightarrow> f64 \<Rightarrow> f64" where
  "f_clamp lo hi x = (if x < lo then lo else if hi < x then hi else x)"

text \<open>\<open>f64::round\<close>: to the nearest integer, halves away from zero.\<close>

fun f_round :: "f64 \<Rightarrow> f64" where
  "f_round (Fin x) = Fin (of_int (if 0 \<le> x then \<lfloor>x + 1/2\<rfloor> else - \<lfloor>1/2 - x\<rfloor>))"
| "f_round a = a"

text \<open>The \<open>as\<close> casts to unsigned integers truncate and saturate; a NaN becomes 0.\<close>

fun f64_as_nat :: "nat \<Rightarrow> f64 \<Rightarrow> nat" where
  "f64_as_nat n (Fin x) = (if x \<le> 0 then 0 else min (2 ^ n - 1) (nat \<lfloor>x\<rfloor>))"
| "f64_as_nat n PInf = 2 ^ n - 1"
| "f64_as_nat n NInf = 0"
| "f64_as_nat n NaN = 0"

definition f64_as_u32 :: "f64 \<Rightarrow> u32" where
  "f64_as_u32 a = of_nat (f64_as_nat 32 a)"

definition f64_as_u64 :: "f64 \<Rightarrow> u64" where
  "f64_as_u64 a = of_nat (f64_as_nat 64 a)"

text \<open>\<open>partial_cmp\<close>, with \<open>unwrap_or(Ordering::Equal)\<close>: is the first argument strictly greater?\<close>

abbreviation f_gt :: "f64 \<Rightarrow> f64 \<Rightarrow> bool" where "f_gt a b \<equiv> b < a"

definition f_sum :: "f64 list \<Rightarrow> f64" where
  "f_sum xs = foldl (+) (Fin 0) xs"

subsection \<open>Powers of two and the binade of a rational\<close>

lemma pow2_powi: "pow2 e = 2 powi e"
  by (cases "0 \<le> e") (simp_all add: pow2_def power_int_def power_one_over inverse_eq_divide)

lemma pow2_pos [simp]: "0 < pow2 e"
  by (simp add: pow2_powi)

lemma pow2_nonzero [simp]: "pow2 e \<noteq> 0"
  using pow2_pos [of e] by linarith

lemma pow2_nonneg [simp]: "0 \<le> pow2 e"
  using pow2_pos [of e] by linarith

lemma pow2_add: "pow2 (a + b) = pow2 a * pow2 b"
  by (simp add: pow2_powi power_int_add)

lemma pow2_diff: "pow2 (a - b) = pow2 a / pow2 b"
  by (simp add: pow2_powi power_int_diff)

lemma pow2_mono: "a \<le> b \<Longrightarrow> pow2 a \<le> pow2 b"
  by (simp add: pow2_powi power_int_increasing)

lemma pow2_strict_mono: "a < b \<Longrightarrow> pow2 a < pow2 b"
  by (simp add: pow2_powi power_int_strict_increasing)

lemma pow2_le_iff [simp]: "pow2 a \<le> pow2 b \<longleftrightarrow> a \<le> b"
  using pow2_mono pow2_strict_mono by (meson linorder_not_le)

lemma pow2_less_iff [simp]: "pow2 a < pow2 b \<longleftrightarrow> a < b"
  using pow2_le_iff by (meson linorder_not_le)

lemma pow2_nat: "0 \<le> e \<Longrightarrow> pow2 e = of_int (2 ^ nat e)"
  by (simp add: pow2_def)

lemma pow2_of_nat: "pow2 (int n) = 2 ^ n"
  by (simp add: pow2_def)

lemma floorlog2_bounds:
  assumes "0 < n"
  shows "pow2 (int (floorlog 2 (nat n)) - 1) \<le> of_int n"
    and "of_int n < pow2 (int (floorlog 2 (nat n)))"
proof -
  have pos: "0 < nat n" using assms by simp
  from floorlog_bounds [OF pos, of 2]
  have b: "2 ^ (floorlog 2 (nat n) - 1) \<le> nat n" "nat n < 2 ^ floorlog 2 (nat n)" by auto
  have fl: "0 < floorlog 2 (nat n)" using pos by (simp add: floorlog_def)
  have e: "int (floorlog 2 (nat n)) - 1 = int (floorlog 2 (nat n) - 1)" using fl by simp
  have r: "(of_int n :: rat) = of_nat (nat n)" using assms by simp
  show "pow2 (int (floorlog 2 (nat n)) - 1) \<le> of_int n"
    unfolding e pow2_of_nat r using b(1) by (metis of_nat_le_iff of_nat_numeral of_nat_power)
  show "of_int n < pow2 (int (floorlog 2 (nat n)))"
    unfolding pow2_of_nat r using b(2) by (metis of_nat_less_iff of_nat_numeral of_nat_power)
qed

lemma ilog2_bounds:
  assumes "0 < x"
  shows "pow2 (ilog2 x) \<le> x" and "x < pow2 (ilog2 x + 1)"
proof -
  obtain n d where q: "quotient_of x = (n, d)" by fastforce
  have d: "0 < d" using q by (rule quotient_of_denom_pos)
  have x: "x = of_int n / of_int d" using q by (rule quotient_of_div)
  have n: "0 < n" using assms d by (simp add: x zero_less_divide_iff)
  define a where "a = int (floorlog 2 (nat n))"
  define b where "b = int (floorlog 2 (nat d))"
  note nb = floorlog2_bounds [OF n, folded a_def] and db = floorlog2_bounds [OF d, folded b_def]
  have dp: "(0::rat) < of_int d" using d by simp
  have up: "x < pow2 (a - b + 1)"
  proof -
    have "x < pow2 a / of_int d" unfolding x using nb(2) dp by (simp add: divide_strict_right_mono)
    also have "\<dots> \<le> pow2 a / pow2 (b - 1)"
      using db(1) dp by (simp add: frac_le)
    also have "\<dots> = pow2 (a - b + 1)" by (simp add: pow2_diff [symmetric] algebra_simps)
    finally show ?thesis .
  qed
  have lo: "pow2 (a - b - 1) \<le> x"
  proof -
    have "pow2 (a - 1) / of_int d \<le> x" unfolding x using nb(1) dp by (simp add: divide_right_mono)
    moreover have "pow2 (a - 1) / pow2 b \<le> pow2 (a - 1) / of_int d"
      using db(2) dp by (simp add: frac_le)
    ultimately show ?thesis by (simp add: pow2_diff [symmetric] algebra_simps)
  qed
  have def': "ilog2 x = (if pow2 (a - b) \<le> x then a - b else a - b - 1)"
    by (simp add: ilog2_def q a_def b_def)
  show "pow2 (ilog2 x) \<le> x" using lo by (auto simp: def')
  show "x < pow2 (ilog2 x + 1)" using up by (auto simp: def' not_le)
qed

lemma ilog2_mono: "0 < x \<Longrightarrow> x \<le> y \<Longrightarrow> ilog2 x \<le> ilog2 y"
proof -
  assume x: "0 < x" and xy: "x \<le> y"
  have "pow2 (ilog2 x) \<le> x" using x by (rule ilog2_bounds)
  also have "x \<le> y" by (rule xy)
  also have "y < pow2 (ilog2 y + 1)" using x xy by (intro ilog2_bounds) simp
  finally show ?thesis by simp
qed

lemma ilog2_less: "0 < x \<Longrightarrow> x < pow2 k \<Longrightarrow> ilog2 x < k"
  using ilog2_bounds(1) [of x] by (meson le_less_trans pow2_less_iff)

lemma rne_of_int [simp]: "rne (of_int n) = n"
  by (simp add: rne_def)

lemma rne_floor: "\<lfloor>x\<rfloor> \<le> rne x" "rne x \<le> \<lfloor>x\<rfloor> + 1"
  by (simp_all add: rne_def Let_def)

lemma rne_mono: "x \<le> y \<Longrightarrow> rne x \<le> rne y"
proof -
  assume xy: "x \<le> y"
  then have f: "\<lfloor>x\<rfloor> \<le> \<lfloor>y\<rfloor>" by (rule floor_mono)
  show ?thesis
  proof (cases "\<lfloor>x\<rfloor> = \<lfloor>y\<rfloor>")
    case True
    then show ?thesis using xy by (auto simp: rne_def Let_def)
  next
    case False
    with f rne_floor [of x] rne_floor [of y] show ?thesis by linarith
  qed
qed

lemma rne_le_of_int: "x \<le> of_int n \<Longrightarrow> rne x \<le> n"
  using rne_mono [of x "of_int n"] by simp

lemma rne_ge_of_int: "of_int n \<le> x \<Longrightarrow> n \<le> rne x"
  using rne_mono [of "of_int n" x] by simp

lemma rne_minus: "rne (- x) = - rne x"
proof (cases "x \<in> \<int>")
  case True
  then obtain n where "x = of_int n" by (auto elim: Ints_cases)
  then show ?thesis using rne_of_int [of "- n"] by simp
next
  case False
  then have "x \<noteq> of_int \<lfloor>x\<rfloor>" by (metis Ints_of_int)
  then have c: "\<lfloor>- x\<rfloor> = - \<lfloor>x\<rfloor> - 1"
    by (simp add: floor_minus ceiling_altdef)
  show ?thesis by (auto simp: rne_def Let_def c)
qed


subsection \<open>Rounding is monotone, sign-symmetric and exact where it should be\<close>

definition fval :: "rat \<Rightarrow> rat" where
  "fval x = (if x = 0 then 0 else of_int (rne (x / ulp \<bar>x\<bar>)) * ulp \<bar>x\<bar>)"

text \<open>The bit length on integers, for evaluation without unary numbers.\<close>

function int_bits :: "int \<Rightarrow> int" where
  "int_bits n = (if n \<le> 0 then 0 else 1 + int_bits (n div 2))"
  by auto
termination by (relation "measure nat") auto

declare int_bits.simps [simp del]

lemma int_floorlog: "int (floorlog 2 (nat n)) = int_bits n"
proof (induction n rule: int_bits.induct)
  case (1 n)
  show ?case
  proof (cases "n \<le> 0")
    case True
    then show ?thesis by (simp add: int_bits.simps [of n] floorlog_def)
  next
    case False
    have "nat n div 2 = nat (n div 2)" using False by (simp add: nat_div_distrib)
    then show ?thesis
      using 1 False by (subst compute_floorlog) (simp add: int_bits.simps [of n])
  qed
qed

lemma ilog2_code [code]:
  "ilog2 x = (let (n, d) = quotient_of x; e = int_bits n - int_bits d
              in if pow2 e \<le> x then e else e - 1)"
  by (simp add: ilog2_def int_floorlog)

lemma f64_of_word_code [code]:
  "f64_of_u64 w = fround (of_int (uint w))" "f64_of_u32 v = fround (of_int (uint v))"
  by (simp_all add: f64_of_u64_def f64_of_u32_def)

lemma f64_as_word_code [code]:
  "f64_as_u32 a = (case a of Fin x \<Rightarrow> if x \<le> 0 then 0 else word_of_int (min 4294967295 \<lfloor>x\<rfloor>)
     | PInf \<Rightarrow> - 1 | _ \<Rightarrow> 0)"
  "f64_as_u64 b = (case b of Fin x \<Rightarrow> if x \<le> 0 then 0 else word_of_int (min 18446744073709551615 \<lfloor>x\<rfloor>)
     | PInf \<Rightarrow> - 1 | _ \<Rightarrow> 0)"
proof -
  have m: "of_nat (min k (nat i)) = (word_of_int (min (int k) i) :: 'a::len word)" if "0 \<le> i" for k i
  proof -
    have "nat (min (int k) i) = min k (nat i)" using that by linarith
    then show ?thesis using that by (simp add: word_of_int_nat)
  qed
  show "f64_as_u32 a = (case a of Fin x \<Rightarrow> if x \<le> 0 then 0 else word_of_int (min 4294967295 \<lfloor>x\<rfloor>)
     | PInf \<Rightarrow> - 1 | _ \<Rightarrow> 0)"
    by (cases a) (simp_all add: f64_as_u32_def m)
  show "f64_as_u64 b = (case b of Fin x \<Rightarrow> if x \<le> 0 then 0 else word_of_int (min 18446744073709551615 \<lfloor>x\<rfloor>)
     | PInf \<Rightarrow> - 1 | _ \<Rightarrow> 0)"
    by (cases b) (simp_all add: f64_as_u64_def m)
qed

text \<open>An equation for evaluation that does not compute \<open>2 ^ 1024\<close> for ordinary values.\<close>

lemma fround_code [code]:
  "fround x = (if x = 0 then Fin 0
     else let u = ulp \<bar>x\<bar>; y = of_int (rne (x / u)) * u in
       if \<bar>y\<bar> < 1267650600228229401496703205376 then Fin y
       else if 2 ^ 1024 \<le> y then PInf else if y \<le> - (2 ^ 1024) then NInf else Fin y)"
proof -
  have "(1267650600228229401496703205376 :: rat) \<le> 2 ^ 1024" by simp
  then show ?thesis by (auto simp: fround_def Let_def)
qed

lemma fround_fval:
  "fround x = (if 2 ^ 1024 \<le> fval x then PInf else if fval x \<le> - (2 ^ 1024) then NInf else Fin (fval x))"
  by (simp add: fround_def fval_def Let_def)

lemma ulp_pos [simp]: "0 < ulp x"
  by (simp add: ulp_def)

lemma ulp_nonzero [simp]: "ulp x \<noteq> 0"
  using ulp_pos [of x] by linarith

lemma fval_minus: "fval (- x) = - fval x"
  by (simp add: fval_def rne_minus)

lemma fval_0 [simp]: "fval 0 = 0"
  by (simp add: fval_def)

lemma fval_nonneg: "0 \<le> x \<Longrightarrow> 0 \<le> fval x"
  using rne_ge_of_int [of 0 "x / ulp x"] by (simp add: fval_def less_imp_le)

text \<open>A dyadic whose exponent is at least that of the unit in the last place is not rounded.\<close>

lemma fval_exact_ulp:
  assumes "0 < x" and "max (ilog2 x) (-1022) - 52 \<le> q" and "x = of_int m * pow2 q"
  shows "fval x = x"
proof -
  have "x / ulp x = of_int m * pow2 (q - (max (ilog2 x) (-1022) - 52))"
    using assms by (simp add: ulp_def pow2_diff)
  also have "\<dots> = of_int (m * 2 ^ nat (q - (max (ilog2 x) (-1022) - 52)))"
    using assms(2) by (simp add: pow2_nat)
  finally have "rne (x / ulp x) = m * 2 ^ nat (q - (max (ilog2 x) (-1022) - 52))"
    and e: "of_int (m * 2 ^ nat (q - (max (ilog2 x) (-1022) - 52))) = x / ulp x"
    by (simp_all only: rne_of_int)
  then have "of_int (rne (x / ulp x)) = x / ulp x" by simp
  then show ?thesis using assms(1) by (simp add: fval_def)
qed

lemma fval_dyadic_pos:
  assumes "0 < m" and "m \<le> 2 ^ 53" and "-1074 \<le> q"
  shows "fval (of_int m * pow2 q) = of_int m * pow2 q"
proof (cases "m = 2 ^ 53")
  case True
  have p: "of_int (2 ^ 53) = pow2 53" by (simp add: pow2_def)
  have x: "of_int m * pow2 q = of_int 1 * pow2 (q + 53)"
    unfolding True p by (simp add: pow2_add)
  have "ilog2 (pow2 (q + 53)) < q + 54" by (rule ilog2_less) simp_all
  then show ?thesis unfolding x using assms(3) by (intro fval_exact_ulp [where q = "q + 53" and m = 1]) simp_all
next
  case False
  then have "of_int m < (2 :: rat) ^ 53"
    using assms(2) by (metis less_le of_int_less_iff of_int_numeral of_int_power)
  then have "of_int m * pow2 q < pow2 53 * pow2 q"
    by (intro mult_strict_right_mono) (simp_all add: pow2_def)
  then have "of_int m * pow2 q < pow2 (53 + q)" by (simp only: pow2_add)
  then have "ilog2 (of_int m * pow2 q) < 53 + q"
    using assms(1) by (intro ilog2_less) (simp_all add: zero_less_mult_iff)
  then show ?thesis using assms by (intro fval_exact_ulp [where q = q and m = m]) (auto simp: zero_less_mult_iff)
qed

lemma fval_dyadic:
  assumes "\<bar>m\<bar> \<le> 2 ^ 53" and "-1074 \<le> q"
  shows "fval (of_int m * pow2 q) = of_int m * pow2 q"
proof -
  consider "m = 0" | "0 < m" | "m < 0" by linarith
  then show ?thesis
  proof cases
    case 3
    with fval_dyadic_pos [of "- m" q] assms show ?thesis by (simp add: fval_minus)
  qed (use assms in \<open>auto intro: fval_dyadic_pos\<close>)
qed

lemma fval_of_int: "\<bar>m\<bar> \<le> 2 ^ 53 \<Longrightarrow> fval (of_int m) = of_int m"
  using fval_dyadic [of m 0] by (simp add: pow2_def)

lemma fval_le_pow2:
  assumes "0 \<le> x" and "x \<le> pow2 k" and "-1022 \<le> k"
  shows "fval x \<le> pow2 k"
proof (cases "x = 0")
  case False
  then have x: "0 < x" using assms(1) by simp
  define e where "e = max (ilog2 x) (-1022) - 52"
  have "pow2 (ilog2 x) \<le> pow2 k" using ilog2_bounds(1) [OF x] assms(2) by linarith
  then have "e \<le> k" using assms(3) by (simp add: e_def)
  then have k: "pow2 (k - e) = of_int (2 ^ nat (k - e))" by (simp add: pow2_nat)
  have "x / pow2 e \<le> pow2 (k - e)" using assms(2) by (simp add: pow2_diff divide_right_mono)
  then have "rne (x / pow2 e) \<le> 2 ^ nat (k - e)" unfolding k by (rule rne_le_of_int)
  then have "of_int (rne (x / pow2 e)) \<le> pow2 (k - e)" unfolding k by (simp only: of_int_le_iff)
  then have "of_int (rne (x / pow2 e)) * pow2 e \<le> pow2 (k - e) * pow2 e"
    by (intro mult_right_mono) simp_all
  then show ?thesis using x by (simp add: fval_def ulp_def e_def [symmetric] pow2_diff)
qed simp

lemma fval_ge_pow2:
  assumes "pow2 k \<le> x" and "-1022 \<le> k"
  shows "pow2 k \<le> fval x"
proof -
  have x: "0 < x" using assms(1) pow2_pos [of k] by linarith
  have lk: "k \<le> ilog2 x" using ilog2_bounds(2) [OF x] assms(1)
    by (meson le_less_trans linorder_not_le pow2_less_iff zless_add1_eq zle_add1_eq_le)
  define e where "e = ilog2 x - 52"
  have ulp: "ulp x = pow2 e" using lk assms(2) by (simp add: ulp_def e_def)
  have "pow2 (ilog2 x) / pow2 e \<le> x / pow2 e"
    using ilog2_bounds(1) [OF x] by (simp add: divide_right_mono)
  then have "of_int (2 ^ 52) \<le> x / pow2 e"
    by (simp add: pow2_diff [symmetric] e_def) (simp add: pow2_def)
  then have "2 ^ 52 \<le> rne (x / pow2 e)" by (rule rne_ge_of_int)
  then have "pow2 52 \<le> of_int (rne (x / pow2 e))"
    by (metis of_int_le_iff of_int_numeral of_int_power pow2_of_nat of_nat_numeral)
  then have "pow2 52 * pow2 e \<le> of_int (rne (x / pow2 e)) * pow2 e"
    by (intro mult_right_mono) simp_all
  then have "pow2 (ilog2 x) \<le> fval x"
    using x by (simp add: fval_def ulp pow2_add [symmetric] e_def)
  then show ?thesis using lk pow2_mono by (meson order_trans)
qed

lemma fval_mono_pos:
  assumes "0 < x" and "x \<le> y"
  shows "fval x \<le> fval y"
proof -
  have y: "0 < y" using assms by simp
  define ex ey where "ex = max (ilog2 x) (-1022)" and "ey = max (ilog2 y) (-1022)"
  have "ex \<le> ey" using ilog2_mono [OF assms] by (auto simp: ex_def ey_def)
  show ?thesis
  proof (cases "ex = ey")
    case True
    then have u: "ulp x = ulp y" by (simp add: ulp_def ex_def ey_def)
    have "rne (x / ulp y) \<le> rne (y / ulp y)"
      using assms(2) by (intro rne_mono divide_right_mono) (simp_all add: less_imp_le)
    then show ?thesis using assms(1) y u by (simp add: fval_def)
  next
    case False
    then have lt: "ex < ey" using \<open>ex \<le> ey\<close> by simp
    then have ey: "ey = ilog2 y" by (auto simp: ex_def ey_def)
    have "x \<le> pow2 ey"
      using ilog2_bounds(2) [OF assms(1)] lt pow2_mono [of "ilog2 x + 1" ey]
      by (simp add: ex_def del: pow2_le_iff)
    then have "fval x \<le> pow2 ey"
      using assms(1) lt by (intro fval_le_pow2) (auto simp: ex_def)
    also have "\<dots> \<le> fval y"
      using ilog2_bounds(1) [OF y] lt by (intro fval_ge_pow2) (auto simp: ey ex_def)
    finally show ?thesis .
  qed
qed

lemma fval_mono:
  assumes "x \<le> y"
  shows "fval x \<le> fval y"
proof -
  consider "0 < x" | "y < 0" | "x \<le> 0" "0 \<le> y" by linarith
  then show ?thesis
  proof cases
    case 1
    then show ?thesis using assms by (rule fval_mono_pos)
  next
    case 2
    then have "fval (- y) \<le> fval (- x)" using assms by (intro fval_mono_pos) simp_all
    then show ?thesis by (simp add: fval_minus)
  next
    case 3
    have "0 \<le> fval (- x)" "0 \<le> fval y" using 3 by (simp_all add: fval_nonneg)
    then show ?thesis by (simp add: fval_minus)
  qed
qed

lemma fval_abs_le_pow2:
  assumes "\<bar>x\<bar> \<le> pow2 k" and "-1022 \<le> k"
  shows "\<bar>fval x\<bar> \<le> pow2 k"
  using fval_le_pow2 [of x k] fval_le_pow2 [of "- x" k] fval_nonneg [of x] fval_nonneg [of "- x"] assms
  by (cases "0 \<le> x") (auto simp: fval_minus)

lemma fround_finite: "\<bar>x\<bar> \<le> pow2 k \<Longrightarrow> -1022 \<le> k \<Longrightarrow> k < 1024 \<Longrightarrow> fround x = Fin (fval x)"
proof -
  assume a: "\<bar>x\<bar> \<le> pow2 k" "-1022 \<le> k" "k < 1024"
  have "pow2 k < pow2 1024" using a(3) by simp
  then have "pow2 k < 2 ^ 1024" using pow2_of_nat [of 1024] by (metis of_nat_numeral)
  with fval_abs_le_pow2 [OF a(1,2)] have "fval x < 2 ^ 1024" "- (2 ^ 1024) < fval x" by linarith+
  then show ?thesis by (auto simp: fround_fval)
qed

lemma fround_of_int: "\<bar>m\<bar> \<le> 2 ^ 53 \<Longrightarrow> fround (of_int m) = Fin (of_int m)"
proof -
  assume m: "\<bar>m\<bar> \<le> 2 ^ 53"
  have "\<bar>of_int m :: rat\<bar> = of_int \<bar>m\<bar>" by simp
  also have "\<dots> \<le> of_int (2 ^ 53)" using m by (simp only: of_int_le_iff)
  also have "\<dots> = pow2 53" by (simp add: pow2_def)
  finally have "fround (of_int m) = Fin (fval (of_int m))" by (rule fround_finite) simp_all
  then show ?thesis using m by (simp add: fval_of_int)
qed

lemma fround_of_nat: "n \<le> 2 ^ 53 \<Longrightarrow> fround (of_nat n) = Fin (of_nat n)"
  using fround_of_int [of "int n"] by simp

lemma fround_not_NaN [simp]: "fround x \<noteq> NaN"
  by (simp add: fround_fval)

lemma fround_mono: "x \<le> y \<Longrightarrow> fround x \<le> fround y"
  using fval_mono [of x y] by (auto simp: fround_fval less_eq_f64_def fle_def)

lemma f64_of_u32_exact: "f64_of_u32 w = Fin (of_nat (unat w))"
proof -
  have "unat w < 2 ^ 32" using unsigned_less [of w] by simp
  then show ?thesis unfolding f64_of_u32_def by (intro fround_of_nat) simp
qed

lemma Fin_le [simp]: "Fin x \<le> Fin y \<longleftrightarrow> x \<le> y" and Fin_less [simp]: "Fin x < Fin y \<longleftrightarrow> x < y"
  by (auto simp: less_eq_f64_def fle_def less_f64_def)

lemma f64_as_nat_bound: "f64_as_nat n a < 2 ^ n"
proof -
  have p: "(0::nat) < 2 ^ n" by simp
  then have m: "min (2 ^ n - 1) k < 2 ^ n" for k :: nat by linarith
  show ?thesis using p m by (cases a) simp_all
qed

lemma f64_as_nat_mono: "a \<le> b \<Longrightarrow> f64_as_nat n a \<le> f64_as_nat n b"
proof -
  have top: "f64_as_nat n a \<le> 2 ^ n - 1" for a using f64_as_nat_bound [of n a] by simp
  have fin: "x < y \<Longrightarrow> min (2 ^ n - 1) (nat \<lfloor>x\<rfloor>) \<le> min (2 ^ n - 1) (nat \<lfloor>y\<rfloor>)" for x y :: rat
    by (intro min.mono nat_mono floor_mono) auto
  assume "a \<le> b"
  then show ?thesis using top [of a] fin by (cases a; cases b) (auto simp: less_eq_f64_def fle_def)
qed

lemma unat_f64_as_u32: "unat (f64_as_u32 a) = f64_as_nat 32 a"
  using f64_as_nat_bound [of 32 a] by (simp add: f64_as_u32_def unat_of_nat)

lemma unat_f64_as_u64: "unat (f64_as_u64 a) = f64_as_nat 64 a"
  using f64_as_nat_bound [of 64 a] by (simp add: f64_as_u64_def unat_of_nat)

text \<open>Clamping gives a value inside the bounds unless the argument is a NaN.\<close>

lemma f_clamp_range:
  "x \<noteq> NaN \<Longrightarrow> lo \<le> hi \<Longrightarrow> f_clamp (Fin lo) (Fin hi) x = Fin y \<Longrightarrow> lo \<le> y \<and> y \<le> hi"
  by (cases x) (auto simp: f_clamp_def less_f64_def split: if_splits)

lemma f_clamp_finite:
  "x \<noteq> NaN \<Longrightarrow> \<exists>y. f_clamp (Fin lo) (Fin hi) x = Fin y"
  by (cases x) (auto simp: f_clamp_def less_f64_def)

subsection \<open>Rounding twice is rounding once\<close>

lemma fval_nonneg_idem: "0 \<le> x \<Longrightarrow> fval (fval x) = fval x"
proof (cases "x = 0")
  case False
  moreover assume "0 \<le> x"
  ultimately have x: "0 < x" by simp
  define e where "e = max (ilog2 x) (-1022) - 52"
  define m where "m = rne (x / pow2 e)"
  have fv: "fval x = of_int m * pow2 e" using x by (simp add: fval_def ulp_def e_def m_def)
  have "x < pow2 (ilog2 x + 1)" by (rule ilog2_bounds(2) [OF x])
  also have "\<dots> \<le> pow2 (e + 53)" by (rule pow2_mono) (simp add: e_def)
  finally have "x / pow2 e \<le> pow2 53" by (simp add: pow2_add divide_le_eq mult.commute)
  then have up: "m \<le> 2 ^ 53"
    unfolding m_def by (intro rne_le_of_int) (simp add: pow2_def)
  have "0 \<le> m" unfolding m_def using x by (intro rne_ge_of_int) (simp add: less_imp_le)
  then show ?thesis unfolding fv using up by (intro fval_dyadic) (simp_all add: e_def)
qed simp

lemma fval_idem: "fval (fval x) = fval x"
proof (cases "0 \<le> x")
  case False
  then have "fval (fval (- x)) = fval (- x)" by (intro fval_nonneg_idem) simp
  then show ?thesis by (simp add: fval_minus)
qed (rule fval_nonneg_idem)

lemma fround_idem: "fround x = Fin y \<Longrightarrow> fround y = Fin y"
  by (auto simp: fround_fval fval_idem split: if_splits)

subsection \<open>Bounded finite values\<close>

text \<open>A value that is finite and at most \<open>2^k\<close> in size; the operations keep such bounds.\<close>

definition fbounded :: "int \<Rightarrow> f64 \<Rightarrow> bool" where
  "fbounded k a \<longleftrightarrow> (\<exists>x. a = Fin x \<and> \<bar>x\<bar> \<le> pow2 k \<and> fround x = Fin x)"

named_theorems fbounds

lemma fbounded_fround [fbounds]: "\<bar>x\<bar> \<le> pow2 k \<Longrightarrow> -1022 \<le> k \<Longrightarrow> k < 1024 \<Longrightarrow> fbounded k (fround x)"
  using fround_finite [of x k] fval_abs_le_pow2 [of x k] fround_idem [of x]
  by (auto simp: fbounded_def)

lemma fbounded_not_NaN: "fbounded k a \<Longrightarrow> a \<noteq> NaN"
  by (auto simp: fbounded_def)

lemma fbounded_Fin: "fbounded k a \<Longrightarrow> \<exists>x. a = Fin x"
  by (auto simp: fbounded_def)

lemma fbounded_mono: "fbounded j a \<Longrightarrow> j \<le> k \<Longrightarrow> fbounded k a"
  by (auto simp: fbounded_def intro: order_trans [OF _ pow2_mono])

lemma fbounded_add [fbounds]:
  assumes "fbounded k a" and "fbounded k b" and "-1022 \<le> k" and "k < 1023"
  shows "fbounded (k + 1) (a + b)"
proof -
  obtain x y where xy: "a = Fin x" "b = Fin y" "\<bar>x\<bar> \<le> pow2 k" "\<bar>y\<bar> \<le> pow2 k"
    using assms by (auto simp: fbounded_def)
  have "\<bar>x + y\<bar> \<le> pow2 (k + 1)"
    using xy(3,4) by (simp add: pow2_add) (simp add: pow2_def)
  then have "fbounded (k + 1) (fround (x + y))" using assms by (intro fbounded_fround) simp_all
  then show ?thesis by (simp add: xy plus_f64_def)
qed

lemma fbounded_neg: "fbounded k a \<Longrightarrow> fbounded k (- a)"
proof -
  assume "fbounded k a"
  then obtain x where x: "a = Fin x" "\<bar>x\<bar> \<le> pow2 k" "fround x = Fin x" by (auto simp: fbounded_def)
  from x(3) have "fround (- x) = Fin (- x)" by (auto simp: fround_fval fval_minus split: if_splits)
  then show ?thesis using x by (simp add: fbounded_def uminus_f64_def)
qed

lemma fbounded_diff [fbounds]:
  "fbounded k a \<Longrightarrow> fbounded k b \<Longrightarrow> -1022 \<le> k \<Longrightarrow> k < 1023 \<Longrightarrow> fbounded (k + 1) (a - b)"
  using fbounded_add [of k a "- b"] fbounded_neg [of k b]
  by (simp add: minus_f64_def fsub_def plus_f64_def uminus_f64_def)

lemma fbounded_mult [fbounds]:
  assumes "fbounded j a" and "fbounded k b" and "-1022 \<le> j + k" and "j + k < 1024"
  shows "fbounded (j + k) (a * b)"
proof -
  obtain x y where xy: "a = Fin x" "b = Fin y" "\<bar>x\<bar> \<le> pow2 j" "\<bar>y\<bar> \<le> pow2 k"
    using assms by (auto simp: fbounded_def)
  have "\<bar>x * y\<bar> \<le> pow2 (j + k)"
    unfolding abs_mult pow2_add using xy(3,4) by (intro mult_mono) simp_all
  then have "fbounded (j + k) (fround (x * y))" using assms by (intro fbounded_fround) simp_all
  then show ?thesis by (simp add: xy times_f64_def)
qed

text \<open>Division by a number of size at least one.\<close>

lemma fbounded_div:
  assumes "fbounded k a" and "b = Fin y" and "1 \<le> y" and "-1022 \<le> k" and "k < 1024"
  shows "fbounded k (a / b)"
proof -
  obtain x where x: "a = Fin x" "\<bar>x\<bar> \<le> pow2 k" using assms by (auto simp: fbounded_def)
  have "\<bar>x / y\<bar> \<le> \<bar>x\<bar> / 1" unfolding abs_divide using assms(3) by (intro divide_left_mono) simp_all
  then have "fbounded k (fround (x / y))" using assms x by (intro fbounded_fround) simp_all
  then show ?thesis using assms by (simp add: x divide_f64_def)
qed

lemma fbounded_of_nat: "n \<le> 2 ^ k \<Longrightarrow> k < 1024 \<Longrightarrow> fbounded (int k) (fround (of_nat n))"
proof -
  assume n: "n \<le> 2 ^ k" and k: "k < 1024"
  have "(of_nat n :: rat) \<le> of_nat (2 ^ k)" using n by (simp only: of_nat_le_iff)
  then have "\<bar>of_nat n :: rat\<bar> \<le> pow2 (int k)" by (simp add: pow2_of_nat)
  then show ?thesis using k by (intro fbounded_fround) simp_all
qed

lemma fbounded_u64: "fbounded 64 (f64_of_u64 w)"
  using fbounded_of_nat [of "unat w" 64] unsigned_less [of w, where ?'a = nat]
  unfolding f64_of_u64_def by simp

text \<open>Casting a positive integer gives at least one.\<close>

lemma fround_of_nat_ge_one:
  assumes "1 \<le> n" and "n < 2 ^ 64"
  shows "\<exists>y. fround (of_nat n) = Fin y \<and> 1 \<le> y"
proof -
  have "pow2 0 \<le> of_nat n" using assms(1) by (simp add: pow2_def)
  then have "1 \<le> fval (of_nat n)" using fval_ge_pow2 [of 0 "of_nat n"] by (simp add: pow2_def)
  moreover obtain x where "fround (of_nat n) = Fin x"
    using fbounded_of_nat [of n 64] assms(2) fbounded_Fin by force
  ultimately show ?thesis by (auto simp: fround_fval split: if_splits)
qed

lemma f64_of_u64_pos: "0 < w \<Longrightarrow> \<exists>y. f64_of_u64 w = Fin y \<and> 1 \<le> y"
  unfolding f64_of_u64_def
  by (rule fround_of_nat_ge_one) (use unsigned_less [of w, where ?'a = nat] in \<open>simp_all add: word_less_nat_alt\<close>)

lemma fbounded_min: "fbounded k a \<Longrightarrow> fbounded k b \<Longrightarrow> fbounded k (f_min a b)"
  by (auto simp: f_min_def)

text \<open>The order without NaN.\<close>

lemma f64_le_trans: "(a::f64) \<le> b \<Longrightarrow> b \<le> c \<Longrightarrow> a \<le> c"
  by (cases a; cases b; cases c) (auto simp: less_eq_f64_def fle_def)

lemma f64_le_total: "a \<noteq> NaN \<Longrightarrow> b \<noteq> NaN \<Longrightarrow> \<not> a \<le> b \<Longrightarrow> b \<le> (a::f64)"
  by (cases a; cases b) (auto simp: less_eq_f64_def fle_def)

lemma f64_le_refl: "a \<noteq> NaN \<Longrightarrow> a \<le> (a::f64)"
  by (cases a) (auto simp: less_eq_f64_def fle_def)

end
