(* ===== verification/CoreTypes.thy ===== *)
theory CoreTypes
  imports F64
begin

section \<open>The shared data types of hivebear-core\<close>

text \<open>
  \<open>crates/hivebear-core/src/types.rs\<close>: the hardware profile, the inference engines, the
  model formats and the quantization levels, with the tables the recommender and the mesh read
  from them, and \<open>format_bytes\<close>.  Field names that two structs share get a prefix.
\<close>

subsection \<open>Hardware\<close>

datatype power_source = Ac | Battery u8 | PowerUnknown

datatype compute_api = Vulkan | Cuda | Metal | OpenCl | ApiWebGpu | DirectX12 | ApiNone

record cpu_info =
  model_name :: string
  physical_cores :: u32
  logical_cores :: u32
  isa_extensions :: "string list"
  cache_size_bytes :: u64

record memory_info =
  total_bytes :: u64
  mem_available_bytes :: u64
  estimated_bandwidth_gbps :: f64

record gpu_info =
  gpu_name :: string
  vram_bytes :: u64
  compute_api :: compute_api
  driver_version :: "string option"

record storage_info =
  storage_available_bytes :: u64
  estimated_read_speed_mbps :: f64

record platform_info =
  os :: string
  arch :: string
  is_mobile :: bool
  power_source :: power_source

record hardware_profile =
  cpu :: cpu_info
  memory :: memory_info
  gpus :: "gpu_info list"
  storage :: storage_info
  platform :: platform_info

fun show_compute_api :: "compute_api \<Rightarrow> string" where
  "show_compute_api Vulkan = ''Vulkan''"
| "show_compute_api Cuda = ''CUDA''"
| "show_compute_api Metal = ''Metal''"
| "show_compute_api OpenCl = ''OpenCL''"
| "show_compute_api ApiWebGpu = ''WebGPU''"
| "show_compute_api DirectX12 = ''DirectX 12''"
| "show_compute_api ApiNone = ''None''"

subsection \<open>Engines and formats\<close>

datatype inference_engine = LlamaCpp | OnnxRuntime | Mlx | Candle | EngineWebGpu | Mesh | Cloud

fun show_engine :: "inference_engine \<Rightarrow> string" where
  "show_engine LlamaCpp = ''llama.cpp''"
| "show_engine OnnxRuntime = ''ONNX Runtime''"
| "show_engine Mlx = ''MLX''"
| "show_engine Candle = ''Candle''"
| "show_engine EngineWebGpu = ''WebGPU''"
| "show_engine Mesh = ''P2P Mesh''"
| "show_engine Cloud = ''Cloud''"

datatype model_format = Gguf | Onnx | FormatMlx | SafeTensors

fun show_format :: "model_format \<Rightarrow> string" where
  "show_format Gguf = ''GGUF''"
| "show_format Onnx = ''ONNX''"
| "show_format FormatMlx = ''MLX''"
| "show_format SafeTensors = ''SafeTensors''"

subsection \<open>Quantization levels\<close>

datatype quantization =
  Q2K | Q3KS | Q3KM | Q3KL | Q4_0 | Q4_1 | Q4KS | Q4KM | Q5_0 | Q5_1 | Q5KS | Q5KM | Q6K | Q8_0 | QF16 | QF32

text \<open>The derived \<open>Ord\<close> compares the declaration order of the variants.\<close>

fun quant_index :: "quantization \<Rightarrow> nat" where
  "quant_index Q2K = 0"
| "quant_index Q3KS = 1"
| "quant_index Q3KM = 2"
| "quant_index Q3KL = 3"
| "quant_index Q4_0 = 4"
| "quant_index Q4_1 = 5"
| "quant_index Q4KS = 6"
| "quant_index Q4KM = 7"
| "quant_index Q5_0 = 8"
| "quant_index Q5_1 = 9"
| "quant_index Q5KS = 10"
| "quant_index Q5KM = 11"
| "quant_index Q6K = 12"
| "quant_index Q8_0 = 13"
| "quant_index QF16 = 14"
| "quant_index QF32 = 15"

lemma quant_index_inj: "quant_index a = quant_index b \<Longrightarrow> a = b"
  by (cases a; cases b) simp_all

instantiation quantization :: linorder
begin
definition less_eq_quantization :: "quantization \<Rightarrow> quantization \<Rightarrow> bool" where
  "less_eq_quantization a b \<longleftrightarrow> quant_index a \<le> quant_index b"
definition less_quantization :: "quantization \<Rightarrow> quantization \<Rightarrow> bool" where
  "less_quantization a b \<longleftrightarrow> quant_index a < quant_index b"
instance
  by standard (auto simp: less_eq_quantization_def less_quantization_def dest: quant_index_inj)
end

fun bits_per_weight :: "quantization \<Rightarrow> f64" where
  "bits_per_weight Q2K = lit (25/10)"
| "bits_per_weight Q3KS = lit (34375/10000)"
| "bits_per_weight Q3KM = lit (34375/10000)"
| "bits_per_weight Q3KL = lit (34375/10000)"
| "bits_per_weight Q4_0 = lit 4"
| "bits_per_weight Q4_1 = lit (45/10)"
| "bits_per_weight Q4KS = lit (45/10)"
| "bits_per_weight Q4KM = lit (45/10)"
| "bits_per_weight Q5_0 = lit 5"
| "bits_per_weight Q5_1 = lit (55/10)"
| "bits_per_weight Q5KS = lit (55/10)"
| "bits_per_weight Q5KM = lit (55/10)"
| "bits_per_weight Q6K = lit (65/10)"
| "bits_per_weight Q8_0 = lit 8"
| "bits_per_weight QF16 = lit 16"
| "bits_per_weight QF32 = lit 32"

fun quality_retention :: "quantization \<Rightarrow> f64" where
  "quality_retention Q2K = lit (70/100)"
| "quality_retention Q3KS = lit (78/100)"
| "quality_retention Q3KM = lit (82/100)"
| "quality_retention Q3KL = lit (84/100)"
| "quality_retention Q4_0 = lit (87/100)"
| "quality_retention Q4_1 = lit (88/100)"
| "quality_retention Q4KS = lit (89/100)"
| "quality_retention Q4KM = lit (92/100)"
| "quality_retention Q5_0 = lit (93/100)"
| "quality_retention Q5_1 = lit (94/100)"
| "quality_retention Q5KS = lit (94/100)"
| "quality_retention Q5KM = lit (95/100)"
| "quality_retention Q6K = lit (97/100)"
| "quality_retention Q8_0 = lit (99/100)"
| "quality_retention QF16 = lit 1"
| "quality_retention QF32 = lit 1"

fun show_quantization :: "quantization \<Rightarrow> string" where
  "show_quantization Q2K = ''Q2_K''"
| "show_quantization Q3KS = ''Q3_K_S''"
| "show_quantization Q3KM = ''Q3_K_M''"
| "show_quantization Q3KL = ''Q3_K_L''"
| "show_quantization Q4_0 = ''Q4_0''"
| "show_quantization Q4_1 = ''Q4_1''"
| "show_quantization Q4KS = ''Q4_K_S''"
| "show_quantization Q4KM = ''Q4_K_M''"
| "show_quantization Q5_0 = ''Q5_0''"
| "show_quantization Q5_1 = ''Q5_1''"
| "show_quantization Q5KS = ''Q5_K_S''"
| "show_quantization Q5KM = ''Q5_K_M''"
| "show_quantization Q6K = ''Q6_K''"
| "show_quantization Q8_0 = ''Q8_0''"
| "show_quantization QF16 = ''F16''"
| "show_quantization QF32 = ''F32''"

text \<open>
  The rational behind each table entry; rounding is monotone, so comparing these compares
  the rounded entries.
\<close>

fun bits_rat :: "quantization \<Rightarrow> rat" where
  "bits_rat Q2K = 25/10" | "bits_rat Q3KS = 34375/10000" | "bits_rat Q3KM = 34375/10000"
| "bits_rat Q3KL = 34375/10000" | "bits_rat Q4_0 = 4" | "bits_rat Q4_1 = 45/10"
| "bits_rat Q4KS = 45/10" | "bits_rat Q4KM = 45/10" | "bits_rat Q5_0 = 5" | "bits_rat Q5_1 = 55/10"
| "bits_rat Q5KS = 55/10" | "bits_rat Q5KM = 55/10" | "bits_rat Q6K = 65/10" | "bits_rat Q8_0 = 8"
| "bits_rat QF16 = 16" | "bits_rat QF32 = 32"

fun quality_rat :: "quantization \<Rightarrow> rat" where
  "quality_rat Q2K = 70/100" | "quality_rat Q3KS = 78/100" | "quality_rat Q3KM = 82/100"
| "quality_rat Q3KL = 84/100" | "quality_rat Q4_0 = 87/100" | "quality_rat Q4_1 = 88/100"
| "quality_rat Q4KS = 89/100" | "quality_rat Q4KM = 92/100" | "quality_rat Q5_0 = 93/100"
| "quality_rat Q5_1 = 94/100" | "quality_rat Q5KS = 94/100" | "quality_rat Q5KM = 95/100"
| "quality_rat Q6K = 97/100" | "quality_rat Q8_0 = 99/100" | "quality_rat QF16 = 1" | "quality_rat QF32 = 1"

lemma bits_per_weight_lit: "bits_per_weight q = fround (bits_rat q)"
  by (cases q) simp_all

lemma quality_retention_lit: "quality_retention q = fround (quality_rat q)"
  by (cases q) simp_all

lemma quality_rat_mono: "quant_index a \<le> quant_index b \<Longrightarrow> quality_rat a \<le> quality_rat b"
  by (cases a; cases b) simp_all

lemma bits_rat_mono: "quant_index a \<le> quant_index b \<Longrightarrow> bits_rat a \<le> bits_rat b"
  by (cases a; cases b) simp_all

subsection \<open>Formatting byte counts\<close>

text \<open>
  \<open>format!("{:.1}", x)\<close> and \<open>format!("{:.0}", x)\<close> for a finite, non-negative \<open>x\<close>: the exact
  value is rounded to the digits asked for, ties to even.
\<close>

fun show_fixed0 :: "f64 \<Rightarrow> string" where
  "show_fixed0 (Fin x) = show_nat (nat (rne x))"
| "show_fixed0 PInf = ''inf''"
| "show_fixed0 NInf = ''-inf''"
| "show_fixed0 NaN = ''NaN''"

fun show_fixed1 :: "f64 \<Rightarrow> string" where
  "show_fixed1 (Fin x) = (let n = nat (rne (10 * x)) in show_nat (n div 10) @ ''.'' @ show_nat (n mod 10))"
| "show_fixed1 PInf = ''inf''"
| "show_fixed1 NInf = ''-inf''"
| "show_fixed1 NaN = ''NaN''"

definition format_bytes :: "u64 \<Rightarrow> string" where
  "format_bytes bytes =
    (let KB = 1024 :: u64; MB = KB * 1024; GB = MB * 1024; TB = GB * 1024 in
     if TB \<le> bytes then show_fixed1 (f64_of_u64 bytes / f64_of_u64 TB) @ '' TB''
     else if GB \<le> bytes then show_fixed1 (f64_of_u64 bytes / f64_of_u64 GB) @ '' GB''
     else if MB \<le> bytes then show_fixed0 (f64_of_u64 bytes / f64_of_u64 MB) @ '' MB''
     else if KB \<le> bytes then show_fixed0 (f64_of_u64 bytes / f64_of_u64 KB) @ '' KB''
     else show_nat (unat bytes) @ '' B'')"

text \<open>
  \<open>Quantization::bits_per_weight\<close> and \<open>Quantization::quality_retention\<close> are monotone in
  the derived order of the levels: a level declared later never uses fewer bits and never
  claims a lower quality, as \<open>f64\<close> values.
\<close>

theorem quantization_tables_monotone:
  "a \<le> b \<Longrightarrow> bits_per_weight a \<le> bits_per_weight b \<and> quality_retention a \<le> quality_retention b"
  unfolding bits_per_weight_lit quality_retention_lit less_eq_quantization_def
  by (intro conjI fround_mono bits_rat_mono quality_rat_mono)

theorem quantization_tables_monotone_witness:
  "bits_per_weight Q2K \<le> bits_per_weight QF32 \<and> quality_retention Q2K \<le> quality_retention QF32"
  by (rule quantization_tables_monotone) (simp add: less_eq_quantization_def)

end
