(* ===== verification/MeshTypes.thy ===== *)
theory MeshTypes
  imports CoreTypes
begin

section \<open>Identities, peers and errors of the mesh\<close>

text \<open>
  \<open>crates/hivebear-mesh/src/peer.rs\<close>, \<open>config.rs\<close>, \<open>error.rs\<close> and the types of \<open>nat/mod.rs\<close>
  and \<open>swarm/mod.rs\<close> that a peer record carries.  A \<open>NodeId\<close> wraps an Ed25519 verifying key of
  the \<open>ed25519_dalek\<close> crate; it is kept as the key's bytes, which are what the source compares,
  hashes and prints.  The hex encoder of the \<open>hex\<close> crate is an argument where it is used.
\<close>

datatype node_id = NodeId (key_bytes: "u8 list")

definition short_id :: "(u8 list \<Rightarrow> string) \<Rightarrow> node_id \<Rightarrow> string" where
  "short_id hex_encode n = hex_encode (take 8 (key_bytes n))"

definition to_hex :: "(u8 list \<Rightarrow> string) \<Rightarrow> node_id \<Rightarrow> string" where
  "to_hex hex_encode n = hex_encode (key_bytes n)"

text \<open>What the source relies on: distinct keys have distinct encodings.\<close>

definition injective_encoding :: "(u8 list \<Rightarrow> string) \<Rightarrow> bool" where
  "injective_encoding enc \<longleftrightarrow> (\<forall>a b. enc a = enc b \<longrightarrow> a = b)"

lemma to_hex_inj: "injective_encoding enc \<Longrightarrow> to_hex enc a = to_hex enc b \<longleftrightarrow> a = b"
  by (cases a; cases b) (auto simp: injective_encoding_def to_hex_def)

text \<open>\<open>std::net::SocketAddr\<close>: an address and a port, with the flow and scope fields of version 6.\<close>

datatype socket_addr = SocketV4 u32 u16 | SocketV6 "128 word" u16 u32 u32

datatype mesh_tier = Free | Paid

definition mesh_tier_from_str_lossy :: "string \<Rightarrow> mesh_tier" where
  "mesh_tier_from_str_lossy s = (if to_lowercase s = ''paid'' then Paid else Free)"

fun show_mesh_tier :: "mesh_tier \<Rightarrow> string" where
  "show_mesh_tier Free = ''free''"
| "show_mesh_tier Paid = ''paid''"

text \<open>
  The \<open>Insecure\<close> variant only exists in a build with the \<open>insecure-dev\<close> feature, which is an
  argument of the parser.
\<close>

datatype mesh_security_mode = Pinned | Insecure

definition mesh_security_mode_from_str_lossy :: "bool \<Rightarrow> string \<Rightarrow> mesh_security_mode" where
  "mesh_security_mode_from_str_lossy insecure_dev s =
    (if to_lowercase s = ''insecure'' then (if insecure_dev then Insecure else Pinned) else Pinned)"

fun show_mesh_security_mode :: "mesh_security_mode \<Rightarrow> string" where
  "show_mesh_security_mode Pinned = ''pinned''"
| "show_mesh_security_mode Insecure = ''insecure''"

datatype nat_type = Open | FullCone | RestrictedCone | PortRestricted | Symmetric | NatUnknown

record draft_capability =
  draft_model_id :: string
  draft_model_size_bytes :: u64
  estimated_draft_tok_s :: f64

record peer_info =
  node_id :: node_id
  hardware :: hardware_profile
  available_memory_bytes :: u64
  available_vram_bytes :: u64
  network_bandwidth_mbps :: f64
  latency_ms :: "f64 option"
  tier :: mesh_tier
  reputation_score :: f64
  addr :: socket_addr
  external_addr :: "socket_addr option"
  nat_type :: nat_type
  latency_map :: "node_id \<rightharpoonup> f64"
  serving_model_id :: "string option"
  swarm_id :: "uuid option"
  draft_capability :: "draft_capability option"

text \<open>A half-open range of layers, \<open>Range<u32>\<close>.\<close>

type_synonym layer_range = "u32 \<times> u32"

definition range_size :: "layer_range \<Rightarrow> nat" where
  "range_size r = unat (snd r) - unat (fst r)"

datatype peer_state =
  Discovered
| Connected
| Active uuid layer_range
| Disconnected
| Banned

text \<open>\<open>std::io::Error\<close> is kept as its message.\<close>

datatype inference_error =
  ModelNotFound string
| UnsupportedFormat string
| NoEngineAvailable string
| EngineNotCompiled string
| LoadError string
| GenerationError string
| InvalidHandle
| GrammarError string
| ToolCallError string
| OffloadError string
| InferenceIo string

record token =
  tok_text :: string
  tok_id :: u32
  tok_logprob :: "f32_bits option"
  is_special :: bool

datatype mesh_error =
  Transport string
| Discovery string
| Scheduling string
| Pipeline string
| Trust string
| Protocol string
| Config string
| PeerDisconnected string
| Timeout string
| NoPeersAvailable string
| Inference inference_error
| Serialization string
| Io string
| NatTraversal string
| Relay string
| PeerExchange string
| Auth string
| Recovery string
| Compression string

type_synonym 'a mesh_result = "mesh_error + 'a"

text \<open>Total capacity of a peer, \<open>available_vram_bytes + available_memory_bytes\<close> in \<open>u64\<close>.\<close>

definition capacity :: "peer_info \<Rightarrow> u64" where
  "capacity p = available_vram_bytes p + available_memory_bytes p"

text \<open>A concrete peer, for evaluating the definitions: 8 GiB of RAM, no GPU, 5 ms away.\<close>

definition sample_hardware :: hardware_profile where
  "sample_hardware = \<lparr>
     cpu = \<lparr>model_name = ''Test'', physical_cores = 8, logical_cores = 16, isa_extensions = [], cache_size_bytes = 0\<rparr>,
     memory = \<lparr>total_bytes = 8589934592, mem_available_bytes = 8589934592, estimated_bandwidth_gbps = Fin 30\<rparr>,
     gpus = [],
     storage = \<lparr>storage_available_bytes = 107374182400, estimated_read_speed_mbps = Fin 500\<rparr>,
     platform = \<lparr>os = ''linux'', arch = ''x86_64'', is_mobile = False, power_source = Ac\<rparr>\<rparr>"

definition sample_peer :: "u8 \<Rightarrow> u64 \<Rightarrow> u64 \<Rightarrow> peer_info" where
  "sample_peer i ram vram = \<lparr>
     node_id = NodeId [i], hardware = sample_hardware,
     available_memory_bytes = ram, available_vram_bytes = vram,
     network_bandwidth_mbps = Fin 1000, latency_ms = Some (Fin 5), tier = Free,
     reputation_score = lit (9/10), addr = SocketV4 2130706433 7878, external_addr = None,
     nat_type = NatUnknown, latency_map = Map.empty, serving_model_id = None, swarm_id = None,
     draft_capability = None\<rparr>"

text \<open>
  In a build without the \<open>insecure-dev\<close> feature no configuration string turns certificate
  verification off: \<open>MeshSecurityMode::from_str_lossy\<close> yields \<open>Pinned\<close> for every input; with the
  feature it yields \<open>Insecure\<close> exactly for the case variants of \<open>insecure\<close>.
\<close>

lemma security_mode_needs_feature:
  "mesh_security_mode_from_str_lossy insecure_dev s = Insecure \<longleftrightarrow>
     insecure_dev \<and> to_lowercase s = ''insecure''"
  by (simp add: mesh_security_mode_from_str_lossy_def)

end
