(* ===== verification/Coordinator.thy ===== *)
theory Coordinator
  imports MeshTypes
begin

section \<open>The coordination server\<close>

text \<open>
  \<open>crates/hivebear-coordinator/src/main.rs\<close>: the registry of nodes, the signal mailboxes,
  the karma ledger with its replay protection, matchmaking and the dashboard.  Every axum
  handler is a function of the server state and of the time at which it runs; it returns the
  new state and the typed body of the response (turning it into JSON is \<open>serde_json\<close>'s work).
  A node id in the maps is the hex encoding of the node's key; the encoder is the argument
  \<open>enc\<close>.  The payload of a signal is any value, of type \<open>'j\<close>.
\<close>

subsection \<open>State\<close>

record node_entry =
  info :: peer_info
  last_seen :: instant

record 'j signal_message =
  from_node :: string
  to_node :: string
  signal_type :: string
  payload :: 'j

record 'j coordinator_state =
  nodes :: "string \<rightharpoonup> node_entry"
  signals :: "string \<rightharpoonup> 'j signal_message list"
  karma :: "string \<rightharpoonup> i64"
  processed_receipts :: "string \<rightharpoonup> instant"

definition coordinator_init :: "'j coordinator_state" where
  "coordinator_init = \<lparr>nodes = Map.empty, signals = Map.empty, karma = Map.empty,
     processed_receipts = Map.empty\<rparr>"

datatype status_code = OK | CONFLICT | FORBIDDEN | BAD_REQUEST | TOO_MANY_REQUESTS

subsection \<open>Registration, heartbeats and pruning\<close>

definition is_active :: "instant \<Rightarrow> node_entry \<Rightarrow> bool" where
  "is_active now entry \<longleftrightarrow> now - last_seen entry < from_secs 60"

text \<open>One tick of the background task: drop silent nodes, and the mailboxes of the dropped.\<close>

definition prune :: "instant \<Rightarrow> 'j coordinator_state \<Rightarrow> 'j coordinator_state" where
  "prune now s = s\<lparr>nodes := retain (\<lambda>_ entry. is_active now entry) (nodes s),
     signals := retain (\<lambda>i _. case nodes s i of None \<Rightarrow> True | Some entry \<Rightarrow> is_active now entry) (signals s)\<rparr>"

definition register_node ::
  "(u8 list \<Rightarrow> string) \<Rightarrow> instant \<Rightarrow> peer_info \<Rightarrow> 'j coordinator_state \<Rightarrow> 'j coordinator_state \<times> status_code" where
  "register_node enc now p s =
    (let nid = to_hex enc (node_id p)
     in (s\<lparr>nodes := (nodes s)(nid \<mapsto> \<lparr>info = p, last_seen = now\<rparr>)\<rparr>, OK))"

definition heartbeat_node ::
  "(u8 list \<Rightarrow> string) \<Rightarrow> instant \<Rightarrow> peer_info \<Rightarrow> 'j coordinator_state \<Rightarrow> 'j coordinator_state \<times> status_code" where
  "heartbeat_node enc now p s =
    (let nid = to_hex enc (node_id p) in
     case nodes s nid of
       Some entry \<Rightarrow> (s\<lparr>nodes := (nodes s)(nid \<mapsto> entry\<lparr>info := p, last_seen := now\<rparr>)\<rparr>, OK)
     | None \<Rightarrow> (s\<lparr>nodes := (nodes s)(nid \<mapsto> \<lparr>info = p, last_seen = now\<rparr>)\<rparr>, OK))"

record peers_query =
  model :: "string option"
  min_memory :: "u64 option"

definition peer_matches :: "u64 \<Rightarrow> string \<Rightarrow> peer_info \<Rightarrow> bool" where
  "peer_matches min_mem target_model p \<longleftrightarrow>
     min_mem \<le> available_memory_bytes p \<and>
     (target_model = [] \<or>
      (case serving_model_id p of None \<Rightarrow> True | Some m \<Rightarrow> str_contains target_model m))"

definition list_peers :: "string list \<Rightarrow> peers_query \<Rightarrow> 'j coordinator_state \<Rightarrow> peer_info list" where
  "list_peers ks query s =
    (let min_mem = (case min_memory query of None \<Rightarrow> 0 | Some m \<Rightarrow> m);
         target_model = (case model query of None \<Rightarrow> [] | Some m \<Rightarrow> m)
     in filter (peer_matches min_mem target_model) (map (\<lambda>(_, entry). info entry) (entries ks (nodes s))))"

definition deregister_node :: "string option \<Rightarrow> 'j coordinator_state \<Rightarrow> 'j coordinator_state \<times> status_code" where
  "deregister_node query_id s =
    (case query_id of
       Some i \<Rightarrow> (s\<lparr>nodes := (nodes s)(i := None), signals := (signals s)(i := None)\<rparr>, OK)
     | None \<Rightarrow> (s, OK))"

subsection \<open>Signals\<close>

definition send_signal :: "'j signal_message \<Rightarrow> 'j coordinator_state \<Rightarrow> 'j coordinator_state \<times> status_code" where
  "send_signal signal s =
    (let entry = (case signals s (to_node signal) of None \<Rightarrow> [] | Some q \<Rightarrow> q) in
     if length entry < 50
     then (s\<lparr>signals := (signals s)(to_node signal \<mapsto> entry @ [signal])\<rparr>, OK)
     else (s\<lparr>signals := (signals s)(to_node signal \<mapsto> entry)\<rparr>, TOO_MANY_REQUESTS))"

definition poll_signals :: "string \<Rightarrow> 'j coordinator_state \<Rightarrow> 'j coordinator_state \<times> 'j signal_message list" where
  "poll_signals nid s =
    (case signals s nid of
       Some q \<Rightarrow> (s\<lparr>signals := (signals s)(nid := None)\<rparr>, q)
     | None \<Rightarrow> (s, []))"

subsection \<open>Karma\<close>

definition karma_of :: "'j coordinator_state \<Rightarrow> string \<Rightarrow> i64" where
  "karma_of s nid = (case karma s nid of None \<Rightarrow> 0 | Some k \<Rightarrow> k)"

datatype priority_tier = VIP_ALPHA | CONTRIBUTOR | COMMUNITY

definition tier_of :: "i64 \<Rightarrow> priority_tier" where
  "tier_of k = (if 500 \<le> sint k then VIP_ALPHA else if 0 < sint k then CONTRIBUTOR else COMMUNITY)"

record matchmake_request =
  req_node_id :: string
  total_vram_bytes :: "u64 option"
  total_ram_bytes :: "u64 option"
  preferred_model :: "string option"

record matchmake_response =
  resp_swarm_id :: string
  assigned_role :: string
  total_peers_in_swarm :: usize
  requester_karma :: i64
  tier_status :: priority_tier
  ranked_peers :: "(string \<times> socket_addr \<times> i64) list"

definition matchmake :: "(u8 list \<Rightarrow> string) \<Rightarrow> string list \<Rightarrow> matchmake_request \<Rightarrow> 'j coordinator_state \<Rightarrow> matchmake_response" where
  "matchmake enc ks req s =
    (let available_peers = length (entries ks (nodes s));
         requester_karma' = karma_of s (req_node_id req);
         ranked = map (\<lambda>(_, entry). let p = info entry; i = to_hex enc (node_id p)
                        in (i, addr p, karma_of s i)) (entries ks (nodes s));
         sorted = sort_by (\<lambda>a b. sint (snd (snd a)) < sint (snd (snd b))) ranked
     in \<lparr>resp_swarm_id = ''swarm-'' @ (case preferred_model req of None \<Rightarrow> ''default'' | Some m \<Rightarrow> m),
         assigned_role = ''worker'', total_peers_in_swarm = available_peers,
         requester_karma = requester_karma', tier_status = tier_of requester_karma',
         ranked_peers = sorted\<rparr>)"

definition get_karma_balance :: "string \<Rightarrow> 'j coordinator_state \<Rightarrow> string \<times> i64 \<times> priority_tier" where
  "get_karma_balance nid s = (let balance = karma_of s nid in (nid, balance, tier_of balance))"

record work_receipt =
  client_node_id :: string
  worker_node_id :: string
  tokens_processed :: u64
  timestamp :: u64
  nonce :: string
  signature_hash :: string

definition receipt_key :: "work_receipt \<Rightarrow> string" where
  "receipt_key r = client_node_id r @ '':'' @ nonce r @ '':'' @ show_nat (unat (timestamp r))"

text \<open>The checks of \<open>claim_karma\<close>, in its order: replay, unknown client, token range.\<close>

definition claim_check :: "work_receipt \<Rightarrow> 'j coordinator_state \<Rightarrow> status_code option" where
  "claim_check r s =
    (if receipt_key r \<in> dom (processed_receipts s) then Some CONFLICT
     else if client_node_id r \<notin> dom (nodes s) \<and> 5000 < tokens_processed r then Some FORBIDDEN
     else if tokens_processed r = 0 \<or> 100000 < tokens_processed r then Some BAD_REQUEST
     else None)"

text \<open>Its two writes: credit the worker, then record the receipt.\<close>

definition claim_credit :: "work_receipt \<Rightarrow> 'j coordinator_state \<Rightarrow> 'j coordinator_state" where
  "claim_credit r s = s\<lparr>karma := (karma s)(worker_node_id r \<mapsto> karma_of s (worker_node_id r) + tokens_processed r)\<rparr>"

definition claim_record :: "instant \<Rightarrow> work_receipt \<Rightarrow> 'j coordinator_state \<Rightarrow> 'j coordinator_state" where
  "claim_record now r s = s\<lparr>processed_receipts := (processed_receipts s)(receipt_key r \<mapsto> now)\<rparr>"

record claim_response =
  claim_worker :: string
  karma_awarded :: i64
  new_balance :: i64

definition claim_karma ::
  "instant \<Rightarrow> work_receipt \<Rightarrow> 'j coordinator_state \<Rightarrow> 'j coordinator_state \<times> (status_code + claim_response)" where
  "claim_karma now r s =
    (case claim_check r s of
       Some err \<Rightarrow> (s, Inl err)
     | None \<Rightarrow> (let s1 = claim_credit r s
                in (claim_record now r s1,
                    Inr \<lparr>claim_worker = worker_node_id r, karma_awarded = tokens_processed r,
                         new_balance = karma_of s1 (worker_node_id r)\<rparr>)))"

record dashboard_node =
  dash_node_id :: string
  dash_addr :: socket_addr
  dash_tier :: mesh_tier
  ram_bytes :: u64
  dash_vram_bytes :: u64
  dash_karma :: i64

record dashboard_response =
  total_active_nodes :: usize
  total_network_ram_bytes :: u64
  total_network_vram_bytes :: u64
  dash_nodes :: "dashboard_node list"

definition dashboard :: "(u8 list \<Rightarrow> string) \<Rightarrow> string list \<Rightarrow> 'j coordinator_state \<Rightarrow> dashboard_response" where
  "dashboard enc ks s =
    (let ps = map (\<lambda>(_, entry). info entry) (entries ks (nodes s))
     in \<lparr>total_active_nodes = length (entries ks (nodes s)),
         total_network_ram_bytes = wsum (map available_memory_bytes ps),
         total_network_vram_bytes = wsum (map available_vram_bytes ps),
         dash_nodes = map (\<lambda>p. let i = to_hex enc (node_id p) in
           \<lparr>dash_node_id = i, dash_addr = addr p, dash_tier = tier p,
            ram_bytes = available_memory_bytes p, dash_vram_bytes = available_vram_bytes p,
            dash_karma = karma_of s i\<rparr>) ps\<rparr>)"

subsection \<open>The server as a transition system\<close>

text \<open>One event per request that changes the state, and the tick of the pruning task.\<close>

datatype 'j coordinator_event =
  Register instant peer_info
| Heartbeat instant peer_info
| Deregister "string option"
| SendSignal "'j signal_message"
| PollSignals string
| ClaimKarma instant work_receipt
| Prune instant

fun coordinator_step :: "(u8 list \<Rightarrow> string) \<Rightarrow> 'j coordinator_event \<Rightarrow> 'j coordinator_state \<Rightarrow> 'j coordinator_state" where
  "coordinator_step enc (Register now p) s = fst (register_node enc now p s)"
| "coordinator_step enc (Heartbeat now p) s = fst (heartbeat_node enc now p s)"
| "coordinator_step enc (Deregister q) s = fst (deregister_node q s)"
| "coordinator_step enc (SendSignal m) s = fst (send_signal m s)"
| "coordinator_step enc (PollSignals i) s = fst (poll_signals i s)"
| "coordinator_step enc (ClaimKarma now r) s = fst (claim_karma now r s)"
| "coordinator_step enc (Prune now) s = prune now s"

lemmas handler_defs = prune_def register_node_def heartbeat_node_def deregister_node_def
  send_signal_def poll_signals_def claim_karma_def claim_credit_def claim_record_def Let_def

subsection \<open>What every request keeps\<close>

definition mailbox_queue :: "'j coordinator_state \<Rightarrow> string \<Rightarrow> 'j signal_message list" where
  "mailbox_queue s i = (case signals s i of None \<Rightarrow> [] | Some q \<Rightarrow> q)"

definition coordinator_inv :: "(u8 list \<Rightarrow> string) \<Rightarrow> 'j coordinator_state \<Rightarrow> bool" where
  "coordinator_inv enc s \<longleftrightarrow>
     (\<forall>k e. nodes s k = Some e \<longrightarrow> k = to_hex enc (node_id (info e))) \<and>
     (\<forall>i q. signals s i = Some q \<longrightarrow> q \<noteq> [] \<and> length q \<le> 50 \<and> (\<forall>m \<in> set q. to_node m = i)) \<and>
     finite (dom (processed_receipts s))"

lemma coordinator_inv_init: "coordinator_inv enc coordinator_init"
  by (simp add: coordinator_inv_def coordinator_init_def)

lemma coordinator_inv_nodes:
  "coordinator_inv enc s \<Longrightarrow> coordinator_inv enc (s\<lparr>nodes := (nodes s)(to_hex enc (node_id (info e)) \<mapsto> e)\<rparr>)"
  by (auto simp: coordinator_inv_def)

lemma heartbeat_is_register: "heartbeat_node enc now p s = register_node enc now p s"
proof -
  have upd: "entry\<lparr>info := p, last_seen := now\<rparr> = \<lparr>info = p, last_seen = now\<rparr>" for entry :: node_entry
    by (cases entry) simp
  show ?thesis
    by (simp add: heartbeat_node_def register_node_def Let_def upd split: option.split)
qed

lemma coordinator_inv_step: "coordinator_inv enc s \<Longrightarrow> coordinator_inv enc (coordinator_step enc e s)"
proof (induction enc e s rule: coordinator_step.induct)
  case (1 enc now p s)
  then show ?case
    using coordinator_inv_nodes [of enc s "\<lparr>info = p, last_seen = now\<rparr>"] by (simp add: handler_defs)
next
  case (2 enc now p s)
  then show ?case
    using coordinator_inv_nodes [of enc s "\<lparr>info = p, last_seen = now\<rparr>"]
    by (simp add: heartbeat_is_register) (simp add: handler_defs)
next
  case (3 enc q s)
  then show ?case by (auto simp: handler_defs coordinator_inv_def split: option.splits)
next
  case (4 enc m s)
  then show ?case by (fastforce simp: handler_defs coordinator_inv_def split: option.splits)
next
  case (5 enc i s)
  then show ?case by (auto simp: handler_defs coordinator_inv_def split: option.splits)
next
  case (6 enc now r s)
  then show ?case by (auto simp: handler_defs coordinator_inv_def split: option.splits)
next
  case (7 enc now s)
  then show ?case by (auto simp: handler_defs coordinator_inv_def map_facts)
qed

lemma mailbox_inv:
  "coordinator_inv enc s \<Longrightarrow> length (mailbox_queue s i) \<le> 50 \<and> (\<forall>m \<in> set (mailbox_queue s i). to_node m = i)"
  by (cases "signals s i") (auto simp: coordinator_inv_def mailbox_queue_def)

interpretation coord: inv_system coordinator_init "coordinator_step enc" "coordinator_inv enc" for enc
  by unfold_locales (auto intro: coordinator_inv_init coordinator_inv_step)

text \<open>
  C8: whatever requests the server has handled, every mailbox holds between 1 and 50 signals,
  all addressed to its owner, and every registry entry sits under the id of the node it describes.
\<close>

theorem coordinator_reachable_inv:
  fixes es :: "'j coordinator_event list"
  shows "(\<forall>i. length (mailbox_queue (fold (coordinator_step enc) es coordinator_init) i) \<le> 50) \<and>
    (\<forall>i m. m \<in> set (mailbox_queue (fold (coordinator_step enc) es coordinator_init) i) \<longrightarrow> to_node m = i) \<and>
    (\<forall>k e. nodes (fold (coordinator_step enc) es coordinator_init) k = Some e \<longrightarrow> k = to_hex enc (node_id (info e)))"
proof -
  let ?s = "fold (coordinator_step enc) es coordinator_init :: 'j coordinator_state"
  have inv: "coordinator_inv enc ?s" by (rule coord.invar_reachable)
  then show ?thesis using mailbox_inv [OF inv] by (auto simp: coordinator_inv_def)
qed

subsection \<open>The mailboxes\<close>

text \<open>
  The contract a client of the signalling endpoints relies on: a bounded queue per node.
  \<open>queue\<close> reads a mailbox, \<open>accepts\<close> says whether the next signal is taken.
\<close>

locale mailbox =
  fixes queue :: "'s \<Rightarrow> 'i \<Rightarrow> 'm list"
    and send :: "'m \<Rightarrow> 's \<Rightarrow> 's"
    and dest :: "'m \<Rightarrow> 'i"
    and poll :: "'i \<Rightarrow> 's \<Rightarrow> 's \<times> 'm list"
    and limit :: nat
  assumes queue_send: "queue (send m s) i =
      (if i = dest m \<and> length (queue s i) < limit then queue s i @ [m] else queue s i)"
    and poll_result: "snd (poll i s) = queue s i"
    and queue_poll: "queue (fst (poll i s)) j = (if j = i then [] else queue s j)"
begin

lemma queue_send_all:
  "length (queue s i) \<le> limit \<Longrightarrow>
   queue (fold send ms s) i = take limit (queue s i @ filter (\<lambda>m. dest m = i) ms)"
proof (induction ms arbitrary: s)
  case (Cons m ms)
  show ?case
  proof (cases "dest m = i \<and> length (queue s i) < limit")
    case True
    then have "queue (send m s) i = queue s i @ [m]" by (simp add: queue_send)
    then show ?thesis using True Cons.IH [of "send m s"] by simp
  next
    case False
    then have same: "queue (send m s) i = queue s i" by (auto simp: queue_send)
    then have "queue (fold send (m # ms) s) i = take limit (queue s i @ filter (\<lambda>m. dest m = i) ms)"
      using Cons by simp
    then show ?thesis using False Cons.prems by (auto simp: not_less)
  qed
qed simp

lemma delivered_once:
  assumes "queue s i = []"
  shows "snd (poll i (fold send ms s)) = take limit (filter (\<lambda>m. dest m = i) ms)"
    and "snd (poll i (fst (poll i (fold send ms s)))) = []"
  using queue_send_all [of s i ms] assms by (simp_all add: poll_result queue_poll)

end

interpretation signal_box: mailbox mailbox_queue "\<lambda>m s. fst (send_signal m s)" to_node poll_signals 50
  by unfold_locales (auto simp: mailbox_queue_def handler_defs split: option.splits)

text \<open>
  a node whose mailbox is empty and to which other nodes then send signals receives, at
  its next poll, the first 50 signals addressed to it, in the order in which they were sent,
  and a second poll returns nothing: signals are delivered in order and at most once.
\<close>

theorem signals_delivered_in_order_once:
  assumes "signals s i = None"
  shows "snd (poll_signals i (fold (\<lambda>m s. fst (send_signal m s)) ms s)) =
      take 50 (filter (\<lambda>m. to_node m = i) ms) \<and>
    snd (poll_signals i (fst (poll_signals i (fold (\<lambda>m s. fst (send_signal m s)) ms s)))) = []"
  using signal_box.delivered_once [of s i ms] assms by (simp add: mailbox_queue_def)

theorem signals_delivered_in_order_once_witness:
  "let a = \<lparr>from_node = ''x'', to_node = ''y'', signal_type = ''c'', payload = (1::nat)\<rparr>;
       b = a\<lparr>to_node := ''z''\<rparr>; c = a\<lparr>payload := 2\<rparr>
   in snd (poll_signals ''y'' (fold (\<lambda>m s. fst (send_signal m s)) [a, b, c] coordinator_init)) = [a, c]"
  unfolding Let_def
  by (subst signals_delivered_in_order_once [THEN conjunct1]) (simp_all add: coordinator_init_def)

subsection \<open>Pruning\<close>

text \<open>
  one pruning tick drops exactly the nodes that were silent for 60 seconds or more, and
  exactly their mailboxes; a mailbox whose owner is not registered is never removed by it.
\<close>

theorem prune_exact:
  "(nodes (prune now s) k = Some e \<longleftrightarrow> nodes s k = Some e \<and> now < last_seen e + from_secs 60) \<and>
   signals (prune now s) i =
     (if \<exists>e. nodes s i = Some e \<and> last_seen e + from_secs 60 \<le> now then None else signals s i) \<and>
   karma (prune now s) = karma s \<and> processed_receipts (prune now s) = processed_receipts s"
  by (auto simp: prune_def map_facts is_active_def retain_def from_secs_def split: option.splits)

subsection \<open>Karma\<close>

lemma claim_check_None:
  "claim_check r s = None \<longleftrightarrow> processed_receipts s (receipt_key r) = None \<and>
     (client_node_id r \<in> dom (nodes s) \<or> tokens_processed r \<le> 5000) \<and>
     0 < tokens_processed r \<and> tokens_processed r \<le> 100000"
  by (auto simp: claim_check_def domIff word_neq_0_conv [symmetric])

lemma karma_of_credit [simp]:
  "karma_of (claim_credit r s) w = karma_of s w + (if w = worker_node_id r then tokens_processed r else 0)"
  by (simp add: karma_of_def claim_credit_def)

lemma karma_of_record [simp]: "karma_of (claim_record now r s) w = karma_of s w"
  by (simp add: karma_of_def claim_record_def)

text \<open>
  the outcome of a karma claim on every branch.  A claim is refused with 409 exactly when
  its key was recorded, else with 403 exactly when the client is unknown and more than 5000
  tokens are claimed, else with 400 exactly when the amount is 0 or above 100000, and a refused
  claim changes nothing.  An accepted claim credits the worker, and only the worker, with the
  claimed tokens, reports the new balance and records the key; nodes and mailboxes stay.
\<close>

theorem claim_karma_spec:
  "(case claim_karma now r s of
      (s', Inl err) \<Rightarrow> s' = s \<and>
        err = (if receipt_key r \<in> dom (processed_receipts s) then CONFLICT
               else if 5000 < tokens_processed r \<and> client_node_id r \<notin> dom (nodes s) then FORBIDDEN
               else BAD_REQUEST) \<and>
        (err = BAD_REQUEST \<longrightarrow> tokens_processed r = 0 \<or> 100000 < tokens_processed r)
    | (s', Inr resp) \<Rightarrow>
        receipt_key r \<notin> dom (processed_receipts s) \<and> 0 < tokens_processed r \<and> tokens_processed r \<le> 100000 \<and>
        (client_node_id r \<in> dom (nodes s) \<or> tokens_processed r \<le> 5000) \<and>
        (\<forall>w. karma_of s' w = karma_of s w + (if w = worker_node_id r then tokens_processed r else 0)) \<and>
        new_balance resp = karma_of s' (worker_node_id r) \<and>
        dom (processed_receipts s') = insert (receipt_key r) (dom (processed_receipts s)) \<and>
        nodes s' = nodes s \<and> signals s' = signals s)"
proof (cases "claim_check r s")
  case None
  then have eq: "claim_karma now r s = (claim_record now r (claim_credit r s),
      Inr \<lparr>claim_worker = worker_node_id r, karma_awarded = tokens_processed r,
           new_balance = karma_of (claim_credit r s) (worker_node_id r)\<rparr>)"
    by (simp add: claim_karma_def Let_def)
  show ?thesis
    using None unfolding eq claim_check_None
    by (simp add: domIff) (simp add: claim_record_def claim_credit_def)
next
  case (Some err)
  then show ?thesis by (auto simp: claim_karma_def claim_check_def split: if_splits)
qed

text \<open>The receipts that a run of the server accepts, in order.\<close>

fun accepted_claims :: "(u8 list \<Rightarrow> string) \<Rightarrow> 'j coordinator_event list \<Rightarrow> 'j coordinator_state \<Rightarrow> work_receipt list" where
  "accepted_claims enc [] s = []"
| "accepted_claims enc (e # es) s =
    (case e of ClaimKarma now r \<Rightarrow> (if claim_check r s = None then [r] else []) | _ \<Rightarrow> []) @
    accepted_claims enc es (coordinator_step enc e s)"

lemma step_claim:
  "coordinator_step enc (ClaimKarma now r) s =
     (if claim_check r s = None then claim_record now r (claim_credit r s) else s)"
  by (simp add: claim_karma_def Let_def split: option.splits)

lemma step_other_karma:
  "(\<And>now r. e \<noteq> ClaimKarma now r) \<Longrightarrow> karma (coordinator_step enc e s) = karma s \<and>
     processed_receipts (coordinator_step enc e s) = processed_receipts s"
  by (cases e) (auto simp: handler_defs split: option.splits)

lemma accepted_other: "(\<And>now r. e \<noteq> ClaimKarma now r) \<Longrightarrow>
    accepted_claims enc (e # es) s = accepted_claims enc es (coordinator_step enc e s)"
  by (cases e) auto

definition credited :: "string \<Rightarrow> work_receipt list \<Rightarrow> nat" where
  "credited w rs = sum_list (map (\<lambda>r. unat (tokens_processed r)) (filter (\<lambda>r. worker_node_id r = w) rs))"

lemma credited_simps [simp]: "credited w [] = 0"
  "credited w (r # rs) = (if worker_node_id r = w then unat (tokens_processed r) else 0) + credited w rs"
  by (simp_all add: credited_def)

lemma ledger_run:
  "karma_of (fold (coordinator_step enc) es s) w = karma_of s w + of_nat (credited w (accepted_claims enc es s)) \<and>
   distinct (map receipt_key (accepted_claims enc es s)) \<and>
   (\<forall>r \<in> set (accepted_claims enc es s). processed_receipts s (receipt_key r) = None \<and>
      0 < tokens_processed r \<and> tokens_processed r \<le> 100000)"
proof (induction es arbitrary: s)
  case (Cons e es)
  show ?case
  proof (cases "\<exists>now r. e = ClaimKarma now r")
    case True
    then obtain now r where e: "e = ClaimKarma now r" by blast
    show ?thesis
    proof (cases "claim_check r s = None")
      case acc: True
      have "karma_of (coordinator_step enc e s) w =
          karma_of s w + (if w = worker_node_id r then tokens_processed r else 0)"
        and "processed_receipts (coordinator_step enc e s) = (processed_receipts s)(receipt_key r \<mapsto> now)"
        using acc by (simp_all add: e step_claim del: coordinator_step.simps)
          (simp add: claim_record_def claim_credit_def)
      moreover have "accepted_claims enc (e # es) s = r # accepted_claims enc es (coordinator_step enc e s)"
        using acc by (simp add: e)
      ultimately show ?thesis
        using Cons.IH [of "coordinator_step enc e s"] acc by (auto simp: claim_check_None split: if_splits)
    next
      case False
      then obtain err where "claim_check r s = Some err" by blast
      then have "coordinator_step enc e s = s" "accepted_claims enc (e # es) s = accepted_claims enc es s"
        by (simp_all add: e claim_karma_def)
      then show ?thesis using Cons.IH [of s] by simp
    qed
  next
    case False
    then have k: "karma (coordinator_step enc e s) = karma s"
      "processed_receipts (coordinator_step enc e s) = processed_receipts s"
      using step_other_karma [of e enc s] by auto
    then show ?thesis
      using Cons.IH [of "coordinator_step enc e s"] accepted_other [of e enc es s] False
      by (simp add: karma_of_def)
  qed
qed simp

lemma length_accepted: "length (accepted_claims enc es s) \<le> length es"
  by (induction es arbitrary: s) (auto split: coordinator_event.split intro: le_SucI)

lemma credited_le: "(\<And>r. r \<in> set rs \<Longrightarrow> tokens_processed r \<le> 100000) \<Longrightarrow> credited w rs \<le> 100000 * length rs"
  by (induction rs) (force simp: word_le_nat_alt)+

text \<open>
  C4: the karma ledger.  In any run of the server from its start with requests handled one
  at a time, and for up to 92 million million events, a worker's balance, read as the signed number it is,
  is exactly the sum of the tokens of the accepted receipts that name it; no two accepted
  receipts share a key (a replay earns nothing); and the balance never wraps or goes negative.
\<close>

theorem karma_ledger:
  fixes es :: "'j coordinator_event list"
  assumes "length es \<le> 92000000000000"
  shows "sint (karma_of (fold (coordinator_step enc) es coordinator_init) w) =
      int (credited w (accepted_claims enc es coordinator_init)) \<and>
    distinct (map receipt_key (accepted_claims enc es coordinator_init))"
proof -
  let ?rs = "accepted_claims enc es (coordinator_init :: 'j coordinator_state)"
  note run = ledger_run [of enc es "coordinator_init :: 'j coordinator_state" w]
  have "credited w ?rs \<le> 100000 * length ?rs" using run by (intro credited_le) blast
  also have "\<dots> \<le> 100000 * length es" by (simp add: length_accepted)
  finally have b: "credited w ?rs < 2 ^ 63" using assms by simp
  have "karma_of (fold (coordinator_step enc) es coordinator_init) w = of_nat (credited w ?rs)"
    using run by (simp add: karma_of_def coordinator_init_def)
  moreover have "sint (of_nat (credited w ?rs) :: i64) = int (credited w ?rs)"
    using b by (simp add: sint_uint uint_nat unat_of_nat signed_take_bit_int_eq_self)
  ultimately show ?thesis using run by simp
qed

theorem karma_ledger_witness:
  "sint (karma_of (fold (coordinator_step (\<lambda>_. []))
      [ClaimKarma 0 \<lparr>client_node_id = ''c'', worker_node_id = ''w'', tokens_processed = 70, timestamp = 1, nonce = ''n'', signature_hash = []\<rparr>,
       ClaimKarma 1 \<lparr>client_node_id = ''c'', worker_node_id = ''w'', tokens_processed = 70, timestamp = 1, nonce = ''n'', signature_hash = []\<rparr>]
      (coordinator_init :: nat coordinator_state)) ''w'') = 70"
  by (subst karma_ledger [THEN conjunct1])
    (simp_all add: step_claim claim_check_None coordinator_init_def claim_record_def claim_credit_def receipt_key_def
      del: coordinator_step.simps(6))

subsection \<open>What the ledger does not protect against\<close>

text \<open>
  The requests run concurrently, and \<open>claim_karma\<close> is not one atomic operation: it looks the
  key up, credits the worker and records the key in three separate accesses to the maps.  A
  task in flight is at one of two points, and a step is one access by one task.
\<close>

datatype claim_pc = Checked | Credited

type_synonym claim_tasks = "nat \<rightharpoonup> work_receipt \<times> claim_pc"

inductive claim_step ::
  "'j coordinator_state \<times> claim_tasks \<Rightarrow> 'j coordinator_state \<times> claim_tasks \<Rightarrow> bool" where
  begin_claim: "tasks i = None \<Longrightarrow> claim_check r s = None \<Longrightarrow>
    claim_step (s, tasks) (s, tasks(i \<mapsto> (r, Checked)))"
| credit_claim: "tasks i = Some (r, Checked) \<Longrightarrow>
    claim_step (s, tasks) (claim_credit r s, tasks(i \<mapsto> (r, Credited)))"
| record_claim: "tasks i = Some (r, Credited) \<Longrightarrow>
    claim_step (s, tasks) (claim_record now r s, tasks(i := None))"

inductive_cases claim_stepE: "claim_step (s, tasks) (s', tasks')"

abbreviation claim_run :: "'j coordinator_state \<times> claim_tasks \<Rightarrow> 'j coordinator_state \<times> claim_tasks \<Rightarrow> bool" where
  "claim_run \<equiv> claim_step\<^sup>*\<^sup>*"

lemma claim_run_trans: "claim_step a b \<Longrightarrow> claim_run b c \<Longrightarrow> claim_run a c"
  by (rule converse_rtranclp_into_rtranclp)

text \<open>Run alone, the three accesses are the handler.\<close>

lemma claim_alone:
  assumes "claim_check r s = None"
  shows "claim_run (s, Map.empty) (fst (claim_karma now r s), Map.empty)"
proof -
  have a: "claim_step (s, Map.empty) (s, [0 \<mapsto> (r, Checked)])"
    using begin_claim [of Map.empty 0 r s] assms by simp
  have b: "claim_step (s, [0 \<mapsto> (r, Checked)]) (claim_credit r s, [0 \<mapsto> (r, Credited)])"
    using credit_claim [of "[0 \<mapsto> (r, Checked)]" 0 r s] by simp
  have c: "claim_step (claim_credit r s, [0 \<mapsto> (r, Credited)]) (claim_record now r (claim_credit r s), Map.empty)"
    using record_claim [of "[0 \<mapsto> (r, Credited)]" 0 r "claim_credit r s" now] by simp
  have "claim_karma now r s = (claim_record now r (claim_credit r s), snd (claim_karma now r s))"
    using assms by (simp add: claim_karma_def Let_def)
  then show ?thesis using a b c by (metis claim_run_trans fst_conv rtranclp.rtrancl_refl)
qed

text \<open>In every interleaving, each task in flight passed the token-range check.\<close>

definition tasks_ok :: "claim_tasks \<Rightarrow> bool" where
  "tasks_ok tasks \<longleftrightarrow> (\<forall>i r pc. tasks i = Some (r, pc) \<longrightarrow> 0 < tokens_processed r \<and> tokens_processed r \<le> 100000)"

lemma claim_step_tasks_ok: "claim_step (s, tasks) (s', tasks') \<Longrightarrow> tasks_ok tasks \<Longrightarrow> tasks_ok tasks'"
  by (erule claim_stepE) (force simp: tasks_ok_def claim_check_None split: if_splits)+

lemma claim_run_tasks_ok: "claim_run x y \<Longrightarrow> tasks_ok (snd x) \<Longrightarrow> tasks_ok (snd y)"
proof (induction rule: rtranclp_induct)
  case (step y z)
  then show ?case by (metis claim_step_tasks_ok prod.collapse)
qed

text \<open>
  the replay protection of \<open>claim_karma\<close> is a check followed by a separate insert.  From
  any state in which a receipt is acceptable, two concurrent requests that carry the same
  receipt can both be accepted: there is an interleaving of their map accesses after which no
  request is in flight, the key is recorded, and the worker was credited twice.
\<close>

theorem claim_race_credits_twice:
  assumes "claim_check r s = None"
  shows "\<exists>s'. claim_run (s, Map.empty) (s', Map.empty) \<and>
    karma_of s' (worker_node_id r) = karma_of s (worker_node_id r) + tokens_processed r + tokens_processed r \<and>
    processed_receipts s' = (processed_receipts s)(receipt_key r \<mapsto> now)"
proof -
  let ?t1 = "[0 \<mapsto> (r, Checked)]" and ?t2 = "[0 \<mapsto> (r, Checked), Suc 0 \<mapsto> (r, Checked)]"
  let ?s1 = "claim_credit r s" and ?s2 = "claim_credit r (claim_credit r s)"
  have 1: "claim_step (s, Map.empty) (s, ?t1)" using begin_claim [of Map.empty 0 r s] assms by simp
  have 2: "claim_step (s, ?t1) (s, ?t2)" using begin_claim [of ?t1 "Suc 0" r s] assms by simp
  have 3: "claim_step (s, ?t2) (?s1, ?t2(0 \<mapsto> (r, Credited)))" by (rule credit_claim) simp
  have 4: "claim_step (?s1, ?t2(0 \<mapsto> (r, Credited))) (?s2, ?t2(0 \<mapsto> (r, Credited), Suc 0 \<mapsto> (r, Credited)))"
    by (rule credit_claim) simp
  have 5: "claim_step (?s2, ?t2(0 \<mapsto> (r, Credited), Suc 0 \<mapsto> (r, Credited)))
      (claim_record now r ?s2, ?t2(0 \<mapsto> (r, Credited), Suc 0 \<mapsto> (r, Credited), 0 := None))"
    by (rule record_claim) simp
  have 6: "claim_step (claim_record now r ?s2, ?t2(0 \<mapsto> (r, Credited), Suc 0 \<mapsto> (r, Credited), 0 := None))
      (claim_record now r (claim_record now r ?s2),
       ?t2(0 \<mapsto> (r, Credited), Suc 0 \<mapsto> (r, Credited), 0 := None, Suc 0 := None))"
    by (rule record_claim) simp
  have e: "?t2(0 \<mapsto> (r, Credited), Suc 0 \<mapsto> (r, Credited), 0 := None, Suc 0 := None) = Map.empty"
    by (simp add: fun_eq_iff)
  have "claim_run (s, Map.empty) (claim_record now r (claim_record now r ?s2), Map.empty)"
    using 1 2 3 4 5 6 unfolding e by (meson claim_run_trans rtranclp.rtrancl_refl)
  moreover have "karma_of (claim_record now r (claim_record now r ?s2)) (worker_node_id r) =
      karma_of s (worker_node_id r) + tokens_processed r + tokens_processed r" by simp
  moreover have "processed_receipts (claim_record now r (claim_record now r ?s2)) =
      (processed_receipts s)(receipt_key r \<mapsto> now)"
    by (simp add: claim_record_def claim_credit_def)
  ultimately show ?thesis by blast
qed

definition sample_receipt :: "nat \<Rightarrow> work_receipt" where
  "sample_receipt n = \<lparr>client_node_id = ''c'', worker_node_id = ''w'', tokens_processed = 5000,
     timestamp = 0, nonce = show_nat n, signature_hash = []\<rparr>"

theorem claim_race_credits_twice_witness:
  "\<exists>s' :: nat coordinator_state. claim_run (coordinator_init, Map.empty) (s', Map.empty) \<and>
     karma_of s' ''w'' = 10000 \<and>
     processed_receipts s' = [receipt_key (sample_receipt 1) \<mapsto> 7]"
  using claim_race_credits_twice [of "sample_receipt 1" "coordinator_init :: nat coordinator_state" 7]
  by (simp add: claim_check_None coordinator_init_def sample_receipt_def karma_of_def)

text \<open>Receipts with distinct nonces and otherwise equal fields have distinct keys.\<close>

lemma receipt_key_nonce: "receipt_key (r\<lparr>nonce := a\<rparr>) = receipt_key (r\<lparr>nonce := b\<rparr>) \<longleftrightarrow> a = b"
  by (simp add: receipt_key_def)

lemma fresh_nonce:
  assumes "finite (dom (processed_receipts s))"
  obtains a where "processed_receipts s (receipt_key (r\<lparr>nonce := a\<rparr>)) = None"
proof -
  have "inj (\<lambda>n. receipt_key (r\<lparr>nonce := show_nat n\<rparr>))"
    by (rule injI) (simp add: receipt_key_nonce show_nat_inj)
  then have "infinite (range (\<lambda>n. receipt_key (r\<lparr>nonce := show_nat n\<rparr>)))"
    using finite_imageD infinite_UNIV_nat by blast
  then obtain n where "receipt_key (r\<lparr>nonce := show_nat n\<rparr>) \<notin> dom (processed_receipts s)"
    using assms by (meson finite_subset image_subsetI)
  then show ?thesis using that by auto
qed

text \<open>
  a karma claim is not authenticated.  In every state with finitely many recorded receipts, for
  every worker id \<open>w\<close>, every client id (registered or not) and every contents of the
  signature field, some \<open>n\<close> claims that carry just these are all accepted, so \<open>w\<close> gains
  \<open>5000 n\<close> karma: the receipts' \<open>signature_hash\<close> is never looked at.
\<close>

theorem karma_farming:
  assumes "finite (dom (processed_receipts s))"
  shows "\<exists>rs. length rs = n \<and>
    (\<forall>r \<in> set rs. client_node_id r = c \<and> worker_node_id r = w \<and> signature_hash r = h \<and> tokens_processed r = 5000) \<and>
    accepted_claims enc (map (ClaimKarma now) rs) s = rs \<and>
    karma_of (fold (coordinator_step enc) (map (ClaimKarma now) rs) s) w = karma_of s w + of_nat (5000 * n)"
  using assms
proof (induction n arbitrary: s)
  case 0
  show ?case by (rule exI [of _ "[]"]) simp
next
  case (Suc n)
  let ?r0 = "\<lparr>client_node_id = c, worker_node_id = w, tokens_processed = 5000, timestamp = 0,
    nonce = [], signature_hash = h\<rparr>"
  obtain a where a: "processed_receipts s (receipt_key (?r0\<lparr>nonce := a\<rparr>)) = None"
    using fresh_nonce [OF Suc.prems] by blast
  define r where "r = ?r0\<lparr>nonce := a\<rparr>"
  have ok: "claim_check r s = None" using a by (simp add: claim_check_None r_def)
  define s1 where "s1 = coordinator_step enc (ClaimKarma now r) s"
  have s1: "s1 = claim_record now r (claim_credit r s)"
    unfolding s1_def step_claim using ok by simp
  have "finite (dom (processed_receipts s1))"
    using Suc.prems by (simp add: s1 claim_record_def claim_credit_def)
  from Suc.IH [OF this] obtain rs where rs: "length rs = n"
    "\<forall>r \<in> set rs. client_node_id r = c \<and> worker_node_id r = w \<and> signature_hash r = h \<and> tokens_processed r = 5000"
    "accepted_claims enc (map (ClaimKarma now) rs) s1 = rs"
    "karma_of (fold (coordinator_step enc) (map (ClaimKarma now) rs) s1) w = karma_of s1 w + of_nat (5000 * n)"
    by blast
  have "karma_of s1 w = karma_of s w + 5000" by (simp add: s1 r_def)
  moreover have "accepted_claims enc (map (ClaimKarma now) (r # rs)) s = r # rs"
    using ok rs(3) by (simp add: s1_def del: coordinator_step.simps)
  ultimately show ?case
    using rs by (intro exI [of _ "r # rs"])
      (simp add: s1_def [symmetric] del: coordinator_step.simps, simp add: r_def)
qed

theorem karma_farming_witness:
  "\<exists>rs. length rs = 3 \<and>
    (\<forall>r \<in> set rs. client_node_id r = ''nobody'' \<and> worker_node_id r = ''me'' \<and> signature_hash r = ''junk'' \<and> tokens_processed r = 5000) \<and>
    accepted_claims (\<lambda>_. []) (map (ClaimKarma 0) rs) (coordinator_init :: nat coordinator_state) = rs \<and>
    karma_of (fold (coordinator_step (\<lambda>_. [])) (map (ClaimKarma 0) rs) (coordinator_init :: nat coordinator_state)) ''me'' = 15000"
  using karma_farming [of "coordinator_init :: nat coordinator_state" 3 "''nobody''" "''me''" "''junk''" "\<lambda>_. []" 0]
  by (simp add: coordinator_init_def karma_of_def)

lemma split_at_colon:
  assumes "CHR '':'' \<notin> set a" and "CHR '':'' \<notin> set c" and "a @ CHR '':'' # b = c @ CHR '':'' # d"
  shows "a = c \<and> b = d"
  using assms by (induction a arbitrary: c) (auto simp: Cons_eq_append_conv append_eq_Cons_conv)

text \<open>
  the replay key of a receipt joins client, nonce and timestamp with colons.  When neither
  ids nor nonces contain a colon the key determines all three; when they may, two different
  clients' receipts can have the same key, so that one client's claim blocks the other's.
\<close>

theorem receipt_key_injective_without_colons:
  "(\<forall>r r'. CHR '':'' \<notin> set (client_node_id r @ client_node_id r' @ nonce r @ nonce r') \<longrightarrow>
      receipt_key r = receipt_key r' \<longrightarrow>
      client_node_id r = client_node_id r' \<and> nonce r = nonce r' \<and> timestamp r = timestamp r') \<and>
   (\<exists>r r'. client_node_id r \<noteq> client_node_id r' \<and> receipt_key r = receipt_key r')"
proof (intro conjI allI impI)
  fix r r' assume col: "CHR '':'' \<notin> set (client_node_id r @ client_node_id r' @ nonce r @ nonce r')"
    and eq: "receipt_key r = receipt_key r'"
  have 1: "client_node_id r = client_node_id r' \<and>
      nonce r @ CHR '':'' # show_nat (unat (timestamp r)) = nonce r' @ CHR '':'' # show_nat (unat (timestamp r'))"
    by (rule split_at_colon) (use col eq in \<open>simp_all add: receipt_key_def\<close>)
  have 2: "nonce r = nonce r' \<and> show_nat (unat (timestamp r)) = show_nat (unat (timestamp r'))"
    by (rule split_at_colon) (use col 1 in simp_all)
  from 1 2 show "client_node_id r = client_node_id r'" "nonce r = nonce r'" "timestamp r = timestamp r'"
    by (simp_all add: show_nat_inj word_unat_eq_iff)
next
  show "\<exists>r r'. client_node_id r \<noteq> client_node_id r' \<and> receipt_key r = receipt_key r'"
    by (rule exI [of _ "(sample_receipt 0)\<lparr>client_node_id := ''a'', nonce := ''b:c''\<rparr>"],
        rule exI [of _ "(sample_receipt 0)\<lparr>client_node_id := ''a:b'', nonce := ''c''\<rparr>"])
      (simp add: receipt_key_def)
qed

subsection \<open>Queries\<close>

lemma list_peers_order:
  "iter_order ks (nodes s) \<Longrightarrow> iter_order ks' (nodes s) \<Longrightarrow>
   mset (list_peers ks q s) = mset (list_peers ks' q s)"
  using entries_mset [of ks "nodes s" ks'] by (simp add: list_peers_def Let_def)

text \<open>
  matchmaking ranks every registered node exactly once, whatever the iteration order of
  the registry, by karma from high to low, and tells the requester the size of the network.
\<close>

theorem matchmake_ranks_all:
  assumes "iter_order ks (nodes s)"
  shows "mset (ranked_peers (matchmake enc ks req s)) =
      image_mset (\<lambda>(_, e). (to_hex enc (node_id (info e)), addr (info e), karma_of s (to_hex enc (node_id (info e)))))
        (mset (entries ks (nodes s))) \<and>
    sorted_wrt (\<lambda>(_, _, a) (_, _, b). sint b \<le> sint a) (ranked_peers (matchmake enc ks req s)) \<and>
    total_peers_in_swarm (matchmake enc ks req s) = card (dom (nodes s))"
proof -
  let ?rank = "map (\<lambda>(_, e). let p = info e; i = to_hex enc (node_id p) in (i, addr p, karma_of s i)) (entries ks (nodes s))"
  have "sorted_wrt (\<lambda>x y. \<not> sint (snd (snd x)) < sint (snd (snd y)))
      (sort_by (\<lambda>a b. sint (snd (snd a)) < sint (snd (snd b))) ?rank)"
    by (rule sorted_sort_by) auto
  then have "sorted_wrt (\<lambda>(_, _, a) (_, _, b). sint b \<le> sint a) (ranked_peers (matchmake enc ks req s))"
    by (simp add: matchmake_def Let_def not_less split_def)
  moreover have "total_peers_in_swarm (matchmake enc ks req s) = card (dom (nodes s))"
    using assms by (simp add: matchmake_def Let_def length_entries iter_order_length) (simp add: iter_order_def length_entries iter_order_length)
  ultimately show ?thesis
    by (simp add: matchmake_def Let_def split_def flip: mset_map)
qed

definition sample_network :: "nat coordinator_state" where
  "sample_network = coordinator_init\<lparr>
     nodes := [''a'' \<mapsto> \<lparr>info = sample_peer 97 1 0, last_seen = 0\<rparr>, ''b'' \<mapsto> \<lparr>info = sample_peer 98 1 0, last_seen = 0\<rparr>],
     karma := [''b'' \<mapsto> 9]\<rparr>"

theorem matchmake_ranks_all_witness:
  "iter_order [''a'', ''b''] (nodes sample_network) \<and>
   total_peers_in_swarm (matchmake (\<lambda>b. map (\<lambda>w. char_of (unat w)) b) [''a'', ''b'']
     \<lparr>req_node_id = ''a'', total_vram_bytes = None, total_ram_bytes = None, preferred_model = None\<rparr> sample_network) = 2"
proof -
  have o: "iter_order [''a'', ''b''] (nodes sample_network)"
    by (auto simp: iter_order_def sample_network_def)
  have "card (dom (nodes sample_network)) = 2"
    using iter_order_length [OF o] by simp
  with o matchmake_ranks_all [OF o] show ?thesis by simp
qed

subsection \<open>Further concrete runs\<close>

theorem claim_karma_spec_witness:
  "karma_of (fst (claim_karma 7 (sample_receipt 1) (coordinator_init :: nat coordinator_state))) ''w'' = 5000"
proof -
  have c: "claim_check (sample_receipt 1) (coordinator_init :: nat coordinator_state) = None"
    by (simp add: claim_check_None coordinator_init_def sample_receipt_def)
  show ?thesis
    using claim_karma_spec [where now = 7 and r = "sample_receipt 1" and s = "coordinator_init :: nat coordinator_state"] c
    by (simp add: claim_karma_def Let_def del: karma_of_record karma_of_credit)
      (simp add: karma_of_def coordinator_init_def sample_receipt_def)
qed

theorem receipt_key_injective_without_colons_witness:
  "receipt_key (sample_receipt 1) \<noteq> receipt_key (sample_receipt 2)"
proof
  assume eq: "receipt_key (sample_receipt 1) = receipt_key (sample_receipt 2)"
  have "CHR '':'' \<notin> set (show_nat n)" for n by (auto dest: show_nat_digits)
  then have "nonce (sample_receipt 1) = nonce (sample_receipt 2)"
    using receipt_key_injective_without_colons [THEN conjunct1, rule_format, of "sample_receipt 1" "sample_receipt 2"] eq
    by (simp add: sample_receipt_def)
  then show False by (simp add: sample_receipt_def show_nat_inj)
qed

theorem coordinator_reachable_inv_witness:
  "length (mailbox_queue (fold (coordinator_step (\<lambda>_. []))
     [SendSignal \<lparr>from_node = ''x'', to_node = ''y'', signal_type = ''c'', payload = (1::nat)\<rparr>] coordinator_init) ''y'') = 1 \<and>
   to_node (hd (mailbox_queue (fold (coordinator_step (\<lambda>_. []))
     [SendSignal \<lparr>from_node = ''x'', to_node = ''y'', signal_type = ''c'', payload = (1::nat)\<rparr>] coordinator_init) ''y'')) = ''y''"
proof -
  let ?s = "fold (coordinator_step (\<lambda>_. []))
     [SendSignal \<lparr>from_node = ''x'', to_node = ''y'', signal_type = ''c'', payload = (1::nat)\<rparr>] coordinator_init"
  have l: "length (mailbox_queue ?s ''y'') = 1"
    by (simp add: mailbox_queue_def handler_defs coordinator_init_def)
  then have "hd (mailbox_queue ?s ''y'') \<in> set (mailbox_queue ?s ''y'')" by (cases "mailbox_queue ?s ''y''") simp_all
  then show ?thesis using l coordinator_reachable_inv [THEN conjunct2, THEN conjunct1] by blast
qed

end
