(* ===== verification/Reputation.thy ===== *)
theory Reputation
  imports MeshTypes
begin

section \<open>Peer reputation\<close>

text \<open>
  \<open>crates/hivebear-mesh/src/trust/reputation.rs\<close>.  The exponential of the C library, whose
  last bits Rust leaves unspecified, is the argument \<open>fexp\<close>; what is used of it is that a
  non-positive argument gives a value in the unit interval and that zero gives one.  The clock is read twice
  by every update (\<open>t1\<close> for the time stamp, \<open>t2\<close> for the age).  The disk is the contents of the
  file at \<open>storage_path\<close>; the JSON writer and reader of \<open>serde_json\<close> and the write to the file system
  (which may fail and leave anything in the file) are arguments too, collected in \<open>rep_env\<close>.
\<close>

record reputation_record =
  score_value :: f64
  verifications_passed :: u64
  verifications_failed :: u64
  uptime_seconds :: u64
  avg_latency_variance_ms :: f64
  rep_last_seen :: u64

definition default_record :: reputation_record where
  "default_record = \<lparr>score_value = lit (5/10), verifications_passed = 0, verifications_failed = 0,
     uptime_seconds = 0, avg_latency_variance_ms = Fin 0, rep_last_seen = 0\<rparr>"

type_synonym scores = "u8 list \<rightharpoonup> reputation_record"

record reputation_manager =
  scores :: scores
  storage_path :: "string option"

record rep_env =
  fexp :: "f64 \<Rightarrow> f64"
  to_json :: "scores \<Rightarrow> string option"
  of_json :: "string \<Rightarrow> scores option"
  write_file :: "string \<Rightarrow> string option \<Rightarrow> string option"

definition BAN_THRESHOLD :: f64 where "BAN_THRESHOLD = lit (2/10)"

definition DECAY_HALF_LIFE_SECS :: f64 where
  "DECAY_HALF_LIFE_SECS = Fin 7 * Fin 24 * Fin 3600"

definition LN_2 :: f64 where
  "LN_2 = lit (693147180559945309417232121458 / 1000000000000000000000000000000)"

definition score :: "reputation_manager \<Rightarrow> node_id \<Rightarrow> f64" where
  "score mgr nid = (case scores mgr (key_bytes nid) of None \<Rightarrow> lit (5/10) | Some r \<Rightarrow> score_value r)"

definition is_banned :: "reputation_manager \<Rightarrow> node_id \<Rightarrow> bool" where
  "is_banned mgr nid \<longleftrightarrow> score mgr nid < BAN_THRESHOLD"

text \<open>The three parts of the score: verification rate, uptime bonus, and their weighted sum.\<close>

definition verification_rate :: "reputation_record \<Rightarrow> f64" where
  "verification_rate r =
    (let total = verifications_passed r + verifications_failed r in
     if 0 < total then f64_of_u64 (verifications_passed r) / f64_of_u64 total else lit (5/10))"

definition base_score :: "reputation_record \<Rightarrow> f64" where
  "base_score r =
    (let uptime_bonus = f_min (f64_of_u64 (uptime_seconds r) / Fin 86400) (Fin 1) * lit (1/10)
     in verification_rate r * lit (8/10) + uptime_bonus + lit (1/10))"

definition recalculated :: "rep_env \<Rightarrow> u64 \<Rightarrow> reputation_record \<Rightarrow> reputation_record" where
  "recalculated e t2 r =
    (let age_secs = f64_of_u64 (saturating_sub t2 (rep_last_seen r));
         decay = fexp e ((- age_secs) / DECAY_HALF_LIFE_SECS * LN_2);
         s = base_score r * decay + lit (5/10) * (Fin 1 - decay)
     in r\<lparr>score_value := f_clamp (Fin 0) (Fin 1) s\<rparr>)"

definition recalculate_score :: "rep_env \<Rightarrow> u64 \<Rightarrow> node_id \<Rightarrow> reputation_manager \<Rightarrow> reputation_manager" where
  "recalculate_score e t2 nid mgr =
    (case scores mgr (key_bytes nid) of None \<Rightarrow> mgr
     | Some r \<Rightarrow> mgr\<lparr>scores := (scores mgr)(key_bytes nid \<mapsto> recalculated e t2 r)\<rparr>)"

subsection \<open>Persistence\<close>

definition save :: "rep_env \<Rightarrow> reputation_manager \<Rightarrow> string option \<Rightarrow> string option" where
  "save e mgr disk =
    (case storage_path mgr of None \<Rightarrow> disk
     | Some _ \<Rightarrow> (case to_json e (scores mgr) of Some data \<Rightarrow> write_file e data disk | None \<Rightarrow> disk))"

definition load :: "rep_env \<Rightarrow> string option \<Rightarrow> reputation_manager \<Rightarrow> reputation_manager" where
  "load e disk mgr =
    (case storage_path mgr of None \<Rightarrow> mgr
     | Some _ \<Rightarrow> (case disk of None \<Rightarrow> mgr
       | Some data \<Rightarrow> (case of_json e data of Some sc \<Rightarrow> mgr\<lparr>scores := sc\<rparr> | None \<Rightarrow> mgr)))"

definition new_manager :: "rep_env \<Rightarrow> string option \<Rightarrow> string option \<Rightarrow> reputation_manager" where
  "new_manager e disk path = load e disk \<lparr>scores = Map.empty, storage_path = path\<rparr>"

subsection \<open>Updates\<close>

text \<open>Each returns the new manager and the new contents of the disk.\<close>

definition entry_or_default :: "reputation_manager \<Rightarrow> node_id \<Rightarrow> reputation_record" where
  "entry_or_default mgr nid = (case scores mgr (key_bytes nid) of None \<Rightarrow> default_record | Some r \<Rightarrow> r)"

definition counted :: "bool \<Rightarrow> reputation_record \<Rightarrow> reputation_record" where
  "counted passed r =
    (if passed then r\<lparr>verifications_passed := verifications_passed r + 1\<rparr>
     else r\<lparr>verifications_failed := verifications_failed r + 1\<rparr>)"

definition record_verification ::
  "rep_env \<Rightarrow> u64 \<Rightarrow> u64 \<Rightarrow> node_id \<Rightarrow> bool \<Rightarrow>
   reputation_manager \<times> string option \<Rightarrow> reputation_manager \<times> string option" where
  "record_verification e t1 t2 nid passed st =
    (let (mgr, disk) = st;
         r = entry_or_default mgr nid;
         r1 = counted passed r;
         mgr1 = mgr\<lparr>scores := (scores mgr)(key_bytes nid \<mapsto> r1\<lparr>rep_last_seen := t1\<rparr>)\<rparr>;
         mgr2 = recalculate_score e t2 nid mgr1
     in (mgr2, save e mgr2 disk))"

definition record_uptime ::
  "rep_env \<Rightarrow> u64 \<Rightarrow> u64 \<Rightarrow> node_id \<Rightarrow> u64 \<Rightarrow>
   reputation_manager \<times> string option \<Rightarrow> reputation_manager \<times> string option" where
  "record_uptime e t1 t2 nid seconds st =
    (let (mgr, disk) = st;
         r = entry_or_default mgr nid;
         mgr1 = mgr\<lparr>scores := (scores mgr)(key_bytes nid \<mapsto>
           r\<lparr>uptime_seconds := uptime_seconds r + seconds, rep_last_seen := t1\<rparr>)\<rparr>;
         mgr2 = recalculate_score e t2 nid mgr1
     in (mgr2, save e mgr2 disk))"

definition all_records :: "u8 list list \<Rightarrow> reputation_manager \<Rightarrow> (u8 list \<times> reputation_record) list" where
  "all_records ks mgr = entries ks (scores mgr)"

datatype reputation_event =
  Verification u64 u64 node_id bool
| Uptime u64 u64 node_id u64

fun reputation_step ::
  "rep_env \<Rightarrow> reputation_event \<Rightarrow>
   reputation_manager \<times> string option \<Rightarrow> reputation_manager \<times> string option" where
  "reputation_step e (Verification t1 t2 nid passed) st = record_verification e t1 t2 nid passed st"
| "reputation_step e (Uptime t1 t2 nid secs) st = record_uptime e t1 t2 nid secs st"

subsection \<open>Scores stay in the unit interval\<close>

definition exp_contract :: "(f64 \<Rightarrow> f64) \<Rightarrow> bool" where
  "exp_contract ex \<longleftrightarrow> ex (Fin 0) = Fin 1 \<and>
     (\<forall>x \<le> 0. \<exists>y. ex (Fin x) = Fin y \<and> 0 \<le> y \<and> y \<le> 1 \<and> fround y = Fin y)"

lemma fbounded_lits [fbounds]:
  "fbounded 0 (lit (1/10))" "fbounded 0 (lit (2/10))" "fbounded 0 (lit (5/10))" "fbounded 0 (lit (8/10))"
  by (rule fbounded_fround; simp add: pow2_def)+

lemma verification_rate_bounded: "fbounded 64 (verification_rate r)"
proof -
  have h: "fbounded 64 (lit (5/10))" by (rule fbounded_mono [OF fbounded_lits(3)]) simp
  have d: "fbounded 64 (f64_of_u64 p / f64_of_u64 t)" if "0 < t" for p t
    using f64_of_u64_pos [OF that] fbounded_div [OF fbounded_u64 [of p]] by auto
  show ?thesis using h d by (simp add: verification_rate_def Let_def)
qed

lemma uptime_bonus_bounded: "fbounded 0 (f_min (f64_of_u64 u / Fin 86400) (Fin 1) * lit (1/10))"
proof -
  obtain x where x: "f64_of_u64 u / Fin 86400 = Fin x" and b: "fbounded 64 (f64_of_u64 u / Fin 86400)"
    using fbounded_div [OF fbounded_u64, of "Fin 86400" 86400] fbounded_Fin by fastforce
  obtain y where y: "f64_of_u64 u = Fin y" "y = fval (of_nat (unat u))"
    using fbounded_Fin [OF fbounded_u64 [of u]] by (auto simp: f64_of_u64_def fround_fval split: if_splits)
  have "0 \<le> y" unfolding y(2) by (rule fval_nonneg) (rule of_nat_0_le_iff)
  then have "0 \<le> x"
    using x fval_nonneg [of "y / 86400"] by (auto simp: y(1) divide_f64_def fround_fval split: if_splits)
  then have "fbounded 0 (f_min (Fin x) (Fin 1))"
    using b fround_of_int [of 1] by (auto simp: x f_min_def fbounded_def pow2_def)
  then show ?thesis using fbounded_mult [of 0 _ 0 "lit (1/10)"] fbounded_lits by (simp add: x)
qed

lemma base_score_bounded: "fbounded 66 (base_score r)"
proof -
  have 1: "fbounded 64 (verification_rate r * lit (8/10))"
    using fbounded_mult [OF verification_rate_bounded fbounded_lits(4)] by simp
  have 2: "fbounded 64 (f_min (f64_of_u64 (uptime_seconds r) / Fin 86400) (Fin 1) * lit (1/10))"
    using fbounded_mono [OF uptime_bonus_bounded] by simp
  have 3: "fbounded 65 (lit (1/10))" using fbounded_mono [OF fbounded_lits(1)] by simp
  show ?thesis
    using fbounded_add [OF fbounded_add [OF 1 2] _] 3 by (simp add: base_score_def Let_def)
qed

lemma neg_age: "\<exists>x \<le> 0. (- f64_of_u64 a) / DECAY_HALF_LIFE_SECS * LN_2 = Fin x \<and> (a = 0 \<longrightarrow> x = 0)"
proof -
  have h: "DECAY_HALF_LIFE_SECS = Fin 604800"
    using fround_of_int [of 168] fround_of_int [of 604800] by (simp add: DECAY_HALF_LIFE_SECS_def times_f64_def)
  obtain l where l: "LN_2 = Fin l" "0 \<le> l" "fbounded 0 LN_2"
    using fbounded_fround [of "693147180559945309417232121458 / 1000000000000000000000000000000" 0]
      fval_nonneg [of "693147180559945309417232121458 / 1000000000000000000000000000000"]
    by (auto simp: LN_2_def pow2_def fbounded_def fround_fval split: if_splits)
  obtain y where y: "f64_of_u64 a = Fin y" "y = fval (of_nat (unat a))"
    using fbounded_Fin [OF fbounded_u64 [of a]] by (auto simp: f64_of_u64_def fround_fval split: if_splits)
  have y0: "0 \<le> y" "a = 0 \<longrightarrow> y = 0" unfolding y(2) by (rule fval_nonneg, rule of_nat_0_le_iff) simp
  have b: "fbounded 64 ((- f64_of_u64 a) / Fin 604800)"
    using fbounded_div [OF fbounded_neg [OF fbounded_u64 [of a]], of "Fin 604800" 604800] by simp
  then obtain q where q: "(- f64_of_u64 a) / Fin 604800 = Fin q" using fbounded_Fin by blast
  have "fbounded 64 (Fin q * Fin l)" using fbounded_mult [OF b l(3)] by (simp add: q l(1))
  then obtain x where x: "Fin q * Fin l = Fin x" using fbounded_Fin by blast
  have qv: "q = fval (- y / 604800)"
    using q by (auto simp: y uminus_f64_def divide_f64_def fround_fval split: if_splits)
  have "0 \<le> fval (y / 604800)" using y0(1) by (intro fval_nonneg) simp
  then have q0: "q \<le> 0" "a = 0 \<longrightarrow> q = 0" using y0(2) fval_minus [of "y / 604800"] by (auto simp: qv)
  have xv: "x = fval (q * l)" using x by (auto simp: times_f64_def fround_fval split: if_splits)
  have "0 \<le> fval (- (q * l))" using q0(1) l(2) by (intro fval_nonneg) (simp add: mult_nonpos_nonneg)
  then have "x \<le> 0" "a = 0 \<longrightarrow> x = 0" using q0(2) by (auto simp: xv fval_minus)
  then show ?thesis using h q x l(1) by auto
qed

lemma recalculated_range:
  assumes "exp_contract (fexp e)"
  shows "\<exists>y. score_value (recalculated e t2 r) = Fin y \<and> 0 \<le> y \<and> y \<le> 1"
proof -
  let ?a = "(- f64_of_u64 (saturating_sub t2 (rep_last_seen r))) / DECAY_HALF_LIFE_SECS * LN_2"
  obtain x where x: "x \<le> 0" "?a = Fin x" using neg_age by blast
  then obtain d where d: "fexp e ?a = Fin d" "0 \<le> d" "d \<le> 1" "fround d = Fin d"
    using assms by (auto simp: exp_contract_def)
  have bd: "fbounded 0 (Fin d)" using d by (simp add: fbounded_def pow2_def)
  have b1: "fbounded 0 (Fin 1)" using fround_of_int [of 1] by (simp add: fbounded_def pow2_def)
  have 1: "fbounded 66 (base_score r * Fin d)" using fbounded_mult [OF base_score_bounded bd] by simp
  have 2: "fbounded 1 (lit (5/10) * (Fin 1 - Fin d))"
    using fbounded_mult [OF fbounded_lits(3) fbounded_diff [OF b1 bd]] by simp
  have "fbounded 67 (base_score r * Fin d + lit (5/10) * (Fin 1 - Fin d))"
    using fbounded_add [OF 1 fbounded_mono [OF 2]] by simp
  then obtain z where z: "base_score r * Fin d + lit (5/10) * (Fin 1 - Fin d) = Fin z"
    using fbounded_Fin by blast
  have "score_value (recalculated e t2 r) = f_clamp (Fin 0) (Fin 1) (Fin z)"
    unfolding recalculated_def Let_def d(1) z by simp
  then show ?thesis by (auto simp: f_clamp_def)
qed

subsection \<open>Ageing never takes effect\<close>

text \<open>Every caller of \<open>recalculate_score\<close> has just set the time stamp, so the age is zero unless the
  clock ticks over a second between the two readings, and the decay factor is one.\<close>

lemma base_score_cong [simp]: "base_score (r\<lparr>rep_last_seen := t\<rparr>) = base_score r"
  by (simp add: base_score_def verification_rate_def Let_def cong: if_cong)

lemma recalculated_now:
  assumes "exp_contract (fexp e)" "t2 \<le> rep_last_seen r"
  shows "score_value (recalculated e t2 r) = f_clamp (Fin 0) (Fin 1) (base_score r)"
proof -
  have a: "saturating_sub t2 (rep_last_seen r) = 0"
    using assms(2) by (auto simp: saturating_sub_def)
  have d: "fexp e ((- f64_of_u64 0) / DECAY_HALF_LIFE_SECS * LN_2) = Fin 1"
    using neg_age [of 0] assms(1) by (auto simp: exp_contract_def)
  obtain b where b: "base_score r = Fin b" "fval b = b"
    using base_score_bounded [of r] by (auto simp: fbounded_def fround_fval split: if_splits)
  have z: "Fin 1 - Fin 1 = (Fin 0 :: f64)" by code_simp
  obtain h where h: "lit (5/10) = Fin h" using fbounded_Fin [OF fbounded_lits(3)] by blast
  have fb: "fround b = Fin b"
    using base_score_bounded [of r] b by (auto simp: fbounded_def)
  have "Fin b * Fin 1 + Fin h * Fin 0 = (Fin b :: f64)"
    using fb fround_of_int [of 0] by (simp add: times_f64_def plus_f64_def)
  then have "base_score r * Fin 1 + lit (5/10) * (Fin 1 - Fin 1) = base_score r"
    unfolding z h b(1) .
  then show ?thesis
    unfolding recalculated_def Let_def a d by simp
qed

text \<open>The record an update leaves under the key of the peer.\<close>

definition updated :: "rep_env \<Rightarrow> u64 \<Rightarrow> u64 \<Rightarrow> (reputation_record \<Rightarrow> reputation_record) \<Rightarrow> node_id \<Rightarrow>
    reputation_manager \<Rightarrow> reputation_record" where
  "updated e t1 t2 f nid mgr = recalculated e t2
     (f (entry_or_default mgr nid)\<lparr>rep_last_seen := t1\<rparr>)"

lemma record_verification_scores:
  "scores (fst (record_verification e t1 t2 nid p st)) =
     (scores (fst st))(key_bytes nid \<mapsto> updated e t1 t2 (counted p) nid (fst st))"
  by (auto simp: record_verification_def recalculate_score_def updated_def Let_def split: prod.splits option.splits)

lemma record_uptime_scores:
  "scores (fst (record_uptime e t1 t2 nid s st)) =
     (scores (fst st))(key_bytes nid \<mapsto> updated e t1 t2
        (\<lambda>r. r\<lparr>uptime_seconds := uptime_seconds r + s\<rparr>) nid (fst st))"
  by (auto simp: record_uptime_def recalculate_score_def updated_def Let_def split: prod.splits option.splits)

lemma updates_path [simp]:
  "storage_path (fst (record_verification e t1 t2 nid p st)) = storage_path (fst st)"
  "storage_path (fst (record_uptime e t1 t2 nid s st)) = storage_path (fst st)"
  by (auto simp: record_verification_def record_uptime_def recalculate_score_def Let_def split: prod.splits option.splits)

lemma updates_disk:
  "snd (record_verification e t1 t2 nid p st) = save e (fst (record_verification e t1 t2 nid p st)) (snd st)"
  "snd (record_uptime e t1 t2 nid s st) = save e (fst (record_uptime e t1 t2 nid s st)) (snd st)"
  by (auto simp: record_verification_def record_uptime_def Let_def split: prod.splits)

definition scores_in_range :: "reputation_manager \<Rightarrow> bool" where
  "scores_in_range mgr \<longleftrightarrow>
     (\<forall>r \<in> ran (scores mgr). \<exists>y. score_value r = Fin y \<and> 0 \<le> y \<and> y \<le> 1)"

lemma updated_in_range:
  "exp_contract (fexp e) \<Longrightarrow> \<exists>y. score_value (updated e t1 t2 f nid mgr) = Fin y \<and> 0 \<le> y \<and> y \<le> 1"
  unfolding updated_def by (rule recalculated_range)

lemma scores_in_range_upd:
  assumes "scores_in_range mgr" "scores mgr' = (scores mgr)(k \<mapsto> r)"
    "\<exists>y. score_value r = Fin y \<and> 0 \<le> y \<and> y \<le> 1"
  shows "scores_in_range mgr'"
  using assms by (auto simp: scores_in_range_def ran_def split: if_splits)

lemma reputation_step_range:
  "exp_contract (fexp e) \<Longrightarrow> scores_in_range (fst st) \<Longrightarrow> scores_in_range (fst (reputation_step e ev st))"
  by (cases ev)
     (auto intro!: scores_in_range_upd [OF _ record_verification_scores updated_in_range]
        scores_in_range_upd [OF _ record_uptime_scores updated_in_range])

definition run_events :: "rep_env \<Rightarrow> reputation_event list \<Rightarrow>
    reputation_manager \<times> string option \<Rightarrow> reputation_manager \<times> string option" where
  "run_events e evs st = fold (reputation_step e) evs st"

interpretation rep: inv_system
  "(\<lparr>scores = Map.empty, storage_path = path\<rparr>, disk)" "reputation_step e"
  "\<lambda>st. exp_contract (fexp e) \<longrightarrow> scores_in_range (fst st)" for path disk e
  by unfold_locales (simp_all add: scores_in_range_def [of "\<lparr>scores = Map.empty, storage_path = path\<rparr>" for path] reputation_step_range)

definition half_exp :: "f64 \<Rightarrow> f64" where
  "half_exp x = (case x of Fin v \<Rightarrow> if v = 0 then Fin 1 else if v \<le> 0 then Fin (1/2) else PInf | _ \<Rightarrow> PInf)"

lemma half_exp_contract: "exp_contract half_exp"
proof -
  have "fround (1/2) = Fin (1/2)" "fround 1 = Fin 1" by code_simp+
  then show ?thesis by (auto simp: exp_contract_def half_exp_def intro: exI [of _ "1/2"])
qed

definition half_env :: rep_env where
  "half_env = \<lparr>fexp = half_exp, to_json = (\<lambda>_. None), of_json = (\<lambda>_. None), write_file = (\<lambda>d _. Some d)\<rparr>"

lemma half_env_contract [simp]: "exp_contract (fexp half_env)"
  by (simp add: half_env_def half_exp_contract)

text \<open>
  Whatever sequence of verification results and uptime reports is recorded, every stored score is a
  number of the unit interval: no NaN, no infinity.
\<close>
theorem scores_always_in_range:
  assumes "exp_contract (fexp e)" "scores_in_range (fst st)"
  shows "scores_in_range (fst (run_events e evs st))"
  using rep.invar_run [of e st evs] assms by (simp add: run_events_def)

lemma scores_always_in_range_witness:
  "scores_in_range (fst (run_events half_env
     [Verification 7 8 (NodeId [1]) False, Uptime 9 9 (NodeId [2]) 100000, Verification 9 9 (NodeId [1]) True]
     (\<lparr>scores = Map.empty, storage_path = None\<rparr>, None)))"
  by (rule scores_always_in_range) (simp_all add: scores_in_range_def)

text \<open>
  When the clock does not advance a second between its two readings, an update sets the score to the
  plain (clamped) base score of the updated record: however long ago the previous interaction was, no decay
  toward neutral is applied.
\<close>
theorem no_decay_on_update:
  assumes "exp_contract (fexp e)" "t2 \<le> t1"
  shows "score (fst (record_verification e t1 t2 nid p st)) nid =
      f_clamp (Fin 0) (Fin 1) (base_score (counted p (entry_or_default (fst st) nid)))"
  using assms by (simp add: score_def record_verification_scores updated_def recalculated_now)

lemma no_decay_on_update_witness:
  "score (fst (record_verification half_env 1000000 1000000 (NodeId [1]) True
      (\<lparr>scores = [[1] \<mapsto> default_record], storage_path = None\<rparr>, None))) (NodeId [1])
   = f_clamp (Fin 0) (Fin 1) (base_score (default_record\<lparr>verifications_passed := 1\<rparr>))"
  using no_decay_on_update [of half_env 1000000 1000000 "NodeId [1]" True
      "(\<lparr>scores = [[1] \<mapsto> default_record], storage_path = None\<rparr>, None)"]
  by (simp add: default_record_def counted_def entry_or_default_def)

subsection \<open>Uptime shields a peer, one failure bans a fresh one\<close>

lemma base_score_failed:
  assumes "verifications_passed r = 0" "verifications_failed r \<noteq> 0"
  shows "base_score r = f_min (f64_of_u64 (uptime_seconds r) / Fin 86400) (Fin 1) * lit (1/10) + lit (1/10)"
proof -
  obtain x where x: "f64_of_u64 (verifications_failed r) = Fin x" "0 < x"
    using f64_of_u64_pos [of "verifications_failed r"] assms(2) by (auto simp: word_gt_0)
  have z: "f64_of_u64 0 = Fin 0" "fround 0 = Fin 0" by code_simp+
  obtain l where l: "lit (8/10) = Fin l" using fbounded_Fin [OF fbounded_lits(4)] by blast
  have rate: "verification_rate r * lit (8/10) = Fin 0"
    unfolding verification_rate_def Let_def assms(1) l
    using assms(2) x z by (simp add: divide_f64_def times_f64_def word_gt_0)
  obtain y where y: "f_min (f64_of_u64 (uptime_seconds r) / Fin 86400) (Fin 1) * lit (1/10) = Fin y" "fround y = Fin y"
    using uptime_bonus_bounded by (auto simp: fbounded_def)
  show ?thesis unfolding base_score_def Let_def rate y(1) using y(2) by (simp add: plus_f64_def)
qed

lemma long_uptime_bonus:
  assumes "86400 \<le> u"
  shows "f_min (f64_of_u64 u / Fin 86400) (Fin 1) = Fin 1"
proof -
  have u: "(86400 :: nat) \<le> unat u" using assms by (simp add: word_le_nat_alt)
  obtain y where y: "f64_of_u64 u = Fin y" "y = fval (of_nat (unat u))"
    using fbounded_Fin [OF fbounded_u64 [of u]] by (auto simp: f64_of_u64_def fround_fval split: if_splits)
  have "fval 86400 \<le> y" unfolding y(2) using u by (intro fval_mono) (metis of_nat_le_iff of_nat_numeral)
  moreover have "fval 86400 = 86400" using fround_of_int [of 86400] by (simp add: fround_fval split: if_splits)
  ultimately have "1 \<le> y / 86400" by simp
  then have "fval 1 \<le> fval (y / 86400)" by (rule fval_mono)
  moreover have "fval 1 = 1" using fround_of_int [of 1] by (simp add: fround_fval split: if_splits)
  moreover obtain x where "f64_of_u64 u / Fin 86400 = Fin x" "x = fval (y / 86400)"
    using fbounded_Fin [OF fbounded_div [OF fbounded_u64 [of u], of "Fin 86400" 86400]]
    by (auto simp: y(1) divide_f64_def fround_fval split: if_splits)
  ultimately show ?thesis by (simp add: f_min_def)
qed

text \<open>
  A peer with a day or more of reported uptime is never banned, whatever number of failed
  verifications it has and no successful one: after every further failure its score is exactly the ban
  threshold, which \<open>is_banned\<close> excludes.
\<close>
theorem uptime_shields_from_ban:
  assumes "exp_contract (fexp e)" "t2 \<le> t1"
    "verifications_passed (entry_or_default (fst st) nid) = 0"
    "verifications_failed (entry_or_default (fst st) nid) + 1 \<noteq> 0"
    "86400 \<le> uptime_seconds (entry_or_default (fst st) nid)"
  shows "score (fst (record_verification e t1 t2 nid False st)) nid = BAN_THRESHOLD \<and>
     \<not> is_banned (fst (record_verification e t1 t2 nid False st)) nid"
proof -
  let ?r = "counted False (entry_or_default (fst st) nid)"
  have "base_score ?r = Fin 1 * lit (1/10) + lit (1/10)"
    using assms(3-5) by (subst base_score_failed) (simp_all add: counted_def long_uptime_bonus)
  moreover have "f_clamp (Fin 0) (Fin 1) (Fin 1 * lit (1/10) + lit (1/10)) = BAN_THRESHOLD"
    by code_simp
  ultimately have "score (fst (record_verification e t1 t2 nid False st)) nid = BAN_THRESHOLD"
    using assms(1,2)
    by (simp add: score_def record_verification_scores updated_def recalculated_now)
  moreover have "\<not> BAN_THRESHOLD < BAN_THRESHOLD" by code_simp
  ultimately show ?thesis by (simp add: is_banned_def)
qed

lemma uptime_shields_from_ban_witness:
  "\<not> is_banned (fst (record_verification half_env 9 9 (NodeId [1]) False
      (\<lparr>scores = [[1] \<mapsto> default_record\<lparr>uptime_seconds := 90000, verifications_failed := 1000000\<rparr>],
        storage_path = None\<rparr>, None))) (NodeId [1])"
  using uptime_shields_from_ban [of half_env 9 9 "(\<lparr>scores = [[1] \<mapsto> default_record\<lparr>uptime_seconds := 90000,
      verifications_failed := 1000000\<rparr>], storage_path = None\<rparr>, None)" "NodeId [1]"]
  by (simp add: entry_or_default_def default_record_def)

text \<open>
  A peer that is unknown, or known with no successful verification and no uptime, is banned by its next
  failed verification.
\<close>
theorem one_failure_bans:
  assumes "exp_contract (fexp e)" "t2 \<le> t1"
    "verifications_passed (entry_or_default (fst st) nid) = 0"
    "verifications_failed (entry_or_default (fst st) nid) + 1 \<noteq> 0"
    "uptime_seconds (entry_or_default (fst st) nid) = 0"
  shows "is_banned (fst (record_verification e t1 t2 nid False st)) nid"
proof -
  let ?r = "counted False (entry_or_default (fst st) nid)"
  have b: "base_score ?r = f_min (f64_of_u64 0 / Fin 86400) (Fin 1) * lit (1/10) + lit (1/10)"
    using assms(3-5) by (subst base_score_failed) (simp_all add: counted_def)
  have "f_clamp (Fin 0) (Fin 1) (f_min (f64_of_u64 0 / Fin 86400) (Fin 1) * lit (1/10) + lit (1/10)) < BAN_THRESHOLD"
    by code_simp
  then show ?thesis
    using assms(1,2)
    by (simp add: is_banned_def score_def record_verification_scores updated_def recalculated_now b)
qed

lemma one_failure_bans_witness:
  "is_banned (fst (record_verification half_env 9 9 (NodeId [1]) False
      (\<lparr>scores = Map.empty, storage_path = None\<rparr>, None))) (NodeId [1])"
  by (rule one_failure_bans) (simp_all add: entry_or_default_def default_record_def)

subsection \<open>Bans do not survive a restart\<close>

text \<open>
  \<open>serde_json\<close> writes maps whose keys are strings, numbers or booleans; a map keyed by \<open>Vec<u8>\<close>
  with at least one entry is the error "key must be a string".
\<close>

definition json_key_contract :: "(scores \<Rightarrow> string option) \<Rightarrow> bool" where
  "json_key_contract tj \<longleftrightarrow> (\<forall>m. m \<noteq> Map.empty \<longrightarrow> tj m = None)"

lemma reputation_step_disk:
  "json_key_contract (to_json e) \<Longrightarrow> snd (reputation_step e ev st) = snd st"
  by (cases ev)
     (simp_all add: updates_disk save_def record_verification_scores record_uptime_scores json_key_contract_def
        split: option.splits)

text \<open>
  No event ever reaches the reputation file: whatever is recorded, the file keeps its contents, so a
  manager started from it afterwards (on the same path) is the manager that was started from it before:
  scores and bans are lost.
\<close>
theorem reputation_never_persisted:
  assumes "json_key_contract (to_json e)"
  shows "snd (run_events e evs (new_manager e disk path, disk)) = disk \<and>
     new_manager e (snd (run_events e evs (new_manager e disk path, disk))) path = new_manager e disk path"
proof -
  have "snd (fold (reputation_step e) evs st) = snd st" for st
    by (induction evs arbitrary: st) (simp_all add: reputation_step_disk [OF assms])
  then show ?thesis by (simp add: run_events_def)
qed

lemma reputation_never_persisted_witness:
  "snd (run_events half_env [Verification 9 9 (NodeId [1]) False]
     (new_manager half_env None (Some ''/rep.json''), None)) = None"
  using reputation_never_persisted [of half_env "[Verification 9 9 (NodeId [1]) False]" None "Some ''/rep.json''"]
  by (simp add: json_key_contract_def half_env_def)

end
