(* ===== verification/Wire.thy ===== *)
theory Wire
  imports MeshTypes
begin

section \<open>Wire protocol\<close>

text \<open>
  \<open>crates/hivebear-mesh/src/transport/protocol.rs\<close>: the tensor types and their one-byte tags, the
  compression methods, the messages that mesh nodes exchange, and the size-limited encoder and decoder.
  The binary format is that of the \<open>bincode\<close> crate, whose serializer and deserializer are arguments.
  A 32-bit float (\<open>temperature\<close>, \<open>top_p\<close>) is kept as its bits: the mesh never computes with it.
\<close>

datatype tensor_dtype = F16 | F32 | BF16

fun byte_size :: "tensor_dtype \<Rightarrow> usize" where
  "byte_size F16 = 2"
| "byte_size BF16 = 2"
| "byte_size F32 = 4"

fun to_u8 :: "tensor_dtype \<Rightarrow> u8" where
  "to_u8 F32 = 0"
| "to_u8 F16 = 1"
| "to_u8 BF16 = 2"

definition from_u8 :: "u8 \<Rightarrow> tensor_dtype option" where
  "from_u8 v = (if v = 0 then Some F32 else if v = 1 then Some F16 else if v = 2 then Some BF16 else None)"

lemma from_to_u8 [simp]: "from_u8 (to_u8 d) = Some d"
  by (cases d) (simp_all add: from_u8_def)

lemma from_u8_Some_iff: "from_u8 v = Some d \<longleftrightarrow> v = to_u8 d"
  by (cases d) (auto simp: from_u8_def)

datatype compression_method = CompNone | Lz4 | Zstd (level: u8)

type_synonym assignment = "node_id \<times> u32 \<times> u32"

datatype mesh_message =
  Hello node_id hardware_profile u32
| HelloAck node_id bool
| AssignLayers uuid string layer_range u32 string "node_id option" node_id
    \<comment> \<open>session, model, layer range, total layers, model source, next peer, initiator\<close>
| AssignLayersAck uuid bool "string option"
| ActivationTensor uuid u32 "u8 list" "usize list" tensor_dtype
    \<comment> \<open>session, token position, data, shape, type\<close>
| Logits uuid u32 "u8 list" u32
    \<comment> \<open>session, token position, data, vocabulary size\<close>
| VerifyChallenge uuid u32 "u8 list"
| VerifyResponse uuid "u8 list" bool
| ReleaseSession uuid
| Ping u64
| Pong u64
| ErrorMsg "uuid option" string
| InferenceRequest uuid string string u32 f32_bits f32_bits
    \<comment> \<open>session, model, messages as JSON, token limit, temperature, top-p\<close>
| InferenceToken uuid string u32 bool
| InferenceComplete uuid string u32 "string option"
| PipelineHeartbeat uuid u32 u32
| PeerLeaving uuid string u32
| CompressedActivationTensor uuid u32 "u8 list" "usize list" tensor_dtype compression_method
| SwarmInvite uuid string u8 layer_range u32 string "assignment list"
| SwarmInviteAck uuid bool "string option"
| SwarmHeartbeat uuid u32 f64
| SwarmRebalance uuid "assignment list" string
| DraftTokens uuid "u32 list" string
| VerifyDraft uuid u32 "u32 option"

definition PROTOCOL_VERSION :: u32 where "PROTOCOL_VERSION = 2"

definition MAX_MESSAGE_SIZE :: u64 where "MAX_MESSAGE_SIZE = 16 * 1024 * 1024"

text \<open>The codec of \<open>bincode::DefaultOptions\<close> takes the size limit first; its error is a text.\<close>

definition encode ::
  "(u64 \<Rightarrow> mesh_message \<Rightarrow> (string, u8 list) result) \<Rightarrow> mesh_message \<Rightarrow> u8 list mesh_result" where
  "encode serialize msg = (case serialize MAX_MESSAGE_SIZE msg of
     Inl e \<Rightarrow> Inl (Serialization e) | Inr bs \<Rightarrow> Inr bs)"

definition decode ::
  "(u64 \<Rightarrow> u8 list \<Rightarrow> (string, mesh_message) result) \<Rightarrow> u8 list \<Rightarrow> mesh_message mesh_result" where
  "decode deserialize bs = (case deserialize MAX_MESSAGE_SIZE bs of
     Inl e \<Rightarrow> Inl (Protocol e) | Inr m \<Rightarrow> Inr m)"

end
