(* ===== verification/Worker.thy ===== *)
theory Worker
  imports Wire
begin

section \<open>Pipeline worker\<close>

text \<open>
  \<open>crates/hivebear-mesh/src/pipeline/worker.rs\<close>.  \<open>PipelineWorker::run\<close> is a loop over received
  messages; \<open>worker_step\<close> is its body.  The results of \<open>transport.send\<close> and of the event channel are
  only logged, so a step returns the messages it sends and the events it emits, in order.  The
  \<open>MeshPipelineHandler\<close> (the host application's inference engine) is a record of state-passing
  functions over a state of type \<open>'h\<close>, and SHA-256 is an argument.
\<close>

record 'h pipeline_handler =
  load_layers :: "string \<Rightarrow> layer_range \<Rightarrow> u32 \<Rightarrow> 'h \<Rightarrow> (string, unit) result \<times> 'h"
  forward_layers :: "u8 list \<Rightarrow> usize list \<Rightarrow> u8 \<Rightarrow> usize \<Rightarrow> 'h \<Rightarrow>
    (string, u8 list \<times> usize list \<times> u8) result \<times> 'h"
  unload_layers :: "'h \<Rightarrow> (string, unit) result \<times> 'h"

record worker_session =
  ws_session_id :: uuid
  ws_model_id :: string
  ws_layer_range :: layer_range
  ws_total_layers :: u32
  ws_model_source :: string
  ws_next_peer :: "node_id option"
  ws_initiator_peer :: node_id

record inference_request =
  ir_session_id :: uuid
  ir_model_id :: string
  ir_messages_json :: string
  ir_max_tokens :: u32
  ir_temperature :: f32_bits
  ir_top_p :: f32_bits
  ir_from :: node_id

datatype worker_event =
  SessionStarted worker_session
| ActivationReceived uuid u32 node_id
| InferenceRequested inference_request
| SessionReleased uuid
| WorkerError string

datatype worker_action = Send node_id mesh_message | Emit worker_event

record 'h worker =
  sessions :: "uuid \<rightharpoonup> worker_session"
  engine :: 'h

definition new_worker :: "'h \<Rightarrow> 'h worker" where
  "new_worker h = \<lparr>sessions = Map.empty, engine = h\<rparr>"

subsection \<open>The handlers\<close>

definition handle_assign :: "'h pipeline_handler option \<Rightarrow> node_id \<Rightarrow>
    uuid \<Rightarrow> string \<Rightarrow> layer_range \<Rightarrow> u32 \<Rightarrow> string \<Rightarrow> node_id option \<Rightarrow> node_id \<Rightarrow>
    'h worker \<Rightarrow> 'h worker \<times> worker_action list" where
  "handle_assign hnd peer sid model lr total_layers source next_peer initiator w =
    (let (load_error, h) = (case hnd of None \<Rightarrow> (None, engine w)
           | Some ph \<Rightarrow> (case load_layers ph source lr total_layers (engine w) of
               (Inl e, h) \<Rightarrow> (Some e, h) | (Inr _, h) \<Rightarrow> (None, h)));
         ready = (load_error = None);
         session = \<lparr>ws_session_id = sid, ws_model_id = model, ws_layer_range = lr, ws_total_layers = total_layers,
           ws_model_source = source, ws_next_peer = next_peer, ws_initiator_peer = initiator\<rparr>
     in (w\<lparr>sessions := (sessions w)(sid \<mapsto> session), engine := h\<rparr>,
         [Send peer (AssignLayersAck sid ready load_error), Emit (SessionStarted session)]))"

text \<open>Where the output of a successful forward pass goes.\<close>

definition route_output :: "uuid \<Rightarrow> u32 \<Rightarrow> tensor_dtype \<Rightarrow> worker_session option \<Rightarrow>
    u8 list \<Rightarrow> usize list \<Rightarrow> u8 \<Rightarrow> worker_action list" where
  "route_output sid pos dtype session_info out_data out_shape out_tag =
    (case session_info of
       None \<Rightarrow> []
     | Some s \<Rightarrow>
        if snd (ws_layer_range s) = ws_total_layers s then
          [Send (ws_initiator_peer s) (Logits sid pos out_data
             (of_nat (if out_shape = [] then 0 else last out_shape)))]
        else (case ws_next_peer s of
            Some nxt \<Rightarrow> [Send nxt (ActivationTensor sid pos out_data out_shape
              (case from_u8 out_tag of Some d \<Rightarrow> d | None \<Rightarrow> dtype))]
          | None \<Rightarrow> []))"

definition handle_activation :: "'h pipeline_handler option \<Rightarrow> (node_id \<Rightarrow> string) \<Rightarrow> node_id \<Rightarrow> node_id \<Rightarrow>
    uuid \<Rightarrow> u32 \<Rightarrow> u8 list \<Rightarrow> usize list \<Rightarrow> tensor_dtype \<Rightarrow> 'h worker \<Rightarrow> 'h worker \<times> worker_action list" where
  "handle_activation hnd show_id local_id peer sid pos data shape dtype w =
    (let session_info = sessions w sid in
     case hnd of
       None \<Rightarrow> (w, [Emit (ActivationReceived sid pos peer)])
     | Some ph \<Rightarrow>
        (case forward_layers ph data shape (to_u8 dtype) (unat pos) (engine w) of
           (Inr (out_data, out_shape, out_tag), h) \<Rightarrow>
             (w\<lparr>engine := h\<rparr>, route_output sid pos dtype session_info out_data out_shape out_tag)
         | (Inl e, h) \<Rightarrow>
             (w\<lparr>engine := h\<rparr>, (case session_info of None \<Rightarrow> []
                | Some s \<Rightarrow> [Send (ws_initiator_peer s) (ErrorMsg (Some sid)
                    (''Forward pass failed on node '' @ show_id local_id @ '': '' @ e))]))))"

definition handle_release :: "'h pipeline_handler option \<Rightarrow> uuid \<Rightarrow> 'h worker \<Rightarrow> 'h worker \<times> worker_action list" where
  "handle_release hnd sid w =
    (let h = (case hnd of None \<Rightarrow> engine w | Some ph \<Rightarrow> snd (unload_layers ph (engine w)))
     in (w\<lparr>sessions := (sessions w)(sid := None), engine := h\<rparr>, [Emit (SessionReleased sid)]))"

definition u32_le_bytes :: "u32 \<Rightarrow> u8 list" where
  "u32_le_bytes x = [ucast x, ucast (drop_bit 8 x), ucast (drop_bit 16 x), ucast (drop_bit 24 x)]"

definition str_bytes :: "string \<Rightarrow> u8 list" where
  "str_bytes s = map (\<lambda>c. of_nat (of_char c)) s"

definition challenge_hash :: "(u8 list \<Rightarrow> u8 list) \<Rightarrow> worker_session option \<Rightarrow> u32 \<Rightarrow> u8 list \<Rightarrow> u8 list" where
  "challenge_hash sha256 session_info layer_index input_hash =
    (case session_info of
       Some s \<Rightarrow> sha256 (input_hash @ u32_le_bytes (fst (ws_layer_range s)) @ u32_le_bytes (snd (ws_layer_range s))
          @ u32_le_bytes layer_index @ str_bytes (ws_model_id s))
     | None \<Rightarrow> replicate 32 0)"

definition handle_challenge :: "(u8 list \<Rightarrow> u8 list) \<Rightarrow> node_id \<Rightarrow> uuid \<Rightarrow> u32 \<Rightarrow> u8 list \<Rightarrow> 'h worker \<Rightarrow> worker_action list" where
  "handle_challenge sha256 peer sid layer_index input_hash w =
    [Send peer (VerifyResponse sid (challenge_hash sha256 (sessions w sid) layer_index input_hash) True)]"

text \<open>The fixed surroundings of a worker.\<close>

record 'h worker_env =
  we_handler :: "'h pipeline_handler option"
  we_sha256 :: "u8 list \<Rightarrow> u8 list"
  we_show_id :: "node_id \<Rightarrow> string"
  we_local_id :: node_id

fun worker_step :: "'h worker_env \<Rightarrow> node_id \<Rightarrow> mesh_message \<Rightarrow> 'h worker \<Rightarrow> 'h worker \<times> worker_action list" where
  "worker_step e peer (AssignLayers sid model lr total_layers source next_peer initiator) w =
     handle_assign (we_handler e) peer sid model lr total_layers source next_peer initiator w"
| "worker_step e peer (ActivationTensor sid pos data shape dtype) w =
     handle_activation (we_handler e) (we_show_id e) (we_local_id e) peer sid pos data shape dtype w"
| "worker_step e peer (InferenceRequest sid model msgs max_tokens temperature top_p) w =
     (w, [Emit (InferenceRequested \<lparr>ir_session_id = sid, ir_model_id = model, ir_messages_json = msgs,
        ir_max_tokens = max_tokens, ir_temperature = temperature, ir_top_p = top_p, ir_from = peer\<rparr>)])"
| "worker_step e peer (ReleaseSession sid) w = handle_release (we_handler e) sid w"
| "worker_step e peer (Ping ts) w = (w, [Send peer (Pong ts)])"
| "worker_step e peer (VerifyChallenge sid layer_index input_hash) w =
     (w, handle_challenge (we_sha256 e) peer sid layer_index input_hash w)"
| "worker_step e peer _ w = (w, [])"

text \<open>The loop over what the transport delivers; an error ends it.\<close>

fun worker_run :: "'h worker_env \<Rightarrow> (string, node_id \<times> mesh_message) result list \<Rightarrow> 'h worker \<Rightarrow>
    'h worker \<times> worker_action list" where
  "worker_run e [] w = (w, [])"
| "worker_run e (Inl err # _) w = (w, [Emit (WorkerError err)])"
| "worker_run e (Inr (peer, msg) # rest) w =
    (let (w1, out1) = worker_step e peer msg w; (w2, out2) = worker_run e rest w1 in (w2, out1 @ out2))"

subsection \<open>A chain of workers\<close>

text \<open>
  A network of workers with messages in flight: \<open>pump\<close> delivers them in order, each to the worker with
  the destination's id; what is addressed to a node that runs no worker (the initiator) is collected.
\<close>

type_synonym packet = "node_id \<times> node_id \<times> mesh_message"
type_synonym 'h worker_net = "node_id \<rightharpoonup> 'h worker_env \<times> 'h worker"

fun sends :: "node_id \<Rightarrow> worker_action list \<Rightarrow> packet list" where
  "sends me [] = []"
| "sends me (Send peer msg # as) = (me, peer, msg) # sends me as"
| "sends me (Emit _ # as) = sends me as"

fun pump :: "nat \<Rightarrow> 'h worker_net \<Rightarrow> packet list \<Rightarrow> packet list \<Rightarrow> 'h worker_net \<times> packet list \<times> packet list" where
  "pump 0 net q out = (net, q, out)"
| "pump (Suc n) net [] out = (net, [], out)"
| "pump (Suc n) net ((src, dst, msg) # q) out = (case net dst of
      None \<Rightarrow> pump n net q (out @ [(src, dst, msg)])
    | Some (e, w) \<Rightarrow> (let (w', acts) = worker_step e src msg w
        in pump n (net(dst \<mapsto> (e, w'))) (q @ sends dst acts) out))"

text \<open>The stages of a session, in pipeline order, and how their sessions must be linked.\<close>

type_synonym 'h stage = "node_id \<times> 'h worker_env \<times> 'h worker"

definition routes :: "uuid \<Rightarrow> node_id \<Rightarrow> node_id option \<Rightarrow> 'h stage \<Rightarrow> bool" where
  "routes sid ini nxt st = (case st of (i, e, w) \<Rightarrow>
     we_handler e \<noteq> None \<and> we_local_id e = i \<and>
     (case sessions w sid of None \<Rightarrow> False | Some s \<Rightarrow> ws_initiator_peer s = ini \<and>
        (case nxt of None \<Rightarrow> snd (ws_layer_range s) = ws_total_layers s
         | Some j \<Rightarrow> snd (ws_layer_range s) \<noteq> ws_total_layers s \<and> ws_next_peer s = Some j)))"

fun linked :: "uuid \<Rightarrow> node_id \<Rightarrow> 'h stage list \<Rightarrow> bool" where
  "linked sid ini [] = True"
| "linked sid ini [st] = routes sid ini None st"
| "linked sid ini (st # st2 # rest) = (routes sid ini (Some (fst st2)) st \<and> linked sid ini (st2 # rest))"

text \<open>
  The specification: the forward passes of the stages composed, each fed with the output of the one before;
  the reply is the last node with the logits, or the first node that fails with its error.
\<close>

fun compose :: "uuid \<Rightarrow> u32 \<Rightarrow> 'h stage list \<Rightarrow> u8 list \<Rightarrow> usize list \<Rightarrow> tensor_dtype \<Rightarrow> node_id \<times> mesh_message" where
  "compose sid pos [] data shape d = (NodeId [], Logits sid pos data 0)"
| "compose sid pos ((i, e, w) # rest) data shape d =
    (case fst (forward_layers (the (we_handler e)) data shape (to_u8 d) (unat pos) (engine w)) of
       Inl err \<Rightarrow> (i, ErrorMsg (Some sid) (''Forward pass failed on node '' @ we_show_id e i @ '': '' @ err))
     | Inr (data', shape', tag) \<Rightarrow>
        (if rest = [] then (i, Logits sid pos data' (of_nat (if shape' = [] then 0 else last shape')))
         else compose sid pos rest data' shape' (case from_u8 tag of Some d' \<Rightarrow> d' | None \<Rightarrow> d)))"

lemma pump_nil [simp]: "pump n net [] out = (net, [], out)"
  by (cases n) simp_all

lemma pump_step:
  "net dst = Some (e, w) \<Longrightarrow> worker_step e src msg w = (w', acts) \<Longrightarrow>
   pump (Suc n) net [(src, dst, msg)] [] = pump n (net(dst \<mapsto> (e, w'))) (sends dst acts) []"
  by simp

lemma activation_at_last:
  assumes "routes sid ini None (i, e, w)"
  shows "sends i (snd (worker_step e src (ActivationTensor sid pos data shape d) w)) =
     (let (j, m) = compose sid pos [(i, e, w)] data shape d in [(j, ini, m)])"
  using assms by (auto simp: routes_def handle_activation_def route_output_def Let_def
      split: option.splits prod.splits sum.splits)

lemma activation_at_inner:
  assumes "routes sid ini (Some j) (i, e, w)"
  shows "sends i (snd (worker_step e src (ActivationTensor sid pos data shape d) w)) =
     (case fst (forward_layers (the (we_handler e)) data shape (to_u8 d) (unat pos) (engine w)) of
        Inl err \<Rightarrow> [(i, ini, ErrorMsg (Some sid) (''Forward pass failed on node '' @ we_show_id e i @ '': '' @ err))]
      | Inr (data', shape', tag) \<Rightarrow> [(i, j, ActivationTensor sid pos data' shape'
          (case from_u8 tag of Some d' \<Rightarrow> d' | None \<Rightarrow> d))])"
  using assms by (auto simp: routes_def handle_activation_def route_output_def Let_def
      split: option.splits prod.splits sum.splits)

lemma pump_pipeline:
  assumes "stages \<noteq> []" "linked sid ini stages" "distinct (map fst stages)"
    "\<forall>(i, e, w) \<in> set stages. net i = Some (e, w)" "net ini = None"
  shows "\<exists>net'. pump (Suc (length stages)) net
      [(src, fst (stages ! 0), ActivationTensor sid pos data shape d)] [] =
    (net', [], [case compose sid pos stages data shape d of (i, m) \<Rightarrow> (i, ini, m)])"
  using assms
proof (induction stages arbitrary: net src data shape d)
  case Nil
  then show ?case by simp
next
  case (Cons st rest)
  obtain i e w where st: "st = (i, e, w)" by (cases st)
  have net: "net i = Some (e, w)" using Cons.prems(4) st by auto
  obtain w' acts where step: "worker_step e src (ActivationTensor sid pos data shape d) w = (w', acts)"
    by fastforce
  have ini: "ini \<noteq> i" using net Cons.prems(5) by auto
  show ?case
  proof (cases rest)
    case Nil
    then have "routes sid ini None (i, e, w)" using Cons.prems(2) st by simp
    from activation_at_last [OF this, of src pos data shape d] show ?thesis
      using ini Cons.prems(5)
      by (simp add: st Nil net step Let_def del: worker_step.simps compose.simps split: prod.splits)
  next
    case (Cons st2 rest2)
    obtain j where j: "fst st2 = j" by simp
    have r: "routes sid ini (Some j) (i, e, w)" and l: "linked sid ini rest"
      using Cons.prems(2) st j by (simp_all add: Cons)
    let ?f = "fst (forward_layers (the (we_handler e)) data shape (to_u8 d) (unat pos) (engine w))"
    show ?thesis
    proof (cases ?f)
      case (Inl err)
      then show ?thesis using activation_at_inner [OF r, of src pos data shape d] ini Cons.prems(5)
        by (simp add: st net step del: worker_step.simps)
    next
      case (Inr out)
      obtain data' shape' tag where out: "out = (data', shape', tag)" by (cases out)
      have rest: "rest \<noteq> []" "distinct (map fst rest)" using Cons Cons.prems(3) by simp_all
      have nets: "\<forall>(i', e', w') \<in> set rest. (net(i \<mapsto> (e, w'0))) i' = Some (e', w')" for w'0
        using Cons.prems(3,4) st by (force simp: image_iff)
      have nn: "(net(i \<mapsto> (e, w'))) ini = None" using ini Cons.prems(5) by simp
      have a: "sends i acts = [(i, j, ActivationTensor sid pos data' shape' (case from_u8 tag of Some d' \<Rightarrow> d' | None \<Rightarrow> d))]"
        using activation_at_inner [OF r, of src pos data shape d] Inr out step by (simp del: worker_step.simps)
      show ?thesis
        using Cons.IH [OF rest(1) l rest(2) nets [of w'] nn, of i data' shape' "case from_u8 tag of Some d' \<Rightarrow> d' | None \<Rightarrow> d"]
          Inr out j
        by (simp add: st pump_step [of net i, OF net step] a Cons del: worker_step.simps pump.simps fun_upd_apply)
    qed
  qed
qed

text \<open>
  C9: An activation that enters a correctly linked chain of workers leaves it, after one delivery per stage,
  as exactly one message to the initiator: the logits that the composition of the stages' forward passes
  gives, sent by the last stage, or the error of the first stage whose forward pass fails.
\<close>
theorem pipeline_computes_composition:
  assumes "stages \<noteq> []" "linked sid ini stages" "distinct (map fst stages)"
    "\<forall>(i, e, w) \<in> set stages. net i = Some (e, w)" "net ini = None"
  shows "snd (pump (Suc (length stages)) net
      [(src, fst (stages ! 0), ActivationTensor sid pos data shape d)] []) =
    ([], [case compose sid pos stages data shape d of (i, m) \<Rightarrow> (i, ini, m)])"
  using pump_pipeline [OF assms, of src pos data shape d] by auto

definition demo_handler :: "unit pipeline_handler" where
  "demo_handler = \<lparr>load_layers = (\<lambda>_ _ _ h. (Inr (), h)),
     forward_layers = (\<lambda>d s t p h. (if d = [] then Inl ''empty'' else Inr (map (\<lambda>x. x + 1) d, s, t), h)),
     unload_layers = (\<lambda>h. (Inr (), h))\<rparr>"

definition demo_env :: "node_id \<Rightarrow> unit worker_env" where
  "demo_env i = \<lparr>we_handler = Some demo_handler, we_sha256 = (\<lambda>_. replicate 32 7), we_show_id = (\<lambda>_. ''n''),
     we_local_id = i\<rparr>"

definition demo_stage :: "node_id \<Rightarrow> u32 \<Rightarrow> u32 \<Rightarrow> node_id option \<Rightarrow> unit stage" where
  "demo_stage i a b nxt = (i, demo_env i,
     fst (worker_step (demo_env i) (NodeId [0]) (AssignLayers 5 ''m'' (a, b) 2 ''src'' nxt (NodeId [0])) (new_worker ())))"

lemma pipeline_computes_composition_witness:
  "snd (pump 3 (map_of [demo_stage (NodeId [1]) 0 1 (Some (NodeId [2])), demo_stage (NodeId [2]) 1 2 None])
     [(NodeId [0], NodeId [1], ActivationTensor 5 9 [3, 4] [1, 2] BF16)] []) =
   ([], [(NodeId [2], NodeId [0], Logits 5 9 [5, 6] 2)])"
  using pipeline_computes_composition [of "[demo_stage (NodeId [1]) 0 1 (Some (NodeId [2])), demo_stage (NodeId [2]) 1 2 None]"
      5 "NodeId [0]" "map_of [demo_stage (NodeId [1]) 0 1 (Some (NodeId [2])), demo_stage (NodeId [2]) 1 2 None]"
      "NodeId [0]" 9 "[3, 4]" "[1, 2]" BF16]
  by (simp add: demo_stage_def routes_def handle_assign_def demo_env_def demo_handler_def new_worker_def
      numeral_3_eq_3 from_u8_def Let_def del: pump.simps)

text \<open>
  After an assignment whose layers load, the worker has the session with the assigned range, next peer
  and initiator, and answers with one acknowledgement; when they do not load it answers not ready with the
  error, but keeps the session all the same, so a later activation is still routed.
\<close>
theorem assign_layers_spec:
  "\<exists>w'. worker_step e peer (AssignLayers sid model lr tot source nxt ini) w =
       (w', [Send peer (AssignLayersAck sid
               (case we_handler e of None \<Rightarrow> True | Some ph \<Rightarrow> \<not> isl (fst (load_layers ph source lr tot (engine w))))
               (case we_handler e of None \<Rightarrow> None | Some ph \<Rightarrow>
                  (case fst (load_layers ph source lr tot (engine w)) of Inl err \<Rightarrow> Some err | Inr _ \<Rightarrow> None))),
             Emit (SessionStarted (the (sessions w' sid)))]) \<and>
     sessions w' = (sessions w)(sid \<mapsto> \<lparr>ws_session_id = sid, ws_model_id = model, ws_layer_range = lr,
       ws_total_layers = tot, ws_model_source = source, ws_next_peer = nxt, ws_initiator_peer = ini\<rparr>)"
  by (auto simp: handle_assign_def Let_def split: option.splits prod.splits sum.splits)

end
