(* ===== verification/Trust.thy ===== *)
theory Trust
  imports Worker F64
begin

section \<open>Spot checks of peer computations\<close>

text \<open>
  \<open>crates/hivebear-mesh/src/trust/verification.rs\<close>.  SHA-256 and \<open>rand::Rng::gen_bool\<close> are arguments;
  \<open>gen_bool\<close> panics for a probability outside the unit interval (and for a NaN), which is its value \<open>None\<close>.
  \<open>verify_layer\<close> gets the results that the transport's \<open>send\<close> and \<open>recv\<close> return.
\<close>

definition MIN_VERIFICATION_RATE :: f64 where "MIN_VERIFICATION_RATE = lit (1/100)"

definition new_rate :: "f64 \<Rightarrow> f64" where
  "new_rate verification_rate = f_clamp MIN_VERIFICATION_RATE (Fin 1) verification_rate"

definition should_verify :: "(f64 \<Rightarrow> bool option) \<Rightarrow> f64 \<Rightarrow> bool option" where
  "should_verify gen_bool rate = (if Fin 1 \<le> rate then Some True else gen_bool rate)"

definition hash_bytes :: "(u8 list \<Rightarrow> u8 list) \<Rightarrow> u8 list \<Rightarrow> u8 list" where
  "hash_bytes sha256 bs = sha256 bs"

definition challenge_for :: "(u8 list \<Rightarrow> u8 list) \<Rightarrow> uuid \<Rightarrow> u32 \<Rightarrow> u8 list \<Rightarrow> mesh_message" where
  "challenge_for sha256 sid layer_index expected_input =
    VerifyChallenge sid layer_index (hash_bytes sha256 expected_input)"

definition verify_layer :: "(mesh_error, unit) result \<Rightarrow> (mesh_error, node_id \<times> mesh_message) result \<Rightarrow>
    node_id \<Rightarrow> uuid \<Rightarrow> bool mesh_result" where
  "verify_layer sent received peer sid =
    (case sent of Inl e \<Rightarrow> Inl e
     | Inr _ \<Rightarrow> (case received of Inl e \<Rightarrow> Inl e
        | Inr (resp_peer, resp_msg) \<Rightarrow> (case resp_msg of
            VerifyResponse s output_hash passed \<Rightarrow>
              (if s = sid \<and> resp_peer = peer then Inr passed else Inr False)
          | _ \<Rightarrow> Inr False)))"

text \<open>The documented behaviour of \<open>gen_bool\<close>.\<close>

definition gen_bool_contract :: "(f64 \<Rightarrow> bool option) \<Rightarrow> bool" where
  "gen_bool_contract g \<longleftrightarrow> (\<forall>p. g p = None \<longleftrightarrow> \<not> (Fin 0 \<le> p \<and> p \<le> Fin 1))"

text \<open>
  Whatever rate is configured, the verifier's sampling rate is at least one percent and at most one,
  and sampling never panics, unless the configured rate is a NaN: then it stays a NaN and the first
  sampling panics.
\<close>
theorem verification_rate_floor:
  assumes "gen_bool_contract gen_bool"
  shows "(if r = NaN then new_rate r = NaN \<and> should_verify gen_bool (new_rate r) = None
    else MIN_VERIFICATION_RATE \<le> new_rate r \<and> new_rate r \<le> Fin 1 \<and> should_verify gen_bool (new_rate r) \<noteq> None)"
proof -
  obtain m where m: "MIN_VERIFICATION_RATE = Fin m" "0 \<le> m" "m \<le> 1"
  proof -
    have "\<exists>m. X = Fin m \<and> 0 \<le> m \<and> m \<le> 1" if "Fin 0 \<le> X" "X \<le> Fin 1" for X
      using that by (cases X) simp_all
    moreover have "Fin 0 \<le> MIN_VERIFICATION_RATE" "MIN_VERIFICATION_RATE \<le> Fin 1" by code_simp+
    ultimately show ?thesis using that by blast
  qed
  have g: "gen_bool (Fin x) \<noteq> None" if "0 \<le> x" "x \<le> 1" for x
    using assms that by (auto simp: gen_bool_contract_def)
  have n: "gen_bool NaN = None" using assms by (simp add: gen_bool_contract_def)
  show ?thesis using g m(2,3) unfolding new_rate_def m(1)
    by (cases r) (simp_all add: should_verify_def f_clamp_def n exI [of "\<lambda>y. y" True])
qed

lemma verification_rate_floor_witness:
  "should_verify (\<lambda>p. if Fin 0 \<le> p \<and> p \<le> Fin 1 then Some False else None) (new_rate (Fin 0)) \<noteq> None"
  using verification_rate_floor [of "\<lambda>p. if Fin 0 \<le> p \<and> p \<le> Fin 1 then Some False else None" "Fin 0"]
  by (simp add: gen_bool_contract_def)

text \<open>
  A worker's answer to a challenge always passes the check, whatever it computed, for whatever input
  and layer, and even when it has no such session: the verifier believes the flag of the response, which
  the worker always sets, and looks at neither hash.
\<close>
theorem worker_passes_every_check:
  "\<exists>resp. snd (worker_step e verifier (challenge_for sha256 sid layer_index expected_input) w) = [Send verifier resp] \<and>
     verify_layer (Inr ()) (Inr (peer, resp)) peer sid = Inr True"
  by (simp add: challenge_for_def handle_challenge_def verify_layer_def)

text \<open>
  A check succeeds exactly when the challenge was sent and the next message to arrive is a passing
  response of the challenged peer for the session; any other message that happens to arrive first is
  consumed and fails the check.
\<close>
theorem verify_layer_passes_iff:
  "verify_layer sent received peer sid = Inr True \<longleftrightarrow>
     sent = Inr () \<and> (\<exists>hash. received = Inr (peer, VerifyResponse sid hash True))"
  by (cases sent) (auto simp: verify_layer_def split: sum.splits prod.splits mesh_message.splits if_splits)

end
