(* ===== verification/LayerSplit.thy ===== *)
theory LayerSplit
  imports Prelude
begin

section \<open>Splitting the layers of a model over a list of peers\<close>

text \<open>
  Four places of the mesh hand out the layers \<open>0..total\<close> of a model along a list of peers: both schedulers,
  the formation of a swarm and its rebalancing.  Each keeps a cursor, computes a share for the peer at hand,
  and gives the last peer what is left.  What they have in common is the interface \<open>layer_split\<close>: a share
  never exceeds what is left, and the last peer's share is exactly that.  The lemmas about the resulting
  ranges are proved once from these two laws.
\<close>

text \<open>\<open>covers a b rs\<close>: the ranges are non-empty, follow each other without gap, and lead from \<open>a\<close> to \<open>b\<close>.\<close>

fun covers :: "u32 \<Rightarrow> u32 \<Rightarrow> (u32 \<times> u32) list \<Rightarrow> bool" where
  "covers a b [] = (a = b)"
| "covers a b ((s, e) # rs) = (s = a \<and> s < e \<and> covers e b rs)"

definition in_range :: "u32 \<Rightarrow> u32 \<times> u32 \<Rightarrow> bool" where
  "in_range l r \<longleftrightarrow> fst r \<le> l \<and> l < snd r"

lemma in_range_pair [simp]: "in_range l (s, e) \<longleftrightarrow> s \<le> l \<and> l < e"
  by (simp add: in_range_def)

lemma covers_le: "covers a b rs \<Longrightarrow> a \<le> b"
proof (induction rs arbitrary: a)
  case (Cons r rs)
  then show ?case by (cases r) (force dest: Cons.IH)
qed simp

lemma covers_bounds: "covers a b rs \<Longrightarrow> r \<in> set rs \<Longrightarrow> a \<le> fst r \<and> fst r < snd r \<and> snd r \<le> b"
proof (induction rs arbitrary: a)
  case (Cons r' rs)
  obtain s e where r': "r' = (s, e)" by (cases r')
  show ?case
  proof (cases "r = r'")
    case True
    then show ?thesis using Cons.prems r' by (auto dest: covers_le)
  next
    case False
    then have "r \<in> set rs" using Cons.prems by simp
    moreover have "covers e b rs" using Cons.prems r' by simp
    ultimately have "e \<le> fst r \<and> fst r < snd r \<and> snd r \<le> b" by (rule Cons.IH [rotated])
    then show ?thesis using Cons.prems r' by (auto intro: order_trans [of _ e])
  qed
qed simp

text \<open>Every layer belongs to exactly one range.\<close>

lemma covers_partition:
  "covers a b rs \<Longrightarrow> length (filter (in_range l) rs) = (if a \<le> l \<and> l < b then 1 else 0)"
proof (induction rs arbitrary: a)
  case (Cons r rs)
  obtain s e where r: "r = (s, e)" by (cases r)
  have c: "s = a" "a < e" "covers e b rs" using Cons.prems r by auto
  have eb: "e \<le> b" by (rule covers_le [OF c(3)])
  have IH: "length (filter (in_range l) rs) = (if e \<le> l \<and> l < b then 1 else 0)" by (rule Cons.IH [OF c(3)])
  show ?case
  proof (cases "l < e")
    case True
    then have "length (filter (in_range l) rs) = 0" using IH by (simp add: not_le)
    moreover have "l < b" using True eb by (rule less_le_trans)
    ultimately show ?thesis using True c(1) r by simp
  next
    case False
    then show ?thesis using IH c(1,2) r by auto
  qed
qed auto

lemma covers_append: "covers a b rs \<Longrightarrow> covers b c ss \<Longrightarrow> covers a c (rs @ ss)"
proof (induction rs arbitrary: a)
  case (Cons r rs)
  then show ?case by (cases r) simp
qed simp

lemma covers_sorted: "covers a b rs \<Longrightarrow> sorted_wrt (\<lambda>r r'. snd r \<le> fst r') rs"
proof (induction rs arbitrary: a)
  case (Cons r rs)
  obtain s e where r: "r = (s, e)" by (cases r)
  then have "covers e b rs" using Cons.prems by simp
  then show ?case using Cons.IH r by (auto dest: covers_bounds)
qed simp

text \<open>The reference: shares handed out in turn, an empty one skipped.\<close>

fun split_layers :: "('p \<Rightarrow> bool \<Rightarrow> u32 \<Rightarrow> u32 \<Rightarrow> u32) \<Rightarrow> u32 \<Rightarrow> u32 \<Rightarrow> 'p list \<Rightarrow> ('p \<times> u32 \<times> u32) list" where
  "split_layers share tot cursor [] = []"
| "split_layers share tot cursor (p # ps) =
    (let s = share p (ps = []) tot cursor in
     if s = 0 then split_layers share tot cursor ps
     else (p, cursor, cursor + s) # split_layers share tot (cursor + s) ps)"

locale layer_split =
  fixes share :: "'p \<Rightarrow> bool \<Rightarrow> u32 \<Rightarrow> u32 \<Rightarrow> u32"
  assumes share_le: "cursor \<le> tot \<Longrightarrow> share p is_last tot cursor \<le> tot - cursor"
    and share_last: "share p True tot cursor = tot - cursor"
begin

lemma share_at_end: "share p is_last tot tot = 0"
  using share_le [of tot tot p is_last] by simp

lemma split_at_end [simp]: "split_layers share tot tot ps = []"
  by (induction ps) (simp_all add: Let_def share_at_end)

lemma split_covers: "ps \<noteq> [] \<Longrightarrow> cursor \<le> tot \<Longrightarrow> covers cursor tot (map snd (split_layers share tot cursor ps))"
proof (induction ps arbitrary: cursor)
  case (Cons p ps)
  let ?s = "share p (ps = []) tot cursor"
  have s: "?s \<le> tot - cursor" by (rule share_le) (rule Cons.prems)
  then have c: "cursor + ?s \<le> tot" using Cons.prems(2) by (rule word_add_le_total [rotated])
  have n: "unat (cursor + ?s) = unat cursor + unat ?s" by (rule unat_add_le [OF Cons.prems(2) s])
  show ?case
  proof (cases "ps = []")
    case True
    then show ?thesis using share_last [of p tot cursor] Cons.prems(2)
      by (auto simp: Let_def le_less)
  next
    case False
    have "?s \<noteq> 0 \<Longrightarrow> cursor < cursor + ?s"
      using n by (simp add: word_less_nat_alt unat_gt_0)
    then show ?thesis using Cons.IH [OF False c] Cons.IH [OF False Cons.prems(2)] by (simp add: Let_def)
  qed
qed simp

lemma split_total: "ps \<noteq> [] \<Longrightarrow> covers 0 tot (map snd (split_layers share tot 0 ps))"
  by (rule split_covers) simp_all

lemma split_every_layer_once:
  "ps \<noteq> [] \<Longrightarrow> length (filter (in_range l \<circ> snd) (split_layers share tot 0 ps)) = (if l < tot then 1 else 0)"
  using covers_partition [OF split_total, of ps l tot] by (simp add: filter_map)

lemma split_peers_subset: "fst ` set (split_layers share tot cursor ps) \<subseteq> set ps"
  by (induction ps arbitrary: cursor) (auto simp: Let_def)

lemma split_length: "length (split_layers share tot cursor ps) \<le> length ps"
  by (induction ps arbitrary: cursor) (auto simp: Let_def intro: le_SucI)

lemma split_peers_distinct_map: "distinct (map f ps) \<Longrightarrow> distinct (map (f \<circ> fst) (split_layers share tot cursor ps))"
proof (induction ps arbitrary: cursor)
  case (Cons p ps)
  have "f p \<notin> (f \<circ> fst) ` set (split_layers share tot c ps)" for c
    using Cons.prems split_peers_subset [of tot c ps] by auto
  then show ?case using Cons by (simp add: Let_def)
qed simp

lemma split_peers_distinct: "distinct ps \<Longrightarrow> distinct (map fst (split_layers share tot cursor ps))"
  using split_peers_distinct_map [of "\<lambda>p. p" ps tot cursor] by (simp add: comp_def)


end

end
