(* ===== verification/Scheduler.thy ===== *)
theory Scheduler
  imports LayerSplit MeshTypes
begin

section \<open>Layer schedulers\<close>

text \<open>
  \<open>crates/hivebear-mesh/src/scheduler/\<close>: the inference plan (\<open>plan.rs\<close>), the greedy scheduler
  (\<open>optimizer.rs\<close>) and the swarm-aware scheduler (\<open>swarm_scheduler.rs\<close>).  The fresh session id is an
  argument.  Peers are compared by capacity, then by reputation; with a NaN among the reputations the
  comparator is no total preorder and Rust leaves the order of \<open>sort_by\<close> open.
\<close>

subsection \<open>Plans\<close>

record layer_assignment =
  la_peer_id :: node_id
  la_layer_range :: layer_range
  estimated_compute_ms :: f64
  estimated_transfer_ms :: f64

record inference_plan =
  ip_session_id :: uuid
  ip_model_id :: string
  ip_total_layers :: u32
  assignments :: "layer_assignment list"
  estimated_latency_ms :: f64
  estimated_throughput_tok_s :: f64

definition pipeline_order :: "inference_plan \<Rightarrow> node_id list" where
  "pipeline_order plan = map la_peer_id
     (sort_by (\<lambda>a b. fst (la_layer_range b) < fst (la_layer_range a)) (assignments plan))"

definition assignment_for :: "inference_plan \<Rightarrow> node_id \<Rightarrow> layer_assignment option" where
  "assignment_for plan peer = find (\<lambda>a. la_peer_id a = peer) (assignments plan)"

definition plan_peer_count :: "inference_plan \<Rightarrow> usize" where
  "plan_peer_count plan = length (assignments plan)"

subsection \<open>What both schedulers compute for a peer\<close>

definition rank_after :: "peer_info \<Rightarrow> peer_info \<Rightarrow> bool" where
  "rank_after a b \<longleftrightarrow> capacity a < capacity b \<or>
     capacity a = capacity b \<and> reputation_score a < reputation_score b"

definition total_capacity :: "peer_info list \<Rightarrow> u64" where
  "total_capacity ps = wsum (map capacity ps)"

text \<open>The rounded proportional share, before it is bounded.\<close>

definition raw_share :: "u64 \<Rightarrow> u64 \<Rightarrow> u32 \<Rightarrow> u32" where
  "raw_share cap total_cap total_layers =
    f64_as_u32 (f_round ((f64_of_u64 cap / f64_of_u64 total_cap) * f64_of_u32 total_layers))"

definition stage_assignment :: "u64 \<Rightarrow> peer_info \<Rightarrow> layer_range \<Rightarrow> u32 \<Rightarrow> layer_assignment" where
  "stage_assignment bytes_per_layer peer lr share =
    (let compute_bandwidth = (if 0 < available_vram_bytes peer then Fin 200
           else estimated_bandwidth_gbps (memory (hardware peer)));
         compute_bytes = f64_of_u32 share * f64_of_u64 bytes_per_layer;
         compute_ms = (compute_bytes / (compute_bandwidth * lit 1000000000)) * Fin 1000;
         activation_size_bytes = Fin 16 * Fin 1024;
         transfer_bandwidth_bps = network_bandwidth_mbps peer * lit 1000000 / Fin 8;
         latency = (case latency_ms peer of Some l \<Rightarrow> l | None \<Rightarrow> Fin 10);
         transfer_ms = (if Fin 0 < transfer_bandwidth_bps
           then (activation_size_bytes / transfer_bandwidth_bps) * Fin 1000 + latency else latency)
     in \<lparr>la_peer_id = node_id peer, la_layer_range = lr,
         estimated_compute_ms = compute_ms, estimated_transfer_ms = transfer_ms\<rparr>)"

definition throughput :: "f64 \<Rightarrow> f64" where
  "throughput lat = (if Fin 0 < lat then Fin 1000 / lat else Fin 0)"

definition partial_error :: "u32 \<Rightarrow> u32 \<Rightarrow> nat \<Rightarrow> mesh_error" where
  "partial_error cursor total_layers n = Scheduling (''Could only assign '' @ show_nat (unat cursor) @ ''/'' @
     show_nat (unat total_layers) @ '' layers across '' @ show_nat n @ '' peers'')"

text \<open>
  The assignment loop, which the two schedulers share up to the share they compute: it stops when all layers
  are assigned and skips a peer with no share; it returns the assignments and the final cursor.
\<close>

fun plan_loop :: "(peer_info \<Rightarrow> bool \<Rightarrow> u32 \<Rightarrow> u32 \<Rightarrow> u32) \<Rightarrow> u64 \<Rightarrow> u32 \<Rightarrow> u32 \<Rightarrow> peer_info list \<Rightarrow>
    layer_assignment list \<times> u32" where
  "plan_loop share_of bpl total_layers cursor [] = ([], cursor)"
| "plan_loop share_of bpl total_layers cursor (peer # rest) =
    (if total_layers \<le> cursor then ([], cursor)
     else (let share = share_of peer (rest = []) total_layers cursor in
       if share = 0 then plan_loop share_of bpl total_layers cursor rest
       else (let (as, c) = plan_loop share_of bpl total_layers (cursor + share) rest
             in (stage_assignment bpl peer (cursor, cursor + share) share # as, c))))"

subsection \<open>The greedy scheduler\<close>

definition greedy_share :: "u64 \<Rightarrow> peer_info \<Rightarrow> bool \<Rightarrow> u32 \<Rightarrow> u32 \<Rightarrow> u32" where
  "greedy_share total_cap peer is_last total_layers cursor =
    (if is_last then total_layers - cursor
     else min (max (raw_share (capacity peer) total_cap total_layers) 1) (total_layers - cursor))"

definition greedy_plan :: "uuid \<Rightarrow> string \<Rightarrow> u32 \<Rightarrow> u64 \<Rightarrow> peer_info list \<Rightarrow> inference_plan mesh_result" where
  "greedy_plan sid model total_layers model_size peers =
    (if peers = [] then Inl (Scheduling ''No peers available'')
     else if total_layers = 0 then Inl (Scheduling ''Model has 0 layers'')
     else (let bpl = model_size div ucast total_layers;
               ranked = sort_by rank_after peers;
               total_cap = total_capacity ranked
       in if total_cap = 0 then Inl (Scheduling ''Peers have no available memory'')
       else (let (as, cursor) = plan_loop (greedy_share total_cap) bpl total_layers 0 ranked
         in if cursor < total_layers then Inl (partial_error cursor total_layers (length peers))
         else (let lat = f_sum (map (\<lambda>a. estimated_compute_ms a + estimated_transfer_ms a) as)
           in Inr \<lparr>ip_session_id = sid, ip_model_id = model, ip_total_layers = total_layers,
                  assignments = as, estimated_latency_ms = lat,
                  estimated_throughput_tok_s = throughput lat\<rparr>))))"

subsection \<open>The swarm-aware scheduler\<close>

record swarm_aware_scheduler =
  max_pipeline_depth :: u32
  min_layers_per_stage :: u32
  max_hop_latency_ms :: f64

definition new_swarm_aware :: swarm_aware_scheduler where
  "new_swarm_aware = \<lparr>max_pipeline_depth = 4, min_layers_per_stage = 4, max_hop_latency_ms = Fin 50\<rparr>"

definition with_limits :: "u32 \<Rightarrow> u32 \<Rightarrow> f64 \<Rightarrow> swarm_aware_scheduler" where
  "with_limits d m l = \<lparr>max_pipeline_depth = d, min_layers_per_stage = m, max_hop_latency_ms = l\<rparr>"

definition eligible :: "swarm_aware_scheduler \<Rightarrow> peer_info \<Rightarrow> bool" where
  "eligible sch p \<longleftrightarrow> (case latency_ms p of Some l \<Rightarrow> l | None \<Rightarrow> Fin 10) \<le> max_hop_latency_ms sch"

text \<open>Dropping peers from the end until every stage can get its minimum of layers (products in \<open>u32\<close>).\<close>

fun shrink :: "u32 \<Rightarrow> u32 \<Rightarrow> nat \<Rightarrow> nat" where
  "shrink total_layers min_layers 0 = 0"
| "shrink total_layers min_layers (Suc n) =
    (if n > 0 \<and> total_layers < min_layers * of_nat (Suc n) then shrink total_layers min_layers n else Suc n)"

definition select_stages :: "swarm_aware_scheduler \<Rightarrow> u32 \<Rightarrow> peer_info list \<Rightarrow> peer_info list" where
  "select_stages sch total_layers elig =
    (let ranked = sort_by rank_after elig;
         max_peers = unat (max_pipeline_depth sch);
         short = (if length ranked > max_peers then take max_peers ranked else ranked);
         min_total_needed = min_layers_per_stage sch * of_nat (min (length short) max_peers)
     in if total_layers < min_total_needed \<and> length short > 1
        then take (shrink total_layers (min_layers_per_stage sch) (length short)) short else short)"

definition swarm_share :: "u32 \<Rightarrow> u64 \<Rightarrow> peer_info \<Rightarrow> bool \<Rightarrow> u32 \<Rightarrow> u32 \<Rightarrow> u32" where
  "swarm_share min_layers total_cap peer is_last total_layers cursor =
    (if is_last then total_layers - cursor
     else min (max (raw_share (capacity peer) total_cap total_layers) min_layers) (total_layers - cursor))"

text \<open>The bottleneck stage plus the last hop.\<close>

definition steady_state_latency :: "layer_assignment list \<Rightarrow> f64" where
  "steady_state_latency as = foldl f_max (Fin 0) (map estimated_compute_ms as) +
     (if as = [] then Fin 0 else estimated_transfer_ms (last as))"

definition swarm_plan :: "swarm_aware_scheduler \<Rightarrow> uuid \<Rightarrow> string \<Rightarrow> u32 \<Rightarrow> u64 \<Rightarrow> peer_info list \<Rightarrow>
    inference_plan mesh_result" where
  "swarm_plan sch sid model total_layers model_size peers =
    (if peers = [] then Inl (Scheduling ''No peers available'')
     else if total_layers = 0 then Inl (Scheduling ''Model has 0 layers'')
     else (let bpl = model_size div ucast total_layers;
               elig = filter (eligible sch) peers
       in if elig = [] then Inl (Scheduling ''No peers with acceptable latency'')
       else (let stages = select_stages sch total_layers elig;
                 total_cap = total_capacity stages
         in if total_cap = 0 then Inl (Scheduling ''Peers have no available memory'')
         else (let (as, cursor) = plan_loop (swarm_share (min_layers_per_stage sch) total_cap) bpl total_layers 0 stages
           in if cursor < total_layers then Inl (partial_error cursor total_layers (length stages))
           else (let lat = steady_state_latency as
             in Inr \<lparr>ip_session_id = sid, ip_model_id = model, ip_total_layers = total_layers,
                  assignments = as, estimated_latency_ms = lat,
                  estimated_throughput_tok_s = throughput lat\<rparr>)))))"

subsection \<open>Both loops split the layers\<close>

definition stage_of :: "u64 \<Rightarrow> peer_info \<times> u32 \<times> u32 \<Rightarrow> layer_assignment" where
  "stage_of bpl x = stage_assignment bpl (fst x) (snd x) (snd (snd x) - fst (snd x))"

lemma stage_of_simps [simp]:
  "la_layer_range (stage_of bpl x) = snd x" "la_peer_id (stage_of bpl x) = node_id (fst x)"
  by (simp_all add: stage_of_def stage_assignment_def Let_def)

locale peer_split = layer_split share for share :: "peer_info \<Rightarrow> bool \<Rightarrow> u32 \<Rightarrow> u32 \<Rightarrow> u32"
begin

lemma plan_loop_split:
  "cursor \<le> nl \<Longrightarrow> ps \<noteq> [] \<Longrightarrow> plan_loop share bpl nl cursor ps =
     (map (stage_of bpl) (split_layers share nl cursor ps), nl)"
proof (induction ps arbitrary: cursor)
  case (Cons p ps)
  let ?s = "share p (ps = []) nl cursor"
  have s: "?s \<le> nl - cursor" using Cons.prems(1) by (rule share_le)
  then have c: "cursor + ?s \<le> nl" using Cons.prems(1) by (rule word_add_le_total [rotated])
  consider "nl = cursor" | "cursor < nl" "ps = []" | "cursor < nl" "ps \<noteq> []"
    using Cons.prems(1) by fastforce
  then show ?case
  proof cases
    case 1
    then show ?thesis by (simp add: Let_def share_at_end)
  next
    case 2
    then show ?thesis by (auto simp: Let_def stage_of_def share_last)
  next
    case 3
    then have "\<not> nl \<le> cursor" by simp
    then show ?thesis using 3(2) Cons.IH [OF c 3(2)] Cons.IH [OF Cons.prems(1) 3(2)]
      by (simp add: Let_def stage_of_def)
  qed
qed simp

text \<open>The assignments of a plan over a non-empty list of peers partition the layers.\<close>

lemma plan_loop_covers:
  "ps \<noteq> [] \<Longrightarrow> covers 0 nl (map la_layer_range (fst (plan_loop share bpl nl 0 ps))) \<and> snd (plan_loop share bpl nl 0 ps) = nl"
  using split_total [of ps nl] by (simp add: plan_loop_split comp_def)

lemma plan_loop_peers: "ps \<noteq> [] \<Longrightarrow> la_peer_id ` set (fst (plan_loop share bpl nl 0 ps)) \<subseteq> node_id ` set ps"
  using split_peers_subset [of nl 0 ps] by (auto simp: plan_loop_split)

lemma plan_loop_distinct:
  "ps \<noteq> [] \<Longrightarrow> distinct (map node_id ps) \<Longrightarrow> distinct (map la_peer_id (fst (plan_loop share bpl nl 0 ps)))"
  using split_peers_distinct_map [of node_id ps nl 0] by (simp add: plan_loop_split comp_def)

end

interpretation greedy: peer_split "greedy_share tc" for tc
  by unfold_locales (simp_all add: greedy_share_def)

interpretation swarm_aware: peer_split "swarm_share ml tc" for ml tc
  by unfold_locales (simp_all add: swarm_share_def)

lemma total_capacity_sort [simp]: "total_capacity (sort_by gt ps) = total_capacity ps"
  unfolding total_capacity_def by (rule wsum_mset) simp

text \<open>
  A plan partitions the layers \<open>0..n\<close>: its ranges are non-empty and contiguous in pipeline order, every layer
  is in exactly one of them, and only known peers serve.
\<close>

definition complete_plan :: "u32 \<Rightarrow> peer_info list \<Rightarrow> inference_plan \<Rightarrow> bool" where
  "complete_plan n peers plan \<longleftrightarrow> ip_total_layers plan = n \<and>
     covers 0 n (map la_layer_range (assignments plan)) \<and>
     la_peer_id ` set (assignments plan) \<subseteq> node_id ` set peers \<and>
     (\<forall>l. length (filter (\<lambda>a. in_range l (la_layer_range a)) (assignments plan)) = (if l < n then 1 else 0))"

lemma complete_planI:
  "ip_total_layers plan = n \<Longrightarrow> covers 0 n (map la_layer_range (assignments plan)) \<Longrightarrow>
   la_peer_id ` set (assignments plan) \<subseteq> node_id ` set peers \<Longrightarrow> complete_plan n peers plan"
  using covers_partition [of 0 n "map la_layer_range (assignments plan)"]
  by (simp add: complete_plan_def filter_map comp_def)

lemma greedy_plan_complete: "greedy_plan sid model n bytes peers = Inr plan \<Longrightarrow> complete_plan n peers plan"
proof -
  assume g: "greedy_plan sid model n bytes peers = Inr plan"
  let ?tc = "total_capacity peers" and ?bpl = "bytes div ucast n"
  have p: "peers \<noteq> []" "n \<noteq> 0" "?tc \<noteq> 0" using g by (auto simp: greedy_plan_def Let_def split: if_splits)
  obtain as c where l: "plan_loop (greedy_share ?tc) ?bpl n 0 (sort_by rank_after peers) = (as, c)" by fastforce
  have "covers 0 n (map la_layer_range as)" "c = n" "la_peer_id ` set as \<subseteq> node_id ` set peers"
    using p l greedy.plan_loop_covers [of "sort_by rank_after peers" n ?tc ?bpl]
      greedy.plan_loop_peers [of "sort_by rank_after peers" ?tc ?bpl n] by simp_all
  then show ?thesis using p g by (auto simp: greedy_plan_def Let_def l intro!: complete_planI)
qed

lemma greedy_plan_distinct:
  assumes "greedy_plan sid model n bytes peers = Inr plan" "distinct (map node_id peers)"
  shows "distinct (map la_peer_id (assignments plan)) \<and> ip_session_id plan = sid \<and> n \<noteq> 0"
proof -
  let ?r = "sort_by rank_after peers"
  have p: "peers \<noteq> []" "n \<noteq> 0" using assms(1) by (auto simp: greedy_plan_def split: if_splits)
  have "distinct (map node_id ?r)" using assms(2) by (metis distinct_map mset_map mset_sort_by mset_eq_imp_distinct_iff)
  then have "distinct (map la_peer_id (fst (plan_loop (greedy_share tc) bpl n 0 ?r)))" for tc bpl
    using p by (intro greedy.plan_loop_distinct) simp_all
  then show ?thesis using assms(1) p by (auto simp: greedy_plan_def Let_def split: if_splits prod.splits) (metis fst_conv)+
qed



lemma shrink_bounds: "0 < k \<Longrightarrow> 0 < shrink n m k" "shrink n m k \<le> k"
  by (induction n m k rule: shrink.induct) auto

lemma select_stages_props:
  assumes "elig \<noteq> []" "max_pipeline_depth sch \<noteq> 0"
  shows "select_stages sch n elig \<noteq> [] \<and> set (select_stages sch n elig) \<subseteq> set elig \<and>
     length (select_stages sch n elig) \<le> unat (max_pipeline_depth sch)"
proof -
  let ?r = "sort_by rank_after elig" and ?k = "unat (max_pipeline_depth sch)"
  let ?s = "if length ?r > ?k then take ?k ?r else ?r"
  have k: "0 < ?k" using assms(2) by (simp add: unat_gt_0)
  have s: "?s \<noteq> []" "set ?s \<subseteq> set elig" "length ?s \<le> ?k"
    using assms(1) k by (auto dest: in_set_takeD)
  have t: "take (shrink n m (length xs)) xs \<noteq> []" "set (take (shrink n m (length xs)) xs) \<subseteq> set xs"
    "length (take (shrink n m (length xs)) xs) \<le> length xs" if "xs \<noteq> []" for xs :: "peer_info list" and m
    using shrink_bounds(1) [of "length xs" n m] that by (auto dest: in_set_takeD)
  show ?thesis using s t [OF s(1), of "min_layers_per_stage sch"]
    unfolding select_stages_def Let_def by (smt (verit) order_trans)
qed

text \<open>
  Every plan of the swarm-aware scheduler partitions the layers of the model, among peers whose latency is
  within the limit, in at most \<open>max_pipeline_depth\<close> stages.
\<close>
theorem swarm_plan_correct:
  assumes "swarm_plan sch sid model n bytes peers = Inr plan"
  shows "complete_plan n (filter (eligible sch) peers) plan \<and>
     length (assignments plan) \<le> unat (max_pipeline_depth sch)"
proof -
  let ?st = "select_stages sch n (filter (eligible sch) peers)"
  let ?tc = "total_capacity ?st" and ?bpl = "bytes div ucast n" and ?ml = "min_layers_per_stage sch"
  have e: "filter (eligible sch) peers \<noteq> []" and tc: "?tc \<noteq> 0" and n: "n \<noteq> 0"
    using assms by (auto simp: swarm_plan_def Let_def split: if_splits)
  have "?st = []" if "max_pipeline_depth sch = 0"
    using that e by (simp add: select_stages_def Let_def)
  then have d: "max_pipeline_depth sch \<noteq> 0"
    using tc by (auto simp: total_capacity_def wsum_def)
  note st = select_stages_props [OF e d, of n]
  obtain as c where l: "plan_loop (swarm_share ?ml ?tc) ?bpl n 0 ?st = (as, c)" by fastforce
  have as: "covers 0 n (map la_layer_range as)" "c = n" "la_peer_id ` set as \<subseteq> node_id ` set ?st"
    using st l swarm_aware.plan_loop_covers [of ?st n ?ml ?tc ?bpl]
      swarm_aware.plan_loop_peers [of ?st ?ml ?tc ?bpl n] by simp_all
  have "length as \<le> length ?st"
    using st l swarm_aware.plan_loop_split [of 0 n ?st ?ml ?tc ?bpl] swarm_aware.split_length [of ?ml ?tc n 0 ?st] by auto
  then have "length as \<le> unat (max_pipeline_depth sch)" using st by simp
  moreover have "ip_total_layers plan = n" "assignments plan = as"
    using assms e tc n l as(2) by (auto simp: swarm_plan_def Let_def split: if_splits)
  moreover
  have "node_id ` set ?st \<subseteq> node_id ` set (filter (eligible sch) peers)" using st by blast
  then have "la_peer_id ` set as \<subseteq> node_id ` set (filter (eligible sch) peers)" by (rule order_trans [OF as(3)])
  ultimately show ?thesis using as(1) by (intro conjI complete_planI) simp_all
qed

lemma swarm_plan_correct_witness:
  "complete_plan 32 [sample_peer 1 8000 0] (projr (swarm_plan new_swarm_aware 7 ''m'' 32 64000 [sample_peer 1 8000 0]))"
proof -
  have e: "filter (eligible new_swarm_aware) [sample_peer 1 8000 0] = [sample_peer 1 8000 0]"
    by (simp add: eligible_def new_swarm_aware_def sample_peer_def)
  have s: "select_stages new_swarm_aware 32 [sample_peer 1 8000 0] = [sample_peer 1 8000 0]"
    by (simp add: select_stages_def new_swarm_aware_def Let_def)
  have t: "total_capacity [sample_peer 1 8000 0] = 8000"
    by (simp add: total_capacity_def wsum_def capacity_def sample_peer_def)
  obtain plan where "swarm_plan new_swarm_aware 7 ''m'' 32 64000 [sample_peer 1 8000 0] = Inr plan"
    by (simp add: swarm_plan_def e [simplified] s t Let_def swarm_aware.share_last split: prod.splits)
  from swarm_plan_correct [OF this, unfolded e] this show ?thesis by simp
qed

text \<open>
  The minimum number of layers per stage is not enforced for the last stage: two peers with capacities
  nine to one and a model of ten layers get nine layers and one layer under a minimum of four.
\<close>
theorem last_stage_below_minimum:
  "map la_layer_range (assignments (projr (swarm_plan new_swarm_aware 7 ''m'' 10 64000
     [sample_peer 1 9000 0, sample_peer 2 1000 0]))) = [(0, 9), (9, 10)] \<and>
   min_layers_per_stage new_swarm_aware = 4"
proof -
  let ?ps = "[sample_peer 1 9000 0, sample_peer 2 1000 0]"
  have c: "capacity (sample_peer 1 9000 0) = 9000" "capacity (sample_peer 2 1000 0) = 1000"
    by (simp_all add: capacity_def sample_peer_def)
  have e: "eligible new_swarm_aware (sample_peer i r v)" for i r v
    by (simp add: eligible_def new_swarm_aware_def sample_peer_def)
  have s: "select_stages new_swarm_aware 10 ?ps = ?ps"
    by (simp add: select_stages_def new_swarm_aware_def rank_after_def c Let_def)
  have t: "total_capacity ?ps = 10000" by (simp add: total_capacity_def wsum_def c)
  have r: "raw_share 9000 10000 10 = 9" by code_simp
  show ?thesis
    by (simp add: swarm_plan_def e s t Let_def swarm_share_def c r)
      (simp add: new_swarm_aware_def stage_assignment_def Let_def)
qed

end
