(* ===== verification/Swarm.thy ===== *)
theory Swarm
  imports Scheduler
begin

section \<open>Swarms\<close>

text \<open>
  \<open>crates/hivebear-mesh/src/swarm/mod.rs\<close>: a swarm, its members with their roles and layers, its life
  cycle, and the constants of the swarm code.  The fresh id and the creation time are arguments.
\<close>

datatype swarm_role = Leader | Worker | Standby

datatype swarm_status = Forming | Ready | Busy | Degraded | Disbanded

fun show_swarm_role :: "swarm_role \<Rightarrow> string" where
  "show_swarm_role Leader = ''leader''"
| "show_swarm_role Worker = ''worker''"
| "show_swarm_role Standby = ''standby''"

fun show_swarm_status :: "swarm_status \<Rightarrow> string" where
  "show_swarm_status Forming = ''forming''"
| "show_swarm_status Ready = ''ready''"
| "show_swarm_status Busy = ''busy''"
| "show_swarm_status Degraded = ''degraded''"
| "show_swarm_status Disbanded = ''disbanded''"

record swarm_member =
  sm_peer_id :: node_id
  role :: swarm_role
  assigned_layers :: layer_range
  capacity_bytes :: u64
  latency_to_leader_ms :: f64

record swarm_definition =
  sd_swarm_id :: uuid
  sd_model_id :: string
  members :: "swarm_member list"
  pipeline_plan :: "inference_plan option"
  aggregate_capacity_bytes :: u64
  estimated_tok_s :: f64
  status :: swarm_status
  created_at :: instant

definition MAX_SWARM_SIZE :: usize where "MAX_SWARM_SIZE = 4"
definition MIN_SWARM_SIZE :: usize where "MIN_SWARM_SIZE = 2"
definition MAX_LAN_LATENCY_MS :: f64 where "MAX_LAN_LATENCY_MS = Fin 15"
definition MAX_WAN_LATENCY_MS :: f64 where "MAX_WAN_LATENCY_MS = Fin 50"
definition MIN_SWARM_CAPACITY_BYTES :: u64 where "MIN_SWARM_CAPACITY_BYTES = 3 * 1024 * 1024 * 1024"

definition new_swarm :: "uuid \<Rightarrow> instant \<Rightarrow> string \<Rightarrow> swarm_definition" where
  "new_swarm sid now model = \<lparr>sd_swarm_id = sid, sd_model_id = model, members = [], pipeline_plan = None,
     aggregate_capacity_bytes = 0, estimated_tok_s = Fin 0, status = Forming, created_at = now\<rparr>"

definition active_members :: "swarm_member list \<Rightarrow> swarm_member list" where
  "active_members ms = filter (\<lambda>m. role m \<noteq> Standby) ms"

definition active_member_count :: "swarm_definition \<Rightarrow> usize" where
  "active_member_count s = length (active_members (members s))"

definition member_count :: "swarm_definition \<Rightarrow> usize" where
  "member_count s = length (members s)"

definition leader :: "swarm_definition \<Rightarrow> swarm_member option" where
  "leader s = find (\<lambda>m. role m = Leader) (members s)"

definition has_member :: "swarm_definition \<Rightarrow> node_id \<Rightarrow> bool" where
  "has_member s peer \<longleftrightarrow> (\<exists>m \<in> set (members s). sm_peer_id m = peer)"

definition recalculate_capacity :: "swarm_definition \<Rightarrow> swarm_definition" where
  "recalculate_capacity s =
     s\<lparr>aggregate_capacity_bytes := wsum (map capacity_bytes (active_members (members s)))\<rparr>"

definition can_accept_member :: "swarm_definition \<Rightarrow> bool" where
  "can_accept_member s \<longleftrightarrow> member_count s < MAX_SWARM_SIZE \<and> status s \<in> {Forming, Ready, Degraded}"

lemma recalculate_capacity_simps [simp]:
  "members (recalculate_capacity s) = members s" "status (recalculate_capacity s) = status s"
  "sd_model_id (recalculate_capacity s) = sd_model_id s"
  by (simp_all add: recalculate_capacity_def)

end
