(* ===== verification/Rebalance.thy ===== *)
theory Rebalance
  imports Swarm
begin

section \<open>Rebalancing a swarm\<close>

text \<open>
  \<open>crates/hivebear-mesh/src/swarm/rebalance.rs\<close>.  The functions that mutate the swarm return it updated,
  beside the result.
\<close>

datatype rebalance_reason = MemberLeft node_id | MemberFailed node_id | MemberJoined node_id

datatype rebalance_action =
  Redistributed "(node_id \<times> layer_range) list"
| StandbyPromoted node_id "(node_id \<times> layer_range) list"
| ActionDisbanded

definition redistribute_share :: "u64 \<Rightarrow> swarm_member \<Rightarrow> bool \<Rightarrow> u32 \<Rightarrow> u32 \<Rightarrow> u32" where
  "redistribute_share total_cap m is_last total_layers cursor =
    (if is_last then total_layers - cursor
     else min (max (raw_share (capacity_bytes m) total_cap total_layers) 1) (total_layers - cursor))"

text \<open>The loop over the indices of the active members; a break leaves the later ones as they are.\<close>

fun redistribute_loop :: "u64 \<Rightarrow> u32 \<Rightarrow> u32 \<Rightarrow> nat list \<Rightarrow> swarm_member list \<Rightarrow>
    swarm_member list \<times> (node_id \<times> layer_range) list" where
  "redistribute_loop total_cap total_layers cursor [] ms = (ms, [])"
| "redistribute_loop total_cap total_layers cursor (i # is) ms =
    (if total_layers \<le> cursor then (ms, [])
     else (let share = redistribute_share total_cap (ms ! i) (is = []) total_layers cursor;
               range = (cursor, cursor + share);
               (ms', as) = redistribute_loop total_cap total_layers (cursor + share) is
                 (ms[i := (ms ! i)\<lparr>assigned_layers := range\<rparr>])
           in (ms', (sm_peer_id (ms ! i), range) # as)))"

definition active_indices :: "swarm_member list \<Rightarrow> nat list" where
  "active_indices ms = filter (\<lambda>i. role (ms ! i) \<noteq> Standby) [0..<length ms]"

definition redistribute_layers :: "u32 \<Rightarrow> swarm_definition \<Rightarrow> swarm_definition \<times> rebalance_action mesh_result" where
  "redistribute_layers total_layers s =
    (let active = active_indices (members s) in
     if active = [] then (s\<lparr>status := Disbanded\<rparr>, Inr ActionDisbanded)
     else (let total_cap = wsum (map (\<lambda>i. capacity_bytes (members s ! i)) active) in
       if total_cap = 0 then (s, Inl (Scheduling ''No capacity available''))
       else (let (ms, as) = redistribute_loop total_cap total_layers 0 active (members s)
         in (recalculate_capacity (s\<lparr>members := ms\<rparr>), Inr (Redistributed as)))))"

text \<open>The member the standby index points at after the removal is promoted.\<close>

definition promote :: "nat \<Rightarrow> bool \<Rightarrow> swarm_definition \<Rightarrow> swarm_definition" where
  "promote i needs_new_leader s =
    s\<lparr>members := (members s)[i := (members s ! i)\<lparr>role := (if needs_new_leader then Leader else Worker)\<rparr>]\<rparr>"

text \<open>The part that runs when nobody can be promoted.\<close>

definition shrink_swarm :: "bool \<Rightarrow> u32 \<Rightarrow> swarm_definition \<Rightarrow> swarm_definition \<times> rebalance_action mesh_result" where
  "shrink_swarm needs_new_leader total_layers s =
    (let s1 = (if needs_new_leader \<and> members s \<noteq> []
           then s\<lparr>members := (members s)[0 := (members s ! 0)\<lparr>role := Leader\<rparr>]\<rparr> else s) in
     if active_member_count s1 < MIN_SWARM_SIZE then (s1\<lparr>status := Disbanded\<rparr>, Inr ActionDisbanded)
     else redistribute_layers total_layers (s1\<lparr>status := Degraded\<rparr>))"

definition handle_member_departure :: "node_id \<Rightarrow> u32 \<Rightarrow> swarm_definition \<Rightarrow>
    swarm_definition \<times> rebalance_action mesh_result" where
  "handle_member_departure departing total_layers s =
    (let standby_idx = position (\<lambda>m. role m = Standby) (members s);
         departed = position (\<lambda>m. sm_peer_id m = departing) (members s);
         s1 = (case departed of None \<Rightarrow> s | Some i \<Rightarrow> s\<lparr>members := remove_at i (members s)\<rparr>);
         needs_new_leader = (leader s1 = None)
     in case standby_idx of
          None \<Rightarrow> shrink_swarm needs_new_leader total_layers s1
        | Some si \<Rightarrow>
           (let adjusted = (case departed of Some d \<Rightarrow> if d < si then si - 1 else si | None \<Rightarrow> si) in
            if adjusted < length (members s1) then
              (let promoted = sm_peer_id (members s1 ! adjusted) in
               case redistribute_layers total_layers (promote adjusted needs_new_leader s1) of
                 (s2, Inl e) \<Rightarrow> (s2, Inl e)
               | (s2, Inr (Redistributed as)) \<Rightarrow> (s2, Inr (StandbyPromoted promoted as))
               | (s2, Inr other) \<Rightarrow> (s2, Inr other))
            else shrink_swarm needs_new_leader total_layers s1))"

definition rebalance :: "rebalance_reason \<Rightarrow> u32 \<Rightarrow> swarm_definition \<Rightarrow>
    swarm_definition \<times> rebalance_action mesh_result" where
  "rebalance reason total_layers s = (case reason of
     MemberLeft peer \<Rightarrow> handle_member_departure peer total_layers s
   | MemberFailed peer \<Rightarrow> handle_member_departure peer total_layers s
   | MemberJoined peer \<Rightarrow> redistribute_layers total_layers s)"

subsection \<open>Redistribution partitions the layers\<close>

interpretation redistribute: layer_split "redistribute_share tc" for tc
  by unfold_locales (simp_all add: redistribute_share_def)

lemma redistribute_share_pos: "cursor < n \<Longrightarrow> redistribute_share tc m is_last n cursor \<noteq> 0"
proof -
  assume c: "cursor < n"
  have r: "n - cursor \<noteq> 0" using c by auto
  have "max x 1 \<noteq> (0::u32)" for x by (auto simp: max_def)
  then show ?thesis using r by (auto simp: redistribute_share_def min_def)
qed

lemma redistribute_loop_split:
  assumes "cursor \<le> n" "distinct is" "\<forall>i \<in> set is. i < length ms"
  shows "snd (redistribute_loop tc n cursor is ms) =
     map (\<lambda>(m, r). (sm_peer_id m, r)) (split_layers (redistribute_share tc) n cursor (map ((!) ms) is))"
  using assms
proof (induction "is" arbitrary: cursor ms)
  case (Cons i "is")
  show ?case
  proof (cases "cursor = n")
    case True
    then show ?thesis by (simp add: Let_def redistribute.share_at_end)
  next
    case False
    then have c: "cursor < n" using Cons.prems(1) by simp
    let ?s = "redistribute_share tc (ms ! i) (is = []) n cursor"
    let ?ms = "ms[i := (ms ! i)\<lparr>assigned_layers := (cursor, cursor + ?s)\<rparr>]"
    have "cursor + ?s \<le> n"
      using redistribute.share_le [OF Cons.prems(1)] Cons.prems(1) by (metis word_add_le_total)
    moreover have "map ((!) ?ms) is = map ((!) ms) is" 
      using Cons.prems(2) by (intro map_cong refl) (metis distinct.simps(2) nth_list_update_neq)
    moreover have "distinct is" "\<forall>i \<in> set is. i < length ?ms" using Cons.prems(2,3) by simp_all
    ultimately have "snd (redistribute_loop tc n (cursor + ?s) is ?ms) =
        map (\<lambda>(m, r). (sm_peer_id m, r)) (split_layers (redistribute_share tc) n (cursor + ?s) (map ((!) ms) is))"
      using Cons.IH [of "cursor + ?s" ?ms] by (simp only:)
    then show ?thesis using c redistribute_share_pos [OF c, of tc "ms ! i" "is = []"]
      by (simp add: Let_def split_def not_le)
  qed
qed simp

lemma redistribute_loop_members:
  assumes "distinct is" "\<forall>i \<in> set is. i < length ms" "redistribute_loop tc n cursor is ms = (ms', as)"
  shows "length ms' = length ms \<and> length as \<le> length is \<and>
    (\<forall>k < length as. fst (as ! k) = sm_peer_id (ms ! (is ! k)) \<and>
       ms' ! (is ! k) = (ms ! (is ! k))\<lparr>assigned_layers := snd (as ! k)\<rparr>) \<and>
    (\<forall>j. j \<notin> set (take (length as) is) \<longrightarrow> ms' ! j = ms ! j)"
  using assms
proof (induction "is" arbitrary: cursor ms ms' as)
  case (Cons i "is")
  show ?case
  proof (cases "n \<le> cursor")
    case True
    then show ?thesis using Cons.prems(3) by simp
  next
    case False
    let ?s = "redistribute_share tc (ms ! i) (is = []) n cursor"
    let ?ms = "ms[i := (ms ! i)\<lparr>assigned_layers := (cursor, cursor + ?s)\<rparr>]"
    obtain as' where l: "redistribute_loop tc n (cursor + ?s) is ?ms = (ms', as')"
      and as: "as = (sm_peer_id (ms ! i), cursor, cursor + ?s) # as'"
      using False Cons.prems(3) by (auto simp: Let_def split: prod.splits)
    have IH: "length ms' = length ?ms \<and> length as' \<le> length is \<and>
      (\<forall>k < length as'. fst (as' ! k) = sm_peer_id (?ms ! (is ! k)) \<and>
         ms' ! (is ! k) = (?ms ! (is ! k))\<lparr>assigned_layers := snd (as' ! k)\<rparr>) \<and>
      (\<forall>j. j \<notin> set (take (length as') is) \<longrightarrow> ms' ! j = ?ms ! j)"
      using Cons.prems(1,2) by (intro Cons.IH [OF _ _ l]) simp_all
    have i: "i \<notin> set is" "i < length ms" using Cons.prems(1,2) by simp_all
    have ne: "is ! k \<noteq> i" if "k < length as'" for k
      using i(1) IH that by (metis le_trans less_le_trans nth_mem)
    have ii: "ms' ! i = ?ms ! i" using IH i(1) by (meson in_set_takeD)
    show ?thesis using IH ii ne i(2) unfolding as
      by (auto simp: nth_Cons' nth_list_update less_Suc_eq_0_disj)
  qed
qed simp

lemma active_indices_props [simp]:
  "distinct (active_indices ms)" "i \<in> set (active_indices ms) \<Longrightarrow> i < length ms"
  by (auto simp: active_indices_def)

lemma map_active_indices: "map ((!) ms) (active_indices ms) = active_members ms"
proof -
  have "map ((!) ms) (filter (\<lambda>i. role (ms ! i) \<noteq> Standby) [0..<length ms]) =
     filter (\<lambda>m. role m \<noteq> Standby) (map ((!) ms) [0..<length ms])"
    by (simp add: filter_map comp_def)
  then show ?thesis by (simp only: active_indices_def active_members_def map_nth)
qed

lemma redistribute_layers_Redistributed:
  assumes "redistribute_layers n s = (s', Inr (Redistributed as))"
  shows "covers 0 n (map snd as)"
proof -
  let ?a = "active_indices (members s)"
  have "?a \<noteq> []" and as: "as = snd (redistribute_loop (wsum (map (\<lambda>i. capacity_bytes (members s ! i)) ?a)) n 0 ?a (members s))"
    using assms by (auto simp: redistribute_layers_def Let_def split: if_splits prod.splits)
  then have ne: "map ((!) (members s)) ?a \<noteq> []" by simp
  from redistribute.split_total [OF ne, of n] show ?thesis
    unfolding as by (simp add: redistribute_loop_split split_def comp_def)
qed

subsection \<open>What a departure does\<close>

lemma redistribute_layers_members:
  assumes "redistribute_layers n s = (s', r)"
  shows "length (members s') = length (members s) \<and>
    (\<forall>i < length (members s). sm_peer_id (members s' ! i) = sm_peer_id (members s ! i) \<and>
       role (members s' ! i) = role (members s ! i) \<and> capacity_bytes (members s' ! i) = capacity_bytes (members s ! i))"
proof -
  let ?a = "active_indices (members s)" and ?tc = "wsum (map (\<lambda>i. capacity_bytes (members s ! i)) (active_indices (members s)))"
  obtain ms as where l: "redistribute_loop ?tc n 0 ?a (members s) = (ms, as)" by fastforce
  have m: "length ms = length (members s) \<and> length as \<le> length ?a \<and>
    (\<forall>k < length as. fst (as ! k) = sm_peer_id (members s ! (?a ! k)) \<and>
       ms ! (?a ! k) = (members s ! (?a ! k))\<lparr>assigned_layers := snd (as ! k)\<rparr>) \<and>
    (\<forall>j. j \<notin> set (take (length as) ?a) \<longrightarrow> ms ! j = members s ! j)"
    by (rule redistribute_loop_members [OF _ _ l]) simp_all
  have e: "sm_peer_id (ms ! i) = sm_peer_id (members s ! i) \<and> role (ms ! i) = role (members s ! i) \<and>
      capacity_bytes (ms ! i) = capacity_bytes (members s ! i)" for i
  proof (cases "i \<in> set (take (length as) ?a)")
    case True
    then obtain k where "k < length as" "i = ?a ! k" by (auto simp: in_set_conv_nth)
    then show ?thesis using m by simp
  next
    case False
    then show ?thesis using m by simp
  qed
  have "members s' = members s \<or> members s' = ms"
    using assms by (auto simp: redistribute_layers_def Let_def l split: if_splits)
  then show ?thesis
  proof
    assume "members s' = members s"
    then show ?thesis by simp
  next
    assume "members s' = ms"
    then show ?thesis using e conjunct1 [OF m] by simp
  qed
qed


definition sample_member :: "u8 \<Rightarrow> swarm_role \<Rightarrow> layer_range \<Rightarrow> u64 \<Rightarrow> swarm_member" where
  "sample_member i r lr cap = \<lparr>sm_peer_id = NodeId [i], role = r, assigned_layers = lr, capacity_bytes = cap,
     latency_to_leader_ms = Fin 5\<rparr>"

definition sample_swarm :: "swarm_member list \<Rightarrow> swarm_definition" where
  "sample_swarm ms = (new_swarm 1 0 ''m'')\<lparr>members := ms, status := Ready\<rparr>"


text \<open>Redistribution keeps identities, roles and order.\<close>

lemma redistribute_layers_maps:
  assumes "redistribute_layers n s = (s', r)"
  shows "map sm_peer_id (members s') = map sm_peer_id (members s) \<and> map role (members s') = map role (members s)"
  using redistribute_layers_members [OF assms] by (auto intro: nth_equalityI)

lemma redistribute_layers_status:
  "redistribute_layers n s = (s', r) \<Longrightarrow> active_members (members s) \<noteq> [] \<Longrightarrow> status s' = status s"
  using map_active_indices [of "members s"]
  by (auto simp: redistribute_layers_def Let_def split: if_splits prod.splits)

definition leader_count :: "swarm_member list \<Rightarrow> nat" where
  "leader_count ms = length (filter (\<lambda>m. role m = Leader) ms)"

lemma leader_count_roles: "leader_count ms = count (mset (map role ms)) Leader"
  by (induction ms) (auto simp: leader_count_def)

lemma leader_None: "leader s = None \<longleftrightarrow> leader_count (members s) = 0"
  by (auto simp: leader_def leader_count_def find_None_iff filter_empty_conv)

lemma leader_count_remove: "i < length ms \<Longrightarrow>
   leader_count (remove_at i ms) = leader_count ms - (if role (ms ! i) = Leader then 1 else 0)"
  by (simp add: leader_count_roles mset_remove_at image_mset_Diff nth_mem_mset)

lemma position_remove1:
  "position (\<lambda>m. f m = q) ms = Some i \<Longrightarrow> map f (remove_at i ms) = remove1 q (map f ms)"
  by (induction ms arbitrary: i) (auto simp: remove_at_def split: if_splits)

text \<open>
  When a member of a swarm without standbys and with one leader leaves or fails, it and nobody else is
  removed; a swarm left with fewer than two members is disbanded, and any other is degraded and has exactly
  one leader, the first remaining member when the leader was the one that left.
\<close>
theorem departure_without_standby:
  assumes "\<forall>m \<in> set (members s). role m \<noteq> Standby" "leader_count (members s) = 1"
    "has_member s q" "reason = MemberLeft q \<or> reason = MemberFailed q" "rebalance reason n s = (s', r)"
  shows "map sm_peer_id (members s') = remove1 q (map sm_peer_id (members s)) \<and>
    (if length (members s) \<le> 2 then status s' = Disbanded \<and> r = Inr ActionDisbanded
     else status s' = Degraded \<and> leader_count (members s') = 1)"
proof -
  have np: "position (\<lambda>m. role m = Standby) (members s) = None"
    by (subst position_None) (rule assms(1))
  obtain i where i: "position (\<lambda>m. sm_peer_id m = q) (members s) = Some i"
    using assms(3) position_None [of "\<lambda>m. sm_peer_id m = q" "members s"]
    by (cases "position (\<lambda>m. sm_peer_id m = q) (members s)") (auto simp: has_member_def)
  then have il: "i < length (members s)" by (simp add: position_Some)
  define ms1 where "ms1 = remove_at i (members s)"
  define ms2 where "ms2 = (if leader_count ms1 = 0 \<and> ms1 \<noteq> [] then ms1[0 := (ms1 ! 0)\<lparr>role := Leader\<rparr>] else ms1)"
  have len: "length ms2 = length (members s) - 1" using il by (simp add: ms2_def ms1_def)
  have ids: "map sm_peer_id ms2 = remove1 q (map sm_peer_id (members s))"
  proof -
    have "map sm_peer_id ms2 = map sm_peer_id ms1" by (cases ms1) (auto simp: ms2_def)
    then show ?thesis by (simp add: ms1_def position_remove1 [OF i])
  qed
  have ns: "\<forall>m \<in> set ms2. role m \<noteq> Standby"
    using assms(1) set_remove_at_subset [of i "members s"]
    by (auto simp: ms2_def ms1_def dest!: set_update_subset_insert [THEN subsetD])
  have act: "active_members ms2 = ms2" using ns by (simp add: active_members_def filter_id_conv)
  have c1: "leader_count ms1 \<le> 1" using leader_count_remove [OF il] assms(2) by (simp add: ms1_def)
  have lc: "leader_count ms2 = 1" if "ms2 \<noteq> []"
    using c1 that by (cases ms1) (auto simp: ms2_def leader_count_def le_Suc_eq)
  have "handle_member_departure q n s = (s', r)" using assms(4,5) by (auto simp: rebalance_def)
  then have "shrink_swarm (leader_count ms1 = 0) n (s\<lparr>members := ms1\<rparr>) = (s', r)"
    by (simp add: handle_member_departure_def np i Let_def ms1_def leader_None)
  then have sh: "(if length ms2 < 2 then (s\<lparr>members := ms2, status := Disbanded\<rparr>, Inr ActionDisbanded)
      else redistribute_layers n (s\<lparr>members := ms2, status := Degraded\<rparr>)) = (s', r)"
    using act by (auto simp: shrink_swarm_def Let_def ms2_def active_member_count_def MIN_SWARM_SIZE_def split: if_splits)
  show ?thesis
  proof (cases "length ms2 < 2")
    case True
    then show ?thesis using sh len ids by auto
  next
    case False
    then have re: "redistribute_layers n (s\<lparr>members := ms2, status := Degraded\<rparr>) = (s', r)" and "ms2 \<noteq> []"
      using sh by auto
    then show ?thesis using redistribute_layers_maps [OF re] redistribute_layers_status [OF re] act lc False len ids
      by (auto simp: leader_count_roles)
  qed
qed

lemma departure_without_standby_witness:
  "status (fst (rebalance (MemberLeft (NodeId [1])) 32
     (sample_swarm [sample_member 1 Leader (0, 16) 10, sample_member 2 Worker (16, 32) 10]))) = Disbanded"
  using departure_without_standby [of "sample_swarm [sample_member 1 Leader (0, 16) 10, sample_member 2 Worker (16, 32) 10]"
      "NodeId [1]" "MemberLeft (NodeId [1])" 32 _ _, OF _ _ _ _ surjective_pairing]
  by (simp add: sample_swarm_def sample_member_def leader_count_def has_member_def)

text \<open>
  A member that gets no share keeps its old range: with capacities so uneven that the first of three
  members is given all 32 layers, the other two keep ranges that overlap it.
\<close>
theorem redistribution_leaves_stale_ranges:
  "map assigned_layers (members (fst (rebalance (MemberJoined (NodeId [3])) 32
     (sample_swarm [sample_member 1 Leader (0, 12) 1099511627776, sample_member 2 Worker (12, 22) 2147483648,
        sample_member 3 Worker (22, 32) 2147483648])))) = [(0, 32), (12, 22), (22, 32)]"
  by code_simp

text \<open>
  When the first standby member itself departs, the member after it is taken for the standby: it is
  reported as promoted and made a worker, even when it is the leader, and the swarm is then without one.
\<close>
theorem departing_standby_demotes_next:
  assumes "members s = pre @ [st, nxt] @ post" "\<forall>m \<in> set pre. role m \<noteq> Standby" "role st = Standby"
    "\<forall>m \<in> set pre. sm_peer_id m \<noteq> sm_peer_id st" "leader s \<noteq> None"
    "rebalance (MemberLeft (sm_peer_id st)) n s = (s', Inr action)"
  shows "(\<exists>as. action = StandbyPromoted (sm_peer_id nxt) as) \<and> role (members s' ! length pre) = Worker \<and>
    (leader_count (members s) = 1 \<and> role nxt = Leader \<longrightarrow> leader s' = None)"
proof -
  have p: "position P (pre @ st # nxt # post) = Some (length pre)" if "\<forall>m \<in> set pre. \<not> P m" "P st" for P
    using that by (induction pre) simp_all
  have r1: "remove_at (length pre) (members s) = pre @ nxt # post" using assms(1) by (simp add: remove_at_def)
  have lc: "leader_count (pre @ nxt # post) = leader_count (members s)"
    using assms(1,3) by (simp add: leader_count_def)
  let ?s1 = "s\<lparr>members := pre @ nxt # post\<rparr>"
  have nl: "leader ?s1 \<noteq> None" using assms(5) lc by (simp add: leader_None)
  have si: "position (\<lambda>m. role m = Standby) (members s) = Some (length pre)"
    "position (\<lambda>m. sm_peer_id m = sm_peer_id st) (members s) = Some (length pre)"
    using assms(2,3,4) p [of "\<lambda>m. role m = Standby"] p [of "\<lambda>m. sm_peer_id m = sm_peer_id st"]
    unfolding assms(1) by simp_all
  let ?s2 = "promote (length pre) False ?s1"
  obtain s2 r where re: "redistribute_layers n ?s2 = (s2, r)" by fastforce
  have m2: "members ?s2 = pre @ nxt\<lparr>role := Worker\<rparr> # post" by (simp add: promote_def)
  have act: "active_indices (members ?s2) \<noteq> []"
    using map_active_indices [of "members ?s2"] by (auto simp: m2 active_members_def)
  have h: "handle_member_departure (sm_peer_id st) n s = (s', Inr action)"
    using assms(6) by (simp add: rebalance_def)
  have "s' = s2 \<and> (\<exists>as. action = StandbyPromoted (sm_peer_id nxt) as)"
    using h nl re act by (auto simp: handle_member_departure_def si r1 Let_def redistribute_layers_def
        split: prod.splits if_splits)
  moreover have "map role (members s2) = map role (members ?s2)" using redistribute_layers_maps [OF re] by simp
  moreover have "role (members s2 ! length pre) = map role (members s2) ! length pre"
    using calculation(2) m2 by (metis length_append length_map less_add_same_cancel1 list.size(4) nth_map zero_less_Suc add_Suc_right)
  ultimately show ?thesis using lc by (auto simp: m2 leader_None leader_count_roles nth_append)
qed

lemma departing_standby_demotes_next_witness:
  "leader (fst (rebalance (MemberLeft (NodeId [1])) 32 (sample_swarm [sample_member 1 Standby (0, 0) 10,
     sample_member 2 Leader (0, 16) 10, sample_member 3 Worker (16, 32) 10]))) = None"
proof -
  let ?s = "sample_swarm [sample_member 1 Standby (0, 0) 10, sample_member 2 Leader (0, 16) 10, sample_member 3 Worker (16, 32) 10]"
  obtain s' r where r: "rebalance (MemberLeft (NodeId [1])) 32 ?s = (s', r)" by fastforce
  then have "\<not> isl r"
    by (auto simp: rebalance_def handle_member_departure_def redistribute_layers_def active_indices_def sample_swarm_def
        sample_member_def wsum_def promote_def leader_def remove_at_def Let_def split: prod.splits)
  then obtain a where "r = Inr a" by (cases r) auto
  then show ?thesis
    using departing_standby_demotes_next [of ?s "[]" "sample_member 1 Standby (0, 0) 10" "sample_member 2 Leader (0, 16) 10"
        "[sample_member 3 Worker (16, 32) 10]" 32 s' a] r
    by (simp add: sample_swarm_def sample_member_def leader_count_def leader_def)
qed

end
