(* ===== verification/Formation.thy ===== *)
theory Formation
  imports Swarm
begin

section \<open>Forming swarms\<close>

text \<open>
  \<open>crates/hivebear-mesh/src/swarm/formation.rs\<close>: model size classes, the choice of a model for a capacity,
  the classification of peers, the latency matrix, and the greedy formation of swarms.  Eligible peers are
  addressed by their index in the list sorted by capacity, as in the source.  The ids of new swarms (the
  \<open>k\<close>-th one formed gets \<open>fresh k\<close>) and the clock are arguments.
\<close>

record model_size_class =
  ms_model_id :: string
  display_name :: string
  size_bytes :: u64
  ms_total_layers :: u32
  params_billions :: f64

record formation_result =
  fr_swarms :: "swarm_definition list"
  drafters :: "(node_id \<times> draft_capability) list"
  unplaced :: "node_id list"

record formation_config =
  max_latency_ms :: f64
  fc_max_pipeline_depth :: usize
  fc_min_layers_per_stage :: u32
  min_peer_capacity_bytes :: u64
  min_drafter_capacity_bytes :: u64

definition GB :: u64 where "GB = 1024 * 1024 * 1024"

definition default_formation_config :: formation_config where
  "default_formation_config = \<lparr>max_latency_ms = MAX_WAN_LATENCY_MS, fc_max_pipeline_depth = MAX_SWARM_SIZE,
     fc_min_layers_per_stage = 4, min_peer_capacity_bytes = 2 * GB,
     min_drafter_capacity_bytes = 512 * 1024 * 1024\<rparr>"

definition builtin_model_classes :: "model_size_class list" where
  "builtin_model_classes = [
    \<lparr>ms_model_id = ''tinyllama-1.1b-q4_k_m'', display_name = ''TinyLlama 1.1B'',
     size_bytes = f64_as_u64 (lit (7/10) * f64_of_u64 GB), ms_total_layers = 22, params_billions = lit (11/10)\<rparr>,
    \<lparr>ms_model_id = ''phi-3-mini-3.8b-q4_k_m'', display_name = ''Phi-3 Mini 3.8B'',
     size_bytes = f64_as_u64 (lit (23/10) * f64_of_u64 GB), ms_total_layers = 32, params_billions = lit (38/10)\<rparr>,
    \<lparr>ms_model_id = ''llama-3.2-3b-q4_k_m'', display_name = ''Llama 3.2 3B'',
     size_bytes = 2 * GB, ms_total_layers = 28, params_billions = Fin 3\<rparr>,
    \<lparr>ms_model_id = ''mistral-7b-q4_k_m'', display_name = ''Mistral 7B'',
     size_bytes = 4 * GB, ms_total_layers = 32, params_billions = Fin 7\<rparr>,
    \<lparr>ms_model_id = ''llama-3.1-8b-q4_k_m'', display_name = ''Llama 3.1 8B'',
     size_bytes = 5 * GB, ms_total_layers = 32, params_billions = Fin 8\<rparr>,
    \<lparr>ms_model_id = ''llama-3.1-8b-q6_k'', display_name = ''Llama 3.1 8B (Q6)'',
     size_bytes = 7 * GB, ms_total_layers = 32, params_billions = Fin 8\<rparr>,
    \<lparr>ms_model_id = ''codellama-13b-q4_k_m'', display_name = ''CodeLlama 13B'',
     size_bytes = 8 * GB, ms_total_layers = 40, params_billions = Fin 13\<rparr>,
    \<lparr>ms_model_id = ''yi-34b-q4_k_m'', display_name = ''Yi 34B'',
     size_bytes = 20 * GB, ms_total_layers = 60, params_billions = Fin 34\<rparr>,
    \<lparr>ms_model_id = ''llama-3.1-70b-q4_k_m'', display_name = ''Llama 3.1 70B'',
     size_bytes = 40 * GB, ms_total_layers = 80, params_billions = Fin 70\<rparr>]"

definition usable_capacity :: "u64 \<Rightarrow> u64" where
  "usable_capacity cap = f64_as_u64 (f64_of_u64 cap * lit (85/100))"

definition best_model_for_capacity :: "u64 \<Rightarrow> model_size_class list \<Rightarrow> model_size_class option" where
  "best_model_for_capacity cap models =
    max_by_key size_bytes (filter (\<lambda>m. size_bytes m \<le> usable_capacity cap) models)"

definition classify_as_drafter :: "peer_info \<Rightarrow> formation_config \<Rightarrow> draft_capability option" where
  "classify_as_drafter peer cfg =
    (if capacity peer < min_drafter_capacity_bytes cfg then None
     else if min_peer_capacity_bytes cfg \<le> capacity peer then None
     else if 2 * GB \<le> capacity peer then
       Some \<lparr>draft_model_id = ''phi-3-mini-3.8b-q4_k_m'',
         draft_model_size_bytes = f64_as_u64 (lit (23/10) * f64_of_u64 GB), estimated_draft_tok_s = Fin 5\<rparr>
     else Some \<lparr>draft_model_id = ''tinyllama-1.1b-q4_k_m'',
         draft_model_size_bytes = f64_as_u64 (lit (7/10) * f64_of_u64 GB), estimated_draft_tok_s = Fin 10\<rparr>)"

subsection \<open>The latency matrix\<close>

definition pair_latency :: "peer_info \<Rightarrow> peer_info \<Rightarrow> f64" where
  "pair_latency a b = (case latency_map a (node_id b) of Some l \<Rightarrow> l
     | None \<Rightarrow> (case latency_map b (node_id a) of Some l \<Rightarrow> l
        | None \<Rightarrow> ((case latency_ms a of Some l \<Rightarrow> l | None \<Rightarrow> Fin 50)
                 + (case latency_ms b of Some l \<Rightarrow> l | None \<Rightarrow> Fin 50)) / Fin 2))"

definition latency_matrix :: "peer_info list \<Rightarrow> nat \<times> nat \<rightharpoonup> f64" where
  "latency_matrix elig = (\<lambda>(i, j).
     if i < length elig \<and> j < length elig then
       (if i < j then Some (pair_latency (elig ! i) (elig ! j))
        else if j < i then Some (pair_latency (elig ! j) (elig ! i)) else None)
     else None)"

definition lookup_latency :: "(nat \<times> nat \<rightharpoonup> f64) \<Rightarrow> nat \<Rightarrow> nat \<Rightarrow> f64 option" where
  "lookup_latency mx a b = mx (if a < b then (a, b) else (b, a))"

subsection \<open>One swarm\<close>

definition all_close :: "formation_config \<Rightarrow> (nat \<times> nat \<rightharpoonup> f64) \<Rightarrow> nat list \<Rightarrow> nat \<Rightarrow> bool" where
  "all_close cfg mx cands j \<longleftrightarrow> (\<forall>m \<in> set cands.
     case lookup_latency mx m j of Some lat \<Rightarrow> lat \<le> max_latency_ms cfg | None \<Rightarrow> False)"

definition add_candidate :: "formation_config \<Rightarrow> (nat \<times> nat \<rightharpoonup> f64) \<Rightarrow> bool list \<Rightarrow> nat \<Rightarrow> nat \<Rightarrow> nat list \<Rightarrow> nat list" where
  "add_candidate cfg mx assigned i j cands =
    (if i = j \<or> assigned ! j then cands
     else if all_close cfg mx cands j \<and> length cands < fc_max_pipeline_depth cfg then cands @ [j] else cands)"

definition find_candidates :: "formation_config \<Rightarrow> (nat \<times> nat \<rightharpoonup> f64) \<Rightarrow> bool list \<Rightarrow> nat \<Rightarrow> nat list" where
  "find_candidates cfg mx assigned i = fold (add_candidate cfg mx assigned i) [0..<length assigned] [i]"

definition formation_share :: "u64 \<Rightarrow> u32 \<Rightarrow> u64 \<Rightarrow> bool \<Rightarrow> u32 \<Rightarrow> u32 \<Rightarrow> u32" where
  "formation_share combined ml cap is_last total_layers cursor =
    (if is_last then total_layers - cursor
     else min (max (raw_share cap combined total_layers) ml) (total_layers - cursor))"

text \<open>
  The loop over the sorted candidates; \<open>k\<close> counts them.  It returns the members and the flags of the peers
  that got layers.
\<close>

fun member_loop :: "(nat \<times> nat \<rightharpoonup> f64) \<Rightarrow> peer_info list \<Rightarrow> u64 \<Rightarrow> u32 \<Rightarrow> u32 \<Rightarrow> nat \<Rightarrow> nat \<Rightarrow> u32 \<Rightarrow> nat list \<Rightarrow>
    bool list \<Rightarrow> swarm_member list \<times> bool list" where
  "member_loop mx elig combined ml total_layers leader_idx k cursor [] assigned = ([], assigned)"
| "member_loop mx elig combined ml total_layers leader_idx k cursor (p # ps) assigned =
    (let peer = elig ! p;
         share = formation_share combined ml (capacity peer) (ps = []) total_layers cursor
     in if share = 0 then member_loop mx elig combined ml total_layers leader_idx (Suc k) cursor ps assigned
     else (let m = \<lparr>sm_peer_id = node_id peer, role = (if k = 0 then Leader else Worker),
                assigned_layers = (cursor, cursor + share), capacity_bytes = capacity peer,
                latency_to_leader_ms = (if k = 0 then Fin 0
                  else (case lookup_latency mx leader_idx p of Some l \<Rightarrow> l | None \<Rightarrow> Fin 10))\<rparr>;
               (ms, assigned') = member_loop mx elig combined ml total_layers leader_idx (Suc k) (cursor + share) ps
                 (assigned[p := True])
           in (m # ms, assigned')))"

definition by_capacity :: "peer_info list \<Rightarrow> nat list \<Rightarrow> nat list" where
  "by_capacity elig is = sort_by (\<lambda>a b. capacity (elig ! a) < capacity (elig ! b)) is"

text \<open>The model the candidates can serve, if every check passes.\<close>

definition formable :: "formation_config \<Rightarrow> model_size_class list \<Rightarrow> peer_info list \<Rightarrow> nat list \<Rightarrow> model_size_class option" where
  "formable cfg models elig cands =
    (if length cands < MIN_SWARM_SIZE then None
     else (let combined = wsum (map (\<lambda>p. capacity (elig ! p)) cands) in
       if combined < MIN_SWARM_CAPACITY_BYTES then None
       else (case best_model_for_capacity combined models of
          None \<Rightarrow> None
        | Some m \<Rightarrow> if ms_total_layers m < fc_min_layers_per_stage cfg * min (of_nat (length cands)) (of_nat MIN_SWARM_SIZE)
                    then None else Some m)))"

definition build_swarm :: "formation_config \<Rightarrow> (nat \<times> nat \<rightharpoonup> f64) \<Rightarrow> peer_info list \<Rightarrow> uuid \<Rightarrow> instant \<Rightarrow> model_size_class \<Rightarrow>
    nat list \<Rightarrow> bool list \<Rightarrow> swarm_definition \<times> bool list" where
  "build_swarm cfg mx elig sid now m cands assigned =
    (let sorted = by_capacity elig cands;
         combined = wsum (map (\<lambda>p. capacity (elig ! p)) cands);
         (ms, assigned') = member_loop mx elig combined (fc_min_layers_per_stage cfg) (ms_total_layers m)
           (hd sorted) 0 0 sorted assigned
     in ((recalculate_capacity ((new_swarm sid now (ms_model_id m))\<lparr>members := ms\<rparr>))\<lparr>status := Forming\<rparr>, assigned'))"

subsection \<open>All swarms\<close>

definition formation_step :: "formation_config \<Rightarrow> model_size_class list \<Rightarrow> (nat \<Rightarrow> uuid) \<Rightarrow> instant \<Rightarrow> peer_info list \<Rightarrow> nat \<Rightarrow>
    bool list \<times> swarm_definition list \<Rightarrow> bool list \<times> swarm_definition list" where
  "formation_step cfg models fresh now elig i st =
    (let (assigned, swarms) = st; mx = latency_matrix elig in
     if assigned ! i then st
     else (let cands = find_candidates cfg mx assigned i in
       case formable cfg models elig cands of
         None \<Rightarrow> st
       | Some m \<Rightarrow> (let (s, assigned') = build_swarm cfg mx elig (fresh (length swarms)) now m cands assigned
           in (assigned', swarms @ [s]))))"

text \<open>Phase 1: eligible peers, drafters, and the ones too weak for either.\<close>

fun classify_peers :: "formation_config \<Rightarrow> peer_info list \<Rightarrow>
    peer_info list \<times> (node_id \<times> draft_capability) list \<times> node_id list" where
  "classify_peers cfg [] = ([], [], [])"
| "classify_peers cfg (p # ps) =
    (let (elig, dr, weak) = classify_peers cfg ps in
     if min_peer_capacity_bytes cfg \<le> capacity p then (p # elig, dr, weak)
     else (case classify_as_drafter p cfg of
         Some c \<Rightarrow> (elig, (node_id p, c) # dr, weak)
       | None \<Rightarrow> (elig, dr, node_id p # weak)))"

definition form_swarms :: "(nat \<Rightarrow> uuid) \<Rightarrow> instant \<Rightarrow> peer_info list \<Rightarrow> formation_config \<Rightarrow> model_size_class list \<Rightarrow>
    formation_result" where
  "form_swarms fresh now peers cfg models =
    (if peers = [] then \<lparr>fr_swarms = [], drafters = [], unplaced = []\<rparr>
     else (let (elig0, dr, weak) = classify_peers cfg peers;
               elig = sort_by (\<lambda>a b. capacity a < capacity b) elig0;
               (assigned, swarms) = fold (formation_step cfg models fresh now elig) [0..<length elig]
                 (replicate (length elig) False, [])
           in \<lparr>fr_swarms = swarms, drafters = dr,
               unplaced = weak @ map (\<lambda>i. node_id (elig ! i)) (filter (\<lambda>i. \<not> assigned ! i) [0..<length elig])\<rparr>))"

subsection \<open>Candidates\<close>

definition close_pair :: "formation_config \<Rightarrow> peer_info \<Rightarrow> peer_info \<Rightarrow> bool" where
  "close_pair cfg a b \<longleftrightarrow> pair_latency a b \<le> max_latency_ms cfg \<or> pair_latency b a \<le> max_latency_ms cfg"

lemma close_pair_sym: "close_pair cfg a b = close_pair cfg b a"
  by (auto simp: close_pair_def)

lemma all_close_close_pair:
  "all_close cfg (latency_matrix elig) cands j \<Longrightarrow> m \<in> set cands \<Longrightarrow> close_pair cfg (elig ! m) (elig ! j)"
  by (fastforce simp: all_close_def lookup_latency_def latency_matrix_def close_pair_def split: if_splits option.splits)

definition good_cands :: "formation_config \<Rightarrow> peer_info list \<Rightarrow> bool list \<Rightarrow> nat list \<Rightarrow> bool" where
  "good_cands cfg elig assigned cs \<longleftrightarrow> distinct cs \<and> (\<forall>c \<in> set cs. c < length assigned \<and> \<not> assigned ! c) \<and>
     (\<forall>a \<in> set cs. \<forall>b \<in> set cs. a \<noteq> b \<longrightarrow> close_pair cfg (elig ! a) (elig ! b)) \<and>
     length cs \<le> max 1 (fc_max_pipeline_depth cfg)"

lemma add_candidate_good:
  assumes "good_cands cfg elig assigned cs" "j < length assigned" "j \<notin> set cs \<or> j = i"
  shows "good_cands cfg elig assigned (add_candidate cfg (latency_matrix elig) assigned i j cs) \<and>
     set (add_candidate cfg (latency_matrix elig) assigned i j cs) \<subseteq> insert j (set cs)"
  using assms by (auto simp: good_cands_def add_candidate_def dest: all_close_close_pair simp: close_pair_sym)

lemma fold_candidates_good:
  assumes "good_cands cfg elig assigned cs" "distinct js" "\<forall>j \<in> set js. j < length assigned \<and> (j \<notin> set cs \<or> j = i)"
  shows "good_cands cfg elig assigned (fold (add_candidate cfg (latency_matrix elig) assigned i) js cs)"
  using assms
proof (induction js arbitrary: cs)
  case (Cons j js)
  let ?cs = "add_candidate cfg (latency_matrix elig) assigned i j cs"
  have a: "good_cands cfg elig assigned ?cs" "set ?cs \<subseteq> insert j (set cs)"
    using add_candidate_good [OF Cons.prems(1), of j i] Cons.prems(3) by auto
  have "j' \<notin> set ?cs \<or> j' = i" if "j' \<in> set js" for j'
    using a(2) Cons.prems(2,3) that by auto
  then show ?case using Cons.IH [OF a(1)] Cons.prems(2,3) by simp
qed simp

lemma find_candidates_good:
  "i < length assigned \<Longrightarrow> \<not> assigned ! i \<Longrightarrow> good_cands cfg elig assigned (find_candidates cfg (latency_matrix elig) assigned i)"
  unfolding find_candidates_def by (rule fold_candidates_good) (auto simp: good_cands_def)

subsection \<open>Members\<close>

interpretation formation: layer_split "\<lambda>p. formation_share combined ml (cap p)" for combined ml cap
  by unfold_locales (simp_all add: formation_share_def)

lemma member_loop_split:
  "member_loop mx elig combined ml n l k cursor ps assigned = (ms, assigned') \<Longrightarrow>
   map (\<lambda>m. (sm_peer_id m, assigned_layers m)) ms = map (\<lambda>x. (node_id (elig ! fst x), snd x))
       (split_layers (\<lambda>p. formation_share combined ml (capacity (elig ! p))) n cursor ps) \<and>
   assigned' = fold (\<lambda>p as. as[p := True])
       (map fst (split_layers (\<lambda>p. formation_share combined ml (capacity (elig ! p))) n cursor ps)) assigned"
  by (induction ps arbitrary: k cursor assigned ms assigned') (auto simp: Let_def split: if_splits prod.splits)

lemma member_loop_workers:
  "member_loop mx elig combined ml n l (Suc k) cursor ps assigned = (ms, assigned') \<Longrightarrow> \<forall>m \<in> set ms. role m = Worker"
  by (induction ps arbitrary: k cursor assigned ms assigned') (fastforce simp: Let_def split: if_splits prod.splits)+

text \<open>With a positive minimum the first candidate gets layers, and leads.\<close>

definition led :: "swarm_member list \<Rightarrow> bool" where
  "led ms \<longleftrightarrow> ms \<noteq> [] \<and> role (hd ms) = Leader \<and> (\<forall>m \<in> set (tl ms). role m = Worker)"

lemma member_loop_leader:
  assumes "member_loop mx elig combined ml n l 0 0 ps assigned = (ms, assigned')" "ps \<noteq> []" "n \<noteq> 0" "ml \<noteq> 0"
  shows "led ms"
proof -
  obtain p qs where ps: "ps = p # qs" using assms(2) by (cases ps) auto
  have "max x ml \<noteq> 0" for x using assms(4) by (auto simp: max_def)
  then have "formation_share combined ml (capacity (elig ! p)) (qs = []) n 0 \<noteq> 0"
    using assms(3) by (auto simp: formation_share_def min_def)
  then show ?thesis using assms(1) member_loop_workers by (fastforce simp: led_def ps Let_def split: prod.splits)
qed

lemma fold_assign_length [simp]: "length (fold (\<lambda>p as. as[p := True]) ps assigned) = length assigned"
  by (induction ps arbitrary: assigned) simp_all

lemma fold_assign_nth: "i < length assigned \<Longrightarrow>
   fold (\<lambda>p as. as[p := True]) ps assigned ! i = (i \<in> set ps \<or> assigned ! i)"
proof (induction ps arbitrary: assigned)
  case (Cons p ps)
  have "assigned[p := True] ! i = (p = i \<or> assigned ! i)" using Cons.prems by (cases "p = i") simp_all
  then show ?case using Cons by auto
qed simp

lemma by_capacity_props [simp]: "mset (by_capacity elig is) = mset is" "set (by_capacity elig is) = set is"
  "by_capacity elig is = [] \<longleftrightarrow> is = []" "length (by_capacity elig is) = length is"
  by (simp_all add: by_capacity_def)

lemma distinct_by_capacity [simp]: "distinct (by_capacity elig is) = distinct is"
  by (metis by_capacity_props(1) mset_eq_imp_distinct_iff)

text \<open>What \<open>build_swarm\<close> makes of good candidates.\<close>

lemma build_swarm_props:
  assumes "build_swarm cfg mx elig sid now m cands assigned = (s, assigned')" "good_cands cfg elig assigned cands" "cands \<noteq> []"
  shows "\<exists>kept. distinct kept \<and> set kept \<subseteq> set cands \<and> length kept \<le> length cands \<and>
    map sm_peer_id (members s) = map (\<lambda>p. node_id (elig ! p)) kept \<and>
    length assigned' = length assigned \<and> (\<forall>i < length assigned. assigned' ! i = (i \<in> set kept \<or> assigned ! i)) \<and>
    covers 0 (ms_total_layers m) (map assigned_layers (members s)) \<and>
    sd_model_id s = ms_model_id m \<and> status s = Forming \<and>
    (ms_total_layers m \<noteq> 0 \<and> fc_min_layers_per_stage cfg \<noteq> 0 \<longrightarrow> led (members s))"
proof -
  let ?sorted = "by_capacity elig cands" and ?comb = "wsum (map (\<lambda>p. capacity (elig ! p)) cands)"
  let ?sp = "split_layers (\<lambda>p. formation_share ?comb (fc_min_layers_per_stage cfg) (capacity (elig ! p))) (ms_total_layers m) 0 ?sorted"
  obtain ms where l: "member_loop mx elig ?comb (fc_min_layers_per_stage cfg) (ms_total_layers m) (hd ?sorted) 0 0 ?sorted assigned
      = (ms, assigned')" and s: "members s = ms" "sd_model_id s = ms_model_id m" "status s = Forming"
    using assms(1) by (auto simp: build_swarm_def Let_def new_swarm_def split: prod.splits)
  note sp = member_loop_split [OF l]
  have ids: "map sm_peer_id ms = map (\<lambda>p. node_id (elig ! p)) (map fst ?sp)"
    using arg_cong [OF conjunct1 [OF sp], of "map fst"] by (simp add: comp_def)
  have rs: "map assigned_layers ms = map snd ?sp"
    using arg_cong [OF conjunct1 [OF sp], of "map snd"] by (simp add: comp_def)
  have so: "distinct ?sorted" "?sorted \<noteq> []" using assms(2,3) by (simp_all add: good_cands_def)
  have d: "distinct (map fst ?sp)" by (rule formation.split_peers_distinct [OF so(1)])
  have d2: "set (map fst ?sp) \<subseteq> set cands"
    using formation.split_peers_subset [of ?comb "fc_min_layers_per_stage cfg" "\<lambda>p. capacity (elig ! p)" "ms_total_layers m" 0 ?sorted]
    by simp
  have d3: "length (map fst ?sp) \<le> length cands"
    using formation.split_length [of ?comb "fc_min_layers_per_stage cfg" "\<lambda>p. capacity (elig ! p)" "ms_total_layers m" 0 ?sorted]
    by simp
  have "covers 0 (ms_total_layers m) (map assigned_layers ms)"
    unfolding rs by (rule formation.split_total [OF so(2)])
  moreover have "\<forall>i < length assigned. assigned' ! i = (i \<in> set (map fst ?sp) \<or> assigned ! i)" "length assigned' = length assigned"
    using conjunct2 [OF sp] by (simp_all add: fold_assign_nth)
  moreover have "ms_total_layers m \<noteq> 0 \<and> fc_min_layers_per_stage cfg \<noteq> 0 \<longrightarrow> led ms"
    using member_loop_leader [OF l so(2)] by blast
  ultimately show ?thesis using d d2 d3 ids s by blast
qed

subsection \<open>The invariant of the formation loop\<close>

definition member_ids :: "swarm_definition list \<Rightarrow> node_id list" where
  "member_ids ss = concat (map (\<lambda>s. map sm_peer_id (members s)) ss)"

definition placed :: "bool list \<Rightarrow> nat multiset" where
  "placed assigned = mset (filter (\<lambda>i. assigned ! i) [0..<length assigned])"

lemma placed_extend:
  assumes "length assigned' = length assigned" "distinct kept" "\<forall>p \<in> set kept. p < length assigned \<and> \<not> assigned ! p"
    "\<forall>i < length assigned. assigned' ! i = (i \<in> set kept \<or> assigned ! i)"
  shows "placed assigned' = placed assigned + mset kept"
proof -
  have ms: "mset (filter P [0..<n]) = mset_set {i. i < n \<and> P i}" for P :: "nat \<Rightarrow> bool" and n
    by (subst mset_set_set [symmetric]) (auto intro!: arg_cong [of _ _ mset_set])
  have "{i. i < length assigned \<and> assigned' ! i} = {i. i < length assigned \<and> assigned ! i} \<union> set kept"
    using assms(3,4) by auto
  moreover have "{i. i < length assigned \<and> assigned ! i} \<inter> set kept = {}" using assms(3) by auto
  ultimately show ?thesis
    using assms(1,2) by (simp add: placed_def ms mset_set_Union mset_set_set)
qed

text \<open>What every formed swarm satisfies.\<close>

definition formed_ok :: "formation_config \<Rightarrow> model_size_class list \<Rightarrow> peer_info list \<Rightarrow> swarm_definition \<Rightarrow> bool" where
  "formed_ok cfg models peers s \<longleftrightarrow> status s = Forming \<and>
     (\<exists>m \<in> set models. sd_model_id s = ms_model_id m \<and> covers 0 (ms_total_layers m) (map assigned_layers (members s))) \<and>
     length (members s) \<le> max 1 (fc_max_pipeline_depth cfg) \<and>
     ((\<forall>m \<in> set models. ms_total_layers m \<noteq> 0) \<and> fc_min_layers_per_stage cfg \<noteq> 0 \<longrightarrow> led (members s)) \<and>
     (\<exists>ps. map sm_peer_id (members s) = map node_id ps \<and> set ps \<subseteq> set peers \<and>
        (\<forall>i < length ps. \<forall>j < i. close_pair cfg (ps ! j) (ps ! i)))"

lemma formable_Some: "formable cfg models elig cands = Some m \<Longrightarrow> m \<in> set models \<and> cands \<noteq> []"
  by (auto simp: formable_def best_model_for_capacity_def Let_def MIN_SWARM_SIZE_def dest!: max_by_key_Some
      split: if_splits option.splits)

definition formation_inv :: "formation_config \<Rightarrow> model_size_class list \<Rightarrow> peer_info list \<Rightarrow>
    bool list \<times> swarm_definition list \<Rightarrow> bool" where
  "formation_inv cfg models elig st \<longleftrightarrow> length (fst st) = length elig \<and>
     mset (member_ids (snd st)) = image_mset (\<lambda>i. node_id (elig ! i)) (placed (fst st)) \<and>
     (\<forall>s \<in> set (snd st). formed_ok cfg models elig s)"

lemma formation_step_inv:
  assumes "formation_inv cfg models elig st" "i < length elig"
  shows "formation_inv cfg models elig (formation_step cfg models fresh now elig i st)"
proof -
  obtain assigned swarms where st: "st = (assigned, swarms)" by (cases st)
  let ?mx = "latency_matrix elig" and ?c = "find_candidates cfg (latency_matrix elig) assigned i"
  show ?thesis
  proof (cases "assigned ! i \<or> formable cfg models elig ?c = None")
    case True
    then have "formation_step cfg models fresh now elig i st = st"
      by (auto simp: formation_step_def st Let_def)
    then show ?thesis using assms(1) by simp
  next
    case False
    then obtain m where m: "formable cfg models elig ?c = Some m" and a: "\<not> assigned ! i" by auto
    have len: "length assigned = length elig" using assms(1) by (simp add: formation_inv_def st)
    have g: "good_cands cfg elig assigned ?c" using a assms(2) len by (intro find_candidates_good) simp_all
    note fm = formable_Some [OF m]
    obtain s assigned' where b: "build_swarm cfg ?mx elig (fresh (length swarms)) now m ?c assigned = (s, assigned')" by fastforce
    obtain kept where k: "distinct kept" "set kept \<subseteq> set ?c" "length kept \<le> length ?c"
      "map sm_peer_id (members s) = map (\<lambda>p. node_id (elig ! p)) kept" "length assigned' = length assigned"
      "\<forall>i < length assigned. assigned' ! i = (i \<in> set kept \<or> assigned ! i)"
      "covers 0 (ms_total_layers m) (map assigned_layers (members s))" "sd_model_id s = ms_model_id m" "status s = Forming"
      "ms_total_layers m \<noteq> 0 \<and> fc_min_layers_per_stage cfg \<noteq> 0 \<longrightarrow> led (members s)"
      using build_swarm_props [OF b g] fm by blast
    have pl: "placed assigned' = placed assigned + mset kept"
      using k(1,2,5,6) g by (intro placed_extend) (auto simp: good_cands_def)
    have "formed_ok cfg models elig s" unfolding formed_ok_def
    proof (intro conjI exI [of _ "map ((!) elig) kept"])
      show "\<exists>m \<in> set models. sd_model_id s = ms_model_id m \<and> covers 0 (ms_total_layers m) (map assigned_layers (members s))"
        using fm k(7,8) by blast
      have "length (members s) = length kept" using k(4) by (metis length_map)
      then show "length (members s) \<le> max 1 (fc_max_pipeline_depth cfg)" using k(3) g by (auto simp: good_cands_def)
      show "set (map ((!) elig) kept) \<subseteq> set elig" using k(2) g len by (auto simp: good_cands_def)
      show "\<forall>i < length (map ((!) elig) kept). \<forall>j < i. close_pair cfg (map ((!) elig) kept ! j) (map ((!) elig) kept ! i)"
      proof (intro allI impI)
        fix x y assume "x < length (map ((!) elig) kept)" "y < x"
        then have "kept ! x \<in> set ?c" "kept ! y \<in> set ?c" "kept ! y \<noteq> kept ! x" "x < length kept" "y < length kept"
          using k(1,2) by (auto simp: nth_eq_iff_index_eq)
        then show "close_pair cfg (map ((!) elig) kept ! y) (map ((!) elig) kept ! x)" using g by (simp add: good_cands_def)
      qed
      show "(\<forall>m \<in> set models. ms_total_layers m \<noteq> 0) \<and> fc_min_layers_per_stage cfg \<noteq> 0 \<longrightarrow> led (members s)"
        using k(10) fm by blast
    qed (simp_all add: k(4,9) comp_def)
    then show ?thesis using assms(1) a m b pl k(4,5)
      by (simp add: formation_step_def st Let_def formation_inv_def member_ids_def)
  qed
qed

lemma formation_fold_inv:
  "formation_inv cfg models elig st \<Longrightarrow> \<forall>i \<in> set is. i < length elig \<Longrightarrow>
   formation_inv cfg models elig (fold (formation_step cfg models fresh now elig) is st)"
  by (induction "is" arbitrary: st) (simp_all add: formation_step_inv)

lemma classify_peers_mset:
  "classify_peers cfg ps = (elig, dr, weak) \<Longrightarrow>
   mset (map node_id ps) = mset (map node_id elig) + mset (map fst dr) + mset weak \<and> set elig \<subseteq> set ps"
  by (induction ps arbitrary: elig dr weak) (fastforce split: prod.splits if_splits option.splits)+

text \<open>The two together, for the result.\<close>

lemma form_swarms_split:
  assumes "peers \<noteq> []"
  obtains elig dr weak assigned swarms where
    "form_swarms fresh now peers cfg models = \<lparr>fr_swarms = swarms, drafters = dr,
       unplaced = weak @ map (\<lambda>i. node_id (elig ! i)) (filter (\<lambda>i. \<not> assigned ! i) [0..<length elig])\<rparr>"
    "formation_inv cfg models elig (assigned, swarms)" "set elig \<subseteq> set peers"
    "mset (map node_id peers) = mset (map node_id elig) + mset (map fst dr) + mset weak"
proof -
  obtain e0 dr weak where c: "classify_peers cfg peers = (e0, dr, weak)" by (metis surj_pair)
  define elig where "elig = sort_by (\<lambda>a b. capacity a < capacity b) e0"
  obtain assigned swarms where f: "fold (formation_step cfg models fresh now elig) [0..<length elig]
      (replicate (length elig) False, []) = (assigned, swarms)" by fastforce
  have "formation_inv cfg models elig (replicate (length elig) False, [])"
    by (simp add: formation_inv_def member_ids_def placed_def)
  then have inv: "formation_inv cfg models elig (assigned, swarms)"
    using formation_fold_inv [of cfg models elig _ "[0..<length elig]" fresh now] f by (metis atLeastLessThan_iff set_upt)
  have "form_swarms fresh now peers cfg models = \<lparr>fr_swarms = swarms, drafters = dr,
       unplaced = weak @ map (\<lambda>i. node_id (elig ! i)) (filter (\<lambda>i. \<not> assigned ! i) [0..<length elig])\<rparr>"
    using assms c f by (simp add: form_swarms_def elig_def)
  moreover have "mset (map node_id elig) = mset (map node_id e0)" by (simp add: elig_def)
  moreover have "set elig \<subseteq> set peers" using classify_peers_mset [OF c] by (simp add: elig_def)
  ultimately show ?thesis using inv classify_peers_mset [OF c] by (intro that [of swarms dr weak elig assigned]) simp_all
qed

text \<open>
  C3: Formation places every peer exactly once: counted with multiplicity, the ids of the members of all
  swarms, of the drafters and of the unplaced peers are the ids of the given peers.
\<close>
theorem formation_partitions_peers:
  "mset (map node_id peers) = mset (member_ids (fr_swarms (form_swarms fresh now peers cfg models)))
     + mset (map fst (drafters (form_swarms fresh now peers cfg models)))
     + mset (unplaced (form_swarms fresh now peers cfg models))"
proof (cases "peers = []")
  case True
  then show ?thesis by (simp add: form_swarms_def member_ids_def)
next
  case False
  then obtain elig dr weak assigned swarms where r: "form_swarms fresh now peers cfg models = \<lparr>fr_swarms = swarms, drafters = dr,
       unplaced = weak @ map (\<lambda>i. node_id (elig ! i)) (filter (\<lambda>i. \<not> assigned ! i) [0..<length elig])\<rparr>"
    and inv: "formation_inv cfg models elig (assigned, swarms)"
    and m: "mset (map node_id peers) = mset (map node_id elig) + mset (map fst dr) + mset weak"
    by (rule form_swarms_split [of peers fresh now cfg models]) blast
  have "mset xs = mset (filter P xs) + mset (filter (\<lambda>x. \<not> P x) xs)" for P and xs :: "nat list"
    by (induction xs) simp_all
  then have "mset [0..<length elig] = placed assigned + mset (filter (\<lambda>i. \<not> assigned ! i) [0..<length elig])"
    using inv unfolding formation_inv_def placed_def fst_conv by metis
  then have "image_mset (\<lambda>i. node_id (elig ! i)) (mset [0..<length elig]) = mset (member_ids swarms) +
      mset (map (\<lambda>i. node_id (elig ! i)) (filter (\<lambda>i. \<not> assigned ! i) [0..<length elig]))"
    using inv by (simp only: formation_inv_def fst_conv snd_conv image_mset_union mset_map)
  moreover have "image_mset (\<lambda>i. node_id (elig ! i)) (mset [0..<length elig]) = mset (map node_id elig)"
  proof -
    have "map (\<lambda>i. node_id (elig ! i)) [0..<length elig] = map node_id elig" by (rule nth_equalityI) simp_all
    then show ?thesis by (metis mset_map)
  qed
  ultimately show ?thesis unfolding m by (simp add: r ac_simps)
qed


text \<open>
  A swarm below the minimum size is formed: of two peers with 512 GB and 2 GB that are close to each
  other, the first is given all 80 layers of the largest model and makes a swarm of one, against the
  documented two to four members; the other is left over.
\<close>
theorem formation_makes_single_member_swarm:
  "map (\<lambda>s. (sd_model_id s, map (\<lambda>m. (sm_peer_id m, assigned_layers m)) (members s)))
      (fr_swarms (form_swarms (\<lambda>k. 7) 0 [sample_peer 1 549755813888 0, sample_peer 2 2147483648 0]
         default_formation_config builtin_model_classes))
     = [(''llama-3.1-70b-q4_k_m'', [(NodeId [1], 0, 80)])] \<and>
   unplaced (form_swarms (\<lambda>k. 7) 0 [sample_peer 1 549755813888 0, sample_peer 2 2147483648 0]
         default_formation_config builtin_model_classes) = [NodeId [2]] \<and> MIN_SWARM_SIZE = 2"
proof -
  let ?ps = "[sample_peer 1 549755813888 0, sample_peer 2 2147483648 0]" and ?c = default_formation_config
  let ?m = "\<lparr>ms_model_id = ''llama-3.1-70b-q4_k_m'', display_name = ''Llama 3.1 70B'',
     size_bytes = 40 * GB, ms_total_layers = 80, params_billions = Fin 70\<rparr>"
  have c: "capacity (sample_peer i r v) = v + r" for i r v by (simp add: capacity_def sample_peer_def)
  have n: "node_id (sample_peer i r v) = NodeId [i]" for i r v by (simp add: sample_peer_def)
  have cl: "classify_peers ?c ?ps = (?ps, [], [])" by (simp add: default_formation_config_def GB_def c)
  have so: "sort_by (\<lambda>a b. capacity a < capacity b) ?ps = ?ps" by (simp add: c)
  have l: "pair_latency (sample_peer 1 549755813888 0) (sample_peer 2 2147483648 0) \<le> max_latency_ms ?c"
    by code_simp
  have f0: "find_candidates ?c (latency_matrix ?ps) [False, False] 0 = [0, Suc 0]"
    using l by (simp add: find_candidates_def add_candidate_def all_close_def lookup_latency_def latency_matrix_def
        default_formation_config_def MAX_SWARM_SIZE_def)
  have b: "best_model_for_capacity 551903297536 builtin_model_classes = Some ?m" by code_simp
  have fo: "formable ?c builtin_model_classes ?ps [0, Suc 0] = Some ?m"
    by (simp add: formable_def MIN_SWARM_SIZE_def MIN_SWARM_CAPACITY_BYTES_def wsum_def c b default_formation_config_def)
  have bc: "by_capacity ?ps [0, Suc 0] = [0, Suc 0]" by (simp add: by_capacity_def c)
  have r: "raw_share 549755813888 551903297536 80 = 80" by code_simp
  have f1: "formable ?c builtin_model_classes ?ps (find_candidates ?c (latency_matrix ?ps) [True, False] (Suc 0)) = None"
    by (simp add: find_candidates_def add_candidate_def formable_def MIN_SWARM_SIZE_def)
  have m4: "fc_min_layers_per_stage ?c = 4" by (simp add: default_formation_config_def)
  have ml: "\<exists>m. member_loop mx ?ps 551903297536 4 80 0 0 0 [0, Suc 0] [False, False] = ([m], [True, False]) \<and>
      sm_peer_id m = NodeId [1] \<and> assigned_layers m = (0, 80)" for mx
    by (simp add: Let_def formation_share_def c r n)
  have w: "wsum (map (\<lambda>p. capacity (?ps ! p)) [0, Suc 0]) = 551903297536" by (simp add: wsum_def c)
  obtain s where bs: "build_swarm ?c (latency_matrix ?ps) ?ps 7 0 ?m [0, Suc 0] [False, False] = (s, [True, False])"
      "sd_model_id s = ''llama-3.1-70b-q4_k_m''" "map (\<lambda>m. (sm_peer_id m, assigned_layers m)) (members s) = [(NodeId [1], 0, 80)]"
    using ml [of "latency_matrix ?ps"] unfolding build_swarm_def Let_def bc w m4 by (auto simp: new_swarm_def)
  have s0: "formation_step ?c builtin_model_classes (\<lambda>k. 7) 0 ?ps 0 ([False, False], []) = ([True, False], [s])"
    unfolding formation_step_def Let_def prod.case f0 fo by (simp add: bs(1))
  have s1: "formation_step ?c builtin_model_classes (\<lambda>k. 7) 0 ?ps (Suc 0) ([True, False], [s]) = ([True, False], [s])"
    unfolding formation_step_def Let_def prod.case f1 by simp
  have "form_swarms (\<lambda>k. 7) 0 ?ps ?c builtin_model_classes = \<lparr>fr_swarms = [s], drafters = [], unplaced = [NodeId [2]]\<rparr>"
    unfolding form_swarms_def cl Let_def prod.case so by (simp add: s0 s1 n)
  then show ?thesis using bs(2,3) by (simp add: MIN_SWARM_SIZE_def)
qed

end
