(* ===== verification/Router.thy ===== *)
theory Router
  imports Rebalance
begin

section \<open>Routing requests to swarms\<close>

text \<open>
  \<open>crates/hivebear-mesh/src/swarm/router.rs\<close>.  The concurrent maps, the atomics and the queue make up one
  state, and every operation is one step on it; the counters are words, so \<open>fetch_sub\<close> wraps.  A queued
  request's response channel is identified with its request id: what \<open>try_drain_queue\<close> sends is returned as
  pairs of request and swarm ids.
\<close>

record swarm_load =
  active_requests :: u32
  tokens_generated_total :: u64
  last_request_at :: instant

record queued_request =
  qr_request_id :: uuid
  qr_model_id :: string
  queued_at :: instant

record swarm_router =
  swarms :: "string \<rightharpoonup> swarm_definition list"
  load :: "uuid \<rightharpoonup> swarm_load"
  queue :: "queued_request list"
  max_queue_depth :: usize
  max_requests_per_swarm :: u32
  contributing_peers :: "u8 list \<rightharpoonup> bool"

definition with_router_limits :: "usize \<Rightarrow> u32 \<Rightarrow> swarm_router" where
  "with_router_limits depth reqs = \<lparr>swarms = Map.empty, load = Map.empty, queue = [], max_queue_depth = depth,
     max_requests_per_swarm = reqs, contributing_peers = Map.empty\<rparr>"

definition new_router :: swarm_router where "new_router = with_router_limits 100 2"

definition register_swarm :: "instant \<Rightarrow> swarm_definition \<Rightarrow> swarm_router \<Rightarrow> swarm_router" where
  "register_swarm now s r =
    (let l = (case load r (sd_swarm_id s) of Some _ \<Rightarrow> load r
           | None \<Rightarrow> (load r)(sd_swarm_id s \<mapsto> \<lparr>active_requests = 0, tokens_generated_total = 0, last_request_at = now\<rparr>));
         old = (case swarms r (sd_model_id s) of Some ss \<Rightarrow> ss | None \<Rightarrow> [])
     in r\<lparr>load := l, swarms := (swarms r)(sd_model_id s \<mapsto> old @ [s])\<rparr>)"

definition unregister_swarm :: "uuid \<Rightarrow> swarm_router \<Rightarrow> swarm_router" where
  "unregister_swarm sid r =
    r\<lparr>load := (load r)(sid := None),
      swarms := retain (\<lambda>_ ss. ss \<noteq> []) (\<lambda>m. map_option (filter (\<lambda>s. sd_swarm_id s \<noteq> sid)) (swarms r m))\<rparr>"

definition set_contributing :: "node_id \<Rightarrow> bool \<Rightarrow> swarm_router \<Rightarrow> swarm_router" where
  "set_contributing peer c r =
    r\<lparr>contributing_peers := (contributing_peers r)(key_bytes peer := (if c then Some True else None))\<rparr>"

definition is_contributing :: "swarm_router \<Rightarrow> node_id \<Rightarrow> bool" where
  "is_contributing r peer \<longleftrightarrow> contributing_peers r (key_bytes peer) \<noteq> None"

subsection \<open>Selection\<close>

definition current_load :: "swarm_router \<Rightarrow> uuid \<Rightarrow> u32" where
  "current_load r sid = (case load r sid of Some l \<Rightarrow> active_requests l | None \<Rightarrow> 0)"

definition health_factor :: "swarm_status \<Rightarrow> f64" where
  "health_factor st = (case st of Ready \<Rightarrow> Fin 1 | Degraded \<Rightarrow> lit (5/10) | _ \<Rightarrow> Fin 0)"

definition swarm_score :: "u32 \<Rightarrow> swarm_definition \<Rightarrow> f64" where
  "swarm_score ld s =
    (let throughput = f_max (estimated_tok_s s) (Fin 1)
     in (Fin 1 / (f64_of_u32 ld + Fin 1)) * throughput * health_factor (status s))"

definition select_step :: "swarm_router \<Rightarrow> swarm_definition \<Rightarrow> (swarm_definition \<times> f64) option \<Rightarrow>
    (swarm_definition \<times> f64) option" where
  "select_step r s best =
    (if \<not> (status s = Ready \<or> status s = Busy) then best
     else (let ld = current_load r (sd_swarm_id s) in
       if max_requests_per_swarm r \<le> ld then best
       else (let sc = swarm_score ld s in
         case best of Some (b, bs) \<Rightarrow> if sc \<le> bs then best else Some (s, sc)
         | None \<Rightarrow> Some (s, sc))))"

definition contribute_error :: mesh_error where
  "contribute_error = Auth ''You must contribute to use the network. Run `hivebear contribute` to join.''"

definition select_swarm :: "swarm_router \<Rightarrow> string \<Rightarrow> node_id \<Rightarrow> swarm_definition mesh_result" where
  "select_swarm r model requester =
    (if \<not> is_contributing r requester then Inl contribute_error
     else (case swarms r model of None \<Rightarrow> Inl (NoPeersAvailable model)
        | Some ss \<Rightarrow> (case fold (select_step r) ss None of
            Some (s, _) \<Rightarrow> Inr s
          | None \<Rightarrow> Inl (NoPeersAvailable model))))"

subsection \<open>Load and queue\<close>

text \<open>\<open>try_lock\<close> fails when the time stamp is locked; then it stays.\<close>

definition request_started :: "bool \<Rightarrow> instant \<Rightarrow> uuid \<Rightarrow> swarm_router \<Rightarrow> swarm_router" where
  "request_started locked now sid r = (case load r sid of None \<Rightarrow> r
     | Some l \<Rightarrow> r\<lparr>load := (load r)(sid \<mapsto> l\<lparr>active_requests := active_requests l + 1,
          last_request_at := (if locked then last_request_at l else now)\<rparr>)\<rparr>)"

definition available :: "swarm_router \<Rightarrow> swarm_definition \<Rightarrow> bool" where
  "available r s \<longleftrightarrow> current_load r (sd_swarm_id s) < max_requests_per_swarm r \<and> (status s = Ready \<or> status s = Busy)"

definition expired :: "instant \<Rightarrow> queued_request \<Rightarrow> bool" where
  "expired now q \<longleftrightarrow> 30 < (now - queued_at q) div 1000000000"

fun drain :: "swarm_router \<Rightarrow> instant \<Rightarrow> queued_request list \<Rightarrow> queued_request list \<times> (uuid \<times> uuid) list" where
  "drain r now [] = ([], [])"
| "drain r now (q # qs) =
    (if expired now q then drain r now qs
     else (case swarms r (qr_model_id q) of None \<Rightarrow> drain r now qs
        | Some ss \<Rightarrow> (case find (available r) ss of
             Some s \<Rightarrow> (let (rest, sent) = drain r now qs in (rest, (qr_request_id q, sd_swarm_id s) # sent))
           | None \<Rightarrow> (q # qs, []))))"

definition try_drain_queue :: "bool \<Rightarrow> instant \<Rightarrow> swarm_router \<Rightarrow> swarm_router \<times> (uuid \<times> uuid) list" where
  "try_drain_queue locked now r =
    (if locked then (r, []) else (let (rest, sent) = drain r now (queue r) in (r\<lparr>queue := rest\<rparr>, sent)))"

definition request_finished :: "bool \<Rightarrow> instant \<Rightarrow> uuid \<Rightarrow> u32 \<Rightarrow> swarm_router \<Rightarrow> swarm_router \<times> (uuid \<times> uuid) list" where
  "request_finished locked now sid tokens r =
    try_drain_queue locked now (case load r sid of None \<Rightarrow> r
      | Some l \<Rightarrow> r\<lparr>load := (load r)(sid \<mapsto> l\<lparr>active_requests := active_requests l - 1,
           tokens_generated_total := tokens_generated_total l + ucast tokens\<rparr>)\<rparr>)"

definition available_models :: "string list \<Rightarrow> swarm_router \<Rightarrow> (string \<times> usize) list" where
  "available_models ks r = filter (\<lambda>(_, n). 0 < n)
     (map (\<lambda>(m, ss). (m, length (filter (\<lambda>s. status s = Ready \<or> status s = Busy) ss))) (entries ks (swarms r)))"

definition swarm_count :: "string list \<Rightarrow> swarm_router \<Rightarrow> usize" where
  "swarm_count ks r = sum_list (map (length \<circ> snd) (entries ks (swarms r)))"

definition get_load :: "swarm_router \<Rightarrow> uuid \<Rightarrow> u32 option" where
  "get_load r sid = map_option active_requests (load r sid)"

text \<open>One call of the public interface that changes the state.\<close>

datatype router_event =
  RegisterSwarm instant swarm_definition
| UnregisterSwarm uuid
| SetContributing node_id bool
| RequestStarted bool instant uuid
| RequestFinished bool instant uuid u32

fun router_step :: "router_event \<Rightarrow> swarm_router \<Rightarrow> swarm_router" where
  "router_step (RegisterSwarm now s) r = register_swarm now s r"
| "router_step (UnregisterSwarm sid) r = unregister_swarm sid r"
| "router_step (SetContributing p c) r = set_contributing p c r"
| "router_step (RequestStarted lk now sid) r = request_started lk now sid r"
| "router_step (RequestFinished lk now sid n) r = fst (request_finished lk now sid n r)"

subsection \<open>Selection takes a best candidate\<close>

definition score_in :: "swarm_router \<Rightarrow> swarm_definition \<Rightarrow> f64" where
  "score_in r s = swarm_score (current_load r (sd_swarm_id s)) s"

lemma select_step_alt:
  "select_step r s best = (if \<not> available r s then best
     else (case best of Some (b, bs) \<Rightarrow> if score_in r s \<le> bs then best else Some (s, score_in r s)
         | None \<Rightarrow> Some (s, score_in r s)))"
  by (cases best) (auto simp: select_step_def available_def score_in_def Let_def not_le)

lemma select_fold:
  assumes "\<forall>s \<in> set ss. score_in r s \<noteq> NaN"
  shows "case fold (select_step r) ss None of
      None \<Rightarrow> \<forall>s \<in> set ss. \<not> available r s
    | Some (b, bs) \<Rightarrow> b \<in> set ss \<and> available r b \<and> bs = score_in r b \<and>
        (\<forall>s \<in> set ss. available r s \<longrightarrow> score_in r s \<le> bs)"
  using assms
proof (induction ss rule: rev_induct)
  case (snoc s ss)
  then have IH: "case fold (select_step r) ss None of
      None \<Rightarrow> \<forall>s \<in> set ss. \<not> available r s
    | Some (b, bs) \<Rightarrow> b \<in> set ss \<and> available r b \<and> bs = score_in r b \<and>
        (\<forall>s \<in> set ss. available r s \<longrightarrow> score_in r s \<le> bs)" by simp
  have e: "fold (select_step r) (ss @ [s]) None = select_step r s (fold (select_step r) ss None)" by simp
  show ?case
  proof (cases "fold (select_step r) ss None")
    case None
    then show ?thesis unfolding e None using IH [unfolded None] snoc.prems by (auto simp: select_step_alt f64_le_refl)
  next
    case (Some x)
    obtain b bs where x: "x = (b, bs)" by (cases x)
    show ?thesis
    proof (cases "available r s \<and> \<not> score_in r s \<le> bs")
      case True
      then have "bs \<le> score_in r s" using IH Some x snoc.prems by (auto intro: f64_le_total)
      then show ?thesis unfolding e Some using IH [unfolded Some] x True snoc.prems
        by (auto simp: select_step_alt f64_le_refl intro: f64_le_trans)
    next
      case False
      then show ?thesis unfolding e Some using IH [unfolded Some] x by (auto simp: select_step_alt)
    qed
  qed
qed simp

text \<open>A score is never NaN when the swarm's estimate is finite.\<close>

lemma throughput_factor: "fround 1 = Fin 1" "fround 0 = Fin 0"
  by code_simp+


definition ready_swarm :: "uuid \<Rightarrow> f64 \<Rightarrow> swarm_definition" where
  "ready_swarm i tps = (new_swarm i 0 ''m'')\<lparr>status := Ready, estimated_tok_s := tps\<rparr>"


text \<open>
  A degraded swarm is never selected: when all swarms of a model have lost a member and been rebalanced,
  requests for the model are refused, although the rebalanced swarm has a leader and covers all layers.
\<close>
theorem degraded_swarms_get_no_requests:
  assumes "swarms r model = Some ss" "\<forall>s \<in> set ss. status s = Degraded" "is_contributing r req"
  shows "select_swarm r model req = Inl (NoPeersAvailable model)"
proof -
  have "fold (select_step r) ss None = None"
    using assms(2) by (induction ss rule: rev_induct) (auto simp: select_step_def)
  then show ?thesis using assms(1,3) by (simp add: select_swarm_def)
qed

lemma degraded_swarms_get_no_requests_witness:
  "select_swarm (set_contributing (NodeId [1]) True
     (register_swarm 0 ((new_swarm 3 0 ''m'')\<lparr>status := Degraded\<rparr>) new_router)) ''m'' (NodeId [1])
   = Inl (NoPeersAvailable ''m'')"
  by (rule degraded_swarms_get_no_requests [of _ _ "[(new_swarm 3 0 ''m'')\<lparr>status := Degraded\<rparr>]"])
     (simp_all add: set_contributing_def register_swarm_def new_router_def with_router_limits_def new_swarm_def
        Let_def is_contributing_def)

subsection \<open>Reachable routers\<close>

definition router_inv :: "swarm_router \<Rightarrow> bool" where
  "router_inv r \<longleftrightarrow> queue r = [] \<and> (\<forall>m ss. swarms r m = Some ss \<longrightarrow> ss \<noteq> [] \<and>
     (\<forall>s \<in> set ss. sd_model_id s = m \<and> load r (sd_swarm_id s) \<noteq> None))"

lemma router_step_inv: "router_inv r \<Longrightarrow> router_inv (router_step ev r)"
proof (cases ev)
  case (RequestFinished lk now sid n)
  assume "router_inv r"
  then show ?thesis
    by (fastforce simp: RequestFinished request_finished_def try_drain_queue_def router_inv_def split: option.splits)
next
  case (RegisterSwarm now s)
  assume r: "router_inv r"
  have l: "load (register_swarm now s r) i \<noteq> None" if "load r i \<noteq> None \<or> i = sd_swarm_id s" for i
    using that by (auto simp: register_swarm_def Let_def split: option.splits)
  have "swarms (register_swarm now s r) m = (if m = sd_model_id s
      then Some ((case swarms r m of Some ss \<Rightarrow> ss | None \<Rightarrow> []) @ [s]) else swarms r m)" for m
    by (auto simp: register_swarm_def Let_def)
  moreover have "queue (register_swarm now s r) = queue r" by (simp add: register_swarm_def Let_def)
  ultimately show ?thesis using r l unfolding router_inv_def RegisterSwarm router_step.simps
    by (cases "swarms r (sd_model_id s)") (auto split: if_splits)
next
  case (UnregisterSwarm sid)
  assume "router_inv r"
  then show ?thesis
    by (fastforce simp: UnregisterSwarm unregister_swarm_def router_inv_def retain_Some)
next
  case (SetContributing p c)
  assume "router_inv r"
  then show ?thesis by (simp add: SetContributing set_contributing_def router_inv_def)
next
  case (RequestStarted lk now sid)
  assume "router_inv r"
  then show ?thesis by (fastforce simp: RequestStarted request_started_def router_inv_def split: option.splits)
qed

interpretation router: inv_system "with_router_limits d m" "router_step" router_inv for d m
  by (unfold_locales, simp add: router_inv_def with_router_limits_def, rule router_step_inv)

text \<open>
  In every reachable router the overflow queue is empty (nothing is ever put into it), no model has an
  empty list of swarms, every swarm is listed under its own model, and every listed swarm has a load counter,
  unless it was unregistered.
\<close>
theorem router_reachable_inv:
  "router_inv (fold router_step evs (with_router_limits d m))"
  by (rule router.invar_reachable)

text \<open>
  Registering a swarm whose id is new and unregistering it again restores the router: the maps are exactly
  as before.
\<close>
theorem register_unregister_roundtrip:
  assumes "router_inv r" "load r (sd_swarm_id s) = None"
  shows "unregister_swarm (sd_swarm_id s) (register_swarm now s r) = r"
proof -
  have f: "filter (\<lambda>t. sd_swarm_id t \<noteq> sd_swarm_id s) ss = ss \<and> ss \<noteq> []" if "swarms r m = Some ss" for m ss
    using assms that by (force simp: router_inv_def filter_id_conv)
  have "retain (\<lambda>_ ss. ss \<noteq> []) (\<lambda>m. map_option (filter (\<lambda>t. sd_swarm_id t \<noteq> sd_swarm_id s))
      (((swarms r)(sd_model_id s \<mapsto> (case swarms r (sd_model_id s) of Some ss \<Rightarrow> ss | None \<Rightarrow> []) @ [s])) m)) m = swarms r m" for m
    using f [of m] by (auto simp: retain_def split: option.splits)
  then have "retain (\<lambda>_ ss. ss \<noteq> []) (\<lambda>m. map_option (filter (\<lambda>t. sd_swarm_id t \<noteq> sd_swarm_id s))
      (((swarms r)(sd_model_id s \<mapsto> (case swarms r (sd_model_id s) of Some ss \<Rightarrow> ss | None \<Rightarrow> []) @ [s])) m)) = swarms r"
    by (intro ext)
  moreover have "(load r)(sd_swarm_id s := None) = load r" using assms(2) by auto
  ultimately show ?thesis using assms(2)
    by (simp add: unregister_swarm_def register_swarm_def Let_def del: fun_upd_apply)
qed

lemma register_unregister_roundtrip_witness:
  "unregister_swarm 1 (register_swarm 5 (ready_swarm 1 (Fin 8)) new_router) = new_router"
  using register_unregister_roundtrip [of new_router "ready_swarm 1 (Fin 8)" 5]
  by (simp add: router_inv_def new_router_def with_router_limits_def ready_swarm_def new_swarm_def)

text \<open>
  One \<open>request_finished\<close> too many on an idle swarm wraps its counter to the largest 32-bit value: for every
  request limit the swarm is then at capacity.
\<close>
theorem extra_finish_blocks_swarm:
  assumes "load r sid = Some l" "active_requests l = 0"
  shows "get_load (fst (request_finished locked now sid n r)) sid = Some (- 1) \<and>
     max_requests_per_swarm r \<le> current_load (fst (request_finished locked now sid n r)) sid"
  using assms by (auto simp: request_finished_def try_drain_queue_def get_load_def current_load_def split: prod.splits)

lemma extra_finish_blocks_swarm_witness:
  "get_load (fst (request_finished False 9 1 0 (register_swarm 5 (ready_swarm 1 (Fin 8)) new_router))) 1 = Some 4294967295"
  using extra_finish_blocks_swarm [of "register_swarm 5 (ready_swarm 1 (Fin 8)) new_router" 1
      "\<lparr>active_requests = 0, tokens_generated_total = 0, last_request_at = 5\<rparr>" False 9 0]
  by (simp add: register_swarm_def new_router_def with_router_limits_def ready_swarm_def new_swarm_def Let_def)

end
