(* ===== verification/Health.thy ===== *)
theory Health
  imports MeshTypes
begin

section \<open>Health of pipeline peers\<close>

text \<open>
  \<open>crates/hivebear-mesh/src/pipeline/health.rs\<close>.  The mutex-protected map is the state; every method is a step
  on it.  The clock is an argument.
\<close>

record peer_health_state =
  last_ping_sent :: "instant option"
  last_pong_received :: "instant option"
  consecutive_failures :: u32
  avg_latency_ms :: f64
  latency_samples :: "f64 list"

record peer_health_monitor =
  states :: "u8 list \<rightharpoonup> peer_health_state"
  failure_threshold :: u32

definition DEFAULT_FAILURE_THRESHOLD :: u32 where "DEFAULT_FAILURE_THRESHOLD = 3"

definition new_health_state :: peer_health_state where
  "new_health_state = \<lparr>last_ping_sent = None, last_pong_received = None, consecutive_failures = 0,
     avg_latency_ms = Fin 0, latency_samples = []\<rparr>"

definition with_threshold :: "u32 \<Rightarrow> peer_health_monitor" where
  "with_threshold t = \<lparr>states = Map.empty, failure_threshold = t\<rparr>"

definition new_monitor :: peer_health_monitor where "new_monitor = with_threshold DEFAULT_FAILURE_THRESHOLD"

definition update_state :: "node_id \<Rightarrow> (peer_health_state \<Rightarrow> peer_health_state) \<Rightarrow> peer_health_monitor \<Rightarrow> peer_health_monitor" where
  "update_state p f m = (case states m (key_bytes p) of None \<Rightarrow> m
     | Some s \<Rightarrow> m\<lparr>states := (states m)(key_bytes p \<mapsto> f s)\<rparr>)"

definition track_peer :: "node_id \<Rightarrow> peer_health_monitor \<Rightarrow> peer_health_monitor" where
  "track_peer p m = (case states m (key_bytes p) of Some _ \<Rightarrow> m
     | None \<Rightarrow> m\<lparr>states := (states m)(key_bytes p \<mapsto> new_health_state)\<rparr>)"

definition record_ping_sent :: "instant \<Rightarrow> node_id \<Rightarrow> peer_health_monitor \<Rightarrow> peer_health_monitor" where
  "record_ping_sent now p m = update_state p (\<lambda>s. s\<lparr>last_ping_sent := Some now\<rparr>) m"

text \<open>The latency in whole milliseconds, kept among the last ten.\<close>

definition sample_latency :: "instant \<Rightarrow> peer_health_state \<Rightarrow> peer_health_state" where
  "sample_latency now s = (case last_ping_sent s of None \<Rightarrow> s
     | Some t \<Rightarrow> (let samples = latency_samples s @ [f64_of_nat ((now - t) div 1000000)];
                    kept = (if 10 < length samples then tl samples else samples)
                in s\<lparr>latency_samples := kept, avg_latency_ms := f_sum kept / f64_of_nat (length kept)\<rparr>))"

definition record_pong_received :: "instant \<Rightarrow> node_id \<Rightarrow> peer_health_monitor \<Rightarrow> peer_health_monitor" where
  "record_pong_received now p m =
     update_state p (\<lambda>s. (sample_latency now s)\<lparr>last_pong_received := Some now, consecutive_failures := 0\<rparr>) m"

definition record_ping_failure :: "node_id \<Rightarrow> peer_health_monitor \<Rightarrow> peer_health_monitor" where
  "record_ping_failure p m = update_state p (\<lambda>s. s\<lparr>consecutive_failures := consecutive_failures s + 1\<rparr>) m"

definition is_dead :: "peer_health_monitor \<Rightarrow> node_id \<Rightarrow> bool" where
  "is_dead m p = (case states m (key_bytes p) of None \<Rightarrow> False
     | Some s \<Rightarrow> failure_threshold m \<le> consecutive_failures s)"

definition dead_peers :: "u8 list list \<Rightarrow> peer_health_monitor \<Rightarrow> u8 list list" where
  "dead_peers ks m = map fst (filter (\<lambda>(_, s). failure_threshold m \<le> consecutive_failures s) (entries ks (states m)))"

definition remove_peer :: "node_id \<Rightarrow> peer_health_monitor \<Rightarrow> peer_health_monitor" where
  "remove_peer p m = m\<lparr>states := (states m)(key_bytes p := None)\<rparr>"

definition get_latency :: "peer_health_monitor \<Rightarrow> node_id \<Rightarrow> f64 option" where
  "get_latency m p = map_option avg_latency_ms (states m (key_bytes p))"

datatype health_event =
  Track node_id
| PingSent instant node_id
| PongReceived instant node_id
| PingFailure node_id
| RemovePeer node_id

fun health_step :: "health_event \<Rightarrow> peer_health_monitor \<Rightarrow> peer_health_monitor" where
  "health_step (Track p) m = track_peer p m"
| "health_step (PingSent now p) m = record_ping_sent now p m"
| "health_step (PongReceived now p) m = record_pong_received now p m"
| "health_step (PingFailure p) m = record_ping_failure p m"
| "health_step (RemovePeer p) m = remove_peer p m"

subsection \<open>What the monitor promises\<close>

text \<open>
  The specification of one peer: untracked, or the number of failures since it was tracked or last answered.
\<close>

fun spec_step :: "node_id \<Rightarrow> health_event \<Rightarrow> nat option \<Rightarrow> nat option" where
  "spec_step p (Track q) c = (if q = p \<and> c = None then Some 0 else c)"
| "spec_step p (PingSent now q) c = c"
| "spec_step p (PongReceived now q) c = (if q = p then map_option (\<lambda>_. 0) c else c)"
| "spec_step p (PingFailure q) c = (if q = p then map_option Suc c else c)"
| "spec_step p (RemovePeer q) c = (if q = p then None else c)"

definition failures_of :: "peer_health_monitor \<Rightarrow> node_id \<Rightarrow> nat option" where
  "failures_of m p = map_option (\<lambda>s. unat (consecutive_failures s)) (states m (key_bytes p))"

lemma key_bytes_eq [simp]: "key_bytes p = key_bytes q \<longleftrightarrow> p = q"
  by (cases p; cases q) simp

lemma sample_latency_failures [simp]: "consecutive_failures (sample_latency now s) = consecutive_failures s"
  by (simp add: sample_latency_def Let_def split: option.splits)

lemma health_step_spec:
  assumes "\<And>c. failures_of m p = Some c \<Longrightarrow> Suc c < 2 ^ 32"
  shows "failures_of (health_step ev m) p = spec_step p ev (failures_of m p)"
  using assms
  by (cases ev) (auto simp: failures_of_def track_peer_def record_ping_sent_def record_pong_received_def
      record_ping_failure_def remove_peer_def update_state_def unat_Suc_word new_health_state_def split: option.splits)

lemma health_step_threshold [simp]: "failure_threshold (health_step ev m) = failure_threshold m"
  by (cases ev) (auto simp: track_peer_def record_ping_sent_def record_pong_received_def
      record_ping_failure_def remove_peer_def update_state_def split: option.splits)

lemma spec_step_le: "spec_step p ev c = Some d \<Longrightarrow> (\<And>c'. c = Some c' \<Longrightarrow> c' \<le> n) \<Longrightarrow> d \<le> Suc n"
  by (cases ev) (auto split: if_splits)

lemma health_run_spec:
  assumes "\<And>c. failures_of m p = Some c \<Longrightarrow> c \<le> n" "n + length evs < 2 ^ 32"
  shows "failures_of (fold health_step evs m) p = fold (spec_step p) evs (failures_of m p)"
  using assms
proof (induction evs arbitrary: m n)
  case (Cons ev evs)
  have s: "failures_of (health_step ev m) p = spec_step p ev (failures_of m p)"
    using Cons.prems by (intro health_step_spec) fastforce
  have "c \<le> Suc n" if "failures_of (health_step ev m) p = Some c" for c
    using that Cons.prems(1) unfolding s by (rule spec_step_le)
  then show ?case using Cons.IH [of "health_step ev m" "Suc n"] Cons.prems(2) by (simp add: s)
qed simp

lemma fold_threshold [simp]: "failure_threshold (fold health_step evs m) = failure_threshold m"
  by (induction evs arbitrary: m) simp_all

text \<open>
  C6: The monitor refines its specification: after any sequence of fewer than \<open>2^32\<close> events a peer is dead
  exactly when it is tracked and the failures recorded since it was tracked, or since its last pong, have
  reached the threshold; events of other peers do not matter.
\<close>
theorem health_monitor_refines_spec:
  assumes "length evs < 2 ^ 32"
  shows "is_dead (fold health_step evs (with_threshold t)) p =
    (case fold (spec_step p) evs None of None \<Rightarrow> False | Some c \<Rightarrow> unat t \<le> c)"
proof -
  have "failures_of (with_threshold t) p = None" by (simp add: failures_of_def with_threshold_def)
  then have "failures_of (fold health_step evs (with_threshold t)) p = fold (spec_step p) evs None"
    using health_run_spec [of "with_threshold t" p 0 evs] assms by simp
  moreover have "failure_threshold (fold health_step evs (with_threshold t)) = t" by (simp add: with_threshold_def)
  ultimately show ?thesis
    by (auto simp: is_dead_def failures_of_def word_le_nat_alt split: option.splits dest: sym)
qed

lemma health_monitor_refines_spec_witness:
  "is_dead (fold health_step [Track (NodeId [1]), PingFailure (NodeId [1]), PingFailure (NodeId [1]),
     PongReceived 5 (NodeId [1]), PingFailure (NodeId [1]), PingFailure (NodeId [2])] (with_threshold 2)) (NodeId [1]) = False"
  by (subst health_monitor_refines_spec) simp_all

text \<open>At most ten latency samples are kept for a peer, whatever happens.\<close>

definition samples_ok :: "peer_health_monitor \<Rightarrow> bool" where
  "samples_ok m \<longleftrightarrow> (\<forall>s \<in> ran (states m). length (latency_samples s) \<le> 10)"

lemma sample_latency_bound: "length (latency_samples s) \<le> 10 \<Longrightarrow> length (latency_samples (sample_latency now s)) \<le> 10"
  by (simp add: sample_latency_def Let_def split: option.splits)

lemma update_state_samples:
  "samples_ok m \<Longrightarrow> (\<And>s. length (latency_samples s) \<le> 10 \<Longrightarrow> length (latency_samples (f s)) \<le> 10) \<Longrightarrow>
   samples_ok (update_state p f m)"
  by (auto simp: samples_ok_def update_state_def ran_def split: option.splits if_splits)

lemma health_step_samples: "samples_ok m \<Longrightarrow> samples_ok (health_step ev m)"
  by (cases ev) (auto simp: record_ping_sent_def record_pong_received_def record_ping_failure_def
      intro!: update_state_samples dest: sample_latency_bound,
      auto simp: samples_ok_def track_peer_def remove_peer_def new_health_state_def ran_def split: option.splits if_splits)

interpretation health: inv_system "with_threshold t" health_step samples_ok for t
  by (unfold_locales, simp add: samples_ok_def with_threshold_def, rule health_step_samples)

lemma health_samples_bounded: "samples_ok (fold health_step evs (with_threshold t))"
  by (rule health.invar_reachable)

end
