(* ===== verification/Checkpoint.thy ===== *)
theory Checkpoint
  imports Wire
begin

section \<open>Activation checkpoints\<close>

text \<open>
  \<open>crates/hivebear-mesh/src/pipeline/checkpoint.rs\<close>.  The store maps a session to the checkpoints at its token
  positions.  Iterating over a session's map takes an enumeration \<open>ks\<close> of its positions; of several oldest
  checkpoints the first in that order is evicted.
\<close>

record activation_checkpoint =
  cp_token_position :: u32
  activation_data :: "u8 list"
  cp_shape :: "usize list"
  cp_dtype :: tensor_dtype
  source_layer :: u32
  timestamp :: instant

type_synonym session_map = "u32 \<rightharpoonup> activation_checkpoint"

record checkpoint_store =
  checkpoints :: "uuid \<rightharpoonup> session_map"
  max_per_session :: usize

definition new_store :: "usize \<Rightarrow> checkpoint_store" where
  "new_store n = \<lparr>checkpoints = Map.empty, max_per_session = n\<rparr>"

definition session_of :: "checkpoint_store \<Rightarrow> uuid \<Rightarrow> session_map" where
  "session_of st sid = (case checkpoints st sid of Some m \<Rightarrow> m | None \<Rightarrow> Map.empty)"

text \<open>Make room: the entry with the smallest time stamp goes when the session is at its limit.\<close>

definition evict :: "usize \<Rightarrow> u32 list \<Rightarrow> session_map \<Rightarrow> session_map" where
  "evict limit ks m =
    (if limit \<le> length (entries ks m) then
       (case min_by_key (\<lambda>(_, cp). timestamp cp) (entries ks m) of
          Some (oldest, _) \<Rightarrow> m(oldest := None) | None \<Rightarrow> m)
     else m)"

definition save_checkpoint :: "u32 list \<Rightarrow> instant \<Rightarrow> uuid \<Rightarrow> u32 \<Rightarrow> u8 list \<Rightarrow> usize list \<Rightarrow> tensor_dtype \<Rightarrow> u32 \<Rightarrow>
    checkpoint_store \<Rightarrow> checkpoint_store" where
  "save_checkpoint ks now sid pos data shape dtype layer st =
    (let cp = \<lparr>cp_token_position = pos, activation_data = data, cp_shape = shape, cp_dtype = dtype,
           source_layer = layer, timestamp = now\<rparr>;
         m = evict (max_per_session st) ks (session_of st sid)
     in st\<lparr>checkpoints := (checkpoints st)(sid \<mapsto> m(pos \<mapsto> cp))\<rparr>)"

definition latest :: "u32 list \<Rightarrow> checkpoint_store \<Rightarrow> uuid \<Rightarrow> activation_checkpoint option" where
  "latest ks st sid = (case checkpoints st sid of None \<Rightarrow> None
     | Some m \<Rightarrow> max_by_key cp_token_position (map snd (entries ks m)))"

definition get_checkpoint :: "checkpoint_store \<Rightarrow> uuid \<Rightarrow> u32 \<Rightarrow> activation_checkpoint option" where
  "get_checkpoint st sid pos = (case checkpoints st sid of None \<Rightarrow> None | Some m \<Rightarrow> m pos)"

definition clear_session :: "uuid \<Rightarrow> checkpoint_store \<Rightarrow> checkpoint_store" where
  "clear_session sid st = st\<lparr>checkpoints := (checkpoints st)(sid := None)\<rparr>"

definition total_checkpoints :: "uuid list \<Rightarrow> (uuid \<Rightarrow> u32 list) \<Rightarrow> checkpoint_store \<Rightarrow> usize" where
  "total_checkpoints sids ks st = sum_list (map (\<lambda>(sid, m). length (entries (ks sid) m)) (entries sids (checkpoints st)))"

subsection \<open>Bounds, round trip, and what is evicted\<close>

definition store_inv :: "checkpoint_store \<Rightarrow> bool" where
  "store_inv st \<longleftrightarrow> (\<forall>sid m. checkpoints st sid = Some m \<longrightarrow>
     finite (dom m) \<and> card (dom m) \<le> max 1 (max_per_session st) \<and> (\<forall>p cp. m p = Some cp \<longrightarrow> cp_token_position cp = p))"

lemma evict_sub: "evict limit ks m p = Some cp \<Longrightarrow> m p = Some cp"
  by (auto simp: evict_def split: if_splits option.splits prod.splits)

lemma card_dom_Some: "iter_order ks m \<Longrightarrow> card (dom m) = length (entries ks m)"
  by (metis iter_order_def iter_order_length length_entries order_refl)

lemma evict_card:
  assumes "iter_order ks m" "card (dom m) \<le> max 1 limit"
  shows "finite (dom (evict limit ks m)) \<and> Suc (card (dom (evict limit ks m))) \<le> max 1 limit"
proof -
  have fin: "finite (dom m)" using assms(1) by (metis List.finite_set iter_order_def)
  note c = card_dom_Some [OF assms(1)]
  show ?thesis
  proof (cases "limit \<le> length (entries ks m)")
    case False
    then show ?thesis using fin c by (simp add: evict_def)
  next
    case True
    show ?thesis
    proof (cases "min_by_key (\<lambda>(_, cp). timestamp cp) (entries ks m)")
      case None
      then have "entries ks m = []" by simp
      then show ?thesis using c fin None True by (simp add: evict_def)
    next
      case (Some x)
      obtain p cp where x: "x = (p, cp)" by (cases x)
      have "(p, cp) \<in> set (entries ks m)" using min_by_key_Some [OF Some] x by simp
      then have p: "p \<in> dom m" using iter_order_entries [OF assms(1)] by blast
      have e: "dom (evict limit ks m) = dom m - {p}" using True Some x by (auto simp: evict_def)
      have "Suc (card (dom m - {p})) = card (dom m)" using p fin by (metis card_Suc_Diff1)
      then show ?thesis using e fin assms(2) by simp
    qed
  qed
qed

lemma save_inv:
  assumes "store_inv st" "iter_order ks (session_of st sid)"
  shows "store_inv (save_checkpoint ks now sid pos data shape dtype layer st)"
proof -
  let ?m = "session_of st sid" and ?e = "evict (max_per_session st) ks (session_of st sid)"
  have "card (dom ?m) \<le> max 1 (max_per_session st) \<and> (\<forall>p cp. ?m p = Some cp \<longrightarrow> cp_token_position cp = p)"
    using assms(1) by (auto simp: store_inv_def session_of_def split: option.splits)
  then have e: "finite (dom ?e)" "Suc (card (dom ?e)) \<le> max 1 (max_per_session st)"
    "\<And>p cp. ?e p = Some cp \<Longrightarrow> cp_token_position cp = p"
    using evict_card [OF assms(2)] by (auto dest: evict_sub)
  have "card (insert pos (dom ?e)) \<le> max 1 (max_per_session st)"
    using card_insert_le_m1 [of "max 1 (max_per_session st)" "dom ?e" pos] e(2) by simp
  then show ?thesis using assms(1) e(1,3)
    by (auto simp: store_inv_def save_checkpoint_def Let_def split: if_splits)
qed

datatype checkpoint_event =
  SaveCp "u32 list" instant uuid u32 "u8 list" "usize list" tensor_dtype u32
| ClearCp uuid

text \<open>An event whose enumeration of positions is not one of the session's map does not happen.\<close>

fun checkpoint_step :: "checkpoint_event \<Rightarrow> checkpoint_store \<Rightarrow> checkpoint_store" where
  "checkpoint_step (SaveCp ks now sid pos data shape dtype layer) st =
     (if distinct ks \<and> (\<forall>k \<in> set ks. session_of st sid k \<noteq> None) \<and> dom (session_of st sid) \<subseteq> set ks
      then save_checkpoint ks now sid pos data shape dtype layer st else st)"
| "checkpoint_step (ClearCp sid) st = clear_session sid st"

interpretation checkpoint: inv_system "new_store n" checkpoint_step store_inv for n
proof
  show "store_inv (new_store n)" by (simp add: store_inv_def new_store_def)
  show "store_inv (checkpoint_step ev st)" if "store_inv st" for ev st
    using that by (cases ev) (auto simp: clear_session_def iter_order_def intro!: save_inv, auto simp: store_inv_def)
qed

text \<open>
  Whatever is saved and cleared, a session never has more checkpoints than the configured maximum (one, if
  that is zero), and a checkpoint is filed under its own token position.
\<close>
theorem checkpoints_bounded:
  "store_inv (fold checkpoint_step evs (new_store n))"
  by (rule checkpoint.invar_reachable)

text \<open>
  What is saved is found: looking up the position just saved gives exactly the saved data, any other
  position of the session is as before unless it was the one evicted, and other sessions are untouched.
\<close>
theorem save_get_roundtrip:
  "get_checkpoint (save_checkpoint ks now sid pos data shape dtype layer st) sid pos =
     Some \<lparr>cp_token_position = pos, activation_data = data, cp_shape = shape, cp_dtype = dtype,
           source_layer = layer, timestamp = now\<rparr> \<and>
   (\<exists>evicted. length evicted \<le> 1 \<and> (\<forall>p. p = pos \<or> p \<in> set evicted \<or>
      get_checkpoint (save_checkpoint ks now sid pos data shape dtype layer st) sid p = get_checkpoint st sid p)) \<and>
   (\<forall>s. s = sid \<or> checkpoints (save_checkpoint ks now sid pos data shape dtype layer st) s = checkpoints st s)"
proof -
  let ?e = "evict (max_per_session st) ks (session_of st sid)"
  have g: "get_checkpoint st sid p = session_of st sid p" for p
    by (simp add: get_checkpoint_def session_of_def split: option.splits)
  have "\<exists>evicted. length evicted \<le> 1 \<and> (\<forall>p. p \<notin> set evicted \<longrightarrow> ?e p = session_of st sid p)"
  proof (cases "min_by_key (\<lambda>(_, cp). timestamp cp) (entries ks (session_of st sid))")
    case None
    then show ?thesis by (intro exI [of _ "[]"]) (simp add: evict_def)
  next
    case (Some x)
    then show ?thesis by (intro exI [of _ "[fst x]"]) (auto simp: evict_def split: prod.splits)
  qed
  then show ?thesis unfolding g by (auto simp: save_checkpoint_def Let_def get_checkpoint_def)
qed

text \<open>
  Saving a position that is already there makes room all the same: a session at its limit loses its oldest
  checkpoint although none is added.
\<close>
theorem resave_evicts_needlessly:
  assumes "iter_order ks (session_of st sid)" "max_per_session st \<le> card (dom (session_of st sid))"
    "session_of st sid pos = Some cp0" "session_of st sid old = Some cp1" "old \<noteq> pos"
    "\<forall>p cp. session_of st sid p = Some cp \<and> p \<noteq> old \<longrightarrow> timestamp cp1 < timestamp cp"
  shows "get_checkpoint (save_checkpoint ks now sid pos data shape dtype layer st) sid old = None"
proof -
  let ?m = "session_of st sid"
  have len: "max_per_session st \<le> length (entries ks ?m)" using assms(2) card_dom_Some [OF assms(1)] by simp
  have o: "(old, cp1) \<in> set (entries ks ?m)" using assms(4) iter_order_entries [OF assms(1)] by blast
  then obtain p cp where m: "min_by_key (\<lambda>(_, cp). timestamp cp) (entries ks ?m) = Some (p, cp)"
    by (metis empty_iff empty_set min_by_key_None not_Some_eq surj_pair)
  have "?m p = Some cp" "timestamp cp \<le> timestamp cp1"
    using min_by_key_Some [OF m] o iter_order_entries [OF assms(1)] by auto
  then have "p = old" using assms(6) by (metis leD)
  then show ?thesis using m len assms(5) by (simp add: save_checkpoint_def get_checkpoint_def evict_def Let_def)
qed

lemma resave_evicts_needlessly_witness:
  "get_checkpoint (save_checkpoint [10, 20] 9 5 20 [] [] F32 0
     (save_checkpoint [10] 2 5 20 [] [] F32 0 (save_checkpoint [] 1 5 10 [] [] F32 0 (new_store 2)))) 5 10 = None"
proof -
  define st where "st = save_checkpoint [10] 2 5 20 [] [] F32 0 (save_checkpoint [] 1 5 10 [] [] F32 0 (new_store 2))"
  let ?cp = "\<lambda>p t. \<lparr>cp_token_position = p, activation_data = [], cp_shape = [], cp_dtype = F32, source_layer = 0, timestamp = t\<rparr>"
  have m: "session_of st 5 = [10 \<mapsto> ?cp 10 1, 20 \<mapsto> ?cp 20 2]" "max_per_session st = 2"
    by (simp_all add: st_def save_checkpoint_def evict_def session_of_def new_store_def Let_def)
  have d: "dom (session_of st 5) = {10, 20}" by (auto simp: m)
  have "get_checkpoint (save_checkpoint [10, 20] 9 5 20 [] [] F32 0 st) 5 10 = None"
    by (rule resave_evicts_needlessly [of _ _ _ _ "?cp 20 2" _ "?cp 10 1"])
       (simp_all add: iter_order_def d, auto simp: m split: if_splits)
  then show ?thesis by (simp add: st_def)
qed

end
