(* ===== verification/Utf8.thy ===== *)
theory Utf8
  imports Prelude
begin

section \<open>Text from bytes\<close>

text \<open>
  A Rust string is kept as its UTF-8 bytes, one character each.  \<open>String::from_utf8_lossy\<close> keeps well-formed
  sequences and replaces every maximal ill-formed part by the replacement character \<open>U+FFFD\<close>, whose bytes
  are 239, 191, 189 (the standard library's documented behaviour, which follows the Unicode recommendation).
\<close>

definition in_bytes :: "u8 \<Rightarrow> u8 \<Rightarrow> u8 \<Rightarrow> bool" where
  "in_bytes lo hi b \<longleftrightarrow> lo \<le> b \<and> b \<le> hi"

definition continuation :: "u8 \<Rightarrow> bool" where "continuation = in_bytes 128 191"

text \<open>The number of continuation bytes a leading byte asks for, and the range of the first of them.\<close>

definition lead :: "u8 \<Rightarrow> (nat \<times> u8 \<times> u8) option" where
  "lead b = (if in_bytes 194 223 b then Some (1, 128, 191)
     else if b = 224 then Some (2, 160, 191)
     else if b = 237 then Some (2, 128, 159)
     else if in_bytes 225 239 b then Some (2, 128, 191)
     else if b = 240 then Some (3, 144, 191)
     else if in_bytes 241 243 b then Some (3, 128, 191)
     else if b = 244 then Some (3, 128, 143)
     else None)"

text \<open>How many of the next bytes continue the sequence: at most \<open>n\<close>, the first within its own range.\<close>

fun continues :: "nat \<Rightarrow> u8 \<Rightarrow> u8 \<Rightarrow> u8 list \<Rightarrow> nat" where
  "continues 0 lo hi bs = 0"
| "continues (Suc n) lo hi [] = 0"
| "continues (Suc n) lo hi (b # bs) = (if in_bytes lo hi b then Suc (continues n 128 191 bs) else 0)"

function utf8_lossy :: "u8 list \<Rightarrow> u8 list" where
  "utf8_lossy [] = []"
| "utf8_lossy (b # bs) =
    (if b < 128 then b # utf8_lossy bs
     else (case lead b of
         None \<Rightarrow> [239, 191, 189] @ utf8_lossy bs
       | Some (n, lo, hi) \<Rightarrow> (let k = continues n lo hi bs in
           (if k = n then b # take k bs else [239, 191, 189]) @ utf8_lossy (drop k bs))))"
  by pat_completeness auto
termination by (relation "measure length") auto

definition bytes_string :: "u8 list \<Rightarrow> string" where
  "bytes_string bs = map (\<lambda>b. char_of (unat b)) bs"

definition from_utf8_lossy :: "u8 list \<Rightarrow> string" where
  "from_utf8_lossy bs = bytes_string (utf8_lossy bs)"

lemma utf8_lossy_Nil_iff [simp]: "utf8_lossy bs = [] \<longleftrightarrow> bs = []"
  by (cases bs) (auto simp: Let_def split: option.splits)

lemma from_utf8_lossy_Nil_iff [simp]: "from_utf8_lossy bs = [] \<longleftrightarrow> bs = []"
  by (simp add: from_utf8_lossy_def bytes_string_def)

lemma utf8_lossy_ascii: "\<forall>b \<in> set bs. b < 128 \<Longrightarrow> utf8_lossy bs = bs"
  by (induction bs) simp_all

end
