(* ===== verification/Initiator.thy ===== *)
theory Initiator
  imports Worker Checkpoint Utf8 Scheduler
begin

section \<open>Pipeline initiator\<close>

text \<open>
  \<open>crates/hivebear-mesh/src/pipeline/initiator.rs\<close>.  The asynchronous loops are functions of the results that
  \<open>transport.recv\<close> returns in turn; when the list of results is used up the task waits (\<open>Waiting\<close>).  \<open>ie_send n\<close>
  is the error of the \<open>n\<close>-th send, if any, and \<open>ie_rx n\<close> whether the consumer still takes the \<open>n\<close>-th item.
\<close>

definition CHECKPOINT_INTERVAL :: u32 where "CHECKPOINT_INTERVAL = 10"

subsection \<open>Setup\<close>

fun assign_messages :: "inference_plan \<Rightarrow> node_id \<Rightarrow> string \<Rightarrow> layer_assignment list \<Rightarrow> (node_id \<times> mesh_message) list" where
  "assign_messages plan local source [] = []"
| "assign_messages plan local source (a # rest) =
    (la_peer_id a, AssignLayers (ip_session_id plan) (ip_model_id plan) (la_layer_range a) (ip_total_layers plan) source
        (case rest of [] \<Rightarrow> None | b # _ \<Rightarrow> Some (la_peer_id b)) local)
    # assign_messages plan local source rest"

text \<open>Sending stops at the first failure.\<close>

fun send_all :: "(nat \<Rightarrow> mesh_error option) \<Rightarrow> nat \<Rightarrow> (node_id \<times> mesh_message) list \<Rightarrow>
    (node_id \<times> mesh_message) list \<times> mesh_error option" where
  "send_all snd_err k [] = ([], None)"
| "send_all snd_err k (m # ms) = (case snd_err k of Some e \<Rightarrow> ([m], Some e)
     | None \<Rightarrow> (let (sent, r) = send_all snd_err (Suc k) ms in (m # sent, r)))"

fun await_acks :: "(node_id \<Rightarrow> string) \<Rightarrow> uuid \<Rightarrow> nat \<Rightarrow> (mesh_error, node_id \<times> mesh_message) result list \<Rightarrow>
    unit mesh_result option" where
  "await_acks show_id sid 0 rs = Some (Inr ())"
| "await_acks show_id sid (Suc n) [] = None"
| "await_acks show_id sid (Suc n) (Inl e # rs) = Some (Inl e)"
| "await_acks show_id sid (Suc n) (Inr (peer, msg) # rs) = (case msg of
     AssignLayersAck s ready err \<Rightarrow>
       (if s \<noteq> sid then await_acks show_id sid (Suc n) rs
        else if ready then await_acks show_id sid n rs
        else Some (Inl (Pipeline (''Peer '' @ show_id peer @ '' failed to set up: '' @
               (case err of Some m \<Rightarrow> m | None \<Rightarrow> ''unknown'')))))
   | ErrorMsg s m \<Rightarrow>
       (if s = Some sid then Some (Inl (Pipeline (''Peer '' @ show_id peer @ '' error: '' @ m)))
        else await_acks show_id sid (Suc n) rs)
   | _ \<Rightarrow> await_acks show_id sid (Suc n) rs)"

definition setup_pipeline :: "(node_id \<Rightarrow> string) \<Rightarrow> (nat \<Rightarrow> mesh_error option) \<Rightarrow> inference_plan \<Rightarrow> node_id \<Rightarrow> string \<Rightarrow>
    (mesh_error, node_id \<times> mesh_message) result list \<Rightarrow> (node_id \<times> mesh_message) list \<times> unit mesh_result option" where
  "setup_pipeline show_id snd_err plan local source rs =
    (let (sent, r) = send_all snd_err 0 (assign_messages plan local source (assignments plan))
     in (sent, case r of Some e \<Rightarrow> Some (Inl e)
        | None \<Rightarrow> await_acks show_id (ip_session_id plan) (plan_peer_count plan) rs))"

subsection \<open>Generation\<close>

record 'h init_env =
  ie_handler :: "'h pipeline_handler"
  ie_send :: "nat \<Rightarrow> mesh_error option"
  ie_rx :: "nat \<Rightarrow> bool"
  ie_order :: "session_map \<Rightarrow> u32 list"
  ie_clock :: "u32 \<Rightarrow> instant"

record 'h gen_state =
  outs :: "(mesh_error, token) result list"
  sent :: "(node_id \<times> mesh_message) list"
  store :: checkpoint_store
  gen_engine :: 'h

datatype run_status = Waiting | Finished | Panicked

datatype step_status = Continue | Break | Panic

definition emit_error :: "mesh_error \<Rightarrow> 'h gen_state \<Rightarrow> 'h gen_state" where
  "emit_error e st = st\<lparr>outs := outs st @ [Inl e]\<rparr>"

definition release_all :: "inference_plan \<Rightarrow> 'h gen_state \<Rightarrow> 'h gen_state" where
  "release_all plan st =
    st\<lparr>sent := sent st @ map (\<lambda>a. (la_peer_id a, ReleaseSession (ip_session_id plan))) (assignments plan)\<rparr>"

definition cleanup :: "inference_plan \<Rightarrow> 'h gen_state \<Rightarrow> 'h gen_state" where
  "cleanup plan st = release_all plan (st\<lparr>store := clear_session (ip_session_id plan) (store st)\<rparr>)"

definition tag_or_f32 :: "u8 \<Rightarrow> tensor_dtype" where
  "tag_or_f32 tag = (case from_u8 tag of Some d \<Rightarrow> d | None \<Rightarrow> F32)"

definition u32_from_le :: "u8 list \<Rightarrow> u32" where
  "u32_from_le bs = ucast (bs ! 0) + push_bit 8 (ucast (bs ! 1)) + push_bit 16 (ucast (bs ! 2)) + push_bit 24 (ucast (bs ! 3))"

text \<open>
  Embedding the token and sending its activation.  The checkpoint is saved before the send.
\<close>

definition feed_back :: "'h init_env \<Rightarrow> inference_plan \<Rightarrow> node_id \<Rightarrow> u32 \<Rightarrow> u32 \<Rightarrow> 'h gen_state \<Rightarrow> 'h gen_state \<times> step_status" where
  "feed_back e plan first pos token_id st =
    (case forward_layers (ie_handler e) (u32_le_bytes token_id) [1, 1] 0 (unat (pos + 1)) (gen_engine st) of
       (Inl err, h) \<Rightarrow> (emit_error (Pipeline (''Next embedding failed: '' @ err)) (st\<lparr>gen_engine := h\<rparr>), Break)
     | (Inr (data, shape, tag), h) \<Rightarrow>
        (let st1 = st\<lparr>gen_engine := h\<rparr>;
             st2 = (if (pos + 1) mod CHECKPOINT_INTERVAL = 0
               then st1\<lparr>store := save_checkpoint (ie_order e (session_of (store st1) (ip_session_id plan)))
                      (ie_clock e pos) (ip_session_id plan) (pos + 1) data shape (tag_or_f32 tag) 0 (store st1)\<rparr>
               else st1);
             st3 = st2\<lparr>sent := sent st2 @ [(first, ActivationTensor (ip_session_id plan) (pos + 1) data shape (tag_or_f32 tag))]\<rparr>
         in case ie_send e (length (sent st2)) of
              Some err \<Rightarrow> (emit_error err st3, Break)
            | None \<Rightarrow> (st3, Continue)))"

text \<open>
  One position: sample from the logits, emit the token, feed it back.  Slicing the bytes after the fourth
  panics when there are fewer than four.
\<close>

definition on_logits :: "'h init_env \<Rightarrow> inference_plan \<Rightarrow> node_id \<Rightarrow> u32 \<Rightarrow> u8 list \<Rightarrow> 'h gen_state \<Rightarrow> 'h gen_state \<times> step_status" where
  "on_logits e plan first pos logits st =
    (case forward_layers (ie_handler e) logits [1] 255 (unat pos) (gen_engine st) of
       (Inl err, h) \<Rightarrow> (emit_error (Pipeline (''Sampling failed: '' @ err)) (st\<lparr>gen_engine := h\<rparr>), Break)
     | (Inr (token_bytes, _, _), h) \<Rightarrow>
        (if length token_bytes < 4 then (st\<lparr>gen_engine := h\<rparr>, Panic)
         else (let token_id = u32_from_le (take 4 token_bytes);
                   token_text = from_utf8_lossy (drop 4 token_bytes);
                   is_eos = (token_text = [] \<or> token_id = 0);
                   tok = \<lparr>tok_text = token_text, tok_id = token_id, tok_logprob = None, is_special = is_eos\<rparr>;
                   accepted = ie_rx e (length (outs st));
                   st1 = st\<lparr>gen_engine := h, outs := outs st @ [Inr tok]\<rparr>
               in if \<not> accepted then (st1, Break)
                  else if is_eos then (st1, Break)
                  else feed_back e plan first pos token_id st1)))"

fun gen_loop :: "'h init_env \<Rightarrow> inference_plan \<Rightarrow> node_id \<Rightarrow> u32 \<Rightarrow> u32 \<Rightarrow> (mesh_error, node_id \<times> mesh_message) result list \<Rightarrow>
    'h gen_state \<Rightarrow> 'h gen_state \<times> run_status" where
  "gen_loop e plan first max_tokens pos [] st =
    (if max_tokens \<le> pos then (cleanup plan st, Finished) else (st, Waiting))"
| "gen_loop e plan first max_tokens pos (r # rs) st =
    (if max_tokens \<le> pos then (cleanup plan st, Finished)
     else (case r of
        Inl err \<Rightarrow> (emit_error err st, Finished)
      | Inr (peer, msg) \<Rightarrow> (case msg of
          Logits sid p data v \<Rightarrow>
            (if sid \<noteq> ip_session_id plan then gen_loop e plan first max_tokens pos rs st
             else (case on_logits e plan first pos data st of
                 (st', Continue) \<Rightarrow> gen_loop e plan first max_tokens (pos + 1) rs st'
               | (st', Break) \<Rightarrow> (cleanup plan st', Finished)
               | (st', Panic) \<Rightarrow> (st', Panicked)))
        | ErrorMsg s m \<Rightarrow> (release_all plan (emit_error (Pipeline m) st), Finished)
        | _ \<Rightarrow> gen_loop e plan first max_tokens pos rs st)))"

definition stream_tokens :: "'h init_env \<Rightarrow> inference_plan \<Rightarrow> u32 list \<Rightarrow> u32 \<Rightarrow>
    (mesh_error, node_id \<times> mesh_message) result list \<Rightarrow> checkpoint_store \<Rightarrow> 'h \<Rightarrow> 'h gen_state \<times> run_status" where
  "stream_tokens e plan prompt max_tokens rs cps h0 =
    (let st0 = \<lparr>outs = [], sent = [], store = cps, gen_engine = h0\<rparr> in
     case assignments plan of
       [] \<Rightarrow> (emit_error (Pipeline ''No peers in plan'') st0, Finished)
     | a # _ \<Rightarrow>
        (let first = la_peer_id a in
         case forward_layers (ie_handler e) (concat (map u32_le_bytes prompt)) [length prompt, 1] 0 0 h0 of
           (Inl err, h) \<Rightarrow> (emit_error (Pipeline (''Embedding failed: '' @ err)) (st0\<lparr>gen_engine := h\<rparr>), Finished)
         | (Inr (data, shape, tag), h) \<Rightarrow>
            (let st1 = st0\<lparr>gen_engine := h, sent := [(first, ActivationTensor (ip_session_id plan) 0 data shape (tag_or_f32 tag))]\<rparr>
             in case ie_send e 0 of
                  Some err \<Rightarrow> (emit_error err st1, Finished)
                | None \<Rightarrow> gen_loop e plan first max_tokens 0 rs st1)))"

subsection \<open>Full-model replication\<close>

fun replicated_loop :: "(nat \<Rightarrow> bool) \<Rightarrow> uuid \<Rightarrow> nat \<Rightarrow> (mesh_error, node_id \<times> mesh_message) result list \<Rightarrow>
    (mesh_error, token) result list \<times> run_status" where
  "replicated_loop rx sid k [] = ([], Waiting)"
| "replicated_loop rx sid k (Inl e # rs) = ([Inl e], Finished)"
| "replicated_loop rx sid k (Inr (peer, msg) # rs) = (case msg of
     InferenceToken s txt tid done_flag \<Rightarrow>
       (if s \<noteq> sid then replicated_loop rx sid k rs
        else (let tok = \<lparr>tok_text = txt, tok_id = tid, tok_logprob = None, is_special = done_flag\<rparr> in
          if \<not> rx k \<or> done_flag then ([Inr tok], Finished)
          else (let (os, st) = replicated_loop rx sid (Suc k) rs in (Inr tok # os, st))))
   | InferenceComplete s full n err \<Rightarrow>
       (if s \<noteq> sid then replicated_loop rx sid k rs
        else (case err of Some m \<Rightarrow> ([Inl (Pipeline m)], Finished) | None \<Rightarrow> ([], Finished)))
   | ErrorMsg s m \<Rightarrow> ([Inl (Pipeline m)], Finished)
   | _ \<Rightarrow> replicated_loop rx sid k rs)"

text \<open>The tokens, the messages sent, and how it ended; \<open>show_error\<close> prints a mesh error.\<close>

definition stream_tokens_replicated :: "(mesh_error \<Rightarrow> string) \<Rightarrow> (nat \<Rightarrow> mesh_error option) \<Rightarrow> (nat \<Rightarrow> bool) \<Rightarrow>
    uuid \<Rightarrow> inference_plan \<Rightarrow> string \<Rightarrow> string \<Rightarrow> u32 \<Rightarrow> f32_bits \<Rightarrow> f32_bits \<Rightarrow>
    (mesh_error, node_id \<times> mesh_message) result list \<Rightarrow>
    (mesh_error, token) result list \<times> (node_id \<times> mesh_message) list \<times> run_status" where
  "stream_tokens_replicated show_error snd_err rx sid plan model msgs max_tokens temperature top_p rs =
    (case assignments plan of
       [] \<Rightarrow> ([Inl (Pipeline ''No peers in plan'')], [], Finished)
     | a # _ \<Rightarrow>
        (let req = (la_peer_id a, InferenceRequest sid model msgs max_tokens temperature top_p) in
         case snd_err 0 of
           Some e \<Rightarrow> ([Inl (Transport (''Failed to send inference request: '' @ show_error e))], [req], Finished)
         | None \<Rightarrow> (let (os, st) = replicated_loop rx sid 0 rs in
             (os, if st = Finished then [req, (la_peer_id a, ReleaseSession sid)] else [req], st))))"

subsection \<open>Setup links the workers\<close>

text \<open>The worker of an assigned stage after it has handled its assignment; \<open>mk\<close> gives it before.\<close>

definition assigned_stage :: "(node_id \<Rightarrow> 'h worker_env \<times> 'h worker) \<Rightarrow> node_id \<Rightarrow> node_id \<times> mesh_message \<Rightarrow> 'h stage" where
  "assigned_stage mk local m = (fst m, fst (mk (fst m)), fst (worker_step (fst (mk (fst m))) local (snd m) (snd (mk (fst m)))))"

lemma assigned_session:
  "sessions (fst (worker_step e src (AssignLayers sid model lr tot source nxt ini) w)) sid =
     Some \<lparr>ws_session_id = sid, ws_model_id = model, ws_layer_range = lr, ws_total_layers = tot,
       ws_model_source = source, ws_next_peer = nxt, ws_initiator_peer = ini\<rparr>"
  by (simp add: handle_assign_def Let_def split: option.splits prod.splits sum.splits)

lemma linked_assigned:
  assumes "\<forall>a \<in> set as. we_handler (fst (mk (la_peer_id a))) \<noteq> None \<and> we_local_id (fst (mk (la_peer_id a))) = la_peer_id a"
    "covers s (ip_total_layers plan) (map la_layer_range as)"
  shows "linked (ip_session_id plan) local (map (assigned_stage mk local) (assign_messages plan local source as))"
  using assms
proof (induction as arbitrary: s)
  case (Cons a as)
  obtain x y where r: "la_layer_range a = (x, y)" by (cases "la_layer_range a")
  have c: "covers y (ip_total_layers plan) (map la_layer_range as)" using Cons.prems(2) r by simp
  show ?case
  proof (cases as)
    case Nil
    then show ?thesis using Cons.prems c r
      by (simp add: routes_def assigned_stage_def assigned_session del: worker_step.simps)
  next
    case (Cons b bs)
    obtain x' y' where r': "la_layer_range b = (x', y')" by (cases "la_layer_range b")
    have "y < y'" "y' \<le> ip_total_layers plan" using c r' by (auto simp: Cons dest: covers_le)
    then have "y \<noteq> ip_total_layers plan" by auto
    then show ?thesis using Cons.IH [OF _ c] Cons.prems(1) r
      by (simp add: Cons routes_def assigned_stage_def assigned_session del: worker_step.simps)
  qed
qed simp

lemma assigned_ids [simp]: "map fst (map (assigned_stage mk local) (assign_messages plan local source as)) = map la_peer_id as"
  by (induction as) (simp_all add: assigned_stage_def)

text \<open>
  C1: A plan of the greedy scheduler, set up on workers that have an engine, computes what its stages
  compose to: once every worker has handled the assignment that setup sends it, an activation sent to the
  first of them comes back to the initiator, after one delivery per stage, as exactly one message, the logits of
  the composed forward passes in plan order or the error of the first stage that fails.
\<close>
theorem scheduled_pipeline_computes_composition:
  assumes "greedy_plan sid model n bytes peers = Inr plan" "distinct (map node_id peers)"
    "\<forall>p \<in> set peers. we_handler (fst (mk (node_id p))) \<noteq> None \<and> we_local_id (fst (mk (node_id p))) = node_id p"
    "stages = map (assigned_stage mk local) (assign_messages plan local source (assignments plan))"
    "\<forall>(i, e, w) \<in> set stages. net i = Some (e, w)" "net local = None"
  shows "snd (pump (Suc (length stages)) net [(local, fst (stages ! 0), ActivationTensor sid pos data shape d)] []) =
    ([], [case compose sid pos stages data shape d of (i, m) \<Rightarrow> (i, local, m)])"
proof -
  have plan: "complete_plan n peers plan" using greedy_plan_complete [OF assms(1)] .
  note d = greedy_plan_distinct [OF assms(1,2)]
  have ne: "assignments plan \<noteq> []" using plan d by (auto simp: complete_plan_def)
  have "\<forall>a \<in> set (assignments plan). la_peer_id a \<in> node_id ` set peers"
    using plan by (auto simp: complete_plan_def)
  then have h: "\<forall>a \<in> set (assignments plan). we_handler (fst (mk (la_peer_id a))) \<noteq> None \<and>
      we_local_id (fst (mk (la_peer_id a))) = la_peer_id a"
    using assms(3) by auto
  have l: "linked sid local stages"
    using linked_assigned [OF h, of 0 plan local source] plan d unfolding assms(4) complete_plan_def by simp
  have ids: "map fst stages = map la_peer_id (assignments plan)"
    unfolding assms(4) by (rule assigned_ids)
  then have "stages \<noteq> []" "distinct (map fst stages)" using ne d by auto
  then show ?thesis
    using pump_pipeline [OF _ l _ assms(5,6), of local pos data shape d] by auto
qed

lemma scheduled_pipeline_computes_composition_witness:
  "snd (pump 2 (map_of [assigned_stage (\<lambda>i. (demo_env i, new_worker ())) (NodeId [0])
        (NodeId [1], AssignLayers 5 ''m'' (0, 2) 2 ''src'' None (NodeId [0]))])
      [(NodeId [0], NodeId [1], ActivationTensor 5 9 [3, 4] [1, 2] BF16)] []) =
   ([], [(NodeId [1], NodeId [0], Logits 5 9 [4, 5] 2)])"
proof -
  let ?ps = "[sample_peer 1 8000 0]" and ?mk = "\<lambda>i. (demo_env i, new_worker ())"
  have t: "total_capacity ?ps = 8000" by (simp add: total_capacity_def wsum_def capacity_def sample_peer_def)
  have n: "node_id (sample_peer 1 8000 0) = NodeId [1]" by (simp add: sample_peer_def)
  obtain plan where g: "greedy_plan 5 ''m'' 2 100 ?ps = Inr plan"
    and pl: "map la_peer_id (assignments plan) = [NodeId [1]]" "map la_layer_range (assignments plan) = [(0, 2)]"
      "ip_model_id plan = ''m''" "ip_session_id plan = 5" "ip_total_layers plan = 2"
    by (simp add: greedy_plan_def t Let_def greedy.share_last stage_assignment_def n)
  then obtain a where a: "assignments plan = [a]" "la_peer_id a = NodeId [1]" "la_layer_range a = (0, 2)"
    by (auto simp: map_eq_Cons_conv)
  have st: "map (assigned_stage ?mk (NodeId [0])) (assign_messages plan (NodeId [0]) ''src'' (assignments plan)) =
      [assigned_stage ?mk (NodeId [0]) (NodeId [1], AssignLayers 5 ''m'' (0, 2) 2 ''src'' None (NodeId [0]))]"
    by (simp add: a pl)
  show ?thesis
    using scheduled_pipeline_computes_composition [OF g, of ?mk _ "NodeId [0]" "''src''"
        "map_of [assigned_stage ?mk (NodeId [0]) (NodeId [1], AssignLayers 5 ''m'' (0, 2) 2 ''src'' None (NodeId [0]))]" 9 "[3, 4]" "[1, 2]" BF16,
        OF _ _ st [symmetric]]
    by (simp add: n demo_env_def demo_handler_def assigned_stage_def new_worker_def numeral_2_eq_2 from_u8_def
        handle_assign_def Let_def del: pump.simps)
qed

subsection \<open>Bounds and order of generation\<close>

definition tokens_out :: "'h gen_state \<Rightarrow> nat" where
  "tokens_out st = length (filter (\<lambda>r. \<not> isl r) (outs st))"

text \<open>The positions of the activations sent, in order.\<close>

fun activation_positions :: "(node_id \<times> mesh_message) list \<Rightarrow> u32 list" where
  "activation_positions [] = []"
| "activation_positions ((dst, msg) # ms) = (case msg of
     ActivationTensor s p d sh t \<Rightarrow> p # activation_positions ms | _ \<Rightarrow> activation_positions ms)"

lemma activation_positions_append [simp]:
  "activation_positions (ms @ ns) = activation_positions ms @ activation_positions ns"
  by (induction ms rule: activation_positions.induct) (auto split: mesh_message.splits)

lemma activation_positions_release [simp]:
  "activation_positions (map (\<lambda>a. (f a, ReleaseSession s)) as) = []"
  by (induction as) auto

lemma gen_state_simps [simp]:
  "tokens_out (emit_error e st) = tokens_out st" "sent (emit_error e st) = sent st"
  "tokens_out (cleanup plan st) = tokens_out st" "tokens_out (release_all plan st) = tokens_out st"
  "activation_positions (sent (cleanup plan st)) = activation_positions (sent st)"
  "activation_positions (sent (release_all plan st)) = activation_positions (sent st)"
  by (simp_all add: tokens_out_def emit_error_def cleanup_def release_all_def)

lemma tokens_out_updates [simp]:
  "tokens_out (st\<lparr>gen_engine := h\<rparr>) = tokens_out st" "tokens_out (st\<lparr>store := s\<rparr>) = tokens_out st"
  "tokens_out (st\<lparr>sent := ms\<rparr>) = tokens_out st" "tokens_out (st\<lparr>outs := outs st @ [Inr t]\<rparr>) = Suc (tokens_out st)"
  "tokens_out (st\<lparr>gen_engine := h, outs := outs st @ [Inr t]\<rparr>) = Suc (tokens_out st)"
  by (simp_all add: tokens_out_def)

lemma feed_back_effect:
  assumes "feed_back e plan first pos tid st = (st', r)"
  shows "tokens_out st' = tokens_out st \<and>
    (activation_positions (sent st') = activation_positions (sent st) \<and> r = Break \<or>
     activation_positions (sent st') = activation_positions (sent st) @ [pos + 1])"
  using assms by (auto simp: feed_back_def Let_def split: prod.splits sum.splits if_splits option.splits)

lemma on_logits_effect:
  assumes "on_logits e plan first pos logits st = (st', r)"
  shows "tokens_out st' \<le> Suc (tokens_out st) \<and>
    (activation_positions (sent st') = activation_positions (sent st) \<and> r \<noteq> Continue \<or>
     activation_positions (sent st') = activation_positions (sent st) @ [pos + 1])"
  using assms
  by (auto simp: on_logits_def Let_def split: prod.splits sum.splits if_splits dest!: feed_back_effect)

text \<open>The positions count up from 0.\<close>

definition consecutive :: "u32 list \<Rightarrow> bool" where
  "consecutive ps = (ps = map of_nat [0..<length ps])"

lemma consecutive_Nil [simp]: "consecutive []"
  by (simp add: consecutive_def)

lemma consecutive_snoc [simp]: "consecutive (ps @ [p]) \<longleftrightarrow> consecutive ps \<and> p = of_nat (length ps)"
  by (simp add: consecutive_def)

lemma consecutive_single [simp]: "consecutive [p] \<longleftrightarrow> p = 0"
  using consecutive_snoc [of "[]" p] by simp

lemma gen_loop_effect:
  assumes "gen_loop e plan first mx pos rs st = (st', r)" "pos \<le> mx"
    "consecutive (activation_positions (sent st))" "length (activation_positions (sent st)) = Suc (unat pos)"
  shows "tokens_out st' \<le> tokens_out st + (unat mx - unat pos) \<and> consecutive (activation_positions (sent st')) \<and>
    length (activation_positions (sent st')) \<le> Suc (unat mx)"
  using assms
proof (induction rs arbitrary: pos st)
  case Nil
  then show ?case by (auto simp: word_le_nat_alt split: if_splits)
next
  case (Cons x rs)
  show ?case
  proof (cases "mx \<le> pos")
    case True
    then show ?thesis using Cons.prems by (auto simp: word_le_nat_alt)
  next
    case lt: False
    then have pm: "unat pos < unat mx" by (simp add: word_le_nat_alt)
    have "unat mx < 2 ^ LENGTH(32)" by (rule unsigned_less)
    then have "Suc (unat pos) < 2 ^ LENGTH(32)" using pm by simp
    then have un: "unat (pos + 1) = Suc (unat pos)" by (simp add: unat_Suc_word)
    have p1: "pos + 1 = of_nat (length (activation_positions (sent st)))" using Cons.prems(4) by simp
    note skip = Cons.IH [OF _ Cons.prems(2-4)]
    have fin: "tokens_out s1 \<le> Suc (tokens_out st) \<Longrightarrow>
        activation_positions (sent s1) = activation_positions (sent st) \<or>
        activation_positions (sent s1) = activation_positions (sent st) @ [pos + 1] \<Longrightarrow>
        tokens_out s1 \<le> tokens_out st + (unat mx - unat pos) \<and> consecutive (activation_positions (sent s1)) \<and>
        length (activation_positions (sent s1)) \<le> Suc (unat mx)" for s1 :: "'a gen_state"
      using Cons.prems(3,4) p1 pm by auto
    show ?thesis
    proof (cases x)
      case (Inl err)
      then show ?thesis using Cons.prems(1) lt fin [of st'] by auto
    next
      case (Inr pm')
      obtain peer msg where pm': "pm' = (peer, msg)" by (cases pm')
      show ?thesis
      proof (cases "\<exists>p data v. msg = Logits (ip_session_id plan) p data v")
        case False
        then show ?thesis using Cons.prems(1) lt Inr pm' skip fin [of st']
          by (cases msg) (auto split: if_splits)
      next
        case True
        then obtain p data v where msg: "msg = Logits (ip_session_id plan) p data v" by blast
        obtain s1 q where ol: "on_logits e plan first pos data st = (s1, q)" by fastforce
        note eff = on_logits_effect [OF ol]
        show ?thesis
        proof (cases q)
          case Continue
          then have gl: "gen_loop e plan first mx (pos + 1) rs s1 = (st', r)"
            using Cons.prems(1) lt Inr pm' msg ol by simp
          have "activation_positions (sent s1) = activation_positions (sent st) @ [pos + 1]"
            using eff Continue by auto
          then have "tokens_out st' \<le> tokens_out s1 + (unat mx - unat (pos + 1)) \<and>
              consecutive (activation_positions (sent st')) \<and> length (activation_positions (sent st')) \<le> Suc (unat mx)"
            using pm p1 Cons.prems(3,4) by (intro Cons.IH [OF gl]) (simp_all add: word_le_nat_alt un)
          then show ?thesis using eff pm un by auto
        next
          case Break
          then have "st' = cleanup plan s1" using Cons.prems(1) lt Inr pm' msg ol by simp
          then show ?thesis using eff Break fin [of st'] by auto
        next
          case Panic
          then have "st' = s1" using Cons.prems(1) lt Inr pm' msg ol by simp
          then show ?thesis using eff Panic fin [of st'] by auto
        qed
      qed
    qed
  qed
qed

text \<open>
  A generation emits at most \<open>max_tokens\<close> tokens, whatever the workers send, and the activations it sends
  carry the positions 0, 1, 2 and so on, at most one more than \<open>max_tokens\<close>: the position after the prompt's is 1,
  however long the prompt is.
\<close>
theorem generation_bounded_and_positions:
  "tokens_out (fst (stream_tokens e plan prompt max_tokens rs cps h)) \<le> unat max_tokens \<and>
   consecutive (activation_positions (sent (fst (stream_tokens e plan prompt max_tokens rs cps h)))) \<and>
   length (activation_positions (sent (fst (stream_tokens e plan prompt max_tokens rs cps h)))) \<le> Suc (unat max_tokens)"
proof (cases "assignments plan")
  case Nil
  then show ?thesis by (auto simp: stream_tokens_def Let_def tokens_out_def emit_error_def)
next
  case (Cons a as)
  let ?st0 = "\<lparr>outs = [], sent = [], store = cps, gen_engine = h\<rparr>"
  obtain r h' where f: "forward_layers (ie_handler e) (concat (map u32_le_bytes prompt)) [length prompt, 1] 0 0 h = (r, h')"
    by fastforce
  show ?thesis
  proof (cases r)
    case (Inl err)
    then show ?thesis using f Cons by (auto simp: stream_tokens_def Let_def tokens_out_def emit_error_def)
  next
    case (Inr x)
    obtain data shape tag where x: "x = (data, shape, tag)" by (cases x)
    let ?st1 = "?st0\<lparr>gen_engine := h', sent := [(la_peer_id a, ActivationTensor (ip_session_id plan) 0 data shape (tag_or_f32 tag))]\<rparr>"
    obtain st' q where g: "gen_loop e plan (la_peer_id a) max_tokens 0 rs ?st1 = (st', q)" by fastforce
    have "tokens_out st' \<le> tokens_out ?st1 + (unat max_tokens - unat (0::u32)) \<and>
        consecutive (activation_positions (sent st')) \<and> length (activation_positions (sent st')) \<le> Suc (unat max_tokens)"
      by (rule gen_loop_effect [OF g]) simp_all
    then show ?thesis using f Cons Inr x g
      by (auto simp: stream_tokens_def Let_def tokens_out_def emit_error_def split: option.splits)
  qed
qed

end
