(* ===== verification/Daemon.thy ===== *)
theory Daemon
  imports Worker
begin

section \<open>Inference daemon of a worker\<close>

text \<open>
  \<open>crates/hivebear-mesh/src/pipeline/daemon.rs\<close>: the loop that serves inference requests with the host's
  \<open>MeshInferenceHandler\<close> and, when given a pipeline handler, layer assignments and activations.  Each
  message is served by a task of its own; the model gives the messages that the task sends, in its order.
  The handler's token stream is the list of what it yields; \<open>ok n\<close> is whether the \<open>n\<close>-th send of a task
  succeeds.
\<close>

record 'h daemon_env =
  de_infer :: "string \<Rightarrow> string \<Rightarrow> u32 \<Rightarrow> f32_bits \<Rightarrow> (string, (string, string) result list) result"
  de_pipeline :: "'h pipeline_handler option"

fun stream_loop :: "(nat \<Rightarrow> bool) \<Rightarrow> uuid \<Rightarrow> (string, string) result list \<Rightarrow> string \<Rightarrow> u32 \<Rightarrow> nat \<Rightarrow> mesh_message list" where
  "stream_loop ok sid [] full_text token_count n =
     [InferenceToken sid [] token_count True, InferenceComplete sid full_text token_count None]"
| "stream_loop ok sid (Inr txt # rest) full_text token_count n =
     (let msg = InferenceToken sid txt (token_count + 1) False
      in if ok n then msg # stream_loop ok sid rest (full_text @ txt) (token_count + 1) (Suc n) else [msg])"
| "stream_loop ok sid (Inl err # rest) full_text token_count n =
     [InferenceComplete sid full_text token_count (Some err)]"

definition handle_request :: "'h daemon_env \<Rightarrow> (nat \<Rightarrow> bool) \<Rightarrow>
    uuid \<Rightarrow> string \<Rightarrow> string \<Rightarrow> u32 \<Rightarrow> f32_bits \<Rightarrow> mesh_message list" where
  "handle_request e ok sid model msgs max_tokens temperature =
    (case de_infer e model msgs max_tokens temperature of
       Inl err \<Rightarrow> [InferenceComplete sid [] 0 (Some err)]
     | Inr stream \<Rightarrow> stream_loop ok sid stream [] 0 0)"

definition out_dtype :: "u8 \<Rightarrow> tensor_dtype" where
  "out_dtype tag = (if tag = 1 then F16 else if tag = 2 then BF16 else F32)"

fun daemon_step :: "'h daemon_env \<Rightarrow> (nat \<Rightarrow> bool) \<Rightarrow> mesh_message \<Rightarrow> 'h \<Rightarrow> 'h \<times> mesh_message list" where
  "daemon_step e ok (InferenceRequest sid model msgs max_tokens temperature top_p) h =
     (h, handle_request e ok sid model msgs max_tokens temperature)"
| "daemon_step e ok (Ping ts) h = (h, [Pong ts])"
| "daemon_step e ok (ReleaseSession sid) h =
     (case de_pipeline e of None \<Rightarrow> (h, []) | Some ph \<Rightarrow> (snd (unload_layers ph h), []))"
| "daemon_step e ok (AssignLayers sid model lr tot source nxt ini) h =
     (case de_pipeline e of None \<Rightarrow> (h, [])
      | Some ph \<Rightarrow> (let (r, h') = load_layers ph source lr tot h
          in (h', [AssignLayersAck sid (\<not> isl r) (case r of Inl err \<Rightarrow> Some err | Inr _ \<Rightarrow> None)])))"
| "daemon_step e ok (ActivationTensor sid pos data shape dtype) h =
     (case de_pipeline e of None \<Rightarrow> (h, [])
      | Some ph \<Rightarrow> (case forward_layers ph data shape
            (case dtype of F32 \<Rightarrow> 0 | F16 \<Rightarrow> 1 | BF16 \<Rightarrow> 2) (unat pos) h of
          (Inr (out_data, out_shape, tag), h') \<Rightarrow>
            (h', [ActivationTensor sid pos out_data out_shape (out_dtype tag)])
        | (Inl err, h') \<Rightarrow> (h', [])))"
| "daemon_step e ok _ h = (h, [])"

text \<open>Everything is sent back to the peer the message came from.\<close>

fun daemon_run :: "'h daemon_env \<Rightarrow> (nat \<Rightarrow> nat \<Rightarrow> bool) \<Rightarrow> nat \<Rightarrow> (string, node_id \<times> mesh_message) result list \<Rightarrow>
    'h \<Rightarrow> (node_id \<times> mesh_message list) list" where
  "daemon_run e ok k [] h = []"
| "daemon_run e ok k (Inl err # rest) h = []"
| "daemon_run e ok k (Inr (peer, msg) # rest) h =
    (let (h', out) = daemon_step e (ok k) msg h in (peer, out) # daemon_run e ok (Suc k) rest h')"

subsection \<open>Token streaming\<close>

lemma stream_loop_tokens:
  assumes "\<And>n. ok n"
  shows "stream_loop ok sid (map Inr ts @ rest) full c n =
     map (\<lambda>i. InferenceToken sid (ts ! i) (c + of_nat i + 1) False) [0..<length ts]
     @ stream_loop ok sid rest (full @ concat ts) (c + of_nat (length ts)) (n + length ts)"
proof (induction ts arbitrary: full c n)
  case (Cons t ts)
  have "map (\<lambda>i. InferenceToken sid ((t # ts) ! i) (c + of_nat i + 1) False) [0..<length (t # ts)] =
      InferenceToken sid t (c + 1) False # map (\<lambda>i. InferenceToken sid (ts ! i) (c + 1 + of_nat i + 1) False) [0..<length ts]"
    by (simp add: upt_rec [of 0] map_Suc_upt [symmetric] algebra_simps del: upt_Suc)
  then show ?case using assms Cons [of "full @ t" "c + 1" "Suc n"] by (simp add: Let_def algebra_simps)
qed simp

text \<open>
  The answer to a request: one token message per text, numbered from 1 and in the order of the stream, then the
  end marker and the completion with the concatenated text, or the completion with the error and the text so far.
\<close>

lemma stream_answer:
  assumes "\<And>n. ok n" "de_infer e model msgs mt temp = Inr (map Inr ts @ rest)" "rest = [] \<or> isl (hd rest)"
  shows "handle_request e ok sid model msgs mt temp =
     map (\<lambda>i. InferenceToken sid (ts ! i) (of_nat (Suc i)) False) [0..<length ts] @
     (if rest = [] then [InferenceToken sid [] (of_nat (length ts)) True,
          InferenceComplete sid (concat ts) (of_nat (length ts)) None]
      else [InferenceComplete sid (concat ts) (of_nat (length ts)) (Some (projl (hd rest)))])"
  using assms(3) unfolding handle_request_def assms(2)
  using stream_loop_tokens [OF assms(1), of "\<lambda>n. n" sid ts "[]" "[]" 0 0]
  by (cases rest; cases "hd rest") (auto simp: stream_loop_tokens [OF assms(1)] add.commute)

lemma stream_loop_no_logits: "Logits s p d v \<notin> set (stream_loop ok sid xs full c n)"
  by (induction ok sid xs full c n rule: stream_loop.induct) (auto simp: Let_def)

lemma daemon_step_no_logits: "Logits s p d v \<notin> set (snd (daemon_step e ok msg h))"
  by (cases msg) (auto simp: handle_request_def stream_loop_no_logits Let_def
      split: option.splits sum.splits prod.splits)

text \<open>
  However the messages arrive, the daemon never sends logits, to anybody: every stage served by the daemon
  returns its activation to the peer it came from, so a distributed generation step whose initiator waits
  for logits is never answered by one.
\<close>
theorem daemon_never_sends_logits:
  "Logits s p d v \<notin> set (concat (map snd (daemon_run e ok k msgs h)))"
proof (induction e ok k msgs h rule: daemon_run.induct)
  case (3 e ok k peer msg rest h)
  obtain h' out where "daemon_step e (ok k) msg h = (h', out)" by fastforce
  with 3 daemon_step_no_logits [of s p d v e "ok k" msg h] show ?case by (simp add: Let_def)
qed simp_all

end
