(* ===== verification/Replicated.thy ===== *)
theory Replicated
  imports Initiator Daemon
begin

section \<open>Full-model replication, end to end\<close>

text \<open>
  The initiator's \<open>stream_tokens_replicated\<close> receives what the daemon's \<open>handle_request\<close> sends.
\<close>

definition from_peer :: "node_id \<Rightarrow> mesh_message list \<Rightarrow> (mesh_error, node_id \<times> mesh_message) result list" where
  "from_peer peer ms = map (\<lambda>m. Inr (peer, m)) ms"

lemma from_peer_simps [simp]:
  "from_peer peer [] = []" "from_peer peer (m # ms) = Inr (peer, m) # from_peer peer ms"
  "from_peer peer (ms @ ns) = from_peer peer ms @ from_peer peer ns"
  by (simp_all add: from_peer_def)

definition streamed_token :: "string \<Rightarrow> nat \<Rightarrow> token" where
  "streamed_token txt i = \<lparr>tok_text = txt, tok_id = of_nat (Suc i), tok_logprob = None, is_special = False\<rparr>"

lemma replicated_loop_tokens:
  assumes "\<And>k. rx k"
  shows "replicated_loop rx sid k (from_peer peer (map (\<lambda>i. InferenceToken sid (f i) (of_nat (Suc i)) False) ns) @ rest) =
    (map (\<lambda>i. Inr (streamed_token (f i) i)) ns @ fst (replicated_loop rx sid (k + length ns) rest),
     snd (replicated_loop rx sid (k + length ns) rest))"
  using assms by (induction ns arbitrary: k) (auto simp: Let_def streamed_token_def split: prod.splits)

text \<open>
  C7: A replicated generation delivers exactly the peer's stream: when the daemon's engine yields the texts
  \<open>ts\<close> and then ends or fails, and no send is lost, the consumer of the initiator receives one token per text,
  in order and numbered from 1, then the end marker or the engine's error, and the session is released
  at the peer.
\<close>
theorem replicated_generation_roundtrip:
  assumes "\<And>n. ok n" "\<And>n. rx n" "snd_err 0 = None" "assignments plan = a # as"
    "de_infer e model msgs mt temp = Inr (map Inr ts @ rest)" "rest = [] \<or> isl (hd rest)"
  shows "stream_tokens_replicated show_error snd_err rx sid plan model msgs mt temp top_p
      (from_peer (la_peer_id a) (handle_request e ok sid model msgs mt temp)) =
    (map (\<lambda>i. Inr (streamed_token (ts ! i) i)) [0..<length ts] @
       (if rest = [] then [Inr \<lparr>tok_text = [], tok_id = of_nat (length ts), tok_logprob = None, is_special = True\<rparr>]
        else [Inl (Pipeline (projl (hd rest)))]),
     [(la_peer_id a, InferenceRequest sid model msgs mt temp top_p), (la_peer_id a, ReleaseSession sid)], Finished)"
proof -
  have ans: "handle_request e ok sid model msgs mt temp =
     map (\<lambda>i. InferenceToken sid (ts ! i) (of_nat (Suc i)) False) [0..<length ts] @
     (if rest = [] then [InferenceToken sid [] (of_nat (length ts)) True,
          InferenceComplete sid (concat ts) (of_nat (length ts)) None]
      else [InferenceComplete sid (concat ts) (of_nat (length ts)) (Some (projl (hd rest)))])"
    by (rule stream_answer [OF assms(1,5,6)])
  note toks = replicated_loop_tokens [of rx, OF assms(2)]
  show ?thesis
    using assms(3,4,6) unfolding ans
    by (simp add: stream_tokens_replicated_def Let_def toks assms(2) del: of_nat_Suc)
qed

lemma replicated_generation_roundtrip_witness:
  "stream_tokens_replicated (\<lambda>_. []) (\<lambda>_. None) (\<lambda>_. True) 5
      \<lparr>ip_session_id = 1, ip_model_id = ''m'', ip_total_layers = 2,
        assignments = [\<lparr>la_peer_id = NodeId [7], la_layer_range = (0, 2), estimated_compute_ms = 0, estimated_transfer_ms = 0\<rparr>],
        estimated_latency_ms = 0, estimated_throughput_tok_s = 0\<rparr> ''m'' ''[]'' 10 0 0
      (from_peer (NodeId [7]) (handle_request \<lparr>de_infer = (\<lambda>_ _ _ _. Inr [Inr ''Hi'', Inl ''oom'']), de_pipeline = (None :: unit pipeline_handler option)\<rparr>
        (\<lambda>_. True) 5 ''m'' ''[]'' 10 0)) =
   ([Inr \<lparr>tok_text = ''Hi'', tok_id = 1, tok_logprob = None, is_special = False\<rparr>, Inl (Pipeline ''oom'')],
    [(NodeId [7], InferenceRequest 5 ''m'' ''[]'' 10 0 0), (NodeId [7], ReleaseSession 5)], Finished)"
  using replicated_generation_roundtrip [of "\<lambda>_. True" "\<lambda>_. True" "\<lambda>_. None"
      "\<lparr>ip_session_id = 1, ip_model_id = ''m'', ip_total_layers = 2,
        assignments = [\<lparr>la_peer_id = NodeId [7], la_layer_range = (0, 2), estimated_compute_ms = 0, estimated_transfer_ms = 0\<rparr>],
        estimated_latency_ms = 0, estimated_throughput_tok_s = 0\<rparr>" _ _
      "\<lparr>de_infer = (\<lambda>_ _ _ _. Inr [Inr ''Hi'', Inl ''oom'']), de_pipeline = (None :: unit pipeline_handler option)\<rparr>"
      "''m''" "''[]''" 10 0 "[''Hi'']" "[Inl ''oom'']" "\<lambda>_. []" 5 0]
  by (simp add: streamed_token_def)

end
