(* ===== verification/Speculative.thy ===== *)
theory Speculative
  imports Initiator
begin

section \<open>Speculative decoding\<close>

text \<open>
  \<open>crates/hivebear-mesh/src/swarm/speculative.rs\<close>.  As in the initiator, the asynchronous loop is a function of
  the results that \<open>transport.recv\<close> returns; \<open>se_send n\<close> is the error of the \<open>n\<close>-th send, if any, \<open>se_rx n\<close> whether
  the consumer takes the \<open>n\<close>-th item, and \<open>se_json\<close> prints a list of tokens.
\<close>

record speculative_config =
  sc_enabled :: bool
  draft_length :: u32
  draft_model :: "string option"

definition default_speculative_config :: speculative_config where
  "default_speculative_config = \<lparr>sc_enabled = True, draft_length = 5, draft_model = None\<rparr>"

record verification_result =
  accepted_count :: u32
  correction_token :: "u32 option"

record speculative_session =
  ss_session_id :: uuid
  drafter_peer :: node_id
  verifier_peer :: node_id
  ss_config :: speculative_config

definition new_speculative :: "uuid \<Rightarrow> node_id \<Rightarrow> node_id \<Rightarrow> speculative_config \<Rightarrow> speculative_session" where
  "new_speculative sid drafter verifier cfg =
    \<lparr>ss_session_id = sid, drafter_peer = drafter, verifier_peer = verifier, ss_config = cfg\<rparr>"

record spec_env =
  se_send :: "nat \<Rightarrow> mesh_error option"
  se_rx :: "nat \<Rightarrow> bool"
  se_json :: "u32 list \<Rightarrow> string"

record spec_state =
  sp_outs :: "(mesh_error, token) result list"
  sp_sent :: "(node_id \<times> mesh_message) list"
  context_tokens :: "u32 list"
  total_generated :: u32

subsection \<open>Waiting for the peers\<close>

datatype 'a waited = Got 'a | Failed mesh_error | Pending

fun wait_draft :: "uuid \<Rightarrow> (mesh_error, node_id \<times> mesh_message) result list \<Rightarrow>
    u32 list waited \<times> (mesh_error, node_id \<times> mesh_message) result list" where
  "wait_draft sid [] = (Pending, [])"
| "wait_draft sid (Inl e # rs) = (Failed e, rs)"
| "wait_draft sid (Inr (peer, msg) # rs) = (case msg of
     DraftTokens s tokens m \<Rightarrow> if s = sid then (Got tokens, rs) else wait_draft sid rs
   | ErrorMsg s m \<Rightarrow> (Failed (Pipeline (''Drafter error: '' @ m)), rs)
   | _ \<Rightarrow> wait_draft sid rs)"

fun wait_verify :: "uuid \<Rightarrow> (mesh_error, node_id \<times> mesh_message) result list \<Rightarrow>
    verification_result waited \<times> (mesh_error, node_id \<times> mesh_message) result list" where
  "wait_verify sid [] = (Pending, [])"
| "wait_verify sid (Inl e # rs) = (Failed e, rs)"
| "wait_verify sid (Inr (peer, msg) # rs) = (case msg of
     VerifyDraft s n c \<Rightarrow>
       if s = sid then (Got \<lparr>accepted_count = n, correction_token = c\<rparr>, rs) else wait_verify sid rs
   | ErrorMsg s m \<Rightarrow> (Failed (Pipeline (''Verifier error: '' @ m)), rs)
   | _ \<Rightarrow> wait_verify sid rs)"

lemma wait_draft_shorter: "wait_draft sid rs = (Got ts, rs') \<Longrightarrow> length rs' < length rs"
  by (induction sid rs rule: wait_draft.induct)
     (auto split: mesh_message.splits if_splits intro: less_SucI)

lemma wait_verify_shorter: "wait_verify sid rs = (Got v, rs') \<Longrightarrow> length rs' < length rs"
  by (induction sid rs rule: wait_verify.induct)
     (auto split: mesh_message.splits if_splits intro: less_SucI)

subsection \<open>A round\<close>

definition spec_token :: "u32 \<Rightarrow> token" where
  "spec_token tid =
    \<lparr>tok_text = ''<token_'' @ show_nat (unat tid) @ ''>'', tok_id = tid, tok_logprob = None, is_special = False\<rparr>"

text \<open>Emit one token; the flag is whether the consumer is still there.\<close>

definition emit_one :: "spec_env \<Rightarrow> u32 \<Rightarrow> spec_state \<Rightarrow> spec_state \<times> bool" where
  "emit_one e tid st =
    (st\<lparr>context_tokens := context_tokens st @ [tid], total_generated := total_generated st + 1,
        sp_outs := sp_outs st @ [Inr (spec_token tid)]\<rparr>, se_rx e (length (sp_outs st)))"

fun emit_many :: "spec_env \<Rightarrow> u32 list \<Rightarrow> spec_state \<Rightarrow> spec_state \<times> bool" where
  "emit_many e [] st = (st, True)"
| "emit_many e (t # ts) st =
    (case emit_one e t st of (st', True) \<Rightarrow> emit_many e ts st' | (st', False) \<Rightarrow> (st', False))"

text \<open>The accepted tokens, then the correction.\<close>

definition emit_verified :: "spec_env \<Rightarrow> u32 list \<Rightarrow> verification_result \<Rightarrow> spec_state \<Rightarrow> spec_state \<times> bool" where
  "emit_verified e ts v st =
    (case emit_many e (take (unat (accepted_count v)) ts) st of
       (st', False) \<Rightarrow> (st', False)
     | (st', True) \<Rightarrow> (case correction_token v of None \<Rightarrow> (st', True) | Some c \<Rightarrow> emit_one e c st'))"

definition spec_error :: "mesh_error \<Rightarrow> spec_state \<Rightarrow> spec_state" where
  "spec_error err st = st\<lparr>sp_outs := sp_outs st @ [Inl err]\<rparr>"

definition spec_send :: "node_id \<Rightarrow> mesh_message \<Rightarrow> spec_state \<Rightarrow> spec_state" where
  "spec_send dst msg st = st\<lparr>sp_sent := sp_sent st @ [(dst, msg)]\<rparr>"

definition spec_cleanup :: "speculative_session \<Rightarrow> spec_state \<Rightarrow> spec_state" where
  "spec_cleanup s st = spec_send (verifier_peer s) (ReleaseSession (ss_session_id s))
     (spec_send (drafter_peer s) (ReleaseSession (ss_session_id s)) st)"

definition draft_request :: "spec_env \<Rightarrow> speculative_session \<Rightarrow> string \<Rightarrow> u32 \<Rightarrow> spec_state \<Rightarrow> mesh_message" where
  "draft_request e s model max_tokens st =
    InferenceRequest (ss_session_id s) model (se_json e (context_tokens st))
      (min (draft_length (ss_config s)) (max_tokens - total_generated st)) 0 0x3F800000"

function spec_loop :: "spec_env \<Rightarrow> speculative_session \<Rightarrow> string \<Rightarrow> u32 \<Rightarrow>
    (mesh_error, node_id \<times> mesh_message) result list \<Rightarrow> spec_state \<Rightarrow> spec_state \<times> run_status" where
  "spec_loop e s model mx rs st =
    (if mx \<le> total_generated st then (spec_cleanup s st, Finished)
     else (let st1 = spec_send (drafter_peer s) (draft_request e s model mx st) st in
       case se_send e (length (sp_sent st)) of
         Some err \<Rightarrow> (spec_cleanup s (spec_error err st1), Finished)
       | None \<Rightarrow> (case wait_draft (ss_session_id s) rs of
           (Pending, _) \<Rightarrow> (st1, Waiting)
         | (Failed err, _) \<Rightarrow> (spec_error err st1, Finished)
         | (Got ts, rs1) \<Rightarrow>
            (if ts = [] then (spec_cleanup s st1, Finished)
             else (let st2 = spec_send (verifier_peer s) (DraftTokens (ss_session_id s) ts model) st1 in
               case se_send e (length (sp_sent st1)) of
                 Some err \<Rightarrow> (spec_cleanup s (spec_error err st2), Finished)
               | None \<Rightarrow> (case wait_verify (ss_session_id s) rs1 of
                   (Pending, _) \<Rightarrow> (st2, Waiting)
                 | (Failed err, _) \<Rightarrow> (spec_error err st2, Finished)
                 | (Got v, rs2) \<Rightarrow> (case emit_verified e ts v st2 of
                     (st3, False) \<Rightarrow> (st3, Finished)
                   | (st3, True) \<Rightarrow>
                      (if accepted_count v = 0 \<and> correction_token v = None then (spec_cleanup s st3, Finished)
                       else spec_loop e s model mx rs2 st3))))))))"
  by pat_completeness auto
termination
  by (relation "measure (\<lambda>(e, s, model, mx, rs, st). length rs)")
     (auto dest!: wait_draft_shorter [OF sym] wait_verify_shorter [OF sym])

declare spec_loop.simps [simp del]

definition spec_stream :: "spec_env \<Rightarrow> speculative_session \<Rightarrow> string \<Rightarrow> u32 list \<Rightarrow> u32 \<Rightarrow>
    (mesh_error, node_id \<times> mesh_message) result list \<Rightarrow> spec_state \<times> run_status" where
  "spec_stream e s model prompt mx rs =
    spec_loop e s model mx rs \<lparr>sp_outs = [], sp_sent = [], context_tokens = prompt, total_generated = 0\<rparr>"

subsection \<open>Speculative decoding is greedy decoding\<close>

text \<open>
  The target model is the function \<open>nxt\<close> that gives the next token of a context.  A faithful verifier accepts the
  longest prefix of the draft that the target would have produced and corrects the first token that differs.
\<close>

fun greedy_decode :: "(u32 list \<Rightarrow> u32) \<Rightarrow> u32 list \<Rightarrow> nat \<Rightarrow> u32 list" where
  "greedy_decode nxt ctx 0 = []"
| "greedy_decode nxt ctx (Suc n) = nxt ctx # greedy_decode nxt (ctx @ [nxt ctx]) n"

fun agreed :: "(u32 list \<Rightarrow> u32) \<Rightarrow> u32 list \<Rightarrow> u32 list \<Rightarrow> nat" where
  "agreed nxt ctx [] = 0"
| "agreed nxt ctx (t # ts) = (if t = nxt ctx then Suc (agreed nxt (ctx @ [t]) ts) else 0)"

definition verify_reply :: "(u32 list \<Rightarrow> u32) \<Rightarrow> u32 list \<Rightarrow> u32 list \<Rightarrow> verification_result" where
  "verify_reply nxt ctx ts = (let n = agreed nxt ctx ts in
     \<lparr>accepted_count = of_nat n, correction_token = (if n < length ts then Some (nxt (ctx @ take n ts)) else None)\<rparr>)"

text \<open>The tokens a round adds.\<close>

definition round_tokens :: "(u32 list \<Rightarrow> u32) \<Rightarrow> u32 list \<Rightarrow> u32 list \<Rightarrow> u32 list" where
  "round_tokens nxt ctx ts = (let n = agreed nxt ctx ts in
     take n ts @ (if n < length ts then [nxt (ctx @ take n ts)] else []))"

lemma agreed_le: "agreed nxt ctx ts \<le> length ts"
  by (induction ts arbitrary: ctx) auto

lemma greedy_decode_length [simp]: "length (greedy_decode nxt ctx n) = n"
  by (induction n arbitrary: ctx) auto

lemma greedy_decode_add:
  "greedy_decode nxt ctx (m + n) = greedy_decode nxt ctx m @ greedy_decode nxt (ctx @ greedy_decode nxt ctx m) n"
  by (induction m arbitrary: ctx) auto

lemma take_agreed: "take (agreed nxt ctx ts) ts = greedy_decode nxt ctx (agreed nxt ctx ts)"
  by (induction ts arbitrary: ctx) auto

lemma round_tokens_greedy:
  "round_tokens nxt ctx ts = greedy_decode nxt ctx (length (round_tokens nxt ctx ts))"
proof (cases "agreed nxt ctx ts < length ts")
  case True
  then show ?thesis
    using greedy_decode_add [of nxt ctx "agreed nxt ctx ts" 1]
    by (simp add: round_tokens_def Let_def take_agreed)
next
  case False
  then show ?thesis using take_agreed [of nxt ctx ts] agreed_le [of nxt ctx ts] by (simp add: round_tokens_def Let_def)
qed

lemma round_tokens_bounds: "ts \<noteq> [] \<Longrightarrow> 0 < length (round_tokens nxt ctx ts) \<and> length (round_tokens nxt ctx ts) \<le> length ts"
  using agreed_le [of nxt ctx ts] by (auto simp: round_tokens_def Let_def)

text \<open>What the two peers send in a whole run; \<open>draft ctx k\<close> is the drafter's answer.\<close>

fun peer_replies :: "node_id \<Rightarrow> uuid \<Rightarrow> string \<Rightarrow> (u32 list \<Rightarrow> u32) \<Rightarrow> (u32 list \<Rightarrow> nat \<Rightarrow> u32 list) \<Rightarrow> nat \<Rightarrow> nat \<Rightarrow> u32 list \<Rightarrow> nat \<Rightarrow>
    (mesh_error, node_id \<times> mesh_message) result list" where
  "peer_replies p sid model nxt draft k 0 ctx todo = []"
| "peer_replies p sid model nxt draft k (Suc fuel) ctx todo =
    (if todo = 0 then []
     else (let ts = draft ctx (min k todo); v = verify_reply nxt ctx ts; new = round_tokens nxt ctx ts in
       Inr (p, DraftTokens sid ts model) # Inr (p, VerifyDraft sid (accepted_count v) (correction_token v))
       # peer_replies p sid model nxt draft k fuel (ctx @ new) (todo - length new)))"

lemma emit_many_all:
  assumes "\<And>n. se_rx e n"
  shows "emit_many e ts st = (st\<lparr>context_tokens := context_tokens st @ ts,
     total_generated := total_generated st + of_nat (length ts), sp_outs := sp_outs st @ map (\<lambda>t. Inr (spec_token t)) ts\<rparr>, True)"
  by (induction ts arbitrary: st) (auto simp: emit_one_def assms)

lemma emit_verified_round:
  assumes "\<And>n. se_rx e n" "length ts < 2 ^ 32"
  shows "emit_verified e ts (verify_reply nxt ctx ts) st =
    (st\<lparr>context_tokens := context_tokens st @ round_tokens nxt ctx ts,
        total_generated := total_generated st + of_nat (length (round_tokens nxt ctx ts)),
        sp_outs := sp_outs st @ map (\<lambda>t. Inr (spec_token t)) (round_tokens nxt ctx ts)\<rparr>, True)"
proof -
  have "unat (of_nat (agreed nxt ctx ts) :: u32) = agreed nxt ctx ts"
    using agreed_le [of nxt ctx ts] assms(2) by (simp add: unat_of_nat)
  then show ?thesis
    using agreed_le [of nxt ctx ts]
    by (auto simp: emit_verified_def verify_reply_def round_tokens_def Let_def emit_many_all [OF assms(1)]
        emit_one_def assms(1) min_absorb2)
qed

lemma spec_loop_replies:
  assumes env: "\<And>n. se_send e n = None" "\<And>n. se_rx e n" and k: "k = unat (draft_length (ss_config s))" "0 < k"
    and dr: "\<And>ctx j. 0 < j \<Longrightarrow> draft ctx j \<noteq> [] \<and> length (draft ctx j) \<le> j"
    and st: "total_generated st \<le> mx" "todo = unat mx - unat (total_generated st)" "todo \<le> fuel"
  shows "\<exists>sent'. spec_loop e s model mx (peer_replies p (ss_session_id s) model nxt draft k fuel (context_tokens st) todo) st =
    (st\<lparr>sp_outs := sp_outs st @ map (\<lambda>t. Inr (spec_token t)) (greedy_decode nxt (context_tokens st) todo),
        sp_sent := sent', context_tokens := context_tokens st @ greedy_decode nxt (context_tokens st) todo,
        total_generated := mx\<rparr>, Finished)"
  using st
proof (induction fuel arbitrary: st todo)
  case 0
  then have "mx = total_generated st" "todo = 0" by (auto simp: word_nat unat_inj_word)
  then show ?case by (subst spec_loop.simps) (auto simp: spec_cleanup_def spec_send_def)
next
  case (Suc fuel)
  let ?ctx = "context_tokens st" and ?tot = "total_generated st"
  show ?case
  proof (cases "todo = 0")
    case True
    then have "mx = total_generated st" using Suc.prems by (auto simp: word_nat unat_inj_word)
    then show ?thesis using True by (subst spec_loop.simps) (auto simp: spec_cleanup_def spec_send_def)
  next
    case False
    define ts where "ts = draft ?ctx (min k todo)"
    define new where "new = round_tokens nxt ?ctx ts"
    define v where "v = verify_reply nxt ?ctx ts"
    have lt: "\<not> mx \<le> ?tot" using False Suc.prems by (simp add: word_nat)
    have ts: "ts \<noteq> []" "length ts \<le> todo" using dr [of "min k todo" ?ctx] False k(2) by (auto simp: ts_def)
    have nb: "0 < length new" "length new \<le> todo" using round_tokens_bounds [OF ts(1), of nxt ?ctx] ts(2) by (simp_all add: new_def)
    have m32: "unat mx < 2 ^ 32" using unsigned_less [of mx] by simp
    have un: "unat (?tot + of_nat (length new)) = unat ?tot + length new"
    proof -
      have "unat ?tot + length new \<le> unat mx" using nb(2) Suc.prems(1,2) by (simp add: word_nat)
      then show ?thesis using m32 by (simp add: unat_word_ariths unat_of_nat)
    qed
    have v0: "\<not> (accepted_count v = 0 \<and> correction_token v = None)"
    proof -
      have "unat (of_nat (agreed nxt ?ctx ts) :: u32) = agreed nxt ?ctx ts"
        using agreed_le [of nxt ?ctx ts] ts(2) Suc.prems(2) m32 by (simp add: unat_of_nat)
      then show ?thesis using ts(1) by (auto simp: v_def verify_reply_def Let_def dest: arg_cong [of _ _ unat])
    qed
    let ?st2 = "spec_send (verifier_peer s) (DraftTokens (ss_session_id s) ts model)
      (spec_send (drafter_peer s) (draft_request e s model mx st) st)"
    define st3 where "st3 = ?st2\<lparr>context_tokens := ?ctx @ new, total_generated := ?tot + of_nat (length new),
       sp_outs := sp_outs st @ map (\<lambda>t. Inr (spec_token t)) new\<rparr>"
    have ev: "emit_verified e ts v ?st2 = (st3, True)"
      unfolding v_def st3_def new_def using ts(2) Suc.prems(2) m32
      by (subst emit_verified_round) (auto simp: env spec_send_def)
    have vs: "\<lparr>accepted_count = accepted_count v, correction_token = correction_token v\<rparr> = v" by simp
    have step: "spec_loop e s model mx (peer_replies p (ss_session_id s) model nxt draft k (Suc fuel) ?ctx todo) st =
        spec_loop e s model mx (peer_replies p (ss_session_id s) model nxt draft k fuel (?ctx @ new) (todo - length new)) st3"
      using lt False ts(1) v0 ev
      by (subst spec_loop.simps) (simp add: Let_def env ts_def [symmetric] new_def [symmetric] v_def [symmetric] vs, auto)
    have c3: "context_tokens st3 = ?ctx @ new" and t3: "total_generated st3 = ?tot + of_nat (length new)" 
      and o3: "sp_outs st3 = sp_outs st @ map (\<lambda>t. Inr (spec_token t)) new" by (simp_all add: st3_def)
    have le: "unat ?tot + length new \<le> unat mx" using nb(2) Suc.prems(1,2) by (simp add: word_nat)
    have pre: "total_generated st3 \<le> mx" "todo - length new = unat mx - unat (total_generated st3)" "todo - length new \<le> fuel"
      using Suc.prems nb le unfolding t3 word_le_nat un by linarith+
    obtain sent' where ih: "spec_loop e s model mx (peer_replies p (ss_session_id s) model nxt draft k fuel (?ctx @ new) (todo - length new)) st3 =
       (st3\<lparr>sp_outs := sp_outs st3 @ map (\<lambda>t. Inr (spec_token t)) (greedy_decode nxt (?ctx @ new) (todo - length new)),
        sp_sent := sent', context_tokens := ?ctx @ new @ greedy_decode nxt (?ctx @ new) (todo - length new),
        total_generated := mx\<rparr>, Finished)"
      using Suc.IH [OF pre] c3 append_assoc by metis
    have g: "new @ greedy_decode nxt (?ctx @ new) (todo - length new) = greedy_decode nxt ?ctx todo"
      using greedy_decode_add [of nxt ?ctx "length new" "todo - length new"] nb(2) round_tokens_greedy [of nxt ?ctx ts]
      by (simp add: new_def [symmetric])
    show ?thesis unfolding step ih using g [symmetric] by (auto simp: o3 st3_def spec_send_def)
  qed
qed



text \<open>
  The limit of a speculative generation is not exact: a verifier that accepts the whole draft and adds the next
  token of the target makes the session emit \<open>max_tokens\<close> plus one tokens.
\<close>
lemma speculative_exceeds_limit:
  "\<exists>st. spec_stream \<lparr>se_send = (\<lambda>_. None), se_rx = (\<lambda>_. True), se_json = (\<lambda>_. [])\<rparr>
      (new_speculative 5 (NodeId [1]) (NodeId [2]) default_speculative_config) ''m'' [7] 1
      [Inr (NodeId [1], DraftTokens 5 [8] ''m''), Inr (NodeId [2], VerifyDraft 5 1 (Some 9))] = (st, Finished) \<and>
    sp_outs st = [Inr (spec_token 8), Inr (spec_token 9)]"
  by (simp add: spec_stream_def spec_loop.simps new_speculative_def default_speculative_config_def Let_def
      emit_verified_def emit_one_def spec_send_def spec_cleanup_def)

end
