(* ===== verification/Text.thy ===== *)
theory Text
  imports Utf8
begin

section \<open>Strings of the standard library\<close>

text \<open>
  The methods of \<open>str\<close> that the sources call, on strings kept as their UTF-8 bytes.  White space is Unicode's
  \<open>White_Space\<close> property, which \<open>char::is_whitespace\<close> documents.
\<close>

definition byte_str :: "nat list \<Rightarrow> string" where "byte_str ns = map char_of ns"

definition newline :: char where "newline = char_of (10 :: nat)"
definition carriage :: char where "carriage = char_of (13 :: nat)"

definition white_spaces :: "string list" where
  "white_spaces = map byte_str
    ([[9], [10], [11], [12], [13], [32], [0xC2, 0x85], [0xC2, 0xA0], [0xE1, 0x9A, 0x80]]
     @ map (\<lambda>b. [0xE2, 0x80, b]) [0x80, 0x81, 0x82, 0x83, 0x84, 0x85, 0x86, 0x87, 0x88, 0x89, 0x8A, 0xA8, 0xA9, 0xAF]
     @ [[0xE2, 0x81, 0x9F], [0xE3, 0x80, 0x80]])"

text \<open>Strip any of the given non-empty prefixes as long as one matches.\<close>

function strip_any :: "string list \<Rightarrow> string \<Rightarrow> string" where
  "strip_any ws s = (case List.find (\<lambda>w. w \<noteq> [] \<and> starts_with w s) ws of
     Some w \<Rightarrow> strip_any ws (drop (length w) s) | None \<Rightarrow> s)"
  by pat_completeness auto
termination
proof (relation "measure (\<lambda>(ws, s). length s)", goal_cases)
  case (2 ws s w)
  then have "w \<noteq> []" "starts_with w s" by (auto simp: find_Some_iff)
  then show ?case by (auto simp: starts_with_append)
qed simp

declare strip_any.simps [simp del]

definition trim_start :: "string \<Rightarrow> string" where "trim_start s = strip_any white_spaces s"

definition trim_end :: "string \<Rightarrow> string" where "trim_end s = rev (strip_any (map rev white_spaces) (rev s))"

definition trim :: "string \<Rightarrow> string" where "trim s = trim_end (trim_start s)"

definition trim_end_cr :: "string \<Rightarrow> string" where "trim_end_cr s = rev (dropWhile (\<lambda>c. c = carriage) (rev s))"

definition strip_prefix :: "string \<Rightarrow> string \<Rightarrow> string option" where
  "strip_prefix p s = (if starts_with p s then Some (drop (length p) s) else None)"

text \<open>The text before the first newline and the text after it.\<close>

fun split_line :: "string \<Rightarrow> (string \<times> string) option" where
  "split_line [] = None"
| "split_line (c # cs) = (if c = newline then Some ([], cs)
     else (case split_line cs of Some (l, r) \<Rightarrow> Some (c # l, r) | None \<Rightarrow> None))"

lemma split_line_length: "split_line s = Some (l, r) \<Longrightarrow> length r < length s"
  by (induction s arbitrary: l) (auto split: if_splits option.splits)

lemma split_line_append: "split_line s = Some (l, r) \<Longrightarrow> split_line (s @ t) = Some (l, r @ t)"
  by (induction s arbitrary: l) (auto split: if_splits option.splits)

lemma split_line_None: "split_line s = None \<longleftrightarrow> newline \<notin> set s"
  by (induction s) (auto split: if_splits option.splits)

text \<open>\<open>str::lines\<close>: a carriage return goes only when a newline follows it.\<close>

function str_lines :: "string \<Rightarrow> string list" where
  "str_lines s = (if s = [] then []
     else (case split_line s of
         None \<Rightarrow> [s]
       | Some (l, r) \<Rightarrow> (if l \<noteq> [] \<and> List.last l = carriage then butlast l else l) # str_lines r))"
  by pat_completeness auto
termination by (relation "measure length") (auto dest: split_line_length)

declare str_lines.simps [simp del]

lemma str_lines_single: "newline \<notin> set s \<Longrightarrow> str_lines s = (if s = [] then [] else [s])"
  by (subst str_lines.simps) (simp add: split_line_None [THEN iffD2])

text \<open>\<open>[String]::join\<close>.\<close>

fun join :: "string \<Rightarrow> string list \<Rightarrow> string" where
  "join sep [] = []"
| "join sep [s] = s"
| "join sep (s # ss) = s @ sep @ join sep ss"

text \<open>
  \<open>to_lowercase\<close> of any text, as far as its ASCII bytes show: besides the ASCII letters the Kelvin sign and the dotted
  capital I lower to texts with an ASCII letter; every other character lowers to characters outside ASCII or is kept.
\<close>

fun lower_utf8 :: "string \<Rightarrow> string" where
  "lower_utf8 [] = []"
| "lower_utf8 (c # cs) =
    (if starts_with (byte_str [0xE2, 0x84, 0xAA]) (c # cs) then CHR ''k'' # lower_utf8 (drop 2 cs)
     else if starts_with (byte_str [0xC4, 0xB0]) (c # cs) then CHR ''i'' # byte_str [0xCC, 0x87] @ lower_utf8 (drop 1 cs)
     else lower_char c # lower_utf8 cs)"

text \<open>\<open>split_once\<close> of a character.\<close>

fun split_once :: "char \<Rightarrow> string \<Rightarrow> (string \<times> string) option" where
  "split_once d [] = None"
| "split_once d (c # cs) = (if c = d then Some ([], cs) else map_option (\<lambda>(a, b). (c # a, b)) (split_once d cs))"

lemma split_once_Some: "split_once d s = Some (a, b) \<longleftrightarrow> s = a @ d # b \<and> d \<notin> set a"
proof (induction s arbitrary: a)
  case (Cons c cs)
  then show ?case by (cases a) auto
qed simp

lemma split_once_None: "split_once d s = None \<longleftrightarrow> d \<notin> set s"
  by (induction s) auto

text \<open>\<open>str::split\<close> at a character, and \<open>rsplit_once\<close>.\<close>

fun split_on :: "char \<Rightarrow> string \<Rightarrow> string list" where
  "split_on c [] = [[]]"
| "split_on c (x # xs) = (if x = c then [] # split_on c xs
     else (case split_on c xs of w # ws \<Rightarrow> (x # w) # ws | [] \<Rightarrow> [[x]]))"

definition rsplit_once :: "char \<Rightarrow> string \<Rightarrow> (string \<times> string) option" where
  "rsplit_once c s = (case position (\<lambda>x. x = c) (rev s) of None \<Rightarrow> None
     | Some i \<Rightarrow> Some (take (length s - i - 1) s, drop (length s - i) s))"

lemma rsplit_once_append: "c \<notin> set t \<Longrightarrow> rsplit_once c (s @ c # t) = Some (s, t)"
proof -
  assume "c \<notin> set t"
  then have "position (\<lambda>x. x = c) (xs @ c # ys) = Some (length xs)" if "c \<notin> set xs" for xs ys
    using that by (induction xs) auto
  from this [of "rev t"] \<open>c \<notin> set t\<close> show ?thesis by (simp add: rsplit_once_def)
qed

text \<open>\<open>str::parse\<close> for an unsigned type with the given number of values: decimal digits after an optional plus.\<close>

definition is_digit :: "char \<Rightarrow> bool" where
  "is_digit c \<longleftrightarrow> (48 :: nat) \<le> of_char c \<and> (of_char c :: nat) < 58"

definition parse_unsigned :: "nat \<Rightarrow> string \<Rightarrow> nat option" where
  "parse_unsigned bound s =
    (let ds = (case s of c # t \<Rightarrow> if c = CHR ''+'' \<and> t \<noteq> [] then t else s | [] \<Rightarrow> [])
     in if ds = [] \<or> \<not> list_all is_digit ds then None
        else if read_digits ds < bound then Some (read_digits ds) else None)"

lemma show_nat_not_Nil [simp]: "show_nat n \<noteq> []"
  by (subst show_nat.simps) simp

lemma parse_unsigned_show: "n < bound \<Longrightarrow> parse_unsigned bound (show_nat n) = Some n"
proof -
  assume n: "n < bound"
  obtain c t where s: "show_nat n = c # t" by (cases "show_nat n") auto
  have "is_digit c" using show_nat_digits [of c n] s by (simp add: is_digit_def)
  then have "c \<noteq> CHR ''+''" by (auto simp: is_digit_def)
  moreover have "list_all is_digit (show_nat n)" by (auto simp: list_all_iff is_digit_def show_nat_digits)
  ultimately show ?thesis using n read_show_nat [of n] s by (simp add: parse_unsigned_def del: read_digits.simps)
qed

text \<open>Text that starts and ends with a printing ASCII character is not trimmed.\<close>

lemma strip_any_id: "(\<And>w. w \<in> set ws \<Longrightarrow> w \<noteq> [] \<Longrightarrow> List.hd w \<noteq> c) \<Longrightarrow> strip_any ws (c # s) = c # s"
proof -
  assume "\<And>w. w \<in> set ws \<Longrightarrow> w \<noteq> [] \<Longrightarrow> List.hd w \<noteq> c"
  then have "List.find (\<lambda>w. w \<noteq> [] \<and> starts_with w (c # s)) ws = None"
    by (fastforce simp: find_None_iff starts_with_append neq_Nil_conv)
  then show ?thesis by (subst strip_any.simps) simp
qed

lemma strip_any_Nil: "strip_any ws [] = []"
proof -
  have "List.find (\<lambda>w. w \<noteq> [] \<and> starts_with w []) ws = None" by (auto simp: find_None_iff starts_with_def)
  then show ?thesis by (subst strip_any.simps) simp
qed

lemma white_spaces_ends:
  "list_all (\<lambda>w. w \<noteq> [] \<and> (let a = (of_char (List.hd w) :: nat); b = (of_char (List.last w) :: nat)
     in (a < 33 \<or> 127 < a) \<and> (b < 33 \<or> 127 < b))) white_spaces"
  by code_simp

lemma trim_framed:
  assumes "s \<noteq> []" and "33 \<le> (of_char (List.hd s) :: nat) \<and> (of_char (List.hd s) :: nat) < 127"
    and "33 \<le> (of_char (List.last s) :: nat) \<and> (of_char (List.last s) :: nat) < 127"
  shows "trim s = s"
proof -
  obtain c t where s: "s = c # t" using assms(1) by (cases s) auto
  obtain xs x where snoc: "s = xs @ [x]" using assms(1) by (cases s rule: rev_cases) auto
  have w: "(of_char (List.hd w) :: nat) < 33 \<or> 127 < (of_char (List.hd w) :: nat)"
      "(of_char (List.last w) :: nat) < 33 \<or> 127 < (of_char (List.last w) :: nat)" if "w \<in> set white_spaces" for w
    using white_spaces_ends that by (auto simp: list_all_iff Let_def)
  have "trim_start s = s"
    unfolding trim_start_def s using w(1) assms(2) s by (intro strip_any_id) force
  moreover have "trim_end s = s"
  proof -
    have "strip_any (map rev white_spaces) (x # rev xs) = x # rev xs"
      using w(2) assms(3) snoc by (intro strip_any_id) (force simp: hd_rev)
    then show ?thesis by (simp add: trim_end_def snoc)
  qed
  ultimately show ?thesis by (simp add: trim_def)
qed

lemma trim_id:
  assumes "\<And>c. c \<in> set s \<Longrightarrow> 33 \<le> (of_char c :: nat) \<and> (of_char c :: nat) < 127"
  shows "trim s = s"
proof (cases "s = []")
  case True
  then show ?thesis by (simp add: trim_def trim_start_def trim_end_def strip_any_Nil)
next
  case False
  then show ?thesis using assms by (intro trim_framed) simp_all
qed

subsection \<open>Delimiters\<close>

text \<open>A text that does not overlap with itself: no proper prefix of it is a suffix.\<close>

definition borderless :: "string \<Rightarrow> bool" where
  "borderless d \<longleftrightarrow> d \<noteq> [] \<and> list_all (\<lambda>k. drop k d \<noteq> take (length d - k) d) [1..<length d]"

text \<open>Text that does not contain a borderless delimiter ends where the delimiter first occurs.\<close>

lemma delimiter_unique_le:
  assumes "borderless d" and "\<not> str_contains d t'" and "t @ d @ r = t' @ d @ r'" and "length t \<le> length t'"
  shows "t = t' \<and> r = r'"
proof -
  obtain u where u: "t' = t @ u" using assms(3,4) by (metis append_eq_append_conv_if append_take_drop_id)
  then have e: "d @ r = u @ d @ r'" using assms(3) by simp
  have "u = []"
  proof (rule ccontr)
    assume ne: "u \<noteq> []"
    show False
    proof (cases "length d \<le> length u")
      case True
      then obtain v where "u = d @ v" using e by (metis append_eq_append_conv_if append_take_drop_id)
      then show False using assms(2) u by (auto simp: str_contains_iff)
    next
      case False
      have "(\<exists>us. d @ us = u) \<or> (\<exists>us. d = u @ us \<and> us @ r = d @ r')"
        using e by (auto simp: append_eq_append_conv2)
      then obtain d1 where d1: "d = u @ d1" "d1 @ r = d @ r'" using False by auto
      have "length d1 \<le> length d" using d1(1) by simp
      then have "d1 = take (length d1) d" using d1(2) by (simp add: append_eq_append_conv_if)
      moreover have "drop (length u) d = d1" "length d - length u = length d1" using d1(1) by simp_all
      moreover have "length u \<in> set [1..<length d]" using ne False by (cases u) auto
      ultimately show False using assms(1) unfolding borderless_def list_all_iff by metis
    qed
  qed
  then show ?thesis using u e by simp
qed

lemma delimiter_unique:
  assumes "borderless d" and "\<not> str_contains d t" and "\<not> str_contains d t'" and "t @ d @ r = t' @ d @ r'"
  shows "t = t' \<and> r = r'"
  using delimiter_unique_le [OF assms(1) assms(3,4)] delimiter_unique_le [OF assms(1) assms(2) assms(4) [symmetric]]
  by (metis nat_le_linear)

subsection \<open>Well-formed UTF-8\<close>

function valid_utf8 :: "u8 list \<Rightarrow> bool" where
  "valid_utf8 [] = True"
| "valid_utf8 (b # bs) =
    (if b < 128 then valid_utf8 bs
     else (case lead b of None \<Rightarrow> False
       | Some (n, lo, hi) \<Rightarrow> continues n lo hi bs = n \<and> valid_utf8 (drop n bs)))"
  by pat_completeness auto
termination by (relation "measure length") auto

lemma continues_append: "continues n lo hi bs = n \<Longrightarrow> continues n lo hi (bs @ cs) = n"
  by (induction n lo hi bs rule: continues.induct) (auto split: if_splits)

lemma continues_length: "continues n lo hi bs = n \<Longrightarrow> n \<le> length bs"
  by (induction n lo hi bs rule: continues.induct) (auto split: if_splits)

lemma utf8_lossy_append: "valid_utf8 xs \<Longrightarrow> utf8_lossy (xs @ ys) = xs @ utf8_lossy ys"
proof (induction xs rule: valid_utf8.induct)
  case (2 b bs)
  show ?case
  proof (cases "b < 128")
    case True
    then show ?thesis using 2 by simp
  next
    case False
    then obtain n lo hi where l: "lead b = Some (n, lo, hi)" "continues n lo hi bs = n" "valid_utf8 (drop n bs)"
      using 2(3) by (auto split: option.splits)
    have "n \<le> length bs" by (rule continues_length [OF l(2)])
    then show ?thesis
      using False l 2(2) [OF False l(1) refl refl] continues_append [OF l(2), of ys] by (simp add: Let_def)
  qed
qed simp

lemma from_utf8_lossy_concat:
  "\<forall>x \<in> set xs. valid_utf8 x \<Longrightarrow> from_utf8_lossy (concat xs) = concat (map from_utf8_lossy xs)"
proof (induction xs)
  case (Cons x xs)
  have "utf8_lossy x = x" using utf8_lossy_append [of x "[]"] Cons.prems by simp
  then show ?case using Cons utf8_lossy_append [of x "concat xs"]
    by (simp add: from_utf8_lossy_def bytes_string_def)
qed (simp add: from_utf8_lossy_def bytes_string_def)

text \<open>The bytes of a string.\<close>

definition str_bytes :: "string \<Rightarrow> u8 list" where
  "str_bytes s = map (\<lambda>c. of_nat (of_char c)) s"

lemma str_bytes_simps [simp]: "str_bytes [] = []" "str_bytes (s @ t) = str_bytes s @ str_bytes t"
  by (simp_all add: str_bytes_def)

lemma bytes_string_str_bytes [simp]: "bytes_string (str_bytes s) = s"
proof -
  have "char_of (unat (of_nat (of_char c) :: u8)) = c" for c
    by (simp add: unat_of_nat)
  then show ?thesis by (simp add: bytes_string_def str_bytes_def comp_def map_idI)
qed

lemma valid_utf8_lossy: "valid_utf8 bs \<Longrightarrow> utf8_lossy bs = bs"
  using utf8_lossy_append [of bs "[]"] by simp

lemma valid_utf8_append: "valid_utf8 xs \<Longrightarrow> valid_utf8 ys \<Longrightarrow> valid_utf8 (xs @ ys)"
proof (induction xs rule: valid_utf8.induct)
  case (2 b bs)
  show ?case
  proof (cases "b < 128")
    case True
    then show ?thesis using 2 by simp
  next
    case False
    then obtain n lo hi where l: "lead b = Some (n, lo, hi)" "continues n lo hi bs = n" "valid_utf8 (drop n bs)"
      using 2(3) by (auto split: option.splits)
    then show ?thesis using False 2(2) [OF False l(1) refl refl] 2(4) continues_append [OF l(2), of ys] continues_length [OF l(2)]
      by simp
  qed
qed simp

lemma valid_utf8_concat: "list_all valid_utf8 xs \<Longrightarrow> valid_utf8 (concat xs)"
  by (induction xs) (simp_all add: valid_utf8_append)

end
