(* ===== verification/Discovery.thy ===== *)
theory Discovery
  imports MeshTypes Text "HOL-Library.AList"
begin

section \<open>Peer discovery\<close>

text \<open>
  \<open>crates/hivebear-mesh/src/discovery/mod.rs\<close> (the interface and \<open>MockDiscovery\<close>), \<open>pex.rs\<close> and \<open>composite.rs\<close>.
  A source is a record of its operations on its state; the hash map of the exchange cache is an association
  list with distinct keys, and the order in which it is iterated is the argument \<open>order\<close>.
\<close>

record 's discovery =
  d_register :: "peer_info \<Rightarrow> 's \<Rightarrow> 's \<times> unit mesh_result"
  d_find_peers :: "string \<Rightarrow> u64 \<Rightarrow> 's \<Rightarrow> 's \<times> peer_info list mesh_result"
  d_heartbeat :: "'s \<Rightarrow> 's \<times> unit mesh_result"
  d_deregister :: "'s \<Rightarrow> 's \<times> unit mesh_result"
  d_last_error :: "'s \<Rightarrow> string option"

subsection \<open>MockDiscovery\<close>

definition mock_register :: "peer_info \<Rightarrow> peer_info list \<Rightarrow> peer_info list \<times> unit mesh_result" where
  "mock_register info peers = (filter (\<lambda>p. node_id p \<noteq> node_id info) peers @ [info], Inr ())"

definition mock_find_peers :: "string \<Rightarrow> u64 \<Rightarrow> peer_info list \<Rightarrow> peer_info list \<times> peer_info list mesh_result" where
  "mock_find_peers model min_memory peers = (peers, Inr (filter (\<lambda>p. min_memory \<le> available_memory_bytes p) peers))"

definition mock_discovery :: "peer_info list discovery" where
  "mock_discovery = \<lparr>d_register = mock_register, d_find_peers = mock_find_peers,
     d_heartbeat = (\<lambda>s. (s, Inr ())), d_deregister = (\<lambda>s. ([], Inr ())), d_last_error = (\<lambda>s. None)\<rparr>"

subsection \<open>Peer exchange\<close>

type_synonym pex_cache = "(u8 list \<times> peer_info) list"

definition MAX_PEERS :: usize where "MAX_PEERS = 200"

definition MIN_REPUTATION_TO_SHARE :: f64 where "MIN_REPUTATION_TO_SHARE = lit (3/10)"

definition add_peer :: "peer_info \<Rightarrow> pex_cache \<Rightarrow> pex_cache" where
  "add_peer peer c = (if MAX_PEERS \<le> length c then c else AList.update (key_bytes (node_id peer)) peer c)"

definition pex_remove_peer :: "node_id \<Rightarrow> pex_cache \<Rightarrow> pex_cache" where
  "pex_remove_peer n c = AList.delete (key_bytes n) c"

text \<open>The values in iteration order.\<close>

definition pex_values :: "(pex_cache \<Rightarrow> u8 list list) \<Rightarrow> pex_cache \<Rightarrow> peer_info list" where
  "pex_values order c = map snd (entries (order c) (map_of c))"

definition shareable_peers :: "(pex_cache \<Rightarrow> u8 list list) \<Rightarrow> pex_cache \<Rightarrow> peer_info list" where
  "shareable_peers order c = filter (\<lambda>p. MIN_REPUTATION_TO_SHARE \<le> reputation_score p) (pex_values order c)"

definition handle_exchange_request :: "(pex_cache \<Rightarrow> u8 list list) \<Rightarrow> u32 \<Rightarrow> pex_cache \<Rightarrow> peer_info list" where
  "handle_exchange_request order max_peers c = take (unat max_peers) (shareable_peers order c)"

fun merge_peers :: "peer_info list \<Rightarrow> pex_cache \<Rightarrow> pex_cache" where
  "merge_peers [] c = c"
| "merge_peers (p # ps) c =
    (if MAX_PEERS \<le> length c then c
     else merge_peers ps (if map_of c (key_bytes (node_id p)) = None
       then AList.update (key_bytes (node_id p)) p c else c))"

definition peer_count :: "pex_cache \<Rightarrow> usize" where
  "peer_count c = length c"

definition pex_register :: "peer_info \<Rightarrow> pex_cache \<Rightarrow> pex_cache \<times> unit mesh_result" where
  "pex_register info c = (add_peer info c, Inr ())"

definition pex_find_peers :: "(pex_cache \<Rightarrow> u8 list list) \<Rightarrow> string \<Rightarrow> u64 \<Rightarrow> pex_cache \<Rightarrow>
    pex_cache \<times> peer_info list mesh_result" where
  "pex_find_peers order model min_memory c =
    (c, Inr (filter (\<lambda>p. min_memory \<le> available_memory_bytes p) (pex_values order c)))"

definition pex_discovery :: "(pex_cache \<Rightarrow> u8 list list) \<Rightarrow> pex_cache discovery" where
  "pex_discovery order = \<lparr>d_register = pex_register, d_find_peers = pex_find_peers order,
     d_heartbeat = (\<lambda>s. (s, Inr ())), d_deregister = (\<lambda>s. ([], Inr ())), d_last_error = (\<lambda>s. None)\<rparr>"

subsection \<open>CompositeDiscovery\<close>

text \<open>
  The sources with their states; the first one is the primary.  Each operation goes through them in order.
\<close>

type_synonym 's sources = "('s discovery \<times> 's) list"

definition new_composite :: "'s discovery \<times> 's \<Rightarrow> 's sources" where
  "new_composite primary = [primary]"

definition add_source :: "'s discovery \<times> 's \<Rightarrow> 's sources \<Rightarrow> 's sources" where
  "add_source src ss = ss @ [src]"

definition source_count :: "'s sources \<Rightarrow> usize" where
  "source_count ss = length ss"

definition on_sources :: "('s discovery \<Rightarrow> 's \<Rightarrow> 's \<times> 'r) \<Rightarrow> 's sources \<Rightarrow> 's sources \<times> 'r list" where
  "on_sources f ss = (map (\<lambda>(d, s). (d, fst (f d s))) ss, map (\<lambda>(d, s). snd (f d s)) ss)"

definition register_outcome :: "unit mesh_result list \<Rightarrow> unit mesh_result" where
  "register_outcome rs =
    (let last_error = fold (\<lambda>r acc. case r of Inl e \<Rightarrow> Some e | Inr _ \<Rightarrow> acc) rs None;
         any_ok = list_ex (\<lambda>r. \<not> isl r) rs
     in case (any_ok, last_error) of
          (True, _) \<Rightarrow> Inr () | (False, Some e) \<Rightarrow> Inl e | (False, None) \<Rightarrow> Inr ())"

definition composite_register :: "peer_info \<Rightarrow> 's sources \<Rightarrow> 's sources \<times> unit mesh_result" where
  "composite_register info ss = (case on_sources (\<lambda>d. d_register d info) ss of (ss', rs) \<Rightarrow> (ss', register_outcome rs))"

fun collect_new :: "(u8 list \<Rightarrow> string) \<Rightarrow> peer_info list \<Rightarrow> string list \<times> peer_info list \<Rightarrow> string list \<times> peer_info list" where
  "collect_new enc [] acc = acc"
| "collect_new enc (p # ps) (seen, all_peers) =
    (let key = to_hex enc (node_id p) in
     if key \<in> set seen then collect_new enc ps (seen, all_peers)
     else collect_new enc ps (key # seen, all_peers @ [p]))"

fun merge_results :: "(u8 list \<Rightarrow> string) \<Rightarrow> peer_info list mesh_result list \<Rightarrow> string list \<times> peer_info list \<Rightarrow>
    string list \<times> peer_info list" where
  "merge_results enc [] acc = acc"
| "merge_results enc (Inr ps # rs) acc = merge_results enc rs (collect_new enc ps acc)"
| "merge_results enc (Inl e # rs) acc = merge_results enc rs acc"

definition find_outcome :: "(u8 list \<Rightarrow> string) \<Rightarrow> peer_info list mesh_result list \<Rightarrow> peer_info list mesh_result" where
  "find_outcome enc rs =
    (let all_peers = snd (merge_results enc rs ([], []));
         errors = map projl (filter isl rs);
         any_ok = list_ex (\<lambda>r. \<not> isl r) rs
     in if \<not> any_ok \<and> errors \<noteq> [] then Inl (hd errors) else Inr all_peers)"

definition composite_find_peers :: "(u8 list \<Rightarrow> string) \<Rightarrow> string \<Rightarrow> u64 \<Rightarrow> 's sources \<Rightarrow>
    's sources \<times> peer_info list mesh_result" where
  "composite_find_peers enc model min_memory ss =
    (case on_sources (\<lambda>d. d_find_peers d model min_memory) ss of (ss', rs) \<Rightarrow> (ss', find_outcome enc rs))"

definition composite_heartbeat :: "'s sources \<Rightarrow> 's sources \<times> unit mesh_result" where
  "composite_heartbeat ss = (case ss of
     (d, s) # rest \<Rightarrow> (case d_heartbeat d s of (s', r) \<Rightarrow> ((d, s') # rest, r)) | [] \<Rightarrow> ([], Inr ()))"

definition composite_deregister :: "'s sources \<Rightarrow> 's sources \<times> unit mesh_result" where
  "composite_deregister ss = (fst (on_sources d_deregister ss), Inr ())"

definition composite_last_error :: "'s sources \<Rightarrow> string option" where
  "composite_last_error ss =
    (let errors = List.map_filter (\<lambda>(d, s). d_last_error d s) ss
     in if errors = [] then None else Some (join ''; '' errors))"

subsection \<open>What every source promises\<close>

text \<open>
  The view of a state is the map of the peers it knows.  A search returns exactly the known peers with enough memory,
  once each; a registration changes at most the entry of the peer itself; a deregistration forgets everything.
\<close>

locale peer_source =
  fixes ops :: "'s discovery" and ok :: "'s \<Rightarrow> bool" and view :: "'s \<Rightarrow> node_id \<rightharpoonup> peer_info"
  assumes view_id: "ok s \<Longrightarrow> view s i = Some p \<Longrightarrow> node_id p = i"
    and find_keeps: "ok s \<Longrightarrow> fst (d_find_peers ops m mem s) = s"
    and find_spec: "ok s \<Longrightarrow> \<exists>ps. snd (d_find_peers ops m mem s) = Inr ps \<and> distinct (map node_id ps) \<and>
        set ps = {p. view s (node_id p) = Some p \<and> mem \<le> available_memory_bytes p}"
    and register_ok: "ok s \<Longrightarrow> ok (fst (d_register ops info s)) \<and> snd (d_register ops info s) = Inr ()"
    and register_frame: "ok s \<Longrightarrow> i \<noteq> node_id info \<Longrightarrow> view (fst (d_register ops info s)) i = view s i"
    and deregister_view: "ok s \<Longrightarrow> ok (fst (d_deregister ops s)) \<and> view (fst (d_deregister ops s)) = Map.empty"
begin

definition found :: "string \<Rightarrow> u64 \<Rightarrow> 's \<Rightarrow> peer_info list" where
  "found m mem s = projr (snd (d_find_peers ops m mem s))"

lemma find_found:
  assumes "ok s"
  shows "d_find_peers ops m mem s = (s, Inr (found m mem s))" "distinct (map node_id (found m mem s))"
    "p \<in> set (found m mem s) \<longleftrightarrow> view s (node_id p) = Some p \<and> mem \<le> available_memory_bytes p"
proof -
  obtain ps where ps: "snd (d_find_peers ops m mem s) = Inr ps" "distinct (map node_id ps)"
    "set ps = {p. view s (node_id p) = Some p \<and> mem \<le> available_memory_bytes p}"
    using find_spec [OF assms, of m mem] by blast
  then have f: "found m mem s = ps" by (simp add: found_def)
  show "d_find_peers ops m mem s = (s, Inr (found m mem s))"
    using find_keeps [OF assms, of m mem] ps(1) f by (cases "d_find_peers ops m mem s") simp
  show "distinct (map node_id (found m mem s))"
    "p \<in> set (found m mem s) \<longleftrightarrow> view s (node_id p) = Some p \<and> mem \<le> available_memory_bytes p"
    using ps(2,3) f by simp_all
qed

lemma deregister_finds_nothing: "ok s \<Longrightarrow> found m mem (fst (d_deregister ops s)) = []"
  using deregister_view [of s] find_found(3) [of "fst (d_deregister ops s)" _ m mem]
  by (cases "found m mem (fst (d_deregister ops s))") auto

lemma register_keeps_others:
  "ok s \<Longrightarrow> node_id p \<noteq> node_id info \<Longrightarrow>
    p \<in> set (found m mem (fst (d_register ops info s))) \<longleftrightarrow> p \<in> set (found m mem s)"
  using register_ok [of s info] register_frame [of s "node_id p" info] by (auto simp: find_found)

lemma results_ok:
  "\<forall>(d, s) \<in> set ss. d = ops \<and> ok s \<Longrightarrow>
    on_sources (\<lambda>d. d_find_peers d m mem) ss = (ss, map (\<lambda>(d, s). Inr (found m mem s)) ss)"
  by (induction ss) (auto simp: on_sources_def find_found(1))

end

text \<open>A reliable source also finds a peer it has registered.\<close>

locale reliable_source = peer_source +
  assumes register_view: "ok s \<Longrightarrow> view (fst (d_register ops info s)) (node_id info) = Some info"
begin

lemma register_then_find:
  "ok s \<Longrightarrow> mem \<le> available_memory_bytes info \<Longrightarrow> info \<in> set (found m mem (fst (d_register ops info s)))"
  using register_ok [of s info] by (simp add: find_found register_view)

end

definition first_with :: "node_id \<Rightarrow> peer_info list \<Rightarrow> peer_info option" where
  "first_with i ps = List.find (\<lambda>p. node_id p = i) ps"

interpretation mock: reliable_source mock_discovery "\<lambda>ps. distinct (map node_id ps)" "\<lambda>ps i. first_with i ps"
proof (unfold_locales, goal_cases)
  case (1 s i p) then show ?case by (auto simp: first_with_def find_Some_iff)
next
  case (2 s m mem) then show ?case by (simp add: mock_discovery_def mock_find_peers_def)
next
  case (3 s m mem)
  have "first_with (node_id p) s = Some p \<longleftrightarrow> p \<in> set s" if "distinct (map node_id s)" for p
    using that by (induction s) (force simp: first_with_def)+
  with 3 show ?case by (auto simp: mock_discovery_def mock_find_peers_def distinct_map intro: inj_on_subset)
next
  case (4 s info) then show ?case by (auto simp: mock_discovery_def mock_register_def distinct_map intro: inj_on_subset)
next
  case (5 s i info)
  have "first_with i (filter (\<lambda>p. node_id p \<noteq> node_id info) s @ [info]) = first_with i s"
    using 5(2) by (induction s) (auto simp: first_with_def)
  then show ?case by (simp add: mock_discovery_def mock_register_def)
next
  case (6 s) then show ?case by (auto simp: mock_discovery_def first_with_def)
next
  case (7 s info)
  have "first_with (node_id info) (filter (\<lambda>p. node_id p \<noteq> node_id info) s @ [info]) = Some info"
    by (induction s) (auto simp: first_with_def)
  then show ?case by (simp add: mock_discovery_def mock_register_def)
qed

subsection \<open>The exchange cache\<close>

definition good_order :: "(pex_cache \<Rightarrow> u8 list list) \<Rightarrow> bool" where
  "good_order order \<longleftrightarrow> (\<forall>c. distinct (map fst c) \<longrightarrow> iter_order (order c) (map_of c))"

definition pex_ok :: "pex_cache \<Rightarrow> bool" where
  "pex_ok c \<longleftrightarrow> distinct (map fst c) \<and> (\<forall>k p. map_of c k = Some p \<longrightarrow> k = key_bytes (node_id p)) \<and> length c \<le> MAX_PEERS"

lemma length_update: "length (AList.update k v c) = (if map_of c k = None then Suc (length c) else length c)"
  by (induction c) auto

lemma pex_ok_update:
  assumes "pex_ok c" "length c < MAX_PEERS"
  shows "pex_ok (AList.update (key_bytes (node_id p)) p c)"
  using assms by (auto simp: pex_ok_def distinct_update update_conv' length_update split: if_splits)

lemma pex_ok_add: "pex_ok c \<Longrightarrow> pex_ok (add_peer p c)"
  by (simp add: add_peer_def pex_ok_update)

lemma pex_ok_merge: "pex_ok c \<Longrightarrow> pex_ok (merge_peers ps c)"
  by (induction ps c rule: merge_peers.induct) (auto simp: pex_ok_update)

lemma pex_ok_remove: "pex_ok c \<Longrightarrow> pex_ok (pex_remove_peer n c)"
  using length_delete_le [of "key_bytes n" c]
  by (auto simp: pex_ok_def pex_remove_peer_def distinct_delete delete_conv' split: if_splits)

lemma pex_values_found:
  assumes "good_order order" "pex_ok c"
  shows "p \<in> set (pex_values order c) \<longleftrightarrow> map_of c (key_bytes (node_id p)) = Some p"
    "distinct (map node_id (pex_values order c))"
proof -
  have o: "iter_order (order c) (map_of c)" using assms by (simp add: good_order_def pex_ok_def)
  have k: "map_of c x = Some q \<Longrightarrow> x = key_bytes (node_id q)" for x q using assms(2) by (simp add: pex_ok_def)
  show "p \<in> set (pex_values order c) \<longleftrightarrow> map_of c (key_bytes (node_id p)) = Some p"
    using iter_order_entries [OF o] k by (force simp: pex_values_def)
  have d: "distinct (map fst (entries (order c) (map_of c)))"
    using o by (simp add: iter_order_def distinct_entries)
  have "map fst (entries (order c) (map_of c)) = map (key_bytes \<circ> node_id) (pex_values order c)"
    using k by (auto simp: pex_values_def)
  then show "distinct (map node_id (pex_values order c))"
    using d by (metis distinct_map map_map)
qed

lemma key_bytes_inj: "key_bytes a = key_bytes b \<longleftrightarrow> a = b"
  by (cases a; cases b) simp

interpretation pex: peer_source "pex_discovery order" "\<lambda>c. good_order order \<and> pex_ok c" "\<lambda>c i. map_of c (key_bytes i)" for order
proof (unfold_locales, goal_cases)
  case (1 s i p) then show ?case unfolding pex_ok_def by (metis key_bytes_inj)
next
  case (2 s m mem) then show ?case by (simp add: pex_discovery_def pex_find_peers_def)
next
  case (3 s m mem)
  then show ?case using pex_values_found [of order s]
    by (auto simp: pex_discovery_def pex_find_peers_def distinct_map intro: inj_on_subset)
next
  case (4 s info) then show ?case by (simp add: pex_discovery_def pex_register_def pex_ok_add)
next
  case (5 s i info)
  then show ?case by (simp add: pex_discovery_def pex_register_def add_peer_def update_conv' key_bytes_inj)
next
  case (6 s) then show ?case by (auto simp: pex_discovery_def pex_ok_def)
qed

datatype pex_event = PexAdd peer_info | PexRemove node_id | PexMerge "peer_info list" | PexClear

fun pex_step :: "pex_event \<Rightarrow> pex_cache \<Rightarrow> pex_cache" where
  "pex_step (PexAdd p) c = add_peer p c"
| "pex_step (PexRemove n) c = pex_remove_peer n c"
| "pex_step (PexMerge ps) c = merge_peers ps c"
| "pex_step PexClear c = []"

interpretation pex_cache: inv_system "[]" pex_step pex_ok
proof (unfold_locales, goal_cases)
  case 1 show ?case by (simp add: pex_ok_def)
next
  case (2 s e) then show ?case
    by (cases e) (simp_all add: pex_ok_add pex_ok_remove pex_ok_merge, simp add: pex_ok_def)
qed

lemma handle_exchange_bounds:
  assumes "good_order order" "pex_ok c"
  shows "length (handle_exchange_request order n c) \<le> min (unat n) 200 \<and>
    list_all (\<lambda>p. MIN_REPUTATION_TO_SHARE \<le> reputation_score p \<and> map_of c (key_bytes (node_id p)) = Some p)
      (handle_exchange_request order n c) \<and> distinct (map node_id (handle_exchange_request order n c))"
proof -
  have o: "iter_order (order c) (map_of c)" using assms by (simp add: good_order_def pex_ok_def)
  have "length (pex_values order c) = length (order c)"
    using o by (simp add: pex_values_def length_entries iter_order_def)
  also have "\<dots> = card (dom (map_of c))" by (rule iter_order_length [OF o])
  also have "\<dots> \<le> 200" using assms(2) by (simp add: pex_ok_def MAX_PEERS_def dom_map_of_conv_image_fst)
      (metis card_length dual_order.trans length_map list.set_map)
  finally have "length (shareable_peers order c) \<le> 200"
    unfolding shareable_peers_def using length_filter_le order_trans by blast
  moreover have "distinct (map node_id (shareable_peers order c))"
    using pex_values_found(2) [OF assms] by (auto simp: shareable_peers_def distinct_map intro: inj_on_subset)
  then have "distinct (map node_id (handle_exchange_request order n c))"
    by (simp add: handle_exchange_request_def take_map [symmetric] distinct_take)
  moreover have "p \<in> set (handle_exchange_request order n c) \<Longrightarrow>
     MIN_REPUTATION_TO_SHARE \<le> reputation_score p \<and> map_of c (key_bytes (node_id p)) = Some p" for p
    using pex_values_found(1) [OF assms, of p]
    by (auto simp: handle_exchange_request_def shareable_peers_def dest!: in_set_takeD)
  ultimately show ?thesis by (auto simp: list_all_iff handle_exchange_request_def)
qed

text \<open>
  Whatever peers are added, merged from other peers and removed, the exchange cache never holds more than 200,
  and its answer to an exchange request is made of distinct peers that it knows, each with a reputation of at
  least the threshold, at most as many as were asked for.
\<close>
theorem peer_exchange_bounded:
  assumes "good_order order" "c = fold pex_step es []"
  shows "peer_count c \<le> 200 \<and> length (handle_exchange_request order n c) \<le> min (unat n) 200 \<and>
    distinct (map node_id (handle_exchange_request order n c)) \<and>
    list_all (\<lambda>p. MIN_REPUTATION_TO_SHARE \<le> reputation_score p \<and> map_of c (key_bytes (node_id p)) = Some p)
      (handle_exchange_request order n c)"
  using handle_exchange_bounds [OF assms(1), of c n] pex_cache.invar_reachable [of es] assms(2)
  by (auto simp: peer_count_def pex_ok_def MAX_PEERS_def)

definition list_order :: "pex_cache \<Rightarrow> u8 list list" where "list_order c = map fst c"

lemma good_list_order: "good_order list_order"
  by (simp add: good_order_def list_order_def iter_order_def dom_map_of_conv_image_fst)

lemma peer_exchange_bounded_witness:
  "length (handle_exchange_request list_order 1
     (fold pex_step [PexAdd (sample_peer 1 8 0), PexMerge [sample_peer 2 8 0]] [])) \<le> 1"
  using peer_exchange_bounded [OF good_list_order refl, where n = 1 and es = "[PexAdd (sample_peer 1 8 0), PexMerge [sample_peer 2 8 0]]"]
  by simp

text \<open>
  A full cache is frozen: adding or registering a peer it knows with a new record, or merging any records,
  changes nothing, although the registration is reported as a success.
\<close>
lemma full_cache_is_frozen:
  "length c = 200 \<Longrightarrow> pex_register p c = (c, Inr ()) \<and> merge_peers ps c = c"
  by (cases ps) (simp_all add: pex_register_def add_peer_def MAX_PEERS_def)

subsection \<open>Composite search\<close>

text \<open>The peers the sources that answered have returned, one after the other.\<close>

fun answered :: "peer_info list mesh_result list \<Rightarrow> peer_info list" where
  "answered [] = []"
| "answered (Inr ps # rs) = ps @ answered rs"
| "answered (Inl e # rs) = answered rs"

lemma merge_results_answered: "merge_results enc rs acc = collect_new enc (answered rs) acc"
proof (induction enc rs acc rule: merge_results.induct)
  case (2 enc ps rs acc)
  have "collect_new enc (ps @ qs) acc = collect_new enc qs (collect_new enc ps acc)" for qs
    by (induction enc ps acc rule: collect_new.induct) (auto simp: Let_def)
  with 2 show ?case by simp
qed simp_all

lemma first_with_append: "first_with i (ps @ qs) = (case first_with i ps of None \<Rightarrow> first_with i qs | Some p \<Rightarrow> Some p)"
  by (induction ps) (auto simp: first_with_def)

lemma first_with_single: "first_with i [p] = (if node_id p = i then Some p else None)"
  by (simp add: first_with_def)

lemma first_with_None: "first_with i ps = None \<longleftrightarrow> i \<notin> node_id ` set ps"
  by (induction ps) (auto simp: first_with_def)

lemma collect_new_spec:
  assumes "injective_encoding enc" "collect_new enc ps (seen, acc) = (seen', out)"
    "set seen = to_hex enc ` node_id ` set prev" "distinct (map node_id acc)"
    "\<And>p. p \<in> set acc \<longleftrightarrow> first_with (node_id p) prev = Some p"
  shows "distinct (map node_id out) \<and> (\<forall>p. p \<in> set out \<longleftrightarrow> first_with (node_id p) (prev @ ps) = Some p)"
  using assms(2-5)
proof (induction ps arbitrary: seen acc prev)
  case (Cons p ps)
  let ?k = "to_hex enc (node_id p)"
  have k: "?k \<in> set seen \<longleftrightarrow> node_id p \<in> node_id ` set prev"
    using Cons.prems(2) to_hex_inj [OF assms(1)] by auto
  show ?case
  proof (cases "?k \<in> set seen")
    case True
    then obtain q where q: "first_with (node_id p) prev = Some q" using k first_with_None by (metis not_None_eq)
    have "first_with i (prev @ [p]) = first_with i prev" for i
      using q by (cases "i = node_id p") (auto simp: first_with_append first_with_single split: option.split)
    then show ?thesis
      using Cons.IH [of seen acc "prev @ [p]"] Cons.prems True k by (auto simp: Let_def insert_absorb)
  next
    case False
    then have n: "first_with (node_id p) prev = None" using k first_with_None by blast
    have f: "first_with i (prev @ [p]) = (if i = node_id p then Some p else first_with i prev)" for i
      using n by (auto simp: first_with_append first_with_single split: option.split)
    have "node_id p \<notin> node_id ` set acc" using Cons.prems(4) n by (metis imageE option.distinct(1))
    moreover have "q \<in> set (acc @ [p]) \<longleftrightarrow> first_with (node_id q) (prev @ [p]) = Some q" for q
      using Cons.prems(4) [of q] n f [of "node_id q"] by auto
    ultimately show ?thesis
      using Cons.IH [of "?k # seen" "acc @ [p]" "prev @ [p]"] Cons.prems False by (auto simp: Let_def)
  qed
qed auto

text \<open>
  A search through all the sources succeeds unless there is a source and every source fails, and then reports the
  failure of the first one; when it succeeds it returns, once per node, exactly the records that come first
  for their node in the answers of the sources taken in their order.
\<close>
theorem composite_find_correct:
  assumes "injective_encoding enc" "rs = map (\<lambda>(d, s). snd (d_find_peers d model mem s)) ss"
  shows "case snd (composite_find_peers enc model mem ss) of
      Inl e \<Rightarrow> rs \<noteq> [] \<and> list_all isl rs \<and> hd rs = Inl e
    | Inr ps \<Rightarrow> (rs = [] \<or> list_ex (\<lambda>r. \<not> isl r) rs) \<and> distinct (map node_id ps) \<and>
        set ps = {p. first_with (node_id p) (answered rs) = Some p}"
proof -
  obtain seen out where m: "collect_new enc (answered rs) ([], []) = (seen, out)" by fastforce
  have out: "distinct (map node_id out) \<and> (\<forall>p. p \<in> set out \<longleftrightarrow> first_with (node_id p) ([] @ answered rs) = Some p)"
    by (rule collect_new_spec [OF assms(1) m]) (simp_all add: first_with_def)
  have f: "snd (composite_find_peers enc model mem ss) = find_outcome enc rs"
    by (simp add: composite_find_peers_def on_sources_def assms(2) split_def)
  show ?thesis
  proof (cases "\<not> list_ex (\<lambda>r. \<not> isl r) rs \<and> filter isl rs \<noteq> []")
    case True
    then have "list_all isl rs" "rs \<noteq> []" by (auto simp: list_all_iff list_ex_iff)
    then show ?thesis using True by (cases rs; cases "hd rs") (auto simp: f find_outcome_def Let_def)
  next
    case False
    then have "rs = [] \<or> list_ex (\<lambda>r. \<not> isl r) rs"
      by (cases rs) (auto simp: list_ex_iff filter_empty_conv)
    then show ?thesis using False out m by (auto simp: f find_outcome_def Let_def merge_results_answered)
  qed
qed

definition latin1 :: "u8 list \<Rightarrow> string" where "latin1 = map (\<lambda>b. char_of (unat b))"

lemma injective_latin1: "injective_encoding latin1"
proof -
  have "b = c" if "char_of (unat b) = (char_of (unat c) :: char)" for b c :: u8
  proof -
    have "of_char (char_of (unat b) :: char) = (of_char (char_of (unat c) :: char) :: nat)" using that by simp
    then have "unat b mod 256 = unat c mod 256" by simp
    moreover have "unat b < 256" "unat c < 256" using unsigned_less [of b] unsigned_less [of c] by simp_all
    ultimately have "unat b = unat c" by simp
    then show ?thesis by (rule unsigned_word_eqI)
  qed
  then have "inj (\<lambda>b :: u8. char_of (unat b) :: char)" by (rule injI)
  then have "inj latin1" unfolding latin1_def by (rule inj_mapI)
  then show ?thesis unfolding injective_encoding_def by (simp add: inj_eq)
qed

definition two_sources :: "peer_info list sources" where
  "two_sources = [(mock_discovery, [sample_peer 1 8 0]), (mock_discovery, [sample_peer 1 9 0, sample_peer 2 9 0])]"

lemma composite_find_correct_witness:
  "case snd (composite_find_peers latin1 ''m'' 5 two_sources) of Inl e \<Rightarrow> False | Inr ps \<Rightarrow> distinct (map node_id ps)"
proof -
  have "\<not> list_all isl (map (\<lambda>(d, s). snd (d_find_peers d ''m'' 5 s)) two_sources)"
    by (simp add: two_sources_def mock_discovery_def mock_find_peers_def)
  then show ?thesis
    using composite_find_correct [OF injective_latin1 refl, of "''m''" 5 two_sources]
    by (cases "snd (composite_find_peers latin1 ''m'' 5 two_sources)") simp_all
qed

lemma composite_register_outcome:
  "register_outcome rs = Inr () \<longleftrightarrow> rs = [] \<or> list_ex (\<lambda>r. \<not> isl r) rs"
proof -
  have "fold (\<lambda>r acc. case r of Inl e \<Rightarrow> Some e | Inr _ \<Rightarrow> acc) rs a = None \<longleftrightarrow> a = None \<and> (\<forall>r \<in> set rs. \<not> isl r)"
    for a :: "mesh_error option"
    by (induction rs arbitrary: a) (auto split: sum.splits)
  then show ?thesis
    by (cases rs) (auto simp: register_outcome_def Let_def list_ex_iff split: option.splits bool.splits)
qed

end
