(* ===== verification/Tensor.thy ===== *)
theory Tensor
  imports Wire
begin

unbundle bit_operations_syntax

section \<open>Tensor conversion and compression for transfer\<close>

text \<open>
  \<open>crates/hivebear-mesh/src/transport/tensor_transfer.rs\<close> and \<open>compression.rs\<close>.  A float is its bit pattern.
\<close>

definition f16_from_f32 :: "f32_bits \<Rightarrow> u16" where
  "f16_from_f32 bits =
    (let sign = drop_bit 16 bits AND 0x8000;
         exponent = uint (drop_bit 23 bits AND 0xFF);
         mantissa = bits AND 0x7FFFFF
     in if exponent = 0xFF then
          (if mantissa \<noteq> 0 then ucast (sign OR 0x7E00) else ucast (sign OR 0x7C00))
        else (let new_exp = exponent - 127 + 15 in
          if 31 \<le> new_exp then ucast (sign OR 0x7C00)
          else if new_exp \<le> 0 then
            (if new_exp < -10 then ucast sign
             else (let m = drop_bit (nat (1 - new_exp)) (mantissa OR 0x800000) in ucast (sign OR drop_bit 13 m)))
          else ucast (sign OR push_bit 10 (word_of_int new_exp) OR drop_bit 13 mantissa)))"

text \<open>The loop that shifts a mantissa until bit 10 is set: it need not end, so its result is an option.\<close>

partial_function (option) normalise :: "u32 \<Rightarrow> u32 \<Rightarrow> (u32 \<times> u32) option" where
  [code]: "normalise m e = (if m AND 0x400 = 0 then normalise (push_bit 1 m) (e + 1) else Some (m, e))"

definition f32_from_f16 :: "u16 \<Rightarrow> f32_bits option" where
  "f32_from_f16 h =
    (let sign = push_bit 16 (ucast (h AND 0x8000));
         exponent = ucast (drop_bit 10 h AND 0x1F) :: u32;
         mantissa = ucast (h AND 0x3FF) :: u32
     in if exponent = 0 then
          (if mantissa = 0 then Some sign
           else (case normalise mantissa 1 of
               Some (m, e) \<Rightarrow> Some (sign OR push_bit 23 (127 - 15 + 1 - e) OR push_bit 13 (m AND 0x3FF))
             | None \<Rightarrow> None))
        else if exponent = 31 then
          (if mantissa = 0 then Some (sign OR 0x7F800000) else Some (sign OR 0x7FC00000))
        else Some (sign OR push_bit 23 (exponent + 127 - 15) OR push_bit 13 mantissa))"

definition chunk2 :: "u8 list \<Rightarrow> u16" where
  "chunk2 bs = ucast (bs ! 0) OR push_bit 8 (ucast (bs ! 1))"

definition chunk4 :: "u8 list \<Rightarrow> u32" where
  "chunk4 bs = ucast (bs ! 0) OR push_bit 8 (ucast (bs ! 1)) OR push_bit 16 (ucast (bs ! 2)) OR push_bit 24 (ucast (bs ! 3))"

definition le2 :: "u16 \<Rightarrow> u8 list" where
  "le2 w = [ucast w, ucast (drop_bit 8 w)]"

definition le4 :: "u32 \<Rightarrow> u8 list" where
  "le4 w = [ucast w, ucast (drop_bit 8 w), ucast (drop_bit 16 w), ucast (drop_bit 24 w)]"

text \<open>Whole chunks only: bytes that do not fill a chunk are dropped.\<close>

fun f32_to_f16 :: "u8 list \<Rightarrow> u8 list" where
  "f32_to_f16 (a # b # c # d # rest) = le2 (f16_from_f32 (chunk4 [a, b, c, d])) @ f32_to_f16 rest"
| "f32_to_f16 _ = []"

fun f16_to_f32 :: "u8 list \<Rightarrow> u8 list option" where
  "f16_to_f32 (a # b # rest) = (case f32_from_f16 (chunk2 [a, b]) of None \<Rightarrow> None
     | Some f \<Rightarrow> map_option ((@) (le4 f)) (f16_to_f32 rest))"
| "f16_to_f32 _ = Some []"

definition convert_for_transfer :: "u8 list \<Rightarrow> tensor_dtype \<Rightarrow> tensor_dtype \<Rightarrow> u8 list option" where
  "convert_for_transfer data src target =
    (if src = target then Some data
     else (case (src, target) of
         (F32, F16) \<Rightarrow> Some (f32_to_f16 data)
       | (F16, F32) \<Rightarrow> f16_to_f32 data
       | _ \<Rightarrow> Some data))"

definition select_transfer_dtype :: "string \<Rightarrow> tensor_dtype \<Rightarrow> tensor_dtype" where
  "select_transfer_dtype config src =
    (if config = ''f16'' then F16 else if config = ''f32'' then F32
     else if src = F32 then F16 else src)"

subsection \<open>Compression\<close>

text \<open>The codecs of \<open>lz4_flex\<close> and \<open>zstd\<close>.\<close>

record codecs =
  lz4_compress :: "u8 list \<Rightarrow> u8 list"
  lz4_decompress :: "u8 list \<Rightarrow> (string, u8 list) result"
  zstd_encode :: "int \<Rightarrow> u8 list \<Rightarrow> (string, u8 list) result"
  zstd_decode :: "u8 list \<Rightarrow> (string, u8 list) result"

definition compress :: "codecs \<Rightarrow> u8 list \<Rightarrow> compression_method \<Rightarrow> u8 list mesh_result" where
  "compress c data m = (case m of
     CompNone \<Rightarrow> Inr data
   | Lz4 \<Rightarrow> Inr (lz4_compress c data)
   | Zstd lv \<Rightarrow> (case zstd_encode c (uint lv) data of
       Inl e \<Rightarrow> Inl (Compression (''Zstd compression failed: '' @ e)) | Inr out \<Rightarrow> Inr out))"

definition decompress :: "codecs \<Rightarrow> u8 list \<Rightarrow> compression_method \<Rightarrow> u8 list mesh_result" where
  "decompress c data m = (case m of
     CompNone \<Rightarrow> Inr data
   | Lz4 \<Rightarrow> (case lz4_decompress c data of
       Inl e \<Rightarrow> Inl (Compression (''Lz4 decompression failed: '' @ e)) | Inr out \<Rightarrow> Inr out)
   | Zstd lv \<Rightarrow> (case zstd_decode c data of
       Inl e \<Rightarrow> Inl (Compression (''Zstd decompression failed: '' @ e)) | Inr out \<Rightarrow> Inr out))"

definition select_compression :: "usize \<Rightarrow> f64 \<Rightarrow> compression_method" where
  "select_compression data_size bandwidth_mbps =
    (if data_size < 4096 then CompNone
     else if Fin 1000 < bandwidth_mbps then CompNone
     else if bandwidth_mbps < Fin 100 then Zstd 3
     else Lz4)"

text \<open>What the crates document: decoding returns what was encoded, at any level.\<close>

definition lossless :: "codecs \<Rightarrow> bool" where
  "lossless c \<longleftrightarrow> (\<forall>d. lz4_decompress c (lz4_compress c d) = Inr d) \<and>
     (\<forall>l d out. zstd_encode c l d = Inr out \<longrightarrow> zstd_decode c out = Inr d)"

lemma compress_decompress:
  "lossless c \<Longrightarrow> compress c data m = Inr out \<Longrightarrow> decompress c out m = Inr data"
  by (cases m) (auto simp: compress_def decompress_def lossless_def split: sum.splits)

subsection \<open>Words as fields\<close>

lemma or_shift: "b < 2 ^ n \<Longrightarrow> (a * 2 ^ n) OR b = a * 2 ^ n + b" for a b :: nat
proof -
  assume "b < 2 ^ n"
  then have b: "take_bit n b = b" by (simp add: take_bit_nat_eq_self_iff)
  have "push_bit n a AND take_bit n b = 0" by (rule bit_eqI) (auto simp: bit_simps)
  then show ?thesis using disjunctive_add_eq_or [of "push_bit n a" b] b by (simp add: push_bit_eq_mult)
qed

lemma and_single: "w AND 2 ^ n = (if bit w n then 2 ^ n else 0)" for w :: nat
  by (rule bit_eqI) (auto simp: bit_simps)

lemma and_low: "w AND (2 ^ n - 1) = w mod 2 ^ n" for w :: nat
  by (metis mask_eq_exp_minus_1 take_bit_eq_mask take_bit_eq_mod)

lemma unat_or: "unat (a OR b) = unat a OR unat b" for a b :: "'a::len word"
  by (simp add: unsigned_or_eq)

lemma unat_and: "unat (a AND b) = unat a AND unat b" for a b :: "'a::len word"
  by (simp add: unsigned_and_eq)

lemma unat_push: "unat (push_bit n w) = unat w * 2 ^ n mod 2 ^ LENGTH('a)" for w :: "'a::len word"
  unfolding unsigned_push_bit_eq by (simp only: push_bit_eq_mult take_bit_eq_mod)

lemma unat_drop: "unat (drop_bit n w) = unat w div 2 ^ n" for w :: "'a::len word"
  unfolding unat_drop_bit_eq by (simp only: drop_bit_eq_div)

lemma ucast_nat: "unat (ucast w :: 'b::len word) = unat w mod 2 ^ LENGTH('b)" for w :: "'a::len word"
  by (simp add: unsigned_ucast_eq take_bit_eq_mod)

lemma top_bit: "r < 2 ^ n \<Longrightarrow> s < 2 \<Longrightarrow> odd ((s * 2 ^ n + r) div 2 ^ n) \<longleftrightarrow> s = 1" for s r :: nat
  by (auto simp: less_2_cases_iff)

text \<open>The fields of the two float formats, read from the number of the pattern.\<close>

lemma f32_fields:
  fixes bits :: u32
  assumes "unat bits = s * 2 ^ 31 + e * 2 ^ 23 + x" "s < 2" "e < 256" "x < 2 ^ 23"
  shows "unat (drop_bit 16 bits AND 0x8000) = s * 2 ^ 15" "uint (drop_bit 23 bits AND 0xFF) = int e"
    "unat (bits AND 0x7FFFFF) = x"
proof -
  have ex: "e * 2 ^ 23 + x < 2 ^ 31" using assms(3,4) by simp
  have "odd (unat bits div 2 ^ 31) \<longleftrightarrow> s = 1"
    unfolding assms(1) using top_bit [OF ex assms(2)] by (simp only: add.assoc)
  then have "odd (unat bits div 2 ^ 16 div 2 ^ 15) \<longleftrightarrow> s = 1" by (simp add: div_mult2_eq [symmetric])
  then show "unat (drop_bit 16 bits AND 0x8000) = s * 2 ^ 15"
    using and_single [of "unat bits div 2 ^ 16" 15] assms(2) by (auto simp: unat_and unat_drop bit_iff_odd)
  have "unat bits div 2 ^ 23 = s * 2 ^ 8 + e" unfolding assms(1) using assms(4) by simp
  then have "unat bits div 2 ^ 23 mod 256 = e" using assms(3) by simp
  then have "unat (drop_bit 23 bits AND 0xFF) = e"
    using and_low [of "unat bits div 2 ^ 23" 8] by (simp add: unat_and unat_drop)
  then show "uint (drop_bit 23 bits AND 0xFF) = int e" by (simp add: uint_nat)
  have "unat bits = (s * 2 ^ 8 + e) * 2 ^ 23 + x" unfolding assms(1) by simp
  then have "unat bits mod 2 ^ 23 = x" using assms(4) by (simp only: mod_mult_self3 mod_less)
  then show "unat (bits AND 0x7FFFFF) = x"
    using and_low [of "unat bits" 23] by (simp add: unat_and)
qed

lemma u16_fields:
  fixes h :: u16
  assumes "unat h = s * 2 ^ 15 + e * 2 ^ 10 + m" "s < 2" "e < 32" "m < 2 ^ 10"
  shows "unat (h AND 0x8000) = s * 2 ^ 15" "unat (drop_bit 10 h AND 0x1F) = e" "unat (h AND 0x3FF) = m"
proof -
  have ex: "e * 2 ^ 10 + m < 2 ^ 15" using assms(3,4) by simp
  have "odd (unat h div 2 ^ 15) \<longleftrightarrow> s = 1"
    unfolding assms(1) using top_bit [OF ex assms(2)] by (simp only: add.assoc)
  then show "unat (h AND 0x8000) = s * 2 ^ 15"
    using and_single [of "unat h" 15] assms(2) by (auto simp: unat_and bit_iff_odd)
  have "unat h div 2 ^ 10 = s * 2 ^ 5 + e" unfolding assms(1) using assms(4) by simp
  then show "unat (drop_bit 10 h AND 0x1F) = e"
    using and_low [of "unat h div 2 ^ 10" 5] assms(3) by (simp add: unat_and unat_drop)
  have "unat h = (s * 2 ^ 5 + e) * 2 ^ 10 + m" unfolding assms(1) by simp
  then have "unat h mod 2 ^ 10 = m" using assms(4) by (simp only: mod_mult_self3 mod_less)
  then show "unat (h AND 0x3FF) = m" using and_low [of "unat h" 10] by (simp add: unat_and)
qed

lemma split_u16:
  fixes h :: u16
  obtains s e m where "unat h = s * 2 ^ 15 + e * 2 ^ 10 + m" "s < 2" "e < 32" "m < 2 ^ 10"
proof
  have "unat h < 2 ^ 16" using unsigned_less [of h] by simp
  then show "unat h div 2 ^ 15 < 2" by (simp add: div_less_iff_less_mult)
  show "unat h div 2 ^ 10 mod 32 < 32" "unat h mod 2 ^ 10 < 2 ^ 10" by simp_all
  show "unat h = unat h div 2 ^ 15 * 2 ^ 15 + unat h div 2 ^ 10 mod 32 * 2 ^ 10 + unat h mod 2 ^ 10"
    using mod_mult2_eq [of "unat h" "2 ^ 10" 32] div_mult_mod_eq [of "unat h" "2 ^ 15"] by simp
qed

lemma pack3: "b < 2 ^ k \<Longrightarrow> c < 2 ^ n \<Longrightarrow> n \<le> j \<Longrightarrow> (a * 2 ^ (j + k)) OR (b * 2 ^ j) OR c = a * 2 ^ (j + k) + b * 2 ^ j + c"
  for a b c :: nat
proof -
  assume b: "b < 2 ^ k" and c: "c < 2 ^ n" "n \<le> j"
  have "c < 2 ^ j" using c(1) power_increasing [OF c(2), of "2 :: nat"] by linarith
  then have bc: "(b * 2 ^ j) OR c = b * 2 ^ j + c" by (rule or_shift)
  have "b * 2 ^ j + c < (b + 1) * 2 ^ j" using \<open>c < 2 ^ j\<close> by simp
  also have "\<dots> \<le> 2 ^ k * 2 ^ j" using b by (intro mult_right_mono) auto
  finally have "b * 2 ^ j + c < 2 ^ (j + k)" by (simp add: power_add mult.commute)
  then show ?thesis using or_shift [of "b * 2 ^ j + c" "j + k" a] bc by (simp add: or.assoc add.assoc)
qed

lemma ucast_le16: "unat w < 2 ^ 16 \<Longrightarrow> unat (ucast w :: u16) = unat w" for w :: u32
  by (simp add: ucast_nat)

lemma f16_from_f32_normal:
  assumes b: "unat bits = s * 2 ^ 31 + e * 2 ^ 23 + x" "s < 2" "x < 2 ^ 23" and e: "112 < e" "e < 143"
  shows "unat (f16_from_f32 bits) = s * 2 ^ 15 + (e - 112) * 2 ^ 10 + x div 2 ^ 13"
proof -
  have e256: "e < 256" using e by simp
  note f = f32_fields [OF b(1,2) e256 b(3)]
  define ne where "ne = e - 112"
  have ne: "int e - 127 + 15 = int ne" "ne < 31" "0 < ne" using e by (auto simp: ne_def)
  have x: "x div 2 ^ 13 < 2 ^ 10" using b(3) by (simp add: div_less_iff_less_mult)
  define sg mt where "sg = drop_bit 16 bits AND 0x8000" and "mt = bits AND 0x7FFFFF"
  have u: "unat (sg OR push_bit 10 (word_of_int (int ne)) OR drop_bit 13 mt) = s * 2 ^ 15 + ne * 2 ^ 10 + x div 2 ^ 13"
    using pack3 [of ne 5 "x div 2 ^ 13" 10 10 s] ne x f
    by (simp add: unat_or unat_push unat_drop unat_of_nat sg_def [symmetric] mt_def [symmetric] or.assoc)
  have "s * 2 ^ 15 + ne * 2 ^ 10 + x div 2 ^ 13 < 2 ^ 16" using b(2) ne x by simp
  then show ?thesis using u ne f(2) unfolding f16_from_f32_def Let_def sg_def [symmetric] mt_def [symmetric]
    by (simp add: ucast_le16)
qed

lemma f16_from_f32_small:
  assumes b: "unat bits = s * 2 ^ 31 + e * 2 ^ 23 + x" "s < 2" "x < 2 ^ 23" and e: "102 \<le> e" "e \<le> 112"
  shows "unat (f16_from_f32 bits) = s * 2 ^ 15 + (2 ^ 23 + x) div 2 ^ (113 - e) div 2 ^ 13"
proof -
  have e256: "e < 256" using e by simp
  note f = f32_fields [OF b(1,2) e256 b(3)]
  define sg mt where "sg = drop_bit 16 bits AND 0x8000" and "mt = bits AND 0x7FFFFF"
  have o: "unat (mt OR 0x800000) = 2 ^ 23 + x"
    using or_shift [OF b(3), of 1] f(3) by (simp add: unat_or mt_def or.commute)
  have "(2 ^ 23 + x) div 2 ^ (113 - e) < 2 ^ 24" using b(3) by (intro le_less_trans [OF div_le_dividend]) simp
  moreover have "A < 2 ^ 24 \<Longrightarrow> A div 2 ^ 13 < 2 ^ 15" for A :: nat by (simp add: less_mult_imp_div_less)
  ultimately have small: "(2 ^ 23 + x) div 2 ^ (113 - e) div 2 ^ 13 < 2 ^ 15" by blast
  have n: "nat (1 - (int e - 127 + 15)) = 113 - e" using e by simp
  have u: "unat (sg OR drop_bit 13 (drop_bit (113 - e) (mt OR 0x800000))) =
      s * 2 ^ 15 + (2 ^ 23 + x) div 2 ^ (113 - e) div 2 ^ 13"
    unfolding unat_or [of sg] unat_drop o using or_shift [OF small, of s] f(1) by (simp add: sg_def)
  have "s * 2 ^ 15 + (2 ^ 23 + x) div 2 ^ (113 - e) div 2 ^ 13 < 2 ^ 16" using b(2) small by simp
  then have c: "unat (ucast (sg OR drop_bit 13 (drop_bit (113 - e) (mt OR 0x800000))) :: u16) =
      s * 2 ^ 15 + (2 ^ 23 + x) div 2 ^ (113 - e) div 2 ^ 13"
    using u by (simp only: ucast_le16)
  have "\<not> 31 \<le> int e - 127 + 15" "int e - 127 + 15 \<le> 0" "\<not> int e - 127 + 15 < - 10" "int e \<noteq> 255" using e by auto
  then show ?thesis unfolding f16_from_f32_def Let_def sg_def [symmetric] mt_def [symmetric] f(2) n
    by (simp only: if_False if_True c)
qed

lemma f16_from_f32_zero:
  assumes "unat bits = s * 2 ^ 31" "s < 2"
  shows "unat (f16_from_f32 bits) = s * 2 ^ 15"
  using f32_fields [where bits = bits and s = s and e = 0 and x = 0] assms by (simp add: f16_from_f32_def Let_def ucast_le16)

lemma f16_from_f32_special:
  assumes "unat bits = s * 2 ^ 31 + 255 * 2 ^ 23 + x" "s < 2" "x < 2 ^ 23"
  shows "unat (f16_from_f32 bits) = s * 2 ^ 15 + (if x = 0 then 0x7C00 else 0x7E00)"
proof -
  note f = f32_fields [OF assms(1,2) _ assms(3)]
  have z: "bits AND 0x7FFFFF = 0 \<longleftrightarrow> x = 0" using f(3) by (simp add: unat_eq_0 [symmetric])
  have "unat ((drop_bit 16 bits AND 0x8000) OR 0x7C00) = s * 2 ^ 15 + 0x7C00"
    "unat ((drop_bit 16 bits AND 0x8000) OR 0x7E00) = s * 2 ^ 15 + 0x7E00"
    using or_shift [of "0x7C00" 15 s] or_shift [of "0x7E00" 15 s] by (simp_all add: unat_or f)
  then show ?thesis using assms(2) f(2) z by (simp add: f16_from_f32_def Let_def ucast_le16)
qed

subsection \<open>The normalisation loop returns\<close>

lemma normalise_shift:
  "2 ^ 10 \<le> unat m * 2 ^ k \<Longrightarrow> unat m * 2 ^ k < 2 ^ 11 \<Longrightarrow>
    normalise m e = Some (push_bit k m, e + of_nat k)"
proof (induction k arbitrary: m e)
  case 0
  have "unat m div 2 ^ 10 = 1" by (rule div_nat_eqI) (use 0 in simp_all)
  then have "bit (unat m) 10" by (simp add: bit_iff_odd)
  then have "m AND 0x400 \<noteq> 0" using and_single [of "unat m" 10] by (auto simp: unat_and dest: arg_cong [of _ _ unat])
  then show ?case by (simp add: normalise.simps)
next
  case (Suc k)
  have lt: "unat m < 2 ^ 10"
  proof (rule ccontr)
    assume "\<not> unat m < 2 ^ 10"
    then have "2 ^ 10 * 2 \<le> unat m * 2 ^ Suc k" by (intro mult_le_mono) auto
    then show False using Suc.prems(2) by simp
  qed
  then have "\<not> bit (unat m) 10" by (simp add: bit_iff_odd)
  then have z: "m AND 0x400 = 0" using and_single [of "unat m" 10] by (simp add: unat_eq_0 [symmetric] unat_and)
  have p: "unat (push_bit 1 m) = unat m * 2" unfolding unat_push using lt by simp
  show ?case using Suc.IH [of "push_bit 1 m" "e + 1"] Suc.prems p z
    by (subst normalise.simps) (simp add: algebra_simps)
qed

lemma normalise_shift_exists:
  fixes m :: nat
  assumes "0 < m" "m < 2 ^ 10"
  obtains k where "2 ^ 10 \<le> m * 2 ^ k" "m * 2 ^ k < 2 ^ 11" "0 < k" "k \<le> 10"
proof -
  define k where "k = (LEAST k. 2 ^ 10 \<le> m * 2 ^ k)"
  have ten: "2 ^ 10 \<le> m * 2 ^ 10" using assms(1) by simp
  have k: "2 ^ 10 \<le> m * 2 ^ k" "k \<le> 10" unfolding k_def by (rule LeastI [where P = "\<lambda>k. 2 ^ 10 \<le> m * 2 ^ k", OF ten], rule Least_le [where P = "\<lambda>k. 2 ^ 10 \<le> m * 2 ^ k", OF ten])
  then have "k \<noteq> 0" using assms(2) by (cases k) auto
  then obtain j where j: "k = Suc j" by (cases k) auto
  then have "\<not> 2 ^ 10 \<le> m * 2 ^ j" using not_less_Least [of j "\<lambda>k. 2 ^ 10 \<le> m * 2 ^ k"] by (simp add: k_def)
  then have "m * 2 ^ k < 2 ^ 11" using j by simp
  then show thesis using k \<open>k \<noteq> 0\<close> by (intro that [of k]) auto
qed

subsection \<open>From half precision and back\<close>

definition half_sign :: "u16 \<Rightarrow> u16" where "half_sign h = h AND 0x8000"
definition half_exponent :: "u16 \<Rightarrow> u16" where "half_exponent h = drop_bit 10 h AND 0x1F"
definition half_mantissa :: "u16 \<Rightarrow> u16" where "half_mantissa h = h AND 0x3FF"

lemma push_word: "unat w * 2 ^ n < 2 ^ 32 \<Longrightarrow> unat (push_bit n w) = unat w * 2 ^ n" for w :: u32
  unfolding unat_push by simp

lemma u32_of_u16: "unat (ucast w :: u32) = unat w" for w :: u16
proof -
  have "unat w < 2 ^ 16" using unsigned_less [of w] by simp
  then show ?thesis by (simp add: ucast_nat)
qed

lemma f32_from_f16_fields:
  fixes h :: u16
  assumes h: "unat h = s * 2 ^ 15 + e * 2 ^ 10 + m" "s < 2" "e < 32" "m < 2 ^ 10"
  shows "unat (push_bit 16 (ucast (h AND 0x8000) :: u32)) = s * 2 ^ 31"
    "(ucast (drop_bit 10 h AND 0x1F) :: u32) = of_nat e" "(ucast (h AND 0x3FF) :: u32) = of_nat m"
proof -
  note f = u16_fields [OF h]
  show "unat (push_bit 16 (ucast (h AND 0x8000) :: u32)) = s * 2 ^ 31"
    using f(1) h(2) by (subst push_word) (auto simp: u32_of_u16)
  show "(ucast (drop_bit 10 h AND 0x1F) :: u32) = of_nat e" "(ucast (h AND 0x3FF) :: u32) = of_nat m"
    using f(2,3) u32_of_u16 [of "drop_bit 10 h AND 0x1F"] u32_of_u16 [of "h AND 0x3FF"]
    by (simp_all add: unat_inj_word [symmetric] unat_of_nat h(3) less_trans [OF h(4)] less_trans [OF h(3)])
qed

lemma pack_f32:
  fixes sg m :: u32
  assumes "unat sg = s * 2 ^ 31" "s < 2" "e < 256" "unat m < 2 ^ 10"
  shows "unat (sg OR push_bit 23 (of_nat e) OR push_bit 13 m) = s * 2 ^ 31 + e * 2 ^ 23 + unat m * 2 ^ 13"
proof -
  have e: "unat (of_nat e :: u32) = e" using assms(3) by (simp add: unat_of_nat)
  have "unat (push_bit 23 (of_nat e :: u32)) = e * 2 ^ 23" using assms(3) e by (subst push_word) auto
  moreover have "unat (push_bit 13 m) = unat m * 2 ^ 13" using assms(4) by (subst push_word) auto
  ultimately show ?thesis
    using pack3 [of e 8 "unat m * 2 ^ 13" 23 23 s] assms by (simp only: unat_or) (simp add: or.assoc)
qed

lemma half_normal:
  assumes h: "unat h = s * 2 ^ 15 + e * 2 ^ 10 + m" "s < 2" "e < 32" "m < 2 ^ 10" and e: "0 < e" "e < 31"
  shows "map_option f16_from_f32 (f32_from_f16 h) = Some h"
proof -
  note f = f32_from_f16_fields [OF h]
  have um: "unat (of_nat m :: u32) = m" using h(4) by (simp add: unat_of_nat)
  have ez: "(of_nat e :: u32) \<noteq> 0" "(of_nat e :: u32) \<noteq> 31"
    using e by (auto dest!: arg_cong [of _ _ unat] simp: unat_of_nat)
  define sg where "sg = push_bit 16 (ucast (h AND 0x8000) :: u32)"
  define w where "w = (sg OR push_bit 23 (of_nat e + 127 - 15) OR push_bit 13 (of_nat m) :: u32)"
  have "w = sg OR push_bit 23 (of_nat (e + 112)) OR push_bit 13 (of_nat m)" by (simp add: w_def add.commute)
  then have "unat w = s * 2 ^ 31 + (e + 112) * 2 ^ 23 + m * 2 ^ 13"
    using pack_f32 [of sg s "e + 112" "of_nat m"] f(1) h e um by (simp add: sg_def)
  then have "unat (f16_from_f32 w) = s * 2 ^ 15 + (e + 112 - 112) * 2 ^ 10 + m * 2 ^ 13 div 2 ^ 13"
    using h e by (intro f16_from_f32_normal) auto
  then have "unat (f16_from_f32 w) = unat h" unfolding h(1) by simp
  then have "f16_from_f32 w = h" by (rule unsigned_word_eqI)
  moreover have "f32_from_f16 h = Some w"
    unfolding f32_from_f16_def Let_def f(2,3) sg_def [symmetric] w_def using ez by simp
  ultimately show ?thesis by simp
qed

lemma half_subnormal:
  assumes h: "unat h = s * 2 ^ 15 + m" "s < 2" "0 < m" "m < 2 ^ 10"
  shows "\<exists>w. f32_from_f16 h = Some w \<and> unat (f16_from_f32 w) = s * 2 ^ 15 + m div 2"
proof -
  have h': "unat h = s * 2 ^ 15 + 0 * 2 ^ 10 + m" "(0::nat) < 32" using h(1) by simp_all
  note f = f32_from_f16_fields [OF h'(1) h(2) h'(2) h(4)]
  obtain k where k: "2 ^ 10 \<le> m * 2 ^ k" "m * 2 ^ k < 2 ^ 11" "0 < k" "k \<le> 10"
    by (rule normalise_shift_exists [OF h(3,4)])
  have um: "unat (of_nat m :: u32) = m" using h(4) by (simp add: unat_of_nat)
  have mz: "(of_nat m :: u32) \<noteq> 0" using h(3) um by auto
  have n: "normalise (of_nat m) 1 = Some (push_bit k (of_nat m), 1 + of_nat k)"
    by (rule normalise_shift) (use k um in simp_all)
  define M where "M = m * 2 ^ k - 2 ^ 10"
  have M: "m * 2 ^ k = M + 2 ^ 10" "M < 2 ^ 10" using k(1,2) by (auto simp: M_def)
  have up: "unat (push_bit k (of_nat m :: u32)) = M + 2 ^ 10"
    using push_word [of "of_nat m" k] k(2) M(1) um by simp
  have uM: "unat (push_bit k (of_nat m :: u32) AND 0x3FF) = M"
    using and_low [of "M + 2 ^ 10" 10] M(2) unfolding unat_and up by simp
  define sg where "sg = push_bit 16 (ucast (h AND 0x8000) :: u32)"
  define w where "w = (sg OR push_bit 23 (of_nat (112 - k)) OR push_bit 13 (push_bit k (of_nat m) AND 0x3FF) :: u32)"
  have e: "(127 - 15 + 1 - (1 + of_nat k) :: u32) = of_nat (112 - k)" using k(4) by (simp add: of_nat_diff)
  have r: "f32_from_f16 h = Some w"
  proof -
    have "(ucast (drop_bit 10 h AND 0x1F) :: u32) = 0" using f(2) by simp
    then show ?thesis unfolding f32_from_f16_def Let_def f(3) sg_def [symmetric]
      using mz by (simp only: n option.case prod.case e if_True if_False simp_thms w_def)
  qed
  have "unat w = s * 2 ^ 31 + (112 - k) * 2 ^ 23 + M * 2 ^ 13"
    unfolding w_def using pack_f32 [of sg s "112 - k" "push_bit k (of_nat m) AND 0x3FF"] f(1) h(2) uM M(2) k(4)
    by (simp add: uM sg_def)
  then have "unat (f16_from_f32 w) = s * 2 ^ 15 + (2 ^ 23 + M * 2 ^ 13) div 2 ^ (113 - (112 - k)) div 2 ^ 13"
    using h(2) M(2) k(3,4) by (intro f16_from_f32_small) auto
  also have "2 ^ 23 + M * 2 ^ 13 = m * 2 ^ 12 * 2 ^ (k + 1)" using M(1) by (simp add: algebra_simps)
  also have "113 - (112 - k) = k + 1" using k(4) by simp
  also have "m * 2 ^ 12 * 2 ^ (k + 1) div 2 ^ (k + 1) div 2 ^ 13 = m div 2"
  proof -
    have "m * 2 ^ 12 div (2 ^ 12 * 2) = m div 2" by (simp only: mult.commute [of m] div_mult_mult1) simp
    then show ?thesis by simp
  qed
  finally show ?thesis using r by blast
qed

text \<open>
  C10: Conversion from half to single precision always returns, and converting the result back gives the half
  it came from for every zero, normal number and infinity, and the quiet NaN of its sign for a NaN; but a
  subnormal comes back with half its mantissa, because its exponent is one too small in between.
\<close>
theorem half_roundtrip:
  "\<exists>w. f32_from_f16 h = Some w \<and> f16_from_f32 w =
     (if half_exponent h = 0 then half_sign h OR drop_bit 1 (half_mantissa h)
      else if half_exponent h = 31 \<and> half_mantissa h \<noteq> 0 then half_sign h OR 0x7E00 else h)"
proof -
  obtain s e m where h: "unat h = s * 2 ^ 15 + e * 2 ^ 10 + m" "s < 2" "e < 32" "m < 2 ^ 10" by (rule split_u16)
  note u = u16_fields [OF h] and f = f32_from_f16_fields [OF h]
  have ez: "half_exponent h = 0 \<longleftrightarrow> e = 0" "half_exponent h = 31 \<longleftrightarrow> e = 31" "half_mantissa h = 0 \<longleftrightarrow> m = 0"
    using u(2,3) by (auto simp: half_exponent_def half_mantissa_def unat_inj_word [symmetric])
  have e0: "(of_nat e :: u32) = 0 \<longleftrightarrow> e = 0" "(of_nat e :: u32) = 31 \<longleftrightarrow> e = 31" "(of_nat m :: u32) = 0 \<longleftrightarrow> m = 0"
    using h(3,4) by (auto simp: unat_inj_word [symmetric] unat_of_nat)
  consider "e = 0" "m = 0" | "e = 0" "0 < m" | "0 < e" "e < 31" | "e = 31" using h(3) by linarith
  then show ?thesis
  proof cases
    case 1
    define w where "w = push_bit 16 (ucast (h AND 0x8000) :: u32)"
    have "unat (f16_from_f32 w) = s * 2 ^ 15" using f(1) h(2) by (intro f16_from_f32_zero) (auto simp: w_def)
    then have "f16_from_f32 w = half_sign h" using u(1) by (simp add: half_sign_def unat_inj_word [symmetric])
    moreover have "f32_from_f16 h = Some w" unfolding f32_from_f16_def Let_def f(2,3) w_def using e0 1 by simp
    moreover have "half_mantissa h = 0" using ez 1 by simp
    ultimately show ?thesis using ez 1 by simp
  next
    case 2
    then obtain w where w: "f32_from_f16 h = Some w" "unat (f16_from_f32 w) = s * 2 ^ 15 + m div 2"
      using half_subnormal [of h s m] h by auto
    have "unat (half_sign h OR drop_bit 1 (half_mantissa h)) = s * 2 ^ 15 + m div 2"
      using or_shift [of "m div 2" 15 s] h(4) u(1,3)
      unfolding half_sign_def half_mantissa_def unat_or unat_drop by simp
    then have "f16_from_f32 w = half_sign h OR drop_bit 1 (half_mantissa h)" using w(2) by (simp add: unat_inj_word [symmetric])
    then show ?thesis using w(1) ez 2 by simp
  next
    case 3
    then show ?thesis using half_normal [OF h] ez by auto
  next
    case 4
    define sg where "sg = push_bit 16 (ucast (h AND 0x8000) :: u32)"
    define w where "w = (if m = 0 then sg OR 0x7F800000 else sg OR 0x7FC00000)"
    have r: "f32_from_f16 h = Some w"
      unfolding f32_from_f16_def Let_def f(2,3) sg_def [symmetric] w_def using e0 4 by simp
    have "unat w = s * 2 ^ 31 + 255 * 2 ^ 23 + (if m = 0 then 0 else 2 ^ 22)"
      using or_shift [of "0x7F800000" 31 s] or_shift [of "0x7FC00000" 31 s] f(1) by (simp add: w_def sg_def unat_or)
    then have "unat (f16_from_f32 w) = s * 2 ^ 15 + (if m = 0 then 0x7C00 else 0x7E00)"
      using f16_from_f32_special [of w s "if m = 0 then 0 else 2 ^ 22"] h(2) by (simp split: if_splits)
    moreover have "unat (half_sign h OR 0x7E00) = s * 2 ^ 15 + 0x7E00"
      using or_shift [of "0x7E00" 15 s] u(1) by (simp add: half_sign_def unat_or)
    ultimately have "f16_from_f32 w = (if m = 0 then h else half_sign h OR 0x7E00)"
      using h(1) 4 by (simp add: unat_inj_word [symmetric])
    then show ?thesis using r ez 4 by simp
  qed
qed

lemma f32_to_f16_length: "length (f32_to_f16 data) = 2 * (length data div 4)"
  by (induction data rule: f32_to_f16.induct) (simp_all add: le2_def)

text \<open>When the loop ends.\<close>

lemma and_bit_10: "m AND 0x400 = 0 \<longleftrightarrow> \<not> bit m 10" for m :: u32
  by (auto simp: bit_eq_iff bit_simps and_exp_eq_0_iff_not_bit [of m 10, simplified, symmetric])

lemma and_low_bits: "m AND 0x7FF \<noteq> 0 \<longleftrightarrow> (\<exists>i \<le> 10. bit m i)" for m :: u32
proof -
  have "m AND 0x7FF = take_bit 11 m" by (simp add: take_bit_eq_mask mask_numeral)
  then show ?thesis by (auto simp: bit_eq_iff bit_simps less_Suc_eq_le numeral_eq_Suc)
qed

lemma normalise_ends: "bit m i \<Longrightarrow> i \<le> 10 \<Longrightarrow> normalise m e \<noteq> None"
proof (induction "10 - i" arbitrary: i m e)
  case 0
  then have "m AND 0x400 \<noteq> 0" by (simp add: and_bit_10)
  then show ?case by (subst normalise.simps) simp
next
  case (Suc k)
  show ?case
  proof (cases "m AND 0x400 = 0")
    case True
    have "bit (push_bit 1 m) (Suc i)" using Suc.prems Suc.hyps(2) unfolding bit_push_bit_iff by (simp add: possible_bit_word)
    then have "normalise (push_bit 1 m) (e + 1) \<noteq> None" using Suc.hyps(1) [of "Suc i" "push_bit 1 m"] Suc.hyps(2) by simp
    then show ?thesis using True by (subst normalise.simps) simp
  qed (subst normalise.simps, simp)
qed

lemma normalise_loops: "normalise m e = Some r \<Longrightarrow> m AND 0x7FF \<noteq> 0"
proof (rule normalise.raw_induct [of "\<lambda>m e r. m AND 0x7FF \<noteq> 0", rotated], assumption)
  fix f :: "u32 \<Rightarrow> u32 \<Rightarrow> (u32 \<times> u32) option" and m e r
  assume IH: "\<And>m e r. f m e = Some r \<Longrightarrow> m AND 0x7FF \<noteq> 0" and r: "(if m AND 0x400 = 0 then f (push_bit 1 m) (e + 1) else Some (m, e)) = Some r"
  show "m AND 0x7FF \<noteq> 0"
  proof (cases "m AND 0x400 = 0")
    case True
    have "f (push_bit 1 m) (e + 1) = Some r" using r by (simp add: True)
    then have "push_bit 1 m AND 0x7FF \<noteq> 0" by (rule IH)
    from and_low_bits [THEN iffD1, OF this] obtain i where i: "i \<le> 10 \<and> bit (push_bit 1 m) i" ..
    then have "i - 1 \<le> 10 \<and> bit m (i - 1)" unfolding bit_push_bit_iff by auto
    then have "\<exists>i \<le> 10. bit m i" ..
    then show ?thesis by (rule and_low_bits [THEN iffD2])
  next
    case False
    then have "10 \<le> (10 :: nat) \<and> bit m 10" by (simp add: and_bit_10)
    then have "\<exists>i \<le> 10. bit m i" ..
    then show ?thesis by (rule and_low_bits [THEN iffD2])
  qed
qed

text \<open>
  C28: The normalisation loop ends for every mantissa with one of its low eleven bits set and only for these, so that every
  half-precision number is converted; with a mantissa of zero it would not end.
\<close>

theorem half_conversion_terminates:
  "f32_from_f16 h \<noteq> None \<and> (normalise m e \<noteq> None \<longleftrightarrow> m AND 0x7FF \<noteq> 0)"
proof -
  have n: "normalise m e \<noteq> None \<longleftrightarrow> m AND 0x7FF \<noteq> 0" for m e
    using normalise_ends normalise_loops and_low_bits by blast
  have c: "normalise (ucast (h AND 0x3FF)) 1 \<noteq> None" if z: "(ucast (h AND 0x3FF) :: u32) \<noteq> 0"
  proof -
    have m: "h AND 0x3FF = take_bit 10 h" by (simp add: take_bit_eq_mask mask_numeral)
    have "\<exists>i. bit (ucast (h AND 0x3FF) :: u32) i" using z by (rule contrapos_np) (rule bit_eqI, simp)
    then obtain i where i: "bit (ucast (h AND 0x3FF) :: u32) i" ..
    then have "i \<le> 10" unfolding m by (simp add: bit_simps)
    then show ?thesis using i by (rule normalise_ends [rotated])
  qed
  have "(ucast (h AND 0x3FF) :: u32) = 0 \<or> (\<exists>m e. normalise (ucast (h AND 0x3FF)) 1 = Some (m, e))"
    using c by (cases "normalise (ucast (h AND 0x3FF)) 1") (blast, metis prod.collapse)
  then have "f32_from_f16 h \<noteq> None"
    by (elim disjE exE) (simp_all only: f32_from_f16_def Let_def option.simps prod.case if_True not_False_eq_True simp_thms split: if_split)
  then show ?thesis using n by blast
qed

end
