(* ===== verification/NatTraversal.thy ===== *)
theory NatTraversal
  imports MeshTypes
begin

unbundle bit_operations_syntax

section \<open>NAT traversal\<close>

text \<open>
  \<open>crates/hivebear-mesh/src/nat\<close>: the STUN client (\<open>stun.rs\<close>), the connection strategy (\<open>mod.rs\<close>), hole punching
  and the relay client.  Sockets, name resolution, timers and the HTTP client are arguments; the parsing of a
  STUN response is the source's, and an index outside the 512 byte buffer is the outcome \<open>StunPanic\<close>.
\<close>

subsection \<open>STUN\<close>

datatype stun_outcome = StunAddr socket_addr | StunError mesh_error | StunPanic

definition be16 :: "u16 \<Rightarrow> u8 list" where
  "be16 w = [ucast (drop_bit 8 w), ucast w]"

definition be32 :: "u32 \<Rightarrow> u8 list" where
  "be32 w = [ucast (drop_bit 24 w), ucast (drop_bit 16 w), ucast (drop_bit 8 w), ucast w]"

definition u16_be :: "u8 \<Rightarrow> u8 \<Rightarrow> u16" where
  "u16_be a b = push_bit 8 (ucast a) OR ucast b"

definition u32_be :: "u8 \<Rightarrow> u8 \<Rightarrow> u8 \<Rightarrow> u8 \<Rightarrow> u32" where
  "u32_be a b c d = push_bit 24 (ucast a) OR push_bit 16 (ucast b) OR push_bit 8 (ucast c) OR ucast d"

definition magic_cookie :: u32 where "magic_cookie = 0x2112A442"

definition stun_request :: "u8 list \<Rightarrow> u8 list" where
  "stun_request txn_id = be16 1 @ be16 0 @ be32 magic_cookie @ txn_id"

text \<open>One attribute that may hold an address: \<open>None\<close> when the loop goes on.\<close>

definition stun_attribute :: "u8 list \<Rightarrow> u16 \<Rightarrow> nat \<Rightarrow> nat \<Rightarrow> stun_outcome option" where
  "stun_attribute buf ty len start =
    (if ty = 0x20 \<and> 8 \<le> len then
       (if length buf \<le> start + 1 then Some StunPanic
        else if buf ! (start + 1) = 1 then
          (if length buf \<le> start + 7 then Some StunPanic
           else Some (StunAddr (SocketV4
             (u32_be (buf ! (start + 4)) (buf ! (start + 5)) (buf ! (start + 6)) (buf ! (start + 7)) XOR magic_cookie)
             (u16_be (buf ! (start + 2)) (buf ! (start + 3)) XOR 0x2112))))
        else None)
     else if ty = 1 \<and> 8 \<le> len then
       (if length buf \<le> start + 1 then Some StunPanic
        else if buf ! (start + 1) = 1 then
          (if length buf \<le> start + 7 then Some StunPanic
           else Some (StunAddr (SocketV4
             (u32_be (buf ! (start + 4)) (buf ! (start + 5)) (buf ! (start + 6)) (buf ! (start + 7)))
             (u16_be (buf ! (start + 2)) (buf ! (start + 3))))))
        else None)
     else None)"

definition no_mapped_address :: mesh_error where
  "no_mapped_address = NatTraversal ''No MAPPED-ADDRESS found in STUN response''"

function stun_attributes :: "u8 list \<Rightarrow> nat \<Rightarrow> nat \<Rightarrow> stun_outcome" where
  "stun_attributes buf attrs_end pos =
    (if pos + 4 \<le> attrs_end then
       (let ty = u16_be (buf ! pos) (buf ! (pos + 1));
            len = unat (u16_be (buf ! (pos + 2)) (buf ! (pos + 3)))
        in case stun_attribute buf ty len (pos + 4) of
             Some r \<Rightarrow> r
           | None \<Rightarrow> stun_attributes buf attrs_end (pos + 4 + (len + 3) div 4 * 4))
     else StunError no_mapped_address)"
  by pat_completeness auto
termination by (relation "measure (\<lambda>(buf, e, pos). e - pos)") auto

declare stun_attributes.simps [simp del]

text \<open>\<open>buf\<close> is the 512 byte buffer and \<open>n\<close> the number of bytes received.\<close>

definition parse_stun :: "u8 list \<Rightarrow> nat \<Rightarrow> stun_outcome" where
  "parse_stun buf n =
    (if n < 20 then StunError (NatTraversal ''STUN response too short'')
     else if u32_be (buf ! 4) (buf ! 5) (buf ! 6) (buf ! 7) \<noteq> magic_cookie then
       StunError (NatTraversal ''Invalid STUN magic cookie'')
     else stun_attributes buf (min (20 + unat (u16_be (buf ! 2) (buf ! 3))) n) 20)"

text \<open>The buffer after a datagram was received into it: longer datagrams are cut.\<close>

definition received :: "u8 list \<Rightarrow> u8 list \<times> nat" where
  "received dgram = (let d = take 512 dgram in (d @ replicate (512 - length d) 0, length d))"

record stun_env =
  resolved :: "socket_addr mesh_result"
  bound :: "(string, unit) result"
  sent_ok :: "(string, unit) result"
  reply :: "(string, u8 list) result option"

definition discover_external_addr :: "stun_env \<Rightarrow> stun_outcome" where
  "discover_external_addr e = (case resolved e of
     Inl err \<Rightarrow> StunError err
   | Inr _ \<Rightarrow> (case bound e of
       Inl m \<Rightarrow> StunError (NatTraversal (''Failed to bind UDP socket: '' @ m))
     | Inr _ \<Rightarrow> (case sent_ok e of
         Inl m \<Rightarrow> StunError (NatTraversal (''Failed to send STUN request: '' @ m))
       | Inr _ \<Rightarrow> (case reply e of
           None \<Rightarrow> StunError (NatTraversal ''STUN request timed out'')
         | Some (Inl m) \<Rightarrow> StunError (NatTraversal (''Failed to read STUN response: '' @ m))
         | Some (Inr dgram) \<Rightarrow> (case received dgram of (buf, n) \<Rightarrow> parse_stun buf n)))))"

definition resolve_stun_addr :: "(string \<Rightarrow> socket_addr option) \<Rightarrow> (string \<Rightarrow> (string, socket_addr list) result) \<Rightarrow>
    string \<Rightarrow> socket_addr mesh_result" where
  "resolve_stun_addr parse lookup_host server = (case parse server of
     Some a \<Rightarrow> Inr a
   | None \<Rightarrow> (case lookup_host server of
       Inl e \<Rightarrow> Inl (NatTraversal (''Failed to resolve STUN server '' @ [CHR 0x27] @ server @ [CHR 0x27] @ '': '' @ e))
     | Inr [] \<Rightarrow> Inl (NatTraversal (''No addresses found for STUN server '' @ [CHR 0x27] @ server @ [CHR 0x27]))
     | Inr (a # _) \<Rightarrow> Inr a))"

subsection \<open>Connection strategy\<close>

datatype signal_action = Connect | ConnectAck

record connection_signal =
  from_node :: node_id
  from_addr :: socket_addr
  cs_action :: signal_action

record nat_traversal =
  nt_external_addr :: "socket_addr option"
  nt_nat_type :: nat_type
  stun_servers :: "string list"
  relay_servers :: "string list"
  relay_enabled :: bool

datatype connection_strategy = Direct | HolePunch | RelayStrategy

definition new_nat_traversal :: "string list \<Rightarrow> string list \<Rightarrow> bool \<Rightarrow> nat_traversal" where
  "new_nat_traversal stun relays enabled = \<lparr>nt_external_addr = None, nt_nat_type = NatUnknown,
     stun_servers = stun, relay_servers = relays, relay_enabled = enabled\<rparr>"

text \<open>\<open>stun s\<close> is the outcome of the STUN client for the server \<open>s\<close>; a panic unwinds and leaves the state.\<close>

definition discover_addr :: "(string \<Rightarrow> stun_outcome) \<Rightarrow> nat_traversal \<Rightarrow> nat_traversal \<times> socket_addr option option" where
  "discover_addr stun t = (case stun_servers t of
     [] \<Rightarrow> (t, Some None)
   | s # _ \<Rightarrow> (case stun s of
       StunAddr a \<Rightarrow> (t\<lparr>nt_external_addr := Some a, nt_nat_type := NatUnknown\<rparr>, Some (Some a))
     | StunError e \<Rightarrow> (t, Some None)
     | StunPanic \<Rightarrow> (t, None)))"

definition connect_strategy :: "nat_traversal \<Rightarrow> connection_strategy" where
  "connect_strategy t =
    (if nt_nat_type t = Open then Direct
     else if nt_nat_type t \<noteq> Symmetric then HolePunch
     else if relay_enabled t \<and> relay_servers t \<noteq> [] then RelayStrategy
     else Direct)"

text \<open>\<open>connect\<close> is the result within the time limit, if there is one.\<close>

definition attempt_holepunch :: "(node_id \<Rightarrow> string) \<Rightarrow> (mesh_error \<Rightarrow> string) \<Rightarrow> (socket_addr \<Rightarrow> node_id mesh_result option) \<Rightarrow>
    peer_info \<Rightarrow> unit mesh_result" where
  "attempt_holepunch show_id show_error connect peer = (case connect (addr peer) of
     Some (Inr p) \<Rightarrow> Inr ()
   | Some (Inl e) \<Rightarrow> Inl (NatTraversal (''Hole punch to '' @ show_id (node_id peer) @ '' failed: '' @ show_error e))
   | None \<Rightarrow> Inl (NatTraversal (''Hole punch to '' @ show_id (node_id peer) @ '' timed out'')))"

subsection \<open>Relay\<close>

definition relay_url :: "string \<Rightarrow> string \<Rightarrow> string" where
  "relay_url server path = (if starts_with ''http'' server then server @ path else ''https://'' @ server @ path)"

text \<open>
  The HTTP client: a failed request, or the status, whether it is a success, and the body; \<open>parse_body\<close> reads the
  address field of the JSON body and \<open>parse_addr\<close> an address.
\<close>

definition allocate_relay :: "(string \<Rightarrow> (string, string \<times> bool \<times> string) result) \<Rightarrow> (string \<Rightarrow> (string, string) result) \<Rightarrow>
    (string \<Rightarrow> (string, socket_addr) result) \<Rightarrow> string list \<Rightarrow> socket_addr mesh_result" where
  "allocate_relay post parse_body parse_addr servers = (case servers of
     [] \<Rightarrow> Inl (Relay ''No relay servers configured'')
   | s # _ \<Rightarrow> (case post (relay_url s ''/allocate'') of
       Inl e \<Rightarrow> Inl (Relay (''Relay allocation request failed: '' @ e))
     | Inr (status, success, body) \<Rightarrow>
        (if \<not> success then Inl (Relay (''Relay allocation failed ('' @ status @ ''): '' @ body))
         else (case parse_body body of
            Inl e \<Rightarrow> Inl (Relay (''Failed to parse relay response: '' @ e))
          | Inr a \<Rightarrow> (case parse_addr a of
              Inl e \<Rightarrow> Inl (Relay (''Invalid relay address: '' @ e))
            | Inr sa \<Rightarrow> Inr sa)))))"

definition relay_available :: "(string \<Rightarrow> (string, string \<times> bool \<times> string) result) \<Rightarrow> string list \<Rightarrow> bool" where
  "relay_available get servers = (case servers of
     [] \<Rightarrow> False
   | s # _ \<Rightarrow> (case get (relay_url s ''/health'') of Inr (status, success, body) \<Rightarrow> success | Inl e \<Rightarrow> False))"

subsection \<open>Well-formed responses\<close>

definition stun_attr :: "u16 \<times> u8 list \<Rightarrow> u8 list" where
  "stun_attr = (\<lambda>(ty, val). be16 ty @ be16 (of_nat (length val)) @ val @ replicate ((length val + 3) div 4 * 4 - length val) 0)"

definition xor_mapped :: "u32 \<Rightarrow> u16 \<Rightarrow> u8 list" where
  "xor_mapped ip port = [0, 1] @ be16 (port XOR 0x2112) @ be32 (ip XOR magic_cookie)"

definition stun_response :: "u8 list \<Rightarrow> u8 list \<Rightarrow> u8 list" where
  "stun_response txn_id attrs = be16 0x0101 @ be16 (of_nat (length attrs)) @ be32 magic_cookie @ txn_id @ attrs"

lemma u16_be16 [simp]: "u16_be (ucast (drop_bit 8 w)) (ucast w) = w"
  by (rule bit_word_eqI) (auto simp: u16_be_def bit_simps)

lemma u32_be32 [simp]: "u32_be (ucast (drop_bit 24 w)) (ucast (drop_bit 16 w)) (ucast (drop_bit 8 w)) (ucast w) = w"
proof (rule bit_word_eqI)
  fix n assume "n < LENGTH(32)"
  then consider "n < 8" | "8 \<le> n" "n < 16" | "16 \<le> n" "n < 24" | "24 \<le> n" "n < 32" by fastforce
  then show "bit (u32_be (ucast (drop_bit 24 w)) (ucast (drop_bit 16 w)) (ucast (drop_bit 8 w)) (ucast w)) n = bit w n"
    by cases (auto simp: u32_be_def bit_simps)
qed

lemma length_be [simp]: "length (be16 w) = 2" "length (be32 v) = 4"
  by (simp_all add: be16_def be32_def)

lemma length_stun_attr: "length (stun_attr (ty, val)) = 4 + (length val + 3) div 4 * 4"
proof -
  have "length val \<le> (length val + 3) div 4 * 4" by presburger
  then show ?thesis by (simp add: stun_attr_def)
qed

lemma attr_header:
  assumes "buf = pre @ stun_attr (ty, val) @ rest" "length val < 2 ^ 16"
  shows "u16_be (buf ! length pre) (buf ! (length pre + 1)) = ty"
    "unat (u16_be (buf ! (length pre + 2)) (buf ! (length pre + 3))) = length val"
  using assms(2) by (simp_all add: assms(1) stun_attr_def be16_def nth_append unat_of_nat)

lemma skip_attribute:
  assumes "buf = pre @ stun_attr (ty, val) @ rest" "length val < 2 ^ 16" "ty \<noteq> 0x20" "ty \<noteq> 1" "length pre + 4 \<le> attrs_end"
  shows "stun_attributes buf attrs_end (length pre) = stun_attributes buf attrs_end (length (pre @ stun_attr (ty, val)))"
proof -
  note h = attr_header [OF assms(1,2)]
  have "stun_attribute buf ty (length val) (length pre + 4) = None"
    using assms(3,4) by (simp add: stun_attribute_def)
  then show ?thesis
    using assms(5) h by (subst stun_attributes.simps) (simp add: Let_def length_stun_attr add.assoc)
qed

lemma read_address:
  assumes "buf = pre @ stun_attr (0x20, xor_mapped ip port) @ rest" "length pre + 4 \<le> attrs_end"
  shows "stun_attributes buf attrs_end (length pre) = StunAddr (SocketV4 ip port)"
proof -
  have l: "length (xor_mapped ip port) = 8" by (simp add: xor_mapped_def)
  then have h: "u16_be (buf ! length pre) (buf ! (length pre + 1)) = 0x20"
    "unat (u16_be (buf ! (length pre + 2)) (buf ! (length pre + 3))) = 8"
    using attr_header [OF assms(1)] by simp_all
  have "stun_attribute buf 0x20 8 (length pre + 4) = Some (StunAddr (SocketV4 ip port))"
  proof -
    define x p where "x = ip XOR magic_cookie" and "p = port XOR 0x2112"
    have "x XOR magic_cookie = ip" "p XOR 0x2112 = port" by (simp_all add: x_def p_def xor.assoc)
    then show ?thesis
      by (simp add: stun_attribute_def assms(1) stun_attr_def xor_mapped_def x_def [symmetric] p_def [symmetric]
          be16_def be32_def nth_append)
  qed
  then show ?thesis using assms(2) h by (subst stun_attributes.simps) (simp add: Let_def)
qed

lemma find_address:
  assumes "list_all (\<lambda>(ty, val). ty \<noteq> 0x20 \<and> ty \<noteq> 1 \<and> length val < 2 ^ 16) others"
    "buf = pre @ concat (map stun_attr others) @ stun_attr (0x20, xor_mapped ip port) @ rest"
    "length (pre @ concat (map stun_attr others)) + 4 \<le> attrs_end"
  shows "stun_attributes buf attrs_end (length pre) = StunAddr (SocketV4 ip port)"
  using assms
proof (induction others arbitrary: pre)
  case Nil
  then show ?case using read_address [of buf pre ip port rest attrs_end] by simp
next
  case (Cons x others)
  obtain ty val where x: "x = (ty, val)" by (cases x)
  have "stun_attributes buf attrs_end (length pre) = stun_attributes buf attrs_end (length (pre @ stun_attr (ty, val)))"
    using Cons.prems by (intro skip_attribute) (auto simp: x)
  also have "\<dots> = StunAddr (SocketV4 ip port)"
    using Cons.prems by (intro Cons.IH) (auto simp: x)
  finally show ?case .
qed



text \<open>
  A response of 512 bytes whose last four are the header of an address attribute makes the parser index past its
  buffer: any host that answers the request ends the task with a panic.
\<close>
lemma stun_panics:
  "parse_stun (fst (received (be16 0x0101 @ be16 492 @ be32 magic_cookie @ replicate 12 0 @
     be16 0x8022 @ be16 484 @ replicate 484 0 @ be16 0x20 @ be16 8))) 512 = StunPanic"
  by code_simp

end
