(* ===== verification/Node.thy ===== *)
theory Node
  imports Reputation Discovery NatTraversal
begin

section \<open>The mesh node\<close>

text \<open>
  \<open>crates/hivebear-mesh/src/node.rs\<close>.  The discovery service is a source in the sense of the discovery
  theory with its state; the transport is the record \<open>net\<close> of what it answers.  \<open>connect p k a\<close> is the result of
  the \<open>k\<close>-th attempt for the record of the peer \<open>p\<close>, at the address \<open>a\<close>, with \<open>None\<close> when the time limit of
  the attempt passes first.
\<close>

record net =
  connect :: "node_id \<Rightarrow> nat \<Rightarrow> socket_addr \<Rightarrow> (mesh_error, node_id) result option"
  ping :: "node_id \<Rightarrow> mesh_error option"
  listen :: "socket_addr \<Rightarrow> unit mesh_result"
  stun_client :: "string \<Rightarrow> stun_outcome"
  relay_health :: "string list \<Rightarrow> bool"
  relay_alloc :: "peer_info \<Rightarrow> string list \<Rightarrow> socket_addr mesh_result"

type_synonym peer_table = "u8 list \<rightharpoonup> peer_info \<times> peer_state"

record 's mesh_node =
  local_id :: node_id
  peers :: peer_table
  reputation :: reputation_manager
  mn_tier :: mesh_tier
  own_external_addr :: "socket_addr option"
  mn_stun_servers :: "string list"
  mn_relay_servers :: "string list"
  registered :: bool
  local_info :: "peer_info option"
  start_error :: "string option"
  running :: bool
  source :: 's

definition new_node :: "node_id \<Rightarrow> reputation_manager \<Rightarrow> mesh_tier \<Rightarrow> 's \<Rightarrow> 's mesh_node" where
  "new_node nid rep t src = \<lparr>local_id = nid, peers = Map.empty, reputation = rep, mn_tier = t, own_external_addr = None,
     mn_stun_servers = [''stun.l.google.com:19302''], mn_relay_servers = [''relay.hivebear.com:3478''], registered = False,
     local_info = None, start_error = None, running = False, source = src\<rparr>"

definition node_key :: "node_id \<Rightarrow> u8 list" where "node_key n = key_bytes n"

subsection \<open>Registration\<close>

definition try_register :: "'s discovery \<Rightarrow> peer_info \<Rightarrow> 's mesh_node \<Rightarrow> 's mesh_node \<times> unit mesh_result" where
  "try_register d info n = (case d_register d info (source n) of (s, r) \<Rightarrow> (n\<lparr>source := s\<rparr>, r))"

text \<open>The address found by the first STUN server, if any; \<open>None\<close> when the STUN client panics.\<close>

definition stun_probe :: "net \<Rightarrow> 's mesh_node \<Rightarrow> socket_addr option option" where
  "stun_probe t n = (case mn_stun_servers n of [] \<Rightarrow> Some None
     | s # _ \<Rightarrow> (case stun_client t s of StunAddr a \<Rightarrow> Some (Some a) | StunError e \<Rightarrow> Some None | StunPanic \<Rightarrow> None))"

definition start :: "'s discovery \<Rightarrow> net \<Rightarrow> socket_addr \<Rightarrow> peer_info \<Rightarrow> 's mesh_node \<Rightarrow> ('s mesh_node \<times> unit mesh_result) option" where
  "start d t listen_addr info n = (case stun_probe t n of
     None \<Rightarrow> None
   | Some ext \<Rightarrow>
      (let n1 = (case ext of Some a \<Rightarrow> n\<lparr>own_external_addr := Some a\<rparr> | None \<Rightarrow> n);
           info1 = (case ext of Some a \<Rightarrow> info\<lparr>external_addr := Some a\<rparr> | None \<Rightarrow> info)
       in case listen t listen_addr of
            Inl e \<Rightarrow> Some (n1, Inl e)
          | Inr _ \<Rightarrow> (case try_register d info1 (n1\<lparr>running := True, local_info := Some info1\<rparr>) of
              (n2, r) \<Rightarrow> Some (n2\<lparr>registered := \<not> isl r\<rparr>, Inr ()))))"

definition start_background :: "(mesh_error \<Rightarrow> string) \<Rightarrow> 's discovery \<Rightarrow> net \<Rightarrow> socket_addr \<Rightarrow> peer_info \<Rightarrow> 's mesh_node \<Rightarrow>
    's mesh_node option" where
  "start_background show_error d t listen_addr info n =
    (case start d t listen_addr info (n\<lparr>running := True\<rparr>) of
       None \<Rightarrow> None
     | Some (n', Inr _) \<Rightarrow> Some n'
     | Some (n', Inl e) \<Rightarrow> Some (n'\<lparr>running := False,
         start_error := Some (''mesh transport failed to start: '' @ show_error e)\<rparr>))"

definition maintain_registration :: "'s discovery \<Rightarrow> 's mesh_node \<Rightarrow> 's mesh_node" where
  "maintain_registration d n =
    (let (n1, settled) = (if registered n then
           (case d_heartbeat d (source n) of
              (s, Inr _) \<Rightarrow> (n\<lparr>source := s\<rparr>, True)
            | (s, Inl e) \<Rightarrow> (n\<lparr>source := s, registered := False\<rparr>, False))
         else (n, False))
     in if settled then n1
        else (case local_info n1 of
            None \<Rightarrow> n1
          | Some info \<Rightarrow> (case try_register d info n1 of
              (n2, Inr _) \<Rightarrow> n2\<lparr>registered := True\<rparr>
            | (n2, Inl e) \<Rightarrow> n2)))"

subsection \<open>Health\<close>

definition linked_state :: "peer_state \<Rightarrow> bool" where
  "linked_state s = (case s of Connected \<Rightarrow> True | Active _ _ \<Rightarrow> True | _ \<Rightarrow> False)"

definition mark_disconnected :: "node_id \<Rightarrow> 's mesh_node \<Rightarrow> 's mesh_node" where
  "mark_disconnected p n = (case peers n (node_key p) of
     Some (info, _) \<Rightarrow> n\<lparr>peers := (peers n)(node_key p \<mapsto> (info, Disconnected))\<rparr> | None \<Rightarrow> n)"

definition ping_peer :: "net \<Rightarrow> node_id \<Rightarrow> 's mesh_node \<Rightarrow> 's mesh_node" where
  "ping_peer t p n = (case ping t p of Some e \<Rightarrow> mark_disconnected p n | None \<Rightarrow> n)"

text \<open>The ids are collected first, in the order \<open>ks\<close> of the table, then pinged one by one.\<close>

definition check_peer_health :: "net \<Rightarrow> u8 list list \<Rightarrow> 's mesh_node \<Rightarrow> 's mesh_node" where
  "check_peer_health t ks n =
    fold (ping_peer t) (map (\<lambda>(k, info, s). node_id info) (filter (\<lambda>(k, info, s). linked_state s) (entries ks (peers n)))) n"

subsection \<open>Connecting\<close>

definition connected_at :: "net \<Rightarrow> node_id \<Rightarrow> nat \<Rightarrow> socket_addr \<Rightarrow> node_id option" where
  "connected_at t p k a = (case connect t p k a of Some (Inr i) \<Rightarrow> Some i | _ \<Rightarrow> None)"

definition try_external :: "net \<Rightarrow> peer_info \<Rightarrow> node_id option" where
  "try_external t p = (case external_addr p of Some a \<Rightarrow> connected_at t (node_id p) 1 a | None \<Rightarrow> None)"

text \<open>Hole punching uses the advertised address; when it works, the target address is connected to once more.\<close>

definition try_holepunch :: "net \<Rightarrow> socket_addr option \<Rightarrow> peer_info \<Rightarrow> node_id option" where
  "try_holepunch t our_ext p =
    (if our_ext = None \<and> external_addr p = None then None
     else (case attempt_holepunch (\<lambda>_. []) (\<lambda>_. []) (connect t (node_id p) 2) p of
         Inr _ \<Rightarrow> connected_at t (node_id p) 3 (case external_addr p of Some a \<Rightarrow> a | None \<Rightarrow> addr p)
       | Inl e \<Rightarrow> None))"

definition try_relay :: "net \<Rightarrow> string list \<Rightarrow> peer_info \<Rightarrow> node_id option" where
  "try_relay t relays p =
    (if relays = [] \<or> \<not> relay_health t relays then None
     else (case relay_alloc t p relays of Inr a \<Rightarrow> connected_at t (node_id p) 4 a | Inl e \<Rightarrow> None))"

definition or_else :: "'a option \<Rightarrow> 'a option \<Rightarrow> 'a option" where
  "or_else x y = (case x of Some _ \<Rightarrow> x | None \<Rightarrow> y)"

definition connect_with_nat_traversal :: "(node_id \<Rightarrow> string) \<Rightarrow> net \<Rightarrow> 's mesh_node \<Rightarrow> peer_info \<Rightarrow> node_id mesh_result" where
  "connect_with_nat_traversal show_id t n p =
    (case or_else (connected_at t (node_id p) 0 (addr p)) (or_else (try_external t p)
        (or_else (try_holepunch t (own_external_addr n) p) (try_relay t (mn_relay_servers n) p))) of
       Some i \<Rightarrow> Inr i
     | None \<Rightarrow> Inl (Transport (''All connection strategies exhausted for peer '' @ show_id (node_id p))))"

definition discover_one :: "net \<Rightarrow> peer_info \<Rightarrow> 's mesh_node \<Rightarrow> 's mesh_node" where
  "discover_one t p n =
    (if node_id p = local_id n then n
     else if peers n (node_key (node_id p)) \<noteq> None then n
     else if is_banned (reputation n) (node_id p) then n
     else (case connect_with_nat_traversal (\<lambda>_. []) t n p of
         Inr i \<Rightarrow> n\<lparr>peers := (peers n)(node_key i \<mapsto> (p, Connected))\<rparr>
       | Inl e \<Rightarrow> n))"

definition discover_and_connect_peers :: "'s discovery \<Rightarrow> net \<Rightarrow> 's mesh_node \<Rightarrow> 's mesh_node" where
  "discover_and_connect_peers d t n = (case d_find_peers d [] 0 (source n) of
     (s, Inl e) \<Rightarrow> n\<lparr>source := s\<rparr>
   | (s, Inr ps) \<Rightarrow> fold (discover_one t) ps (n\<lparr>source := s\<rparr>))"

subsection \<open>Stopping and queries\<close>

definition stop :: "'s discovery \<Rightarrow> 's mesh_node \<Rightarrow> 's mesh_node \<times> unit mesh_result" where
  "stop d n = (case d_deregister d (source n) of
     (s, r) \<Rightarrow> (n\<lparr>running := False, peers := Map.empty, source := s\<rparr>, r))"

definition last_error :: "'s discovery \<Rightarrow> 's mesh_node \<Rightarrow> string option" where
  "last_error d n = (case start_error n of Some e \<Rightarrow> Some e | None \<Rightarrow> d_last_error d (source n))"

definition known_peer_count :: "u8 list list \<Rightarrow> 's mesh_node \<Rightarrow> usize" where
  "known_peer_count ks n = length (entries ks (peers n))"

definition peer_summary :: "u8 list list \<Rightarrow> 's mesh_node \<Rightarrow> (node_id \<times> peer_state \<times> f64) list" where
  "peer_summary ks n = map (\<lambda>(k, info, s). (node_id info, s, reputation_score info)) (entries ks (peers n))"

subsection \<open>The maintenance loop\<close>

datatype maintenance = HeartbeatTick | HealthTick "u8 list list" | DiscoveryTick

text \<open>Each tick with what the network and the discovery service answer in it; the loop ends when the node stops.\<close>

fun maintenance_step :: "'s discovery \<times> net \<times> maintenance \<Rightarrow> 's mesh_node \<Rightarrow> 's mesh_node" where
  "maintenance_step (d, t, HeartbeatTick) n = (if running n then maintain_registration d n else n)"
| "maintenance_step (d, t, HealthTick ks) n = (if running n then check_peer_health t ks n else n)"
| "maintenance_step (d, t, DiscoveryTick) n = (if running n then discover_and_connect_peers d t n else n)"

definition maintenance_run :: "('s discovery \<times> net \<times> maintenance) list \<Rightarrow> 's mesh_node \<Rightarrow> 's mesh_node" where
  "maintenance_run es n = fold maintenance_step es n"

subsection \<open>What a tick does\<close>

lemma node_key_inj [simp]: "node_key a = node_key b \<longleftrightarrow> a = b"
  by (simp add: node_key_def key_bytes_inj)

text \<open>An authenticated transport: whoever answers for a record is the peer of the record.\<close>

definition authentic :: "net \<Rightarrow> bool" where
  "authentic t \<longleftrightarrow> (\<forall>p k a i. connect t p k a = Some (Inr i) \<longrightarrow> i = p)"

lemma connect_authentic:
  "authentic t \<Longrightarrow> connect_with_nat_traversal sh t n p = Inr i \<Longrightarrow> i = node_id p"
  by (auto simp: connect_with_nat_traversal_def or_else_def connected_at_def try_external_def try_holepunch_def
      try_relay_def authentic_def split: option.splits sum.splits if_splits)

lemma maintain_keeps [simp]:
  "peers (maintain_registration d n) = peers n" "running (maintain_registration d n) = running n"
  "reputation (maintain_registration d n) = reputation n" "local_info (maintain_registration d n) = local_info n"
  by (auto simp: maintain_registration_def try_register_def Let_def split: prod.splits sum.splits option.splits)

lemma ping_keeps [simp]:
  "reputation (ping_peer t p n) = reputation n" "running (ping_peer t p n) = running n" "local_info (ping_peer t p n) = local_info n"
  "registered (ping_peer t p n) = registered n"
  "dom (peers (ping_peer t p n)) = dom (peers n)"
  by (auto simp: ping_peer_def mark_disconnected_def split: option.splits)

lemma discover_keeps [simp]:
  "reputation (discover_one t p n) = reputation n" "running (discover_one t p n) = running n" "local_info (discover_one t p n) = local_info n"
  "registered (discover_one t p n) = registered n" "local_id (discover_one t p n) = local_id n"
  by (auto simp: discover_one_def split: sum.splits)

lemma fold_keeps: "(\<And>x s. f (g x s) = f s) \<Longrightarrow> f (fold g xs s) = f s"
  by (induction xs arbitrary: s) auto

lemma health_keeps [simp]:
  "reputation (check_peer_health t ks n) = reputation n" "running (check_peer_health t ks n) = running n"
  "local_info (check_peer_health t ks n) = local_info n" "registered (check_peer_health t ks n) = registered n"
  "dom (peers (check_peer_health t ks n)) = dom (peers n)"
  unfolding check_peer_health_def by (simp_all add: fold_keeps [where f = "\<lambda>n. dom (peers n)"] fold_keeps)

lemma discovery_keeps [simp]:
  "reputation (discover_and_connect_peers d t n) = reputation n" "running (discover_and_connect_peers d t n) = running n"
  "local_info (discover_and_connect_peers d t n) = local_info n" "registered (discover_and_connect_peers d t n) = registered n"
  by (auto simp: discover_and_connect_peers_def fold_keeps split: prod.splits sum.splits)

lemma step_keeps [simp]:
  "reputation (maintenance_step e n) = reputation n" "local_info (maintenance_step e n) = local_info n"
  "running (maintenance_step e n) = running n"
  by (cases "(e, n)" rule: maintenance_step.cases; auto)+

subsection \<open>Disconnected peers\<close>

definition gone :: "node_id \<Rightarrow> 's mesh_node \<Rightarrow> bool" where
  "gone p n \<longleftrightarrow> (\<exists>info. peers n (node_key p) = Some (info, Disconnected))"

lemma gone_ping: "gone p n \<Longrightarrow> gone p (ping_peer t q n)"
  by (auto simp: gone_def ping_peer_def mark_disconnected_def split: option.splits)

lemma gone_discover:
  assumes "authentic t" "gone p n"
  shows "gone p (discover_one t q n)"
proof (cases "connect_with_nat_traversal (\<lambda>_. []) t n q")
  case (Inl e)
  then show ?thesis using assms by (simp add: discover_one_def)
next
  case (Inr i)
  then have "i = node_id q" by (rule connect_authentic [OF assms(1)])
  then show ?thesis using assms(2) Inr by (auto simp: discover_one_def gone_def)
qed

lemma gone_fold: "(\<And>x n. P n \<Longrightarrow> P (g x n)) \<Longrightarrow> P n \<Longrightarrow> P (fold g xs n)"
  by (induction xs arbitrary: n) auto

lemma gone_source: "gone p (n\<lparr>source := s\<rparr>) = gone p n"
  by (simp add: gone_def)

lemma gone_step:
  assumes "authentic (fst (snd e))" "gone p n"
  shows "gone p (maintenance_step e n)"
proof (cases "(e, n)" rule: maintenance_step.cases)
  case (1 d t n')
  then show ?thesis using assms by (auto simp: gone_def)
next
  case (2 d t ks n')
  then show ?thesis using assms by (auto simp: check_peer_health_def intro: gone_fold gone_ping)
next
  case (3 d t n')
  have "gone p (fold (discover_one t) ps m)" if "gone p m" for ps and m :: "'a mesh_node"
    using that assms(1) 3 by (intro gone_fold [where P = "gone p"] gone_discover) auto
  then have "gone p (discover_and_connect_peers d t n')"
    using assms(2) 3 by (simp add: discover_and_connect_peers_def gone_source split: prod.split sum.split)
  then show ?thesis using assms(2) 3 by simp
qed


definition demo_net :: net where
  "demo_net = \<lparr>connect = (\<lambda>p k a. Some (Inr p)), ping = (\<lambda>p. Some (PeerDisconnected [])), listen = (\<lambda>a. Inr ()),
     stun_client = (\<lambda>s. StunPanic), relay_health = (\<lambda>r. False), relay_alloc = (\<lambda>p r. Inl (Relay []))\<rparr>"

definition demo_node :: "peer_info list mesh_node" where
  "demo_node = (new_node (NodeId [9]) \<lparr>scores = Map.empty, storage_path = None\<rparr> Free [sample_peer 1 8 0])
     \<lparr>peers := [[1] \<mapsto> (sample_peer 1 8 0, Connected)], running := True\<rparr>"


text \<open>
  Registration recovers: a node that was started is registered after the first heartbeat tick in which the
  coordination server accepts a registration of its record, whatever failed at the start and in the ticks before.
\<close>
theorem registration_recovers:
  assumes "local_info n = Some info" "running n" "\<And>s. \<not> isl (snd (d_register d info s))"
  shows "registered (maintenance_run (es @ [(d, t, HeartbeatTick)]) n)"
proof -
  define m where "m = maintenance_run es n"
  have "local_info m = Some info" "running m"
    using assms(1,2) unfolding m_def maintenance_run_def by (induction es arbitrary: n) auto
  then have "registered (maintenance_step (d, t, HeartbeatTick) m)"
    using assms(3) by (auto simp: maintain_registration_def try_register_def Let_def isl_def split: prod.splits sum.splits) 
      (metis snd_conv sum.disc(1))+
  then show ?thesis by (simp add: maintenance_run_def m_def)
qed

lemma registration_recovers_witness:
  "registered (maintenance_run ([(mock_discovery\<lparr>d_register := (\<lambda>i s. (s, Inl (Discovery [])))\<rparr>, demo_net, HeartbeatTick)]
     @ [(mock_discovery, demo_net, HeartbeatTick)]) (demo_node\<lparr>local_info := Some (sample_peer 9 8 0)\<rparr>))"
  by (rule registration_recovers [of _ "sample_peer 9 8 0"]) (simp_all add: demo_node_def mock_discovery_def mock_register_def)

text \<open>
  The ban is checked for the advertised identity only: when the node that answers at an advertised address is
  another one, it is entered in the table under its own key, banned or not.
\<close>

lemma ban_checked_for_advertised_id_only:
  assumes "node_id p \<noteq> local_id n" "peers n (node_key (node_id p)) = None" "\<not> is_banned (reputation n) (node_id p)"
    "connect t (node_id p) 0 (addr p) = Some (Inr b)"
  shows "peers (discover_one t p n) (node_key b) = Some (p, Connected)"
  using assms by (simp add: discover_one_def connect_with_nat_traversal_def or_else_def connected_at_def)

text \<open>With an authenticated transport no banned peer is ever entered by the discovery.\<close>

lemma discovery_respects_bans:
  assumes "authentic t" "peers n (node_key b) = None" "is_banned (reputation n) b"
  shows "peers (discover_and_connect_peers d t n) (node_key b) = None"
proof -
  have one: "peers (discover_one t p m) (node_key b) = None" if "peers m (node_key b) = None" "reputation m = reputation n"
    for p and m :: "'a mesh_node"
    using that assms(1,3) by (auto simp: discover_one_def split: sum.splits dest: connect_authentic)
  have "peers (fold (discover_one t) ps m) (node_key b) = None" if "peers m (node_key b) = None" "reputation m = reputation n"
    for ps and m :: "'a mesh_node"
    using that by (induction ps arbitrary: m) (auto simp: one)
  then show ?thesis using assms(2) by (simp add: discover_and_connect_peers_def split: prod.split sum.split)
qed

end
