(* ===== verification/Engines.thy ===== *)
theory Engines
  imports MeshTypes Text
begin

section \<open>Inference engines: registry, selection and loading\<close>

text \<open>
  \<open>crates/hivebear-inference/src/engine/mod.rs\<close>, \<open>selector.rs\<close> and \<open>loader.rs\<close>.  A backend is described by what
  the registry asks of it; whether it is available is asked anew at every call (the mesh backend is available
  while it has peers), so availability is an argument \<open>up\<close> of each operation.  What a backend answers when it
  loads a model is an argument too.
\<close>

subsection \<open>Backends and the registry (engine/mod.rs)\<close>

record backend =
  be_id :: inference_engine
  be_name :: string
  be_formats :: "model_format list"
  be_stub :: bool
  be_grammar :: bool

type_synonym engine_registry = "backend list"

text \<open>The descriptions of the backends of the source.\<close>

definition llamacpp_backend :: backend where
  "llamacpp_backend = \<lparr>be_id = LlamaCpp, be_name = ''llama.cpp'', be_formats = [Gguf], be_stub = False, be_grammar = True\<rparr>"

definition candle_backend :: backend where
  "candle_backend = \<lparr>be_id = Candle, be_name = ''Candle'', be_formats = [Gguf, SafeTensors], be_stub = False, be_grammar = False\<rparr>"

definition onnx_backend :: backend where
  "onnx_backend = \<lparr>be_id = OnnxRuntime, be_name = ''ONNX Runtime'', be_formats = [Onnx], be_stub = False, be_grammar = False\<rparr>"

definition mlx_backend :: backend where
  "mlx_backend = \<lparr>be_id = Mlx, be_name = ''MLX'', be_formats = [FormatMlx, SafeTensors], be_stub = False, be_grammar = False\<rparr>"

definition cloud_backend :: backend where
  "cloud_backend = \<lparr>be_id = Cloud, be_name = ''Cloud'', be_formats = [], be_stub = False, be_grammar = False\<rparr>"

definition mesh_backend :: backend where
  "mesh_backend = \<lparr>be_id = Mesh, be_name = ''P2P Mesh'', be_formats = [Gguf], be_stub = False, be_grammar = False\<rparr>"

text \<open>The stub has the id of Candle.\<close>

definition dummy_backend :: backend where
  "dummy_backend = \<lparr>be_id = Candle, be_name = ''Dummy'', be_formats = [Gguf, SafeTensors], be_stub = True, be_grammar = False\<rparr>"

text \<open>The features a native build is compiled with.\<close>

record features =
  with_llamacpp :: bool
  with_candle :: bool
  with_onnx :: bool
  with_cloud :: bool
  with_mlx :: bool

definition new_registry :: "features \<Rightarrow> engine_registry" where
  "new_registry f =
     (if with_llamacpp f then [llamacpp_backend] else []) @ (if with_candle f then [candle_backend] else []) @
     (if with_onnx f then [onnx_backend] else []) @ [dummy_backend] @
     (if with_cloud f then [cloud_backend] else []) @ (if with_mlx f then [mlx_backend] else [])"

definition available_engines :: "(backend \<Rightarrow> bool) \<Rightarrow> engine_registry \<Rightarrow> backend list" where
  "available_engines up reg = filter up reg"

definition get :: "(backend \<Rightarrow> bool) \<Rightarrow> engine_registry \<Rightarrow> inference_engine \<Rightarrow> backend option" where
  "get up reg e = List.find (\<lambda>b. be_id b = e \<and> up b) reg"

definition get_real :: "(backend \<Rightarrow> bool) \<Rightarrow> engine_registry \<Rightarrow> inference_engine \<Rightarrow> backend option" where
  "get_real up reg e = List.find (\<lambda>b. be_id b = e \<and> up b \<and> \<not> be_stub b) reg"

definition format_priority :: "inference_engine list" where
  "format_priority = [LlamaCpp, Candle, OnnxRuntime, Mlx]"

fun find_in_order :: "(backend \<Rightarrow> bool) \<Rightarrow> engine_registry \<Rightarrow> model_format \<Rightarrow> inference_engine list \<Rightarrow> backend option" where
  "find_in_order up reg fmt [] = None"
| "find_in_order up reg fmt (e # es) =
    (case List.find (\<lambda>b. be_id b = e \<and> up b \<and> \<not> be_stub b \<and> fmt \<in> set (be_formats b)) reg of
       Some b \<Rightarrow> Some b | None \<Rightarrow> find_in_order up reg fmt es)"

definition find_for_format :: "(backend \<Rightarrow> bool) \<Rightarrow> engine_registry \<Rightarrow> model_format \<Rightarrow> backend option" where
  "find_for_format up reg fmt = find_in_order up reg fmt format_priority"

definition register_engine :: "backend \<Rightarrow> engine_registry \<Rightarrow> engine_registry" where
  "register_engine b reg = reg @ [b]"

subsection \<open>Formats (selector.rs)\<close>

text \<open>
  \<open>Path::extension\<close> of the last component; \<open>None\<close> when there is no name or its only dot is in front.  Paths are
  valid UTF-8.  Lower-casing is spelled out for ASCII: no other letter lower-cases into one of the extensions.
\<close>

definition file_name :: "string \<Rightarrow> string option" where
  "file_name p = (case rev (filter (\<lambda>w. w \<noteq> [] \<and> w \<noteq> ''.'') (split_on (CHR ''/'') p)) of
     [] \<Rightarrow> None | w # _ \<Rightarrow> if w = ''..'' then None else Some w)"

definition extension :: "string \<Rightarrow> string option" where
  "extension p = (case file_name p of None \<Rightarrow> None
     | Some w \<Rightarrow> (case position (\<lambda>c. c = CHR ''.'') (rev w) of
         None \<Rightarrow> None | Some i \<Rightarrow> if i + 1 = length w then None else Some (drop (length w - i) w)))"

text \<open>The four bytes GGUF.\<close>

definition gguf_magic :: "u8 list" where "gguf_magic = [0x47, 0x47, 0x55, 0x46]"

text \<open>
  \<open>file\<close> is what reading the file gives, \<open>None\<close> on an error.  The slice of its first four bytes panics when it is
  shorter; the panic is the outer \<open>None\<close>.
\<close>

definition detect_format :: "u8 list option \<Rightarrow> string \<Rightarrow> (inference_error, model_format) result option" where
  "detect_format file path =
    (let ext = to_lowercase (case extension path of Some e \<Rightarrow> e | None \<Rightarrow> []) in
     if ext = ''gguf'' then Some (Inr Gguf)
     else if ext = ''onnx'' then Some (Inr Onnx)
     else if ext = ''safetensors'' then Some (Inr SafeTensors)
     else if ext = ''mlx'' \<or> ext = ''npz'' then Some (Inr FormatMlx)
     else (let unknown = Some (Inl (UnsupportedFormat (''Cannot determine format for: '' @ path))) in
       case file of
         Some bytes \<Rightarrow> if length bytes < 4 then None
                       else if take 4 bytes = gguf_magic then Some (Inr Gguf) else unknown
       | None \<Rightarrow> unknown))"

subsection \<open>Selection (selector.rs)\<close>

definition engine_priority :: "hardware_profile \<Rightarrow> model_format \<Rightarrow> inference_engine list" where
  "engine_priority p fmt = (case fmt of
     Gguf \<Rightarrow> (if os (platform p) = ''macos'' \<and> arch (platform p) = ''aarch64'' then [LlamaCpp, Candle]
              else if gpus p \<noteq> [] then [LlamaCpp, Candle] else [LlamaCpp, Candle])
   | SafeTensors \<Rightarrow> [Candle]
   | Onnx \<Rightarrow> [OnnxRuntime]
   | FormatMlx \<Rightarrow> [Mlx])"

fun first_supporting :: "(backend \<Rightarrow> bool) \<Rightarrow> engine_registry \<Rightarrow> model_format \<Rightarrow> inference_engine list \<Rightarrow> backend option" where
  "first_supporting up reg fmt [] = None"
| "first_supporting up reg fmt (e # es) =
    (case get_real up reg e of
       Some b \<Rightarrow> if fmt \<in> set (be_formats b) then Some b else first_supporting up reg fmt es
     | None \<Rightarrow> first_supporting up reg fmt es)"

definition mesh_for_format :: "(backend \<Rightarrow> bool) \<Rightarrow> engine_registry \<Rightarrow> model_format \<Rightarrow> backend option" where
  "mesh_for_format up reg fmt = (case get_real up reg Mesh of
     Some m \<Rightarrow> if fmt \<in> set (be_formats m) then Some m else None | None \<Rightarrow> None)"

definition select_engine :: "(backend \<Rightarrow> bool) \<Rightarrow> engine_registry \<Rightarrow> model_format \<Rightarrow> hardware_profile \<Rightarrow> (inference_error, backend) result" where
  "select_engine up reg fmt p =
    (case first_supporting up reg fmt (engine_priority p fmt) of
       Some b \<Rightarrow> Inr b
     | None \<Rightarrow> (case find_for_format up reg fmt of
         Some b \<Rightarrow> Inr b
       | None \<Rightarrow> (case mesh_for_format up reg fmt of
           Some m \<Rightarrow> Inr m
         | None \<Rightarrow> Inl (NoEngineAvailable (show_format fmt)))))"

subsection \<open>Loading (loader.rs)\<close>

record model_handle =
  handle_id :: u64
  handle_path :: string
  handle_engine :: inference_engine

definition load_model :: "(backend \<Rightarrow> bool) \<Rightarrow> u8 list option \<Rightarrow> (backend \<Rightarrow> (inference_error, model_handle) result) \<Rightarrow>
    engine_registry \<Rightarrow> string \<Rightarrow> hardware_profile \<Rightarrow> (inference_error, model_handle \<times> backend) result option" where
  "load_model up file answer reg path p =
    (case detect_format file path of
       None \<Rightarrow> None
     | Some (Inl e) \<Rightarrow> Some (Inl e)
     | Some (Inr fmt) \<Rightarrow> (case select_engine up reg fmt p of
         Inl e \<Rightarrow> Some (Inl e)
       | Inr b \<Rightarrow> (case answer b of Inl e \<Rightarrow> Some (Inl e) | Inr h \<Rightarrow> Some (Inr (h, b)))))"

subsection \<open>Selection is sound and complete\<close>

lemma find_SomeD: "List.find P xs = Some x \<Longrightarrow> x \<in> set xs \<and> P x"
  by (auto simp: find_Some_iff)

lemma find_None_set: "List.find P xs = None \<longleftrightarrow> (\<forall>x \<in> set xs. \<not> P x)"
  by (auto simp: find_None_iff)

text \<open>A backend that really serves a format.\<close>

definition serves :: "(backend \<Rightarrow> bool) \<Rightarrow> model_format \<Rightarrow> backend \<Rightarrow> bool" where
  "serves up fmt b \<longleftrightarrow> up b \<and> \<not> be_stub b \<and> fmt \<in> set (be_formats b)"

definition locally_served :: "(backend \<Rightarrow> bool) \<Rightarrow> engine_registry \<Rightarrow> model_format \<Rightarrow> bool" where
  "locally_served up reg fmt \<longleftrightarrow> list_ex (\<lambda>b. serves up fmt b \<and> be_id b \<in> set format_priority) reg"

lemma get_real_SomeD: "get_real up reg e = Some b \<Longrightarrow> b \<in> set reg \<and> be_id b = e \<and> up b \<and> \<not> be_stub b"
  by (auto simp: get_real_def dest: find_SomeD)

lemma get_SomeD: "get up reg e = Some b \<Longrightarrow> b \<in> set reg \<and> be_id b = e \<and> up b"
  by (auto simp: get_def dest: find_SomeD)

lemma first_supporting_SomeD:
  "first_supporting up reg fmt es = Some b \<Longrightarrow> b \<in> set reg \<and> be_id b \<in> set es \<and> serves up fmt b"
  by (induction es) (auto simp: serves_def dest: get_real_SomeD split: option.splits if_splits)

lemma find_in_order_SomeD:
  "find_in_order up reg fmt es = Some b \<Longrightarrow> b \<in> set reg \<and> be_id b \<in> set es \<and> serves up fmt b"
  by (induction es) (auto simp: serves_def dest: find_SomeD split: option.splits)

lemma find_in_order_None:
  "find_in_order up reg fmt es = None \<longleftrightarrow> (\<forall>b \<in> set reg. \<not> (be_id b \<in> set es \<and> serves up fmt b))"
  by (induction es) (auto simp: serves_def find_None_set dest: find_SomeD split: option.splits)

lemma engine_priority_local: "set (engine_priority p fmt) \<subseteq> set format_priority"
  by (auto simp: engine_priority_def format_priority_def split: model_format.splits)

lemma find_for_format_None: "find_for_format up reg fmt = None \<longleftrightarrow> \<not> locally_served up reg fmt"
  by (auto simp: find_for_format_def find_in_order_None locally_served_def list_ex_iff)

lemma first_supporting_served: "first_supporting up reg fmt (engine_priority p fmt) = Some b \<Longrightarrow> locally_served up reg fmt"
  using engine_priority_local [of p fmt] first_supporting_SomeD [of up reg fmt "engine_priority p fmt" b]
  by (auto simp: locally_served_def list_ex_iff)

text \<open>
  C18: Engine selection is sound and complete.  The engine it returns is registered, available, supports the format and
  is never the stub; the mesh is chosen only when no local engine serves the format; and it fails, naming the
  format, only when no local engine serves it and the mesh does not either.
\<close>

theorem select_engine_correct:
  "case select_engine up reg fmt p of
     Inl e \<Rightarrow> e = NoEngineAvailable (show_format fmt) \<and> \<not> locally_served up reg fmt \<and> mesh_for_format up reg fmt = None
   | Inr b \<Rightarrow> b \<in> set reg \<and> up b \<and> \<not> be_stub b \<and> fmt \<in> set (be_formats b) \<and>
       (if be_id b = Mesh then \<not> locally_served up reg fmt else be_id b \<in> set format_priority)"
proof (cases "first_supporting up reg fmt (engine_priority p fmt)")
  case (Some b)
  then have "b \<in> set reg" "be_id b \<in> set format_priority" "serves up fmt b"
    using first_supporting_SomeD [OF Some] engine_priority_local [of p fmt] by auto
  then show ?thesis using Some by (auto simp: select_engine_def serves_def format_priority_def)
next
  case None
  show ?thesis
  proof (cases "find_for_format up reg fmt")
    case (Some b)
    then have "b \<in> set reg" "be_id b \<in> set format_priority" "serves up fmt b"
      using find_in_order_SomeD [of up reg fmt format_priority b] by (auto simp: find_for_format_def)
    then show ?thesis using Some None by (auto simp: select_engine_def serves_def format_priority_def)
  next
    case None2: None
    then have "\<not> locally_served up reg fmt" by (simp add: find_for_format_None)
    then show ?thesis using None None2
      by (auto simp: select_engine_def mesh_for_format_def dest: get_real_SomeD split: option.splits if_splits)
  qed
qed

text \<open>
  A file whose extension is unknown and that has fewer than four bytes makes the detection of its format panic
  instead of reporting an unsupported format.
\<close>

theorem detect_format_panics:
  "detect_format (Some [0x47, 0x47]) ''/models/empty.bin'' = None \<and>
   load_model (\<lambda>b. True) (Some []) (\<lambda>b. Inl InvalidHandle) [llamacpp_backend] ''/models/empty.bin'' sample_hardware = None \<and>
   detect_format (Some [0x47, 0x47, 0x55, 0x46]) ''/models/empty.bin'' = Some (Inr Gguf) \<and>
   detect_format None ''/models/m.GGUF'' = Some (Inr Gguf)"
  by code_simp

end
