(* ===== verification/Offload.thy ===== *)
theory Offload
  imports MeshTypes
begin

section \<open>Layer offloading\<close>

text \<open>
  \<open>crates/hivebear-inference/src/offload.rs\<close>: how many layers of a model go to the GPUs, to the RAM and to
  mesh peers, and whether the rest is left to the memory-mapped file.  Fields that other structs share get a prefix.
\<close>

subsection \<open>The configuration (types.rs)\<close>

record offload_config =
  oc_gpu_layers :: "u32 option"
  oc_cpu_layers :: "u32 option"
  disk_mmap :: bool
  mesh_layers :: "u32 option"
  oc_auto :: bool

definition default_offload :: offload_config where
  "default_offload = \<lparr>oc_gpu_layers = None, oc_cpu_layers = None, disk_mmap = False, mesh_layers = None, oc_auto = True\<rparr>"

subsection \<open>The calculation (offload.rs)\<close>

definition total_vram :: "hardware_profile \<Rightarrow> u64" where
  "total_vram p = wsum (map vram_bytes (gpus p))"

definition usable_ram :: "hardware_profile \<Rightarrow> u64" where
  "usable_ram p = f64_as_u64 (f64_of_u64 (mem_available_bytes (memory p)) * lit (85/100))"

definition usable_vram :: "hardware_profile \<Rightarrow> u32 \<Rightarrow> u64" where
  "usable_vram p ctx = saturating_sub (total_vram p) (ucast ctx * 256 * 1024)"

definition bytes_per_layer :: "u64 \<Rightarrow> u32 \<Rightarrow> u64" where
  "bytes_per_layer sz n = (case checked_div sz (ucast n) of Some b \<Rightarrow> b | None \<Rightarrow> sz)"

definition offload_gpu_layers :: "u64 \<Rightarrow> u64 \<Rightarrow> u32 \<Rightarrow> u32" where
  "offload_gpu_layers vram bpl n = (case checked_div vram bpl of Some l \<Rightarrow> ucast (min l (ucast n)) | None \<Rightarrow> n)"

text \<open>The RAM and the mesh cast the quotient to 32 bits before they compare it with the layers that remain.\<close>

definition fitting_layers :: "u64 \<Rightarrow> u64 \<Rightarrow> u32 \<Rightarrow> u32" where
  "fitting_layers bytes bpl remaining =
    (case checked_div bytes bpl of Some l \<Rightarrow> min (ucast l) remaining | None \<Rightarrow> remaining)"

definition offload_mesh_layers :: "u64 option \<Rightarrow> u64 \<Rightarrow> u32 \<Rightarrow> u32 option \<times> u32" where
  "offload_mesh_layers mesh bpl remaining =
    (if 0 < remaining then
       (case mesh of
          Some cap \<Rightarrow> (let assigned = fitting_layers cap bpl remaining
                      in (if 0 < assigned then Some assigned else None, saturating_sub remaining assigned))
        | None \<Rightarrow> (None, remaining))
     else (None, remaining))"

definition calculate_offload_with_mesh :: "u64 \<Rightarrow> u32 \<Rightarrow> hardware_profile \<Rightarrow> u32 \<Rightarrow> u64 option \<Rightarrow> offload_config" where
  "calculate_offload_with_mesh sz n p ctx mesh =
    (if total_vram p = 0 \<and> mesh = None
     then \<lparr>oc_gpu_layers = Some 0, oc_cpu_layers = Some n, disk_mmap = False, mesh_layers = None, oc_auto = False\<rparr>
     else
       (let bpl = bytes_per_layer sz n;
            g = offload_gpu_layers (usable_vram p ctx) bpl n;
            r1 = saturating_sub n g;
            c = fitting_layers (usable_ram p) bpl r1;
            r2 = saturating_sub r1 c;
            (m, r3) = offload_mesh_layers mesh bpl r2
        in \<lparr>oc_gpu_layers = Some g, oc_cpu_layers = Some c, disk_mmap = (0 < r3), mesh_layers = m, oc_auto = False\<rparr>))"

definition calculate_offload :: "u64 \<Rightarrow> u32 \<Rightarrow> hardware_profile \<Rightarrow> u32 \<Rightarrow> offload_config" where
  "calculate_offload sz n p ctx = calculate_offload_with_mesh sz n p ctx None"

subsection \<open>Every layer has a place\<close>

lemma unat_lt2p_w: "unat (w :: 'a::len word) < 2 ^ LENGTH('a)"
  by (rule unsigned_less)

lemma unat_ucast_32_64 [word_nat]: "unat (ucast (w :: u32) :: u64) = unat w"
  using unat_lt2p_w [of w] by (simp add: unsigned_ucast_eq take_bit_eq_mod)

lemma unat_ucast_64_32_le: "unat (ucast (w :: u64) :: u32) \<le> unat w"
  by (simp add: unsigned_ucast_eq take_bit_eq_mod)

lemma unat_ucast_64_32: "unat w \<le> unat (n :: u32) \<Longrightarrow> unat (ucast (w :: u64) :: u32) = unat w"
  using unat_lt2p_w [of n] by (simp add: unsigned_ucast_eq take_bit_eq_mod)

lemma unat_min: "unat (min a b) = min (unat a) (unat b)" for a b :: "'a::len word"
  by (simp add: min_def word_le_nat_alt)

lemma gpu_layers_unat:
  "unat (offload_gpu_layers v b n) = (if b = 0 then unat n else min (unat v div unat b) (unat n))"
proof -
  have "unat (ucast (min l (ucast n :: u64)) :: u32) = min (unat l) (unat n)" for l :: u64
    by (subst unat_ucast_64_32 [of _ n]) (simp_all add: unat_min unat_ucast_32_64)
  then show ?thesis by (simp add: offload_gpu_layers_def checked_div_def unat_div)
qed

lemma fitting_layers_le: "unat (fitting_layers v b r) \<le> unat r"
  by (auto simp: fitting_layers_def checked_div_def unat_min)

lemma div_mult_fits: "b \<noteq> 0 \<Longrightarrow> k \<le> v div b \<Longrightarrow> k * b \<le> v" for k b v :: nat
  by (metis div_times_less_eq_dividend le_trans mult_le_mono1)

lemma fitting_layers_fit: "unat (fitting_layers v b r) * unat b \<le> unat v"
proof (cases "b = 0")
  case False
  have "unat (fitting_layers v b r) \<le> unat (ucast (v div b) :: u32)"
    using False by (simp add: fitting_layers_def checked_div_def unat_min)
  also have "\<dots> \<le> unat v div unat b" using unat_ucast_64_32_le [of "v div b"] by (simp add: unat_div)
  finally show ?thesis using False by (intro div_mult_fits) (simp_all add: unat_eq_0)
qed simp

lemma gpu_layers_fit: "unat (offload_gpu_layers v b n) * unat b \<le> unat v"
  by (cases "b = 0") (simp_all add: gpu_layers_unat div_mult_fits unat_eq_0)

lemma gpu_layers_maximal: "offload_gpu_layers v b n = n \<or> unat v < Suc (unat (offload_gpu_layers v b n)) * unat b"
proof (cases "b = 0 \<or> unat n \<le> unat v div unat b")
  case True
  then have "unat (offload_gpu_layers v b n) = unat n" by (auto simp: gpu_layers_unat)
  then show ?thesis by (simp add: unat_inj_word)
next
  case False
  then have "0 < unat b" by (simp add: unat_gt_0)
  then show ?thesis using False dividend_less_div_times [of "unat b" "unat v"] by (simp add: gpu_layers_unat mult.commute)
qed

definition mesh_count :: "offload_config \<Rightarrow> nat" where
  "mesh_count c = (case mesh_layers c of None \<Rightarrow> 0 | Some m \<Rightarrow> unat m)"

lemma mesh_layers_split:
  assumes "offload_mesh_layers mesh b r = (m, r')"
  shows "(case m of None \<Rightarrow> 0 | Some k \<Rightarrow> unat k) + unat r' = unat r"
    and "(case m of None \<Rightarrow> 0 | Some k \<Rightarrow> unat k) * unat b \<le> (case mesh of None \<Rightarrow> 0 | Some cap \<Rightarrow> unat cap)"
  using assms fitting_layers_le [of _ b r] fitting_layers_fit [of _ b r]
  by (auto simp: offload_mesh_layers_def Let_def unat_saturating_sub word_less_nat_alt split: if_splits option.splits)


text \<open>
  Casting the quotient to 32 bits first loses capacity: with layers of one byte a machine whose RAM holds \<open>2^32\<close> of
  them keeps none in it.
\<close>

lemma fitting_layers_truncates: "fitting_layers (2 ^ 32) 1 32 = 0"
  by (simp add: fitting_layers_def checked_div_def)

end
