(* ===== verification/Orchestrator.thy ===== *)
theory Orchestrator
  imports Engines Offload
begin

section \<open>The inference orchestrator\<close>

text \<open>
  \<open>crates/hivebear-inference/src/orchestrator.rs\<close>.  The orchestrator remembers for every loaded model the id of the
  engine that loaded it and dispatches by that id.  Outside the model: the answers of the backends, the file system
  and the availability of the backends, which are arguments of the operations.  A poisoned lock is entered like any
  other, so the locks do not show.
\<close>

subsection \<open>State (orchestrator.rs, types.rs)\<close>

record load_config =
  lc_context_length :: u32
  lc_offload :: offload_config
  batch_size :: u32
  threads :: "u32 option"
  use_mmap :: bool
  use_mlock :: bool
  seed :: "u64 option"
  pipeline_stage :: "((u32 \<times> u32) \<times> u32) option"

definition default_load_config :: load_config where
  "default_load_config = \<lparr>lc_context_length = 4096, lc_offload = default_offload, batch_size = 512, threads = None,
     use_mmap = True, use_mlock = False, seed = None, pipeline_stage = None\<rparr>"

record model_info =
  mi_handle_id :: u64
  mi_model_path :: string
  mi_engine :: inference_engine
  mi_context_length :: u32
  mi_gpu_layers :: "u32 option"

datatype orchestrator_event = MeshFallback string string | ModelLoaded string inference_engine

record orchestrator =
  registry :: engine_registry
  profile :: hardware_profile
  handle_backends :: "u64 \<rightharpoonup> inference_engine"
  loaded_info :: "u64 \<rightharpoonup> model_info"
  mesh_registered :: bool
  events :: "orchestrator_event list"

definition new_orchestrator :: "features \<Rightarrow> hardware_profile \<Rightarrow> orchestrator" where
  "new_orchestrator f p = \<lparr>registry = new_registry f, profile = p, handle_backends = Map.empty,
     loaded_info = Map.empty, mesh_registered = False, events = []\<rparr>"

definition register_backend :: "backend \<Rightarrow> orchestrator \<Rightarrow> orchestrator" where
  "register_backend b st =
     (let st' = (if be_id b = Mesh then st\<lparr>mesh_registered := True\<rparr> else st)
      in st'\<lparr>registry := register_engine b (registry st')\<rparr>)"

definition drain_events :: "orchestrator \<Rightarrow> orchestrator \<times> orchestrator_event list" where
  "drain_events st = (st\<lparr>events := []\<rparr>, events st)"

definition emit_event :: "orchestrator_event \<Rightarrow> orchestrator \<Rightarrow> orchestrator" where
  "emit_event e st = st\<lparr>events := (if 16 \<le> length (events st) then remove_at 0 (events st) else events st) @ [e]\<rparr>"

subsection \<open>Loading\<close>

text \<open>The message of an error (error.rs).\<close>

fun show_inference_error :: "inference_error \<Rightarrow> string" where
  "show_inference_error (ModelNotFound s) = ''Model file not found: '' @ s"
| "show_inference_error (UnsupportedFormat s) = ''Unsupported model format: '' @ s"
| "show_inference_error (NoEngineAvailable s) = ''No usable inference engine for format '' @ [CHR 0x27] @ s @ [CHR 0x27] @
     '' on this platform (this build has no real backend compiled in for it). Update or reinstall HiveBear.''"
| "show_inference_error (EngineNotCompiled s) = ''Engine '' @ [CHR 0x27] @ s @ [CHR 0x27] @ '' is not compiled in (missing feature flag)''"
| "show_inference_error (LoadError s) = ''Failed to load model: '' @ s"
| "show_inference_error (GenerationError s) = ''Generation failed: '' @ s"
| "show_inference_error InvalidHandle = ''Invalid model handle (model may have been unloaded)''"
| "show_inference_error (GrammarError s) = ''Grammar/schema error: '' @ s"
| "show_inference_error (ToolCallError s) = ''Tool calling error: '' @ s"
| "show_inference_error (OffloadError s) = ''Offloading error: '' @ s"
| "show_inference_error (InferenceIo s) = ''IO error: '' @ s"

text \<open>The automatic offload; \<open>len\<close> is the size of the file, \<open>None\<close> when it cannot be read.\<close>

definition prepare_config :: "u64 option \<Rightarrow> hardware_profile \<Rightarrow> load_config \<Rightarrow> load_config" where
  "prepare_config len p cfg =
    (if oc_auto (lc_offload cfg) \<and> oc_gpu_layers (lc_offload cfg) = None then
       (let model_size = (case len of Some n \<Rightarrow> n | None \<Rightarrow> 0) in
        if 0 < model_size then cfg\<lparr>lc_offload := calculate_offload model_size 32 p (lc_context_length cfg)\<rparr> else cfg)
     else cfg)"

definition track_loaded_model :: "model_handle \<Rightarrow> string \<Rightarrow> inference_engine \<Rightarrow> load_config \<Rightarrow> orchestrator \<Rightarrow> orchestrator" where
  "track_loaded_model h path e cfg st =
     st\<lparr>handle_backends := (handle_backends st)(handle_id h \<mapsto> e),
        loaded_info := (loaded_info st)(handle_id h \<mapsto>
          \<lparr>mi_handle_id = handle_id h, mi_model_path = path, mi_engine = e,
           mi_context_length = lc_context_length cfg, mi_gpu_layers = oc_gpu_layers (lc_offload cfg)\<rparr>)\<rparr>"

text \<open>What the world answers to one \<open>load\<close>: the file, its length, and what each backend says.\<close>

record load_world =
  w_up :: "backend \<Rightarrow> bool"
  file_bytes :: "u8 list option"
  file_len :: "u64 option"
  load_answer :: "backend \<Rightarrow> load_config \<Rightarrow> (inference_error, model_handle) result"

definition mesh_fallback :: "load_world \<Rightarrow> orchestrator \<Rightarrow> backend option" where
  "mesh_fallback w st = (if mesh_registered st then get (w_up w) (registry st) Mesh else None)"

text \<open>The backend that gets the model, and the state with the event of the fallback.\<close>

definition choose_backend :: "load_world \<Rightarrow> model_format \<Rightarrow> string \<Rightarrow> orchestrator \<Rightarrow> orchestrator \<times> (inference_error, backend) result" where
  "choose_backend w fmt path st =
    (case select_engine (w_up w) (registry st) fmt (profile st) of
       Inr b \<Rightarrow> (st, Inr b)
     | Inl e \<Rightarrow> (case mesh_fallback w st of
         Some m \<Rightarrow> (emit_event (MeshFallback (''No suitable local engine: '' @ show_inference_error e) path) st, Inr m)
       | None \<Rightarrow> (st, Inl e)))"

definition load_on :: "load_world \<Rightarrow> backend \<Rightarrow> load_config \<Rightarrow> string \<Rightarrow> orchestrator \<Rightarrow>
    orchestrator \<times> (inference_error, model_handle \<times> backend) result" where
  "load_on w b cfg path st =
    (case load_answer w b cfg of
       Inr h \<Rightarrow> (track_loaded_model h path (be_id b) cfg st, Inr (h, b))
     | Inl e \<Rightarrow>
        (case (if be_id b \<noteq> Mesh then mesh_fallback w st else None) of
           Some m \<Rightarrow>
             (let st' = emit_event (MeshFallback (''Local load failed: '' @ show_inference_error e) path) st in
              (case load_answer w m cfg of
                 Inr h \<Rightarrow> (track_loaded_model h path (be_id m) cfg st', Inr (h, m))
               | Inl e' \<Rightarrow> (st', Inl e')))
         | None \<Rightarrow> (st, Inl e)))"

text \<open>
  \<open>load\<close>; with the handle it returns the backend that loaded the model, which the source keeps to itself.  A panic of the
  format detection is \<open>None\<close> and leaves the state alone.
\<close>

definition orch_load :: "load_world \<Rightarrow> string \<Rightarrow> load_config \<Rightarrow> orchestrator \<Rightarrow>
    orchestrator \<times> (inference_error, model_handle \<times> backend) result option" where
  "orch_load w path cfg st =
    (case detect_format (file_bytes w) path of
       None \<Rightarrow> (st, None)
     | Some (Inl e) \<Rightarrow> (st, Some (Inl e))
     | Some (Inr fmt) \<Rightarrow>
        (case choose_backend w fmt path st of
           (st1, Inl e) \<Rightarrow> (st1, Some (Inl e))
         | (st1, Inr b) \<Rightarrow> map_prod id Some (load_on w b (prepare_config (file_len w) (profile st) cfg) path st1)))"

definition load_cloud :: "load_world \<Rightarrow> string \<Rightarrow> orchestrator \<Rightarrow> orchestrator \<times> (inference_error, model_handle \<times> backend) result" where
  "load_cloud w name st =
    (case get (w_up w) (registry st) Cloud of
       None \<Rightarrow> (st, Inl (NoEngineAvailable ''cloud''))
     | Some b \<Rightarrow> (case load_answer w b default_load_config of
         Inl e \<Rightarrow> (st, Inl e)
       | Inr h \<Rightarrow>
          (st\<lparr>handle_backends := (handle_backends st)(handle_id h \<mapsto> be_id b),
              loaded_info := (loaded_info st)(handle_id h \<mapsto>
                \<lparr>mi_handle_id = handle_id h, mi_model_path = name, mi_engine = be_id b,
                 mi_context_length = 128000, mi_gpu_layers = None\<rparr>)\<rparr>, Inr (h, b))))"

subsection \<open>Using and unloading a model\<close>

definition get_backend :: "(backend \<Rightarrow> bool) \<Rightarrow> model_handle \<Rightarrow> orchestrator \<Rightarrow> (inference_error, backend) result" where
  "get_backend up h st =
    (case handle_backends st (handle_id h) of
       None \<Rightarrow> Inl InvalidHandle
     | Some e \<Rightarrow> (case get up (registry st) e of None \<Rightarrow> Inl InvalidHandle | Some b \<Rightarrow> Inr b))"

definition orch_generate :: "(backend \<Rightarrow> bool) \<Rightarrow> (backend \<Rightarrow> (inference_error, 'r) result) \<Rightarrow> model_handle \<Rightarrow> orchestrator \<Rightarrow> (inference_error, 'r) result" where
  "orch_generate up answer h st = (case get_backend up h st of Inl e \<Rightarrow> Inl e | Inr b \<Rightarrow> answer b)"

definition orch_stream :: "(backend \<Rightarrow> bool) \<Rightarrow> (backend \<Rightarrow> 's) \<Rightarrow> model_handle \<Rightarrow> orchestrator \<Rightarrow> (inference_error, 's) result" where
  "orch_stream up open_stream h st = (case get_backend up h st of Inl e \<Rightarrow> Inl e | Inr b \<Rightarrow> Inr (open_stream b))"

definition orch_unload :: "(backend \<Rightarrow> bool) \<Rightarrow> (backend \<Rightarrow> (inference_error, unit) result) \<Rightarrow> model_handle \<Rightarrow> orchestrator \<Rightarrow> orchestrator \<times> (inference_error, unit) result" where
  "orch_unload up answer h st =
    (case get_backend up h st of
       Inl e \<Rightarrow> (st, Inl e)
     | Inr b \<Rightarrow> (case answer b of
         Inl e \<Rightarrow> (st, Inl e)
       | Inr _ \<Rightarrow> (st\<lparr>handle_backends := (handle_backends st)(handle_id h := None),
                     loaded_info := (loaded_info st)(handle_id h := None)\<rparr>, Inr ())))"

definition loaded_models :: "u64 list \<Rightarrow> orchestrator \<Rightarrow> model_info list" where
  "loaded_models order st = List.map_filter (loaded_info st) order"

subsection \<open>The orchestrator as a transition system\<close>

datatype orch_op =
  OpRegister backend
| OpLoad load_world string load_config
| OpLoadCloud load_world string
| OpUnload "backend \<Rightarrow> bool" "backend \<Rightarrow> (inference_error, unit) result" model_handle
| OpDrain

fun orch_step :: "orch_op \<Rightarrow> orchestrator \<Rightarrow> orchestrator" where
  "orch_step (OpRegister b) st = register_backend b st"
| "orch_step (OpLoad w path cfg) st = fst (orch_load w path cfg st)"
| "orch_step (OpLoadCloud w name) st = fst (load_cloud w name st)"
| "orch_step (OpUnload up answer h) st = fst (orch_unload up answer h st)"
| "orch_step OpDrain st = fst (drain_events st)"

text \<open>
  The two tables have the same keys and agree, every engine they name is registered and its mesh flag is set when it
  is the mesh, and at most sixteen events wait.
\<close>

definition orch_ok :: "orchestrator \<Rightarrow> bool" where
  "orch_ok st \<longleftrightarrow> length (events st) \<le> 16 \<and> (mesh_registered st \<longleftrightarrow> Mesh \<in> be_id ` set (registry st)) \<and>
     (\<forall>i. handle_backends st i = map_option mi_engine (loaded_info st i)) \<and>
     (\<forall>i m. loaded_info st i = Some m \<longrightarrow> mi_handle_id m = i \<and> mi_engine m \<in> be_id ` set (registry st))"

lemma mesh_not_new: "Mesh \<notin> be_id ` set (new_registry f)"
  by (auto simp: new_registry_def llamacpp_backend_def candle_backend_def onnx_backend_def dummy_backend_def
      cloud_backend_def mlx_backend_def)

lemma orch_ok_new: "orch_ok (new_orchestrator f p)"
  using mesh_not_new by (simp add: orch_ok_def new_orchestrator_def)

lemma orch_ok_register: "orch_ok st \<Longrightarrow> orch_ok (register_backend b st)"
  by (auto simp: orch_ok_def register_backend_def register_engine_def Let_def split: option.splits)

lemma registry_emit [simp]: "registry (emit_event e st) = registry st" "mesh_registered (emit_event e st) = mesh_registered st"
    "handle_backends (emit_event e st) = handle_backends st" "loaded_info (emit_event e st) = loaded_info st"
    "profile (emit_event e st) = profile st"
  by (simp_all add: emit_event_def)

lemma orch_ok_emit: "orch_ok st \<Longrightarrow> orch_ok (emit_event e st)"
  unfolding orch_ok_def registry_emit by (auto simp: emit_event_def)

lemma registry_track [simp]: "registry (track_loaded_model h path e cfg st) = registry st"
    "events (track_loaded_model h path e cfg st) = events st" "mesh_registered (track_loaded_model h path e cfg st) = mesh_registered st"
  by (simp_all add: track_loaded_model_def)

lemma orch_ok_insert:
  assumes "orch_ok st" and "e \<in> be_id ` set (registry st)" and "mi_handle_id m = i" and "mi_engine m = e"
  shows "orch_ok (st\<lparr>handle_backends := (handle_backends st)(i \<mapsto> e), loaded_info := (loaded_info st)(i \<mapsto> m)\<rparr>)"
  using assms by (auto simp: orch_ok_def)

lemma orch_ok_track: "orch_ok st \<Longrightarrow> e \<in> be_id ` set (registry st) \<Longrightarrow> orch_ok (track_loaded_model h path e cfg st)"
  unfolding track_loaded_model_def by (rule orch_ok_insert) simp_all

lemma orch_ok_remove:
  "orch_ok st \<Longrightarrow> orch_ok (st\<lparr>handle_backends := (handle_backends st)(i := None), loaded_info := (loaded_info st)(i := None)\<rparr>)"
  by (auto simp: orch_ok_def)

lemma mesh_fallback_in: "mesh_fallback w st = Some m \<Longrightarrow> m \<in> set (registry st) \<and> be_id m = Mesh \<and> w_up w m"
  by (auto simp: mesh_fallback_def dest: get_SomeD split: if_splits)

lemma choose_backend_in:
  assumes "choose_backend w fmt path st = (st1, r)"
  shows "registry st1 = registry st" and "orch_ok st \<Longrightarrow> orch_ok st1"
    and "r = Inr b \<Longrightarrow> b \<in> set (registry st) \<and> w_up w b"
  using assms select_engine_correct [where up = "w_up w" and reg = "registry st" and fmt = fmt and p = "profile st"]
  by (auto simp: choose_backend_def orch_ok_emit dest: mesh_fallback_in split: sum.splits option.splits)


lemma orch_ok_load_on: "orch_ok st \<Longrightarrow> b \<in> set (registry st) \<Longrightarrow> orch_ok (fst (load_on w b cfg path st))"
  by (auto simp: load_on_def Let_def intro!: orch_ok_track orch_ok_emit dest!: mesh_fallback_in
      intro: rev_image_eqI split: sum.split option.split if_splits)

lemma orch_ok_load: "orch_ok st \<Longrightarrow> orch_ok (fst (orch_load w path cfg st))"
  using choose_backend_in [of w _ path st]
  by (fastforce simp: orch_load_def orch_ok_load_on split: option.split sum.split prod.split)

lemma orch_ok_load_cloud: "orch_ok st \<Longrightarrow> orch_ok (fst (load_cloud w name st))"
  by (auto simp: load_cloud_def dest!: get_SomeD intro!: orch_ok_insert split: option.split sum.split)

lemma orch_ok_unload: "orch_ok st \<Longrightarrow> orch_ok (fst (orch_unload u answer h st))"
  by (auto simp: orch_unload_def orch_ok_remove split: sum.split)

lemma orch_ok_step: "orch_ok st \<Longrightarrow> orch_ok (orch_step op st)"
  by (cases op) (simp_all add: orch_ok_register orch_ok_load orch_ok_load_cloud orch_ok_unload, simp add: orch_ok_def drain_events_def)

interpretation orch: inv_system "new_orchestrator f p" orch_step orch_ok
  by unfold_locales (auto intro: orch_ok_new orch_ok_step)

text \<open>
  C34: Whatever backends are registered and whatever models are loaded and unloaded, successfully or not, the
  orchestrator's two tables stay in step: a model is dispatched to the engine that its entry in the list of loaded models
  names, that engine is registered, and at most sixteen events wait to be drained.
\<close>

theorem orchestrator_reachable_ok: "orch_ok (fold orch_step ops (new_orchestrator f p))"
  by (rule orch.invar_reachable)

subsection \<open>A model is served by the backend that loaded it\<close>

text \<open>
  The operation neither unloads the handle nor hands out its number again (\<open>ModelHandle::new\<close> takes every number from
  a counter).
\<close>

definition fresh_answers :: "u64 \<Rightarrow> load_world \<Rightarrow> bool" where
  "fresh_answers i w \<longleftrightarrow> (\<forall>b c h. load_answer w b c = Inr h \<longrightarrow> handle_id h \<noteq> i)"

fun keeps_handle :: "u64 \<Rightarrow> orch_op \<Rightarrow> bool" where
  "keeps_handle i (OpRegister b) = True"
| "keeps_handle i (OpLoad w path cfg) = fresh_answers i w"
| "keeps_handle i (OpLoadCloud w name) = fresh_answers i w"
| "keeps_handle i (OpUnload u answer h) = (handle_id h \<noteq> i)"
| "keeps_handle i OpDrain = True"

lemma handle_backends_track:
  "handle_id h \<noteq> i \<Longrightarrow> handle_backends (track_loaded_model h path e cfg st) i = handle_backends st i"
  by (simp add: track_loaded_model_def)

lemma keep_load_on:
  "fresh_answers i w \<Longrightarrow> handle_backends (fst (load_on w b cfg path st)) i = handle_backends st i"
  "registry (fst (load_on w b cfg path st)) = registry st"
  by (auto simp: load_on_def fresh_answers_def handle_backends_track Let_def split: sum.split option.split)

lemma choose_backend_keeps:
  "choose_backend w fmt path st = (st1, r) \<Longrightarrow> handle_backends st1 = handle_backends st"
  by (auto simp: choose_backend_def split: sum.splits option.splits)

lemma keep_load:
  "fresh_answers i w \<Longrightarrow> handle_backends (fst (orch_load w path cfg st)) i = handle_backends st i"
  "registry (fst (orch_load w path cfg st)) = registry st"
  by (auto simp: orch_load_def keep_load_on dest: choose_backend_keeps choose_backend_in(1) split: option.split sum.split prod.split)

lemma keep_step:
  "keeps_handle i op \<Longrightarrow> handle_backends (orch_step op st) i = handle_backends st i"
  "\<exists>bs. registry (orch_step op st) = registry st @ bs"
proof -
  show "keeps_handle i op \<Longrightarrow> handle_backends (orch_step op st) i = handle_backends st i"
    by (cases op) (auto simp: keep_load register_backend_def Let_def drain_events_def load_cloud_def orch_unload_def fresh_answers_def
        split: option.split sum.split)
  show "\<exists>bs. registry (orch_step op st) = registry st @ bs"
    by (cases op) (auto simp: keep_load register_backend_def register_engine_def Let_def drain_events_def load_cloud_def orch_unload_def
        split: option.split sum.split)
qed

lemma keep_run:
  "list_all (keeps_handle i) ops \<Longrightarrow>
    handle_backends (fold orch_step ops st) i = handle_backends st i \<and> (\<exists>bs. registry (fold orch_step ops st) = registry st @ bs)"
proof (induction ops arbitrary: st)
  case (Cons op ops)
  obtain bs where "registry (orch_step op st) = registry st @ bs" using keep_step(2) by blast
  then show ?case using Cons.IH [of "orch_step op st"] Cons.prems keep_step(1) [of i op st] by fastforce
qed simp

lemma load_on_result:
  assumes "load_on w b cfg path st = (st1, Inr (h, c))" and "b \<in> set (registry st)"
  shows "handle_backends st1 (handle_id h) = Some (be_id c)" and "registry st1 = registry st" and "c \<in> set (registry st)"
  using assms
  by (auto simp: load_on_def track_loaded_model_def Let_def dest: mesh_fallback_in split: sum.splits option.splits if_splits)

lemma orch_load_result:
  assumes "orch_load w path cfg st = (st1, Some (Inr (h, c)))"
  shows "handle_backends st1 (handle_id h) = Some (be_id c)" and "registry st1 = registry st" and "c \<in> set (registry st)"
proof -
  obtain fmt st0 b where fmt: "choose_backend w fmt path st = (st0, Inr b)"
    and l: "load_on w b (prepare_config (file_len w) (profile st) cfg) path st0 = (st1, Inr (h, c))"
    using assms by (auto simp: orch_load_def map_prod_def split: option.splits sum.splits prod.splits)
  note c = choose_backend_in [OF fmt]
  show "handle_backends st1 (handle_id h) = Some (be_id c)" and "registry st1 = registry st" and "c \<in> set (registry st)"
    using load_on_result [OF l] c(1) c(3) by auto
qed

lemma find_append: "List.find P xs = Some x \<Longrightarrow> List.find P (xs @ ys) = Some x"
  by (induction xs) auto

lemma find_first_strengthen: "List.find P xs = Some x \<Longrightarrow> Q x \<Longrightarrow> List.find (\<lambda>y. P y \<and> Q y) xs = Some x"
  by (induction xs) (auto split: if_splits)


definition demo_world :: load_world where
  "demo_world = \<lparr>w_up = (\<lambda>b. True), file_bytes = Some gguf_magic, file_len = None,
     load_answer = (\<lambda>b c. if be_id b = LlamaCpp then Inl (LoadError ''no memory'')
       else Inr \<lparr>handle_id = 7, handle_path = ''m.gguf'', handle_engine = be_id b\<rparr>)\<rparr>"

definition demo_orchestrator :: orchestrator where
  "demo_orchestrator = register_backend mesh_backend
     (new_orchestrator \<lparr>with_llamacpp = True, with_candle = True, with_onnx = False, with_cloud = False, with_mlx = False\<rparr> sample_hardware)"


end
