(* ===== verification/F32.thy ===== *)
theory F32
  imports F64
begin

section \<open>Single precision\<close>

text \<open>
  An \<open>f32\<close> is kept as the \<open>f64\<close> of the same value, which always exists; the operations round to 24 bits.
\<close>

type_synonym f32 = f64

definition ulp32 :: "rat \<Rightarrow> rat" where
  "ulp32 x = pow2 (max (ilog2 x) (-126) - 23)"

definition fround32 :: "rat \<Rightarrow> f32" where
  "fround32 x = (if x = 0 then Fin 0
     else let u = ulp32 \<bar>x\<bar>; y = of_int (rne (x / u)) * u in
       if 2 ^ 128 \<le> y then PInf else if y \<le> - (2 ^ 128) then NInf else Fin y)"

fun f64_as_f32 :: "f64 \<Rightarrow> f32" where
  "f64_as_f32 (Fin x) = fround32 x"
| "f64_as_f32 a = a"

abbreviation lit32 :: "rat \<Rightarrow> f32" where "lit32 \<equiv> fround32"

text \<open>Exact results rounded once; the other operands give what they give in double precision.\<close>

fun fadd32 :: "f32 \<Rightarrow> f32 \<Rightarrow> f32" where
  "fadd32 (Fin x) (Fin y) = fround32 (x + y)"
| "fadd32 a b = fadd a b"

definition fsub32 :: "f32 \<Rightarrow> f32 \<Rightarrow> f32" where "fsub32 a b = fadd32 a (fneg b)"

fun fmul32 :: "f32 \<Rightarrow> f32 \<Rightarrow> f32" where
  "fmul32 (Fin x) (Fin y) = fround32 (x * y)"
| "fmul32 a b = fmul a b"

fun fdiv32 :: "f32 \<Rightarrow> f32 \<Rightarrow> f32" where
  "fdiv32 (Fin x) (Fin y) = (if y = 0 then finf x else fround32 (x / y))"
| "fdiv32 a b = fdiv a b"

definition fabs32 :: "f32 \<Rightarrow> f32" where "fabs32 a = (case a of Fin x \<Rightarrow> Fin \<bar>x\<bar> | NInf \<Rightarrow> PInf | _ \<Rightarrow> a)"

definition f32_epsilon :: f32 where "f32_epsilon = Fin (1 / 2 ^ 23)"

end
