(* ===== verification/Recommender.thy ===== *)
theory Recommender
  imports MeshTypes Text F32
begin

section \<open>Model recommendations\<close>

text \<open>
  \<open>crates/hivebear-core/src/recommender\<close>: the built-in catalogue (\<open>model_db.rs\<close>), the scoring of models for a
  hardware profile (\<open>scoring.rs\<close>), the merge of community benchmarks (\<open>community.rs\<close>) and the entry points
  (\<open>mod.rs\<close>).
\<close>

text \<open>\<open>{:.1}\<close> of any value; the sign of a negative one is printed in front.\<close>

definition show_f32_1 :: "f32 \<Rightarrow> string" where
  "show_f32_1 a = (case a of Fin x \<Rightarrow> if x < 0 then ''-'' @ show_fixed1 (Fin (- x)) else show_fixed1 a | _ \<Rightarrow> show_fixed1 a)"

subsection \<open>Models (model_db.rs) and recommendations (types.rs)\<close>

datatype model_category = General | Code | Chat | Instruction | Math | Multilingual

fun show_category :: "model_category \<Rightarrow> string" where
  "show_category General = ''General''"
| "show_category Code = ''Code''"
| "show_category Chat = ''Chat''"
| "show_category Instruction = ''Instruction''"
| "show_category Math = ''Math''"
| "show_category Multilingual = ''Multilingual''"

record model_entry =
  me_id :: string
  me_name :: string
  params_billions :: f64
  formats :: "model_format list"
  me_context_length :: u32
  quality_score :: f64
  category :: model_category
  huggingface_id :: "string option"
  candle_compatible :: bool

text \<open>The catalogue, by the families of its comments.\<close>

definition llama_models :: "model_entry list" where
  "llama_models = [
     model_entry.make ''llama-3.2-1b'' ''Llama 3.2 1B'' (lit 1) [Gguf, SafeTensors] 128000 (lit (45/100)) General
       (Some ''bartowski/Llama-3.2-1B-Instruct-GGUF'') True,
     model_entry.make ''llama-3.2-3b'' ''Llama 3.2 3B'' (lit 3) [Gguf, SafeTensors] 128000 (lit (58/100)) General
       (Some ''bartowski/Llama-3.2-3B-Instruct-GGUF'') True,
     model_entry.make ''llama-3.1-8b'' ''Llama 3.1 8B'' (lit 8) [Gguf, SafeTensors, FormatMlx] 128000 (lit (72/100)) General
       (Some ''bartowski/Meta-Llama-3.1-8B-Instruct-GGUF'') True,
     model_entry.make ''llama-3.1-70b'' ''Llama 3.1 70B'' (lit 70) [Gguf, SafeTensors, FormatMlx] 128000 (lit (9/10)) General
       (Some ''bartowski/Meta-Llama-3.1-70B-Instruct-GGUF'') True]"

definition qwen_models :: "model_entry list" where
  "qwen_models = [
     model_entry.make ''qwen-2.5-0.5b'' ''Qwen 2.5 0.5B'' (lit (5/10)) [Gguf, SafeTensors] 32768 (lit (35/100)) General
       (Some ''Qwen/Qwen2.5-0.5B-Instruct-GGUF'') False,
     model_entry.make ''qwen-2.5-1.5b'' ''Qwen 2.5 1.5B'' (lit (15/10)) [Gguf, SafeTensors] 32768 (lit (5/10)) General
       (Some ''Qwen/Qwen2.5-1.5B-Instruct-GGUF'') False,
     model_entry.make ''qwen-2.5-7b'' ''Qwen 2.5 7B'' (lit 7) [Gguf, SafeTensors] 131072 (lit (7/10)) General
       (Some ''Qwen/Qwen2.5-7B-Instruct-GGUF'') False,
     model_entry.make ''qwen-2.5-32b'' ''Qwen 2.5 32B'' (lit 32) [Gguf, SafeTensors] 131072 (lit (85/100)) General
       (Some ''Qwen/Qwen2.5-32B-Instruct-GGUF'') False,
     model_entry.make ''qwen-2.5-72b'' ''Qwen 2.5 72B'' (lit 72) [Gguf, SafeTensors] 131072 (lit (91/100)) General
       (Some ''Qwen/Qwen2.5-72B-Instruct-GGUF'') False,
     model_entry.make ''qwen-2.5-coder-7b'' ''Qwen 2.5 Coder 7B'' (lit 7) [Gguf, SafeTensors] 131072 (lit (73/100)) Code
       (Some ''Qwen/Qwen2.5-Coder-7B-Instruct-GGUF'') False,
     model_entry.make ''qwen-2.5-coder-32b'' ''Qwen 2.5 Coder 32B'' (lit 32) [Gguf, SafeTensors] 131072 (lit (88/100)) Code
       (Some ''Qwen/Qwen2.5-Coder-32B-Instruct-GGUF'') False]"

definition mistral_phi_models :: "model_entry list" where
  "mistral_phi_models = [
     model_entry.make ''mistral-7b-v0.3'' ''Mistral 7B v0.3'' (lit 7) [Gguf, SafeTensors] 32768 (lit (68/100)) General
       (Some ''bartowski/Mistral-7B-Instruct-v0.3-GGUF'') True,
     model_entry.make ''mixtral-8x7b'' ''Mixtral 8x7B'' (lit (467/10)) [Gguf, SafeTensors] 32768 (lit (82/100)) General
       (Some ''bartowski/Mixtral-8x7B-Instruct-v0.1-GGUF'') False,
     model_entry.make ''phi-3-mini-3.8b'' ''Phi-3 Mini 3.8B'' (lit (38/10)) [Gguf, Onnx, SafeTensors] 128000 (lit (62/100)) Instruction
       (Some ''bartowski/Phi-3-mini-128k-instruct-GGUF'') False,
     model_entry.make ''phi-3-medium-14b'' ''Phi-3 Medium 14B'' (lit 14) [Gguf, Onnx, SafeTensors] 128000 (lit (78/100)) Instruction
       (Some ''bartowski/Phi-3-medium-128k-instruct-GGUF'') False]"

definition gemma_coder_models :: "model_entry list" where
  "gemma_coder_models = [
     model_entry.make ''gemma-2-2b'' ''Gemma 2 2B'' (lit 2) [Gguf, SafeTensors] 8192 (lit (52/100)) General
       (Some ''bartowski/gemma-2-2b-it-GGUF'') False,
     model_entry.make ''gemma-2-9b'' ''Gemma 2 9B'' (lit 9) [Gguf, SafeTensors] 8192 (lit (74/100)) General
       (Some ''bartowski/gemma-2-9b-it-GGUF'') False,
     model_entry.make ''gemma-2-27b'' ''Gemma 2 27B'' (lit 27) [Gguf, SafeTensors] 8192 (lit (83/100)) General
       (Some ''bartowski/gemma-2-27b-it-GGUF'') False,
     model_entry.make ''deepseek-coder-v2-lite'' ''DeepSeek Coder V2 Lite 16B'' (lit 16) [Gguf, SafeTensors] 128000 (lit (76/100)) Code
       (Some ''bartowski/DeepSeek-Coder-V2-Lite-Instruct-GGUF'') False,
     model_entry.make ''starcoder2-3b'' ''StarCoder2 3B'' (lit 3) [Gguf, SafeTensors] 16384 (lit (55/100)) Code
       (Some ''bartowski/starcoder2-3b-GGUF'') False]"

definition builtin_models :: "model_entry list" where
  "builtin_models = llama_models @ qwen_models @ mistral_phi_models @ gemma_coder_models"

record model_recommendation =
  rec_model_id :: string
  rec_model_name :: string
  rec_quantization :: quantization
  rec_engine :: inference_engine
  estimated_tokens_per_sec :: f32
  estimated_memory_usage_bytes :: u64
  confidence :: f32
  warnings :: "string list"
  rec_score :: f64
  community_tokens_per_sec :: "f32 option"
  community_sample_count :: "u32 option"

subsection \<open>Scoring (scoring.rs)\<close>

definition QUANT_LEVELS :: "quantization list" where
  "QUANT_LEVELS = [Q4KM, Q4KS, Q5KM, Q5KS, Q6K, Q8_0, Q3KM, Q3KL, Q2K]"

definition f64_MAX :: f64 where "f64_MAX = Fin ((2 - 1 / 2 ^ 52) * 2 ^ 1023)"

definition mobile_platform :: "hardware_profile \<Rightarrow> bool" where
  "mobile_platform p \<longleftrightarrow> is_mobile (platform p) \<or> os (platform p) = ''android'' \<or> os (platform p) = ''ios''"

definition max_params_for_platform :: "hardware_profile \<Rightarrow> f64" where
  "max_params_for_platform p =
    (if os (platform p) = ''browser'' \<or> arch (platform p) = ''wasm32'' then lit 8
     else if mobile_platform p then
       (if mem_available_bytes (memory p) \<le> 4 * 1024 * 1024 * 1024 then lit (15/10) else lit (35/10))
     else if arch (platform p) = ''aarch64'' \<and> total_bytes (memory p) \<le> 9 * 1024 * 1024 * 1024 then lit 7
     else f64_MAX)"

definition memory_fraction_for_platform :: "hardware_profile \<Rightarrow> f64 \<Rightarrow> f64" where
  "memory_fraction_for_platform p requested = (if mobile_platform p then f_min requested (lit (40/100)) else requested)"

definition calculate_effective_memory :: "hardware_profile \<Rightarrow> f64 \<Rightarrow> u64" where
  "calculate_effective_memory p max_fraction =
    (let ram = f64_as_u64 (f64_of_u64 (mem_available_bytes (memory p)) * max_fraction);
         vram = wsum (map vram_bytes (gpus p)) in ram + vram)"

text \<open>The patterns are looked for in order.  Lower-casing is spelled out for ASCII: no other letter gives one of them.\<close>

definition gpu_bandwidths :: "(string \<times> f64) list" where
  "gpu_bandwidths = [(''4090'', lit 1008), (''4080'', lit 717), (''4070'', lit 504), (''4060'', lit 288),
     (''3090'', lit 936), (''3080'', lit 760), (''3070'', lit 448), (''3060'', lit 360),
     (''7900 xtx'', lit 960), (''7900 xt'', lit 800), (''7800 xt'', lit 624), (''apple'', lit 200)]"

definition estimate_gpu_bandwidth :: "gpu_info \<Rightarrow> f64" where
  "estimate_gpu_bandwidth gpu =
    (let name = to_lowercase (gpu_name gpu) in
     case List.find (\<lambda>(pat, bw). str_contains pat name) gpu_bandwidths of Some (pat, bw) \<Rightarrow> bw | None \<Rightarrow> lit 100)"

definition effective_bandwidth :: "hardware_profile \<Rightarrow> f64" where
  "effective_bandwidth p =
    (let ram_bw = estimated_bandwidth_gbps (memory p) in
     case gpus p of
       g # _ \<Rightarrow> (let gpu_bw = estimate_gpu_bandwidth g in
                if ram_bw < gpu_bw then gpu_bw * lit (6/10) + ram_bw * lit (4/10) else ram_bw)
     | [] \<Rightarrow> ram_bw)"

definition best_engine :: "hardware_profile \<Rightarrow> inference_engine" where
  "best_engine p =
    (if os (platform p) = ''macos'' \<and> arch (platform p) = ''aarch64'' then Mlx
     else if list_ex (\<lambda>g. compute_api g = Cuda) (gpus p) then LlamaCpp
     else if gpus p \<noteq> [] then LlamaCpp else LlamaCpp)"

definition estimate_memory :: "model_entry \<Rightarrow> quantization \<Rightarrow> u32 \<Rightarrow> u64" where
  "estimate_memory m q ctx =
    (let params = params_billions m * lit 1000000000;
         weight_bytes = f64_as_u64 (params * bits_per_weight q / lit 8);
         kv_cache_bytes = f64_as_u64 (params * lit (125/1000) * f64_of_u32 ctx / lit 1000);
         overhead = (weight_bytes + kv_cache_bytes) div 10
     in weight_bytes + kv_cache_bytes + overhead)"

definition estimate_tokens_per_sec :: "model_entry \<Rightarrow> quantization \<Rightarrow> f64 \<Rightarrow> f32" where
  "estimate_tokens_per_sec m q bandwidth =
    (let params = params_billions m * lit 1000000000;
         bytes_per_token = params * bits_per_weight q / lit 8;
         bandwidth_bytes = bandwidth * lit 1000000000
     in if lit 0 < bytes_per_token then f64_as_f32 (bandwidth_bytes / bytes_per_token) else lit32 0)"

definition calculate_confidence :: "model_entry \<Rightarrow> hardware_profile \<Rightarrow> f32" where
  "calculate_confidence m p =
    (let c0 = lit32 (7/10);
         c1 = (if params_billions m \<in> set (map lit [1, 3, 7, 8, 13, 14, 32, 70]) then fadd32 c0 (lit32 (1/10)) else c0);
         c2 = (if lit 0 < estimated_bandwidth_gbps (memory p) then fadd32 c1 (lit32 (1/10)) else c1);
         c3 = (if lit 30 < params_billions m then fsub32 c2 (lit32 (1/10)) else c2)
     in f_clamp (lit32 (1/10)) (lit32 (95/100)) c3)"

definition em_dash :: string where "em_dash = byte_str [0xE2, 0x80, 0x94]"

definition quant_score :: "model_entry \<Rightarrow> quantization \<Rightarrow> f32 \<Rightarrow> f64" where
  "quant_score m q tok_s =
    (let quality = quality_score m * quality_retention q;
         speed_normalized = f_min (tok_s / lit 100) (lit 1)
     in quality * lit (6/10) + speed_normalized * lit (4/10))"

definition quant_warnings :: "hardware_profile \<Rightarrow> f64 \<Rightarrow> quantization \<Rightarrow> u64 \<Rightarrow> f32 \<Rightarrow> string list" where
  "quant_warnings p fraction q memory_bytes tok_s =
    (if bits_per_weight q < lit 4
     then [''Using aggressive '' @ show_quantization q @ '' quantization '' @ em_dash @ '' expect some quality loss''] else []) @
    (if f64_as_u64 (f64_of_u64 (mem_available_bytes (memory p)) * fraction) < memory_bytes \<and> gpus p \<noteq> []
     then [''Will split layers between CPU and GPU''] else []) @
    (if tok_s < lit32 10
     then [''Estimated '' @ show_f32_1 tok_s @ '' tok/s '' @ em_dash @ '' may feel slow for interactive use''] else [])"

text \<open>One quantization of one model: \<open>None\<close> when it does not fit or is too slow.\<close>

definition candidate :: "hardware_profile \<Rightarrow> f64 \<Rightarrow> f32 \<Rightarrow> model_entry \<Rightarrow> quantization \<Rightarrow> model_recommendation option" where
  "candidate p fraction min_tok_s m q =
    (let memory_bytes = estimate_memory m q 4096;
         tok_s = estimate_tokens_per_sec m q (effective_bandwidth p)
     in if calculate_effective_memory p fraction < memory_bytes then None
        else if tok_s < min_tok_s then None
        else Some \<lparr>rec_model_id = me_id m, rec_model_name = me_name m, rec_quantization = q, rec_engine = best_engine p,
               estimated_tokens_per_sec = tok_s, estimated_memory_usage_bytes = memory_bytes,
               confidence = calculate_confidence m p, warnings = quant_warnings p fraction q memory_bytes tok_s,
               rec_score = quant_score m q tok_s, community_tokens_per_sec = None, community_sample_count = None\<rparr>)"

text \<open>The loop over the levels keeps a recommendation until one with a higher score comes.\<close>

fun keep_best :: "model_recommendation option \<Rightarrow> model_recommendation option \<Rightarrow> model_recommendation option" where
  "keep_best best None = best"
| "keep_best None (Some r) = Some r"
| "keep_best (Some e) (Some r) = (if rec_score r \<le> rec_score e then Some e else Some r)"

definition best_for_model :: "hardware_profile \<Rightarrow> f64 \<Rightarrow> f32 \<Rightarrow> model_entry \<Rightarrow> model_recommendation option" where
  "best_for_model p fraction min_tok_s m =
    (if mobile_platform p \<and> \<not> candle_compatible m then None
     else if max_params_for_platform p < params_billions m then None
     else foldl (\<lambda>best q. keep_best best (candidate p fraction min_tok_s m q)) None QUANT_LEVELS)"

definition recommend :: "hardware_profile \<Rightarrow> model_entry list \<Rightarrow> f64 \<Rightarrow> f32 \<Rightarrow> usize \<Rightarrow> model_recommendation list" where
  "recommend p models max_memory_fraction min_tok_s top_n =
    (let fraction = memory_fraction_for_platform p max_memory_fraction
     in take top_n (sort_by (\<lambda>a b. rec_score a < rec_score b)
          (List.map_filter (best_for_model p fraction min_tok_s) models)))"

subsection \<open>Community data (community.rs)\<close>

record benchmark_summary =
  bs_model_id :: string
  bs_quantization :: string
  bs_engine :: string
  bs_sample_count :: u32
  tokens_per_sec_p50 :: f32
  tokens_per_sec_p25 :: f32
  tokens_per_sec_p75 :: f32
  ttft_ms_p50 :: "u64 option"
  peak_memory_mb_p50 :: u64
  hardware_similarity :: f64

text \<open>\<open>max_by\<close> keeps the later of two elements unless the comparator answers \<open>Greater\<close> for the earlier one.\<close>

fun max_by_gt :: "('a \<Rightarrow> 'a \<Rightarrow> bool) \<Rightarrow> 'a list \<Rightarrow> 'a option" where
  "max_by_gt gt [] = None"
| "max_by_gt gt (x # xs) = Some (foldl (\<lambda>m y. if gt m y then m else y) x xs)"

definition best_summary :: "benchmark_summary list \<Rightarrow> model_recommendation \<Rightarrow> benchmark_summary option" where
  "best_summary community r =
    max_by_gt (\<lambda>a b. hardware_similarity b < hardware_similarity a)
      (filter (\<lambda>s. bs_model_id s = rec_model_id r \<and> bs_quantization s = show_quantization (rec_quantization r)) community)"

definition merge_one :: "benchmark_summary list \<Rightarrow> model_recommendation \<Rightarrow> model_recommendation" where
  "merge_one community r =
    (case best_summary community r of
       None \<Rightarrow> r
     | Some s \<Rightarrow>
        (let sample_factor = f64_of_u32 (min (bs_sample_count s) 20) / lit 20;
             blend_weight = hardware_similarity s * sample_factor * lit (6/10);
             blended = f64_as_f32 (estimated_tokens_per_sec r * (lit 1 - blend_weight) + tokens_per_sec_p50 s * blend_weight);
             ratio = (if lit32 0 < tokens_per_sec_p50 s then fdiv32 blended (tokens_per_sec_p50 s) else lit32 1)
         in r\<lparr>community_tokens_per_sec := Some (tokens_per_sec_p50 s), community_sample_count := Some (bs_sample_count s),
              estimated_tokens_per_sec := blended,
              confidence := (if lit32 (7/10) \<le> ratio \<and> ratio \<le> lit32 (13/10)
                then f_clamp (lit32 (1/10)) (lit32 (99/100))
                       (fadd32 (confidence r) (fmul32 (lit32 (1/10)) (f64_as_f32 (hardware_similarity s))))
                else confidence r)\<rparr>))"

definition merge_community_data :: "model_recommendation list \<Rightarrow> benchmark_summary list \<Rightarrow> model_recommendation list" where
  "merge_community_data recs community = map (merge_one community) recs"

subsection \<open>Entry points (mod.rs)\<close>

record recommend_config =
  max_memory_usage :: f64
  min_tokens_per_sec :: f32
  top_n_recommendations :: usize

definition recommend_builtin :: "hardware_profile \<Rightarrow> recommend_config \<Rightarrow> model_recommendation list" where
  "recommend_builtin p cfg =
    recommend p builtin_models (max_memory_usage cfg) (min_tokens_per_sec cfg) (top_n_recommendations cfg)"

definition recommend_with_community :: "hardware_profile \<Rightarrow> recommend_config \<Rightarrow> benchmark_summary list \<Rightarrow> model_recommendation list" where
  "recommend_with_community p cfg community = merge_community_data (recommend_builtin p cfg) community"

subsection \<open>What is recommended fits\<close>

lemma candidate_SomeD:
  "candidate p fraction min_tok_s m q = Some r \<Longrightarrow>
    rec_model_id r = me_id m \<and> rec_quantization r = q \<and> estimated_memory_usage_bytes r \<le> calculate_effective_memory p fraction \<and>
    \<not> estimated_tokens_per_sec r < min_tok_s \<and> rec_score r = quant_score m q (estimated_tokens_per_sec r)"
  by (auto simp: candidate_def Let_def split: if_splits)

lemma keep_best_cases: "keep_best b c = b \<or> keep_best b c = c"
  by (cases "(b, c)" rule: keep_best.cases) auto

lemma fold_keep_best_from:
  "foldl (\<lambda>b q. keep_best b (f q)) b qs = Some r \<Longrightarrow> b = Some r \<or> (\<exists>q \<in> set qs. f q = Some r)"
proof (induction qs arbitrary: b)
  case (Cons q qs)
  then show ?case using keep_best_cases [of b "f q"] by fastforce
qed simp

lemma best_for_model_SomeD:
  assumes "best_for_model p fraction min_tok_s m = Some r"
  obtains q where "candidate p fraction min_tok_s m q = Some r" and "q \<in> set QUANT_LEVELS"
    and "\<not> max_params_for_platform p < params_billions m" and "if mobile_platform p then candle_compatible m else True"
  using assms fold_keep_best_from [of "candidate p fraction min_tok_s m" None QUANT_LEVELS r]
  by (auto simp: best_for_model_def split: if_splits)

lemma set_map_filter: "set (List.map_filter f xs) = {y. \<exists>x \<in> set xs. f x = Some y}"
  by (force simp: List.map_filter_def)

text \<open>
  C36: Every recommendation can be run: it is for a model of the list that the platform admits (below its parameter
  limit, on a phone only with Candle), at one of the considered quantizations, its estimated memory is within the
  usable memory and its estimated speed is not below the minimum; and there are never more than asked for.
\<close>

theorem recommendations_fit:
  "length (recommend p models fraction min_tok_s n) \<le> n \<and>
   list_all (\<lambda>r. list_ex (\<lambda>m. me_id m = rec_model_id r \<and> \<not> max_params_for_platform p < params_billions m \<and>
                     (if mobile_platform p then candle_compatible m else True)) models \<and>
       rec_quantization r \<in> set QUANT_LEVELS \<and> \<not> estimated_tokens_per_sec r < min_tok_s \<and>
       estimated_memory_usage_bytes r \<le> calculate_effective_memory p (memory_fraction_for_platform p fraction))
     (recommend p models fraction min_tok_s n)"
proof (rule conjI, goal_cases)
  case 1
  then show ?case by (simp add: recommend_def Let_def)
next
  case 2
  show ?case unfolding list_all_iff
  proof
    fix r assume "r \<in> set (recommend p models fraction min_tok_s n)"
    then obtain m where m: "m \<in> set models"
      and b: "best_for_model p (memory_fraction_for_platform p fraction) min_tok_s m = Some r"
      by (auto simp: recommend_def Let_def set_map_filter dest!: in_set_takeD)
    from b show "list_ex (\<lambda>m. me_id m = rec_model_id r \<and> \<not> max_params_for_platform p < params_billions m \<and>
                     (if mobile_platform p then candle_compatible m else True)) models \<and>
       rec_quantization r \<in> set QUANT_LEVELS \<and> \<not> estimated_tokens_per_sec r < min_tok_s \<and>
       estimated_memory_usage_bytes r \<le> calculate_effective_memory p (memory_fraction_for_platform p fraction)"
      by (rule best_for_model_SomeD) (use m candidate_SomeD in \<open>auto simp: list_ex_iff split: if_splits\<close>)
  qed
qed

subsection \<open>Scores are comparable\<close>

lemma le_if_not_less: "a \<noteq> NaN \<Longrightarrow> b \<noteq> NaN \<Longrightarrow> \<not> a < b \<Longrightarrow> b \<le> a" for a b :: f64
  by (cases a; cases b) (auto simp: less_f64_def less_eq_f64_def fle_def)

definition unit_quality :: "model_entry \<Rightarrow> bool" where
  "unit_quality m \<longleftrightarrow> (case quality_score m of Fin q \<Rightarrow> 0 \<le> q \<and> q \<le> 1 | _ \<Rightarrow> False)"

lemma builtin_models_quality: "list_all unit_quality builtin_models"
  by code_simp

lemma builtin_models_distinct: "distinct (map me_id builtin_models)"
  by code_simp

lemma builtin_models_gguf: "list_all (\<lambda>m. Gguf \<in> set (formats m)) builtin_models"
  by code_simp

lemma fround_finite_1: "\<bar>x\<bar> \<le> 1 \<Longrightarrow> \<exists>y. fround x = Fin y \<and> \<bar>y\<bar> \<le> 1"
  using fround_finite [of x 0] fval_abs_le_pow2 [of x 0] by (simp add: pow2_def)

lemma lit_unit: "0 \<le> x \<Longrightarrow> x \<le> 1 \<Longrightarrow> \<exists>y. lit x = Fin y \<and> 0 \<le> y \<and> \<bar>y\<bar> \<le> 1"
  using fround_finite_1 [of x] fround_mono [of 0 x] by (auto simp: fround_def [of 0])

lemma f_min_not_NaN: "b \<noteq> NaN \<Longrightarrow> f_min a b \<noteq> NaN"
  by (auto simp: f_min_def)

lemma quant_score_not_NaN:
  assumes "unit_quality m"
  shows "quant_score m q t \<noteq> NaN"
proof -
  obtain x where x: "quality_score m = Fin x" "\<bar>x\<bar> \<le> 1"
    using assms by (auto simp: unit_quality_def split: f64.splits)
  obtain y where y: "quality_retention q = Fin y" "\<bar>y\<bar> \<le> 1"
    using lit_unit [of "quality_rat q"] unfolding quality_retention_lit by (cases q) auto
  obtain z where z: "lit (6/10) = Fin z" "\<bar>z\<bar> \<le> 1" using lit_unit [of "6/10"] by auto
  obtain w where w: "lit (4/10) = Fin w" "\<bar>w\<bar> \<le> 1" using lit_unit [of "4/10"] by auto
  have "lit (1/4) = Fin (1/4)" by code_simp
  then have wpos: "0 < w" using fround_mono [of "1/4" "4/10"] unfolding w(1) by simp
  have "\<bar>x * y\<bar> \<le> 1" using x(2) y(2) by (simp add: abs_mult mult_le_one)
  then obtain a where a: "Fin x * Fin y = Fin a" "\<bar>a\<bar> \<le> 1" using fround_finite_1 by (auto simp: times_f64_def)
  have "\<bar>a * z\<bar> \<le> 1" using a(2) z(2) by (simp add: abs_mult mult_le_one)
  then obtain b where b: "Fin a * Fin z = Fin b" using fround_finite_1 by (auto simp: times_f64_def)
  define s where "s = f_min (t / lit 100) (lit 1)"
  have s: "s \<noteq> NaN" unfolding s_def by (rule f_min_not_NaN) simp
  have "s * Fin w \<noteq> NaN" using s wpos by (cases s) (auto simp: times_f64_def finf_def)
  then have "Fin b + s * Fin w \<noteq> NaN" by (cases "s * Fin w") (auto simp: plus_f64_def)
  then show ?thesis
    unfolding quant_score_def Let_def x(1) y(1) z(1) w(1) s_def [symmetric] a(1) b(1) .
qed

subsection \<open>The ranking\<close>

lemma insert_by_cong:
  "(\<And>y. y \<in> set ys \<Longrightarrow> gt x y = gt' x y) \<Longrightarrow> insert_by gt x ys = insert_by gt' x ys"
  by (induction ys) auto

lemma sort_by_cong:
  "(\<And>x y. x \<in> set xs \<Longrightarrow> y \<in> set xs \<Longrightarrow> gt x y = gt' x y) \<Longrightarrow> sort_by gt xs = sort_by gt' xs"
  by (induction xs) (auto intro: insert_by_cong)

text \<open>A score with a NaN moved to the bottom; the comparator on these is a total preorder.\<close>

definition ordered_score :: "model_recommendation \<Rightarrow> f64" where
  "ordered_score r = (if rec_score r = NaN then NInf else rec_score r)"

lemma ordered_score_not_NaN: "ordered_score r \<noteq> NaN"
  by (simp add: ordered_score_def)

lemma less_asym_f64: "a < b \<Longrightarrow> \<not> b < a" for a b :: f64
  by (cases a; cases b) (auto simp: less_f64_def)

lemma not_less_iff_le: "a \<noteq> NaN \<Longrightarrow> b \<noteq> NaN \<Longrightarrow> \<not> a < b \<longleftrightarrow> b \<le> a" for a b :: f64
  by (cases a; cases b) (auto simp: less_f64_def less_eq_f64_def fle_def)

lemma sorted_by_score:
  fixes rs :: "model_recommendation list"
  assumes "\<And>r. r \<in> set rs \<Longrightarrow> rec_score r \<noteq> NaN"
  shows "sorted_wrt (\<lambda>a b. rec_score b \<le> rec_score a) (sort_by (\<lambda>a b. rec_score a < rec_score b) rs)"
proof -
  let ?gt = "\<lambda>a b. ordered_score a < ordered_score b"
  have eq: "sort_by (\<lambda>a b. rec_score a < rec_score b) rs = sort_by ?gt rs"
    using assms by (intro sort_by_cong) (simp add: ordered_score_def)
  have "sorted_wrt (\<lambda>x y. \<not> ?gt x y) (sort_by ?gt rs)"
    by (rule sorted_sort_by) (auto simp: not_less_iff_le ordered_score_not_NaN less_asym_f64 intro: f64_le_trans)
  then have "sorted_wrt (\<lambda>a b. rec_score b \<le> rec_score a) (sort_by ?gt rs)"
    by (rule sorted_wrt_mono_rel [rotated]) (use assms in \<open>auto simp: ordered_score_def not_less_iff_le\<close>)
  then show ?thesis by (simp add: eq)
qed

lemma sorted_take_rest:
  assumes "sorted_wrt P xs" and "x \<in> set xs"
  shows "x \<in> set (take n xs) \<or> length (take n xs) = n \<and> list_all (\<lambda>y. P y x) (take n xs)"
proof (cases "x \<in> set (take n xs)")
  case False
  then have d: "x \<in> set (drop n xs)" using assms(2) by (metis Un_iff append_take_drop_id set_append)
  then have "n \<le> length xs" by (metis drop_all in_set_dropD list.set_cases list.distinct(1) nle_le)
  then show ?thesis using assms(1) d
    by (metis append_take_drop_id length_take list_all_iff min_absorb2 sorted_wrt_append)
qed simp

text \<open>The loop over the levels keeps the best of the candidates.\<close>

lemma keep_best_max:
  assumes "\<And>q r. q \<in> set qs \<Longrightarrow> f q = Some r \<Longrightarrow> rec_score r \<noteq> NaN"
    and "\<And>r. b = Some r \<Longrightarrow> rec_score r \<noteq> NaN"
    and "foldl (\<lambda>b q. keep_best b (f q)) b qs = Some r"
  shows "(\<forall>e. b = Some e \<longrightarrow> rec_score e \<le> rec_score r) \<and> (\<forall>q \<in> set qs. \<forall>c. f q = Some c \<longrightarrow> rec_score c \<le> rec_score r)"
  using assms
proof (induction qs arbitrary: b)
  case (Cons q qs)
  let ?b = "keep_best b (f q)"
  have nan: "rec_score e \<noteq> NaN" if "?b = Some e" for e
    using that Cons.prems(1,2) keep_best_cases [of b "f q"] by (metis list.set_intros(1))
  have IH: "(\<forall>e. ?b = Some e \<longrightarrow> rec_score e \<le> rec_score r) \<and> (\<forall>q \<in> set qs. \<forall>c. f q = Some c \<longrightarrow> rec_score c \<le> rec_score r)"
    using Cons.prems nan by (intro Cons.IH) auto
  have step: "\<exists>x. ?b = Some x \<and> rec_score e \<le> rec_score x" if "b = Some e \<or> f q = Some e" for e
    using that Cons.prems(1) [of q] Cons.prems(2) f64_le_refl le_if_not_less less_asym_f64
    by (cases b; cases "f q") (auto simp: not_less_iff_le [symmetric])
  show ?case
  proof (intro conjI ballI allI impI)
    fix e assume "b = Some e"
    then show "rec_score e \<le> rec_score r" using step [of e] IH f64_le_trans by blast
  next
    fix q' c assume "q' \<in> set (q # qs)" "f q' = Some c"
    then show "rec_score c \<le> rec_score r" using step [of c] IH f64_le_trans by auto
  qed
qed (simp add: f64_le_refl)

lemma candidate_score: "unit_quality m \<Longrightarrow> candidate p fraction min_tok_s m q = Some r \<Longrightarrow> rec_score r \<noteq> NaN"
  using candidate_SomeD [of p fraction min_tok_s m q r] by (simp add: quant_score_not_NaN)

lemma best_for_model_max:
  assumes "unit_quality m" and "best_for_model p fraction min_tok_s m = Some r"
    and "q \<in> set QUANT_LEVELS" and "candidate p fraction min_tok_s m q = Some c"
  shows "rec_score c \<le> rec_score r"
proof -
  have "foldl (\<lambda>b q. keep_best b (candidate p fraction min_tok_s m q)) None QUANT_LEVELS = Some r"
    using assms(2) by (simp add: best_for_model_def split: if_splits)
  then show ?thesis
    using keep_best_max [of QUANT_LEVELS "candidate p fraction min_tok_s m" None r] candidate_score [OF assms(1)] assms(3,4)
    by blast
qed

lemma best_for_model_score:
  "unit_quality m \<Longrightarrow> best_for_model p fraction min_tok_s m = Some r \<Longrightarrow> rec_score r \<noteq> NaN \<and> rec_model_id r = me_id m"
  using candidate_score candidate_SomeD by (elim best_for_model_SomeD) blast

lemma distinct_map_filter_ids:
  assumes "distinct (map f xs)" and "\<And>x y. x \<in> set xs \<Longrightarrow> g x = Some y \<Longrightarrow> h y = f x"
  shows "distinct (map h (List.map_filter g xs))"
  using assms
proof (induction xs)
  case (Cons x xs)
  have "\<And>x'. x' \<in> set xs \<Longrightarrow> g x' = Some y' \<Longrightarrow> h y' = f x'" for y' using Cons.prems by auto
  then show ?case using Cons
    by (auto simp: map_filter_simps set_map_filter split: option.splits) (metis image_eqI)
qed (simp add: map_filter_simps)

text \<open>
  C15: For any hardware and configuration the recommendations from the built-in catalogue are the best ones: each is
  for another model, they come in descending order of score, a model that can run at some quantization is left out
  only when the list is full of models that score at least as high, and every model is shown at the quantization
  that scores highest among those that fit.
\<close>

theorem recommendations_are_best:
  "let rs = recommend_builtin p cfg;
       fraction = memory_fraction_for_platform p (max_memory_usage cfg);
       n = top_n_recommendations cfg
   in distinct (map rec_model_id rs) \<and> sorted_wrt (\<lambda>a b. rec_score b \<le> rec_score a) rs \<and>
      list_all (\<lambda>m. case best_for_model p fraction (min_tokens_per_sec cfg) m of
          None \<Rightarrow> True
        | Some r \<Rightarrow>
            (r \<in> set rs \<or> length rs = n \<and> list_all (\<lambda>x. rec_score r \<le> rec_score x) rs) \<and>
            list_all (\<lambda>q. case candidate p fraction (min_tokens_per_sec cfg) m q of
                None \<Rightarrow> True | Some c \<Rightarrow> rec_score c \<le> rec_score r) QUANT_LEVELS)
        builtin_models"
proof -
  define fraction where "fraction = memory_fraction_for_platform p (max_memory_usage cfg)"
  define f where "f = best_for_model p fraction (min_tokens_per_sec cfg)"
  define all_recs where "all_recs = List.map_filter f builtin_models"
  define sorted_recs where "sorted_recs = sort_by (\<lambda>a b. rec_score a < rec_score b) all_recs"
  have q: "unit_quality m" if "m \<in> set builtin_models" for m
    using builtin_models_quality that by (simp add: list_all_iff)
  have rs: "recommend_builtin p cfg = take (top_n_recommendations cfg) sorted_recs"
    by (simp add: recommend_builtin_def recommend_def sorted_recs_def all_recs_def f_def fraction_def)
  have "distinct (map rec_model_id all_recs)"
    unfolding all_recs_def f_def using builtin_models_distinct best_for_model_score q
    by (intro distinct_map_filter_ids) blast+
  then have "distinct (map rec_model_id sorted_recs)"
    by (metis mset_eq_imp_distinct_iff mset_map mset_sort_by sorted_recs_def)
  then have dist: "distinct (map rec_model_id (recommend_builtin p cfg))"
    unfolding rs by (simp flip: take_map)
  have "rec_score r \<noteq> NaN" if "r \<in> set all_recs" for r
    using that q best_for_model_score unfolding all_recs_def f_def set_map_filter by blast
  then have sorted: "sorted_wrt (\<lambda>a b. rec_score b \<le> rec_score a) sorted_recs"
    unfolding sorted_recs_def by (rule sorted_by_score)
  have left_out: "r \<in> set (recommend_builtin p cfg) \<or>
      length (recommend_builtin p cfg) = top_n_recommendations cfg \<and> list_all (\<lambda>x. rec_score r \<le> rec_score x) (recommend_builtin p cfg)"
    if "m \<in> set builtin_models" "f m = Some r" for m r
    unfolding rs using that by (intro sorted_take_rest [OF sorted]) (auto simp: sorted_recs_def all_recs_def set_map_filter)
  show ?thesis
    unfolding Let_def fraction_def [symmetric] f_def [symmetric]
    using dist sorted left_out best_for_model_max [OF q, of _ p fraction "min_tokens_per_sec cfg"]
    by (auto simp: rs sorted_wrt_take list_all_iff f_def split: option.split)
qed

text \<open>
  C?: The merge of community data counts its own blend as confirmation: the estimate of 18 tokens per second is off by
  half against the 12 that twenty samples report, but the ratio that is tested is that of the blended value, 14.4, so
  the confidence is raised from 0.7 to 0.8 although the data contradict the estimate.
\<close>

definition contradicting_summary :: benchmark_summary where
  "contradicting_summary = \<lparr>bs_model_id = ''m'', bs_quantization = ''Q4_K_M'', bs_engine = ''llama.cpp'', bs_sample_count = 20,
     tokens_per_sec_p50 = Fin 12, tokens_per_sec_p25 = Fin 11, tokens_per_sec_p75 = Fin 13, ttft_ms_p50 = None,
     peak_memory_mb_p50 = 4000, hardware_similarity = Fin 1\<rparr>"

definition estimate_18 :: model_recommendation where
  "estimate_18 = \<lparr>rec_model_id = ''m'', rec_model_name = ''m'', rec_quantization = Q4KM, rec_engine = LlamaCpp,
     estimated_tokens_per_sec = Fin 18, estimated_memory_usage_bytes = 0, confidence = lit32 (7/10), warnings = [],
     rec_score = Fin 0, community_tokens_per_sec = None, community_sample_count = None\<rparr>"

theorem blend_confirms_itself:
  "map confidence (merge_community_data [estimate_18] [contradicting_summary]) = [lit32 (8/10)] \<and>
   lit32 (13/10) < fdiv32 (estimated_tokens_per_sec estimate_18) (tokens_per_sec_p50 contradicting_summary)"
  by code_simp

end
