(* ===== verification/Download.thy ===== *)
theory Download
  imports Text "HOL-Library.Sublist"
begin

section \<open>Resumable downloads\<close>

text \<open>
  \<open>crates/hivebear-registry/src/download.rs\<close>: one call of \<open>DownloadManager::download\<close>, with its retries, its resume
  of a partial file, its handling of truncated streams and the final check and rename.

  The state is what lies on disk for the file (the \<open>.partial\<close>, its \<open>.partial.meta\<close>, the final file) and the entry of the
  cancellation map.  The world is read from three lists: the answers of the server, each a function of the offset that is
  requested (0 sends no \<open>Range\<close> header); what the cancellation flag says when it is looked at; and whether the next
  fallible operation on files fails.  A list that is used up stands for no answer, not cancelled and no failure.  The time,
  the progress callback and the log are left out.
\<close>

subsection \<open>Errors (error.rs)\<close>

datatype registry_error =
  RegModelNotFound string
| DownloadError string
| DownloadInterrupted string
| IntegrityError string string string
| AlreadyInstalled string
| NoFilesFound string
| ConversionUnavailable string
| HuggingFaceError string
| IndexError string
| StorageError string
| RegistryIo string
| RegistryHttp string
| RegistryJson string

fun show_registry_error :: "registry_error \<Rightarrow> string" where
  "show_registry_error (RegModelNotFound s) = ''Model not found: '' @ s"
| "show_registry_error (DownloadError s) = ''Download failed: '' @ s"
| "show_registry_error (DownloadInterrupted s) = ''Download interrupted '' @ byte_str [0xE2, 0x80, 0x94] @ '' resume with `hivebear install '' @ s @ ''`''"
| "show_registry_error (IntegrityError p e a) = ''Integrity check failed for '' @ p @ '': expected SHA-256 '' @ e @ '', got '' @ a"
| "show_registry_error (AlreadyInstalled s) = ''Model already installed: '' @ s"
| "show_registry_error (NoFilesFound s) = ''No downloadable files found for model: '' @ s"
| "show_registry_error (ConversionUnavailable s) = ''Conversion not available: '' @ s"
| "show_registry_error (HuggingFaceError s) = ''HuggingFace API error: '' @ s"
| "show_registry_error (IndexError s) = ''Local index error: '' @ s"
| "show_registry_error (StorageError s) = ''Storage error: '' @ s"
| "show_registry_error (RegistryIo s) = ''IO error: '' @ s"
| "show_registry_error (RegistryHttp s) = ''HTTP error: '' @ s"
| "show_registry_error (RegistryJson s) = ''JSON error: '' @ s"

subsection \<open>The partial file and the resume plan\<close>

record partial_meta =
  pm_url :: string
  pm_total_bytes :: "u64 option"
  sha256_expected :: "string option"
  pm_model_id :: string
  pm_filename :: string
  started_at :: nat

definition parse_content_range_total :: "string \<Rightarrow> u64 option" where
  "parse_content_range_total v =
    (case rsplit_once (CHR ''/'') v of None \<Rightarrow> None
     | Some (_, tot) \<Rightarrow> map_option of_nat (parse_unsigned (2 ^ 64) (trim tot)))"

datatype resume_plan = Fresh | ContinueAt u64 | DiscardAndRestart

definition plan_resume :: "u64 option \<Rightarrow> partial_meta option \<Rightarrow> string \<Rightarrow> resume_plan" where
  "plan_resume partial_len pmeta url =
    (case partial_len of
       None \<Rightarrow> Fresh
     | Some len \<Rightarrow> if len = 0 then Fresh
        else (case pmeta of
            Some m \<Rightarrow> if pm_url m = url then ContinueAt len else DiscardAndRestart
          | None \<Rightarrow> ContinueAt len))"

subsection \<open>The world\<close>

datatype chunk = Chunk "u8 list" | StreamError

record response =
  status :: nat
  content_range :: "string option"
  content_length :: "u64 option"
  body :: "chunk list"

datatype http = Response response | NetError string

text \<open>\<open>dl_meta\<close> is \<open>Some None\<close> for a file that is no valid metadata.\<close>

record dl_state =
  dl_partial :: "u8 list option"
  dl_meta :: "partial_meta option option"
  dl_final :: "u8 list option"
  dl_registered :: bool
  dl_answers :: "(u64 \<Rightarrow> http) list"
  dl_cancels :: "bool list"
  dl_faults :: "bool list"

record dl_request =
  rq_url :: string
  rq_filename :: string
  rq_sha256 :: "string option"
  rq_model_id :: string
  rq_retries :: nat

fun pop :: "bool list \<Rightarrow> bool \<times> bool list" where
  "pop [] = (False, [])"
| "pop (b # bs) = (b, bs)"

definition cancelled :: "dl_state \<Rightarrow> bool \<times> dl_state" where
  "cancelled st = (fst (pop (dl_cancels st)), st\<lparr>dl_cancels := snd (pop (dl_cancels st))\<rparr>)"

definition faulty :: "dl_state \<Rightarrow> bool \<times> dl_state" where
  "faulty st = (fst (pop (dl_faults st)), st\<lparr>dl_faults := snd (pop (dl_faults st))\<rparr>)"

definition io_error :: registry_error where "io_error = RegistryIo ''file system''"

definition cancel_error :: registry_error where "cancel_error = DownloadError ''Download cancelled by user''"

definition cleanup_on_exit :: "bool \<Rightarrow> dl_state \<Rightarrow> dl_state" where
  "cleanup_on_exit delete_partial st =
    (let st' = st\<lparr>dl_registered := False\<rparr> in if delete_partial then st'\<lparr>dl_meta := None, dl_partial := None\<rparr> else st')"

text \<open>The length of the partial file, in the program's 64 bits.\<close>

definition disk_len :: "dl_state \<Rightarrow> u64 option" where
  "disk_len st = map_option (\<lambda>b. of_nat (length b)) (dl_partial st)"

definition write_meta_atomic :: "partial_meta \<Rightarrow> dl_state \<Rightarrow> bool \<times> dl_state" where
  "write_meta_atomic m st = (case faulty st of (True, st') \<Rightarrow> (False, st') | (False, st') \<Rightarrow> (True, st'\<lparr>dl_meta := Some (Some m)\<rparr>))"

subsection \<open>Requests with retries\<close>

definition is_success :: "nat \<Rightarrow> bool" where "is_success c \<longleftrightarrow> 200 \<le> c \<and> c < 300"
definition is_server_error :: "nat \<Rightarrow> bool" where "is_server_error c \<longleftrightarrow> 500 \<le> c \<and> c < 600"

text \<open>\<open>show_status\<close> is the printed status of the HTTP library.\<close>

definition http_message :: "(nat \<Rightarrow> string) \<Rightarrow> nat \<Rightarrow> string \<Rightarrow> string" where
  "http_message show_status c url =
    (if c = 401 \<or> c = 403 then ''Access denied (HTTP '' @ show_status c @ ''). You may need to set HF_TOKEN for gated models.''
     else if c = 404 then ''File not found (HTTP 404). The model file may have been moved or renamed.''
     else if c = 416 then ''Requested range not satisfiable (HTTP 416).''
     else if c = 429 then ''Rate limited (HTTP 429). Try again in a few minutes, or set HF_TOKEN for higher limits.''
     else ''HTTP '' @ show_status c @ '' for '' @ url)"

text \<open>The attempts that are left after the current one are counted down from \<open>max_retries\<close>.\<close>

fun attempts :: "(nat \<Rightarrow> string) \<Rightarrow> string \<Rightarrow> u64 \<Rightarrow> nat \<Rightarrow> nat \<Rightarrow> (u64 \<Rightarrow> http) list \<Rightarrow>
    (registry_error, response) result \<times> (u64 \<Rightarrow> http) list" where
  "attempts ss url off max_retries left answers =
    (let (answer, rest) = (case answers of [] \<Rightarrow> (NetError ''no answer'', []) | a # as \<Rightarrow> (a off, as)) in
     case answer of
       Response r \<Rightarrow>
         if is_success (status r) \<or> status r = 206 then (Inr r, rest)
         else (case (left, status r = 429 \<or> is_server_error (status r)) of
             (Suc k, True) \<Rightarrow> attempts ss url off max_retries k rest
           | _ \<Rightarrow> (Inl (DownloadError (http_message ss (status r) url)), rest))
     | NetError e \<Rightarrow>
         (case left of
            Suc k \<Rightarrow> attempts ss url off max_retries k rest
          | 0 \<Rightarrow> (Inl (DownloadError (''Download failed after '' @ show_nat (max_retries + 1) @ '' attempts: '' @ e)), rest)))"

declare attempts.simps [simp del]

definition send_with_retry :: "(nat \<Rightarrow> string) \<Rightarrow> string \<Rightarrow> u64 \<Rightarrow> nat \<Rightarrow> dl_state \<Rightarrow> (registry_error, response) result \<times> dl_state" where
  "send_with_retry ss url off max_retries st =
    (case attempts ss url off max_retries max_retries (dl_answers st) of (r, rest) \<Rightarrow> (r, st\<lparr>dl_answers := rest\<rparr>))"

subsection \<open>One stream\<close>

text \<open>
  The chunk loop: the file grows by every chunk, the counter with it.  The result is an error that ends the download, or the
  counter and whether the stream broke.
\<close>

fun write_chunks :: "chunk list \<Rightarrow> u64 \<Rightarrow> dl_state \<Rightarrow> (registry_error, u64 \<times> bool) result \<times> dl_state" where
  "write_chunks [] bytes st = (Inr (bytes, False), st)"
| "write_chunks (c # cs) bytes st =
    (case cancelled st of
       (True, st1) \<Rightarrow> (Inl cancel_error, cleanup_on_exit True st1)
     | (False, st1) \<Rightarrow>
        (case c of
           StreamError \<Rightarrow> (Inr (bytes, True), st1)
         | Chunk bs \<Rightarrow>
            (case faulty st1 of
               (True, st2) \<Rightarrow> (Inl io_error, cleanup_on_exit True st2)
             | (False, st2) \<Rightarrow>
                write_chunks cs (bytes + of_nat (length bs))
                  (st2\<lparr>dl_partial := Some ((case dl_partial st2 of Some b \<Rightarrow> b | None \<Rightarrow> []) @ bs)\<rparr>))))"

text \<open>The request of one round, with the reset of the partial file after a failure that mentions 416.\<close>

definition request_round :: "(nat \<Rightarrow> string) \<Rightarrow> string \<Rightarrow> u64 \<Rightarrow> dl_state \<Rightarrow> (registry_error, response \<times> u64) result \<times> dl_state" where
  "request_round ss url bytes st =
    (case send_with_retry ss url bytes 3 st of
       (Inr r, st1) \<Rightarrow> (Inr (r, bytes), st1)
     | (Inl e, st1) \<Rightarrow>
        if 0 < bytes \<and> str_contains ''416'' (show_registry_error e) then
          (case send_with_retry ss url 0 3 (st1\<lparr>dl_partial := None\<rparr>) of
             (Inr r, st2) \<Rightarrow> (Inr (r, 0), st2)
           | (Inl e2, st2) \<Rightarrow> (Inl e2, cleanup_on_exit True st2))
        else if 0 < bytes then (Inl e, cleanup_on_exit False st1)
        else (Inl e, cleanup_on_exit True st1))"

definition response_total :: "response \<Rightarrow> u64 \<Rightarrow> u64 option \<Rightarrow> u64 option" where
  "response_total r bytes known =
    (let is_partial = (status r = 206);
         range_total = (if is_partial then Option.bind (content_range r) parse_content_range_total else None)
     in case range_total of
          Some t \<Rightarrow> Some t
        | None \<Rightarrow> (case (if is_partial then map_option (\<lambda>len. len + bytes) (content_length r) else content_length r) of
            Some t \<Rightarrow> Some t
          | None \<Rightarrow> known))"

text \<open>Persisting the total; a failure is only logged.\<close>

definition update_total :: "u64 option \<Rightarrow> partial_meta \<Rightarrow> dl_state \<Rightarrow> partial_meta \<times> dl_state" where
  "update_total tot m st =
    (if tot \<noteq> None \<and> tot \<noteq> pm_total_bytes m
     then (let m' = m\<lparr>pm_total_bytes := tot\<rparr> in (m', snd (write_meta_atomic m' st)))
     else (m, st))"

definition open_partial :: "bool \<Rightarrow> dl_state \<Rightarrow> bool \<times> dl_state" where
  "open_partial app st =
    (case faulty st of
       (True, st1) \<Rightarrow> (False, st1)
     | (False, st1) \<Rightarrow>
        (True, st1\<lparr>dl_partial := Some (if app then (case dl_partial st1 of Some b \<Rightarrow> b | None \<Rightarrow> []) else [])\<rparr>))"

text \<open>
  One round of the loop: an error, or the total and whether the stream ended with every byte that was announced.
\<close>

definition download_round :: "(nat \<Rightarrow> string) \<Rightarrow> string \<Rightarrow> u64 \<Rightarrow> partial_meta \<Rightarrow> dl_state \<Rightarrow>
    (registry_error, partial_meta \<times> u64 option \<times> bool) result \<times> dl_state" where
  "download_round ss url bytes0 m st =
    (case cancelled st of
       (True, st1) \<Rightarrow> (Inl cancel_error, cleanup_on_exit True st1)
     | (False, st1) \<Rightarrow>
        (case request_round ss url bytes0 st1 of
           (Inl e, st2) \<Rightarrow> (Inl e, st2)
         | (Inr (r, bytes1), st2) \<Rightarrow>
            (let is_partial = (status r = 206);
                 bytes = (if status r = 200 \<and> 0 < bytes1 then 0 else bytes1);
                 tot = response_total r bytes (pm_total_bytes m);
                 (m', st3) = update_total tot m st2
             in case open_partial (is_partial \<and> 0 < bytes) st3 of
                  (False, st4) \<Rightarrow> (Inl io_error, cleanup_on_exit True st4)
                | (True, st4) \<Rightarrow>
                   (case write_chunks (body r) bytes st4 of
                      (Inl e, st5) \<Rightarrow> (Inl e, st5)
                    | (Inr (n, broken), st5) \<Rightarrow>
                        (Inr (m', tot, \<not> broken \<and> (case tot of Some t \<Rightarrow> \<not> n < t | None \<Rightarrow> True)), st5)))))"

text \<open>The loop; every round but the last uses up one of the retries.\<close>

fun download_loop :: "(nat \<Rightarrow> string) \<Rightarrow> dl_request \<Rightarrow> nat \<Rightarrow> u64 \<Rightarrow> partial_meta \<Rightarrow> dl_state \<Rightarrow>
    (registry_error, u64 option) result \<times> dl_state" where
  "download_loop ss rq retries bytes m st =
    (case download_round ss (rq_url rq) bytes m st of
       (Inl e, st1) \<Rightarrow> (Inl e, st1)
     | (Inr (m', tot, complete), st1) \<Rightarrow>
        if complete then (Inr tot, st1)
        else (case retries of
            0 \<Rightarrow> (Inl (DownloadInterrupted (rq_model_id rq)), cleanup_on_exit False st1)
          | Suc k \<Rightarrow> download_loop ss rq k (case disk_len st1 of Some n \<Rightarrow> n | None \<Rightarrow> 0) m' st1))"

declare download_loop.simps [simp del]

subsection \<open>Verification and the whole download\<close>

text \<open>\<open>sha256\<close> gives the digest as lower-case hexadecimal text.\<close>

definition promote :: "(u8 list \<Rightarrow> string) \<Rightarrow> dl_request \<Rightarrow> u64 option \<Rightarrow> dl_state \<Rightarrow> (registry_error, unit) result \<times> dl_state" where
  "promote sha256 rq known_total st =
    (let on_disk = (case disk_len st of Some n \<Rightarrow> n | None \<Rightarrow> 0) in
     if (case known_total of Some t \<Rightarrow> on_disk < t | None \<Rightarrow> False)
     then (Inl (DownloadInterrupted (rq_model_id rq)), cleanup_on_exit False st)
     else
       (let (verified, st1) =
          (case rq_sha256 rq of
             None \<Rightarrow> (Inr (), st)
           | Some expected \<Rightarrow>
              (case (faulty st, dl_partial st) of
                 ((False, st'), Some content) \<Rightarrow>
                   if to_lowercase (sha256 content) = to_lowercase expected then (Inr (), st')
                   else (Inl (IntegrityError (rq_filename rq @ ''.partial'') expected (sha256 content)), cleanup_on_exit True st')
               | ((_, st'), _) \<Rightarrow> (Inl io_error, cleanup_on_exit True st')))
        in case verified of
             Inl e \<Rightarrow> (Inl e, st1)
           | Inr _ \<Rightarrow>
              (case (faulty st1, dl_partial st1) of
                 ((False, st2), Some content) \<Rightarrow>
                   (Inr (), cleanup_on_exit False (st2\<lparr>dl_final := Some content, dl_partial := None, dl_meta := None\<rparr>))
               | ((_, st2), _) \<Rightarrow> (Inl io_error, cleanup_on_exit True st2))))"

text \<open>What an earlier call left: its metadata, if they can be read, and the offset to go on from.\<close>

definition previous_meta :: "dl_state \<Rightarrow> partial_meta option" where
  "previous_meta st = (case dl_meta st of Some (Some m) \<Rightarrow> Some m | _ \<Rightarrow> None)"

definition resume_from :: "string \<Rightarrow> dl_state \<Rightarrow> u64 \<times> dl_state" where
  "resume_from url st =
    (case plan_resume (disk_len st) (previous_meta st) url of
       Fresh \<Rightarrow> (0, st)
     | DiscardAndRestart \<Rightarrow> (0, st\<lparr>dl_partial := None, dl_meta := None\<rparr>)
     | ContinueAt off \<Rightarrow> (off, st))"

definition initial_meta :: "dl_request \<Rightarrow> partial_meta option \<Rightarrow> nat \<Rightarrow> partial_meta" where
  "initial_meta rq previous now =
    \<lparr>pm_url = rq_url rq, pm_total_bytes = Option.bind previous pm_total_bytes, sha256_expected = rq_sha256 rq,
     pm_model_id = rq_model_id rq, pm_filename = rq_filename rq,
     started_at = (case previous of Some p \<Rightarrow> started_at p | None \<Rightarrow> now)\<rparr>"

definition download :: "(nat \<Rightarrow> string) \<Rightarrow> (u8 list \<Rightarrow> string) \<Rightarrow> nat \<Rightarrow> dl_request \<Rightarrow> dl_state \<Rightarrow> (registry_error, unit) result \<times> dl_state" where
  "download ss sha256 now rq st0 =
    (case faulty st0 of
       (True, st1) \<Rightarrow> (Inl io_error, st1)
     | (False, st1) \<Rightarrow>
        (let st2 = st1\<lparr>dl_registered := True\<rparr>;
             (bytes, st3) = resume_from (rq_url rq) st2;
             m = initial_meta rq (previous_meta st2) now
         in case write_meta_atomic m st3 of
              (False, st4) \<Rightarrow> (Inl io_error, st4)
            | (True, st4) \<Rightarrow>
               (case download_loop ss rq (rq_retries rq) bytes m st4 of
                  (Inl e, st5) \<Rightarrow> (Inl e, st5)
                | (Inr tot, st5) \<Rightarrow> promote sha256 rq tot st5)))"

text \<open>
  The total size is read from a \<open>Content-Range\<close> header: whatever stands before the slash, the 64-bit number after it
  comes back.
\<close>

theorem content_range_roundtrip: "parse_content_range_total (pre @ ''/'' @ show_nat (unat tot)) = Some tot"
proof -
  have d: "33 \<le> (of_char c :: nat) \<and> (of_char c :: nat) < 127" if "c \<in> set (show_nat (unat tot))" for c
    using show_nat_digits [OF that] by simp
  then have "CHR ''/'' \<notin> set (show_nat (unat tot))" using show_nat_digits [of "CHR ''/''" "unat tot"] by auto
  moreover have "unat tot < 2 ^ 64" using unsigned_less [of tot] by simp
  ultimately show ?thesis
    using parse_unsigned_show [of "unat tot" "2 ^ 64"] trim_id [OF d]
    by (simp add: parse_content_range_total_def rsplit_once_append)
qed

subsection \<open>An honest server\<close>

text \<open>
  The server serves one file \<open>F\<close>: a full response carries a prefix of it and announces its length or, if it announces none,
  ends cleanly only after all of it; a partial response does the same for the rest from the requested offset, which it
  announces by the total in \<open>Content-Range\<close> or by its own length.
\<close>

fun body_bytes :: "chunk list \<Rightarrow> u8 list" where
  "body_bytes (Chunk bs # cs) = bs @ body_bytes cs"
| "body_bytes _ = []"

definition clean :: "response \<Rightarrow> bool" where "clean r \<longleftrightarrow> StreamError \<notin> set (body r)"

definition honest_full :: "u8 list \<Rightarrow> response \<Rightarrow> bool" where
  "honest_full F r \<longleftrightarrow> prefix (body_bytes (body r)) F \<and>
     (case content_length r of Some n \<Rightarrow> n = of_nat (length F) | None \<Rightarrow> clean r \<longrightarrow> body_bytes (body r) = F)"

definition honest_partial :: "u8 list \<Rightarrow> nat \<Rightarrow> response \<Rightarrow> bool" where
  "honest_partial F off r \<longleftrightarrow> off \<le> length F \<and> prefix (body_bytes (body r)) (drop off F) \<and>
     (case Option.bind (content_range r) parse_content_range_total of
        Some n \<Rightarrow> n = of_nat (length F)
      | None \<Rightarrow> (case content_length r of
            Some n \<Rightarrow> n = of_nat (length F - off)
          | None \<Rightarrow> clean r \<longrightarrow> body_bytes (body r) = drop off F))"

definition honest :: "u8 list \<Rightarrow> (u64 \<Rightarrow> http) \<Rightarrow> bool" where
  "honest F a \<longleftrightarrow> (\<forall>off r. a off = Response r \<longrightarrow>
     (if status r = 206 then honest_partial F (unat off) r else if status r = 200 then honest_full F r else \<not> is_success (status r)))"

text \<open>What is on disk: bytes of this file, unless the metadata names another URL.\<close>

definition resumable :: "u8 list \<Rightarrow> dl_request \<Rightarrow> dl_state \<Rightarrow> bool" where
  "resumable F rq st \<longleftrightarrow> (case dl_partial st of None \<Rightarrow> True
     | Some p \<Rightarrow> (case dl_meta st of Some (Some m) \<Rightarrow> pm_url m \<noteq> rq_url rq \<or> prefix p F | _ \<Rightarrow> prefix p F))"

lemma resumable_cong:
  "dl_partial a = dl_partial b \<Longrightarrow> dl_meta a = dl_meta b \<Longrightarrow> resumable F rq a \<longleftrightarrow> resumable F rq b"
  by (simp only: resumable_def)

abbreviation on_disk :: "dl_state \<Rightarrow> u8 list" where
  "on_disk st \<equiv> (case dl_partial st of Some p \<Rightarrow> p | None \<Rightarrow> [])"

lemma attempts_result:
  assumes "attempts ss url off mx left answers = (r, rest)"
  shows "(\<exists>k. rest = drop k answers) \<and> (\<forall>x. r = Inr x \<longrightarrow> (\<exists>a \<in> set answers. a off = Response x) \<and> is_success (status x))"
  using assms
proof (induction left arbitrary: answers)
  case 0
  then show ?case
    by (subst (asm) attempts.simps)
      (auto simp: is_success_def split: list.splits http.splits if_splits intro: exI [of _ 1] exI [of _ 0])
next
  case (Suc k)
  have step: "(\<exists>k. rest = drop k (a # as)) \<and> (\<forall>x. r = Inr x \<longrightarrow> (\<exists>a \<in> set (a # as). a off = Response x) \<and> is_success (status x))"
    if "attempts ss url off mx k as = (r, rest)" for a as
    using Suc.IH [OF that] by (metis drop_Suc_Cons list.set_intros(2))
  show ?case
  proof (cases answers)
    case Nil
    then show ?thesis using Suc.prems Suc.IH [of "[]"] by (subst (asm) attempts.simps) auto
  next
    case (Cons a as)
    then show ?thesis using Suc.prems step [of as a]
      by (subst (asm) attempts.simps)
        (auto simp: is_success_def split: http.splits if_splits bool.splits intro: exI [of _ 1] exI [of _ 0])
  qed
qed

lemma send_with_retry_result:
  assumes "send_with_retry ss url off mx st = (r, st1)" and "list_all (honest F) (dl_answers st)"
  shows "list_all (honest F) (dl_answers st1)" and "dl_partial st1 = dl_partial st" and "dl_final st1 = dl_final st"
    and "dl_meta st1 = dl_meta st"
    and "r = Inr x \<Longrightarrow> (if status x = 206 then honest_partial F (unat off) x else status x = 200 \<and> honest_full F x)"
proof -
  obtain rest where a: "attempts ss url off mx mx (dl_answers st) = (r, rest)" and st1: "st1 = st\<lparr>dl_answers := rest\<rparr>"
    using assms(1) by (auto simp: send_with_retry_def split: prod.splits)
  note * = attempts_result [OF a]
  show "list_all (honest F) (dl_answers st1)" using * assms(2) by (auto simp: st1 list_all_iff dest: in_set_dropD)
  show "dl_partial st1 = dl_partial st" "dl_final st1 = dl_final st" "dl_meta st1 = dl_meta st" by (simp_all add: st1)
  show "r = Inr x \<Longrightarrow> (if status x = 206 then honest_partial F (unat off) x else status x = 200 \<and> honest_full F x)"
    using * assms(2) by (fastforce simp: list_all_iff honest_def split: if_splits)
qed

lemma cancelled_facts:
  "cancelled st = (b, st1) \<Longrightarrow> dl_partial st1 = dl_partial st \<and> dl_final st1 = dl_final st \<and> dl_meta st1 = dl_meta st \<and> dl_answers st1 = dl_answers st"
  by (auto simp: cancelled_def)

lemma faulty_facts:
  "faulty st = (b, st1) \<Longrightarrow> dl_partial st1 = dl_partial st \<and> dl_final st1 = dl_final st \<and> dl_meta st1 = dl_meta st \<and> dl_answers st1 = dl_answers st"
  by (auto simp: faulty_def)

lemma cleanup_facts [simp]:
  "dl_final (cleanup_on_exit d st) = dl_final st" "dl_answers (cleanup_on_exit d st) = dl_answers st"
  "dl_partial (cleanup_on_exit d st) = (if d then None else dl_partial st)"
  "dl_meta (cleanup_on_exit d st) = (if d then None else dl_meta st)"
  "dl_registered (cleanup_on_exit d st) = False"
  by (simp_all add: cleanup_on_exit_def Let_def)

text \<open>The chunk loop appends the body of the response.\<close>

lemma write_chunks_result:
  assumes "write_chunks cs bytes st = (r, st1)" and "dl_partial st = Some p" and "bytes = of_nat (length p)"
  shows "dl_final st1 = dl_final st \<and> dl_answers st1 = dl_answers st \<and>
    (case r of Inl e \<Rightarrow> dl_partial st1 = None
     | Inr (n, broken) \<Rightarrow> dl_partial st1 = Some (p @ body_bytes cs) \<and> n = of_nat (length (p @ body_bytes cs)) \<and>
         (broken \<longleftrightarrow> StreamError \<in> set cs))"
  using assms
proof (induction cs arbitrary: p bytes st)
  case (Cons c cs)
  obtain b sa where c: "cancelled st = (b, sa)" by fastforce
  obtain f sb where f: "faulty sa = (f, sb)" by fastforce
  note facts = cancelled_facts [OF c] faulty_facts [OF f]
  show ?case
  proof (cases "b \<or> c = StreamError \<or> f")
    case True
    then show ?thesis using Cons.prems c f facts by (cases b; cases c; cases f) auto
  next
    case False
    then obtain bs where bs: "c = Chunk bs" by (cases c) auto
    have w: "write_chunks cs (bytes + of_nat (length bs)) (sb\<lparr>dl_partial := Some (p @ bs)\<rparr>) = (r, st1)"
      using Cons.prems c f facts False bs by simp
    show ?thesis
      using Cons.IH [OF w, of "p @ bs"] Cons.prems(3) facts bs by (auto split: sum.splits)
  qed
qed auto

text \<open>The request of a round: an honest response to the offset it is used with, or an error.\<close>

lemma request_round_result:
  assumes "request_round ss url bytes st = (r, st1)" and "list_all (honest F) (dl_answers st)"
  shows "list_all (honest F) (dl_answers st1) \<and> dl_final st1 = dl_final st \<and>
    (case r of
       Inl e \<Rightarrow> dl_partial st1 = None \<or> dl_partial st1 = dl_partial st
     | Inr (x, off) \<Rightarrow> (if status x = 206 then honest_partial F (unat off) x else status x = 200 \<and> honest_full F x) \<and>
         (off = bytes \<and> dl_partial st1 = dl_partial st \<or> off = 0))"
proof -
  obtain r1 sa where s1: "send_with_retry ss url bytes 3 st = (r1, sa)" by fastforce
  note f1 = send_with_retry_result [OF s1 assms(2)]
  obtain r2 sb where s2: "send_with_retry ss url 0 3 (sa\<lparr>dl_partial := None\<rparr>) = (r2, sb)" by fastforce
  have "list_all (honest F) (dl_answers (sa\<lparr>dl_partial := None\<rparr>))" using f1(1) by simp
  note f2 = send_with_retry_result [OF s2 this]
  show ?thesis
  proof (cases r1)
    case (Inr x)
    then show ?thesis using assms(1) s1 f1 by (auto simp: request_round_def)
  next
    case (Inl e)
    then show ?thesis
      using assms(1) s1 s2 f1 f2 by (cases r2) (auto simp: request_round_def split: if_splits)
  qed
qed

lemma update_total_facts:
  "update_total t m st = (m', st1) \<Longrightarrow> dl_partial st1 = dl_partial st \<and> dl_final st1 = dl_final st \<and> dl_answers st1 = dl_answers st"
  by (cases "fst (pop (dl_faults st))") (auto simp: update_total_def Let_def write_meta_atomic_def faulty_def split: if_splits)

lemma open_partial_facts:
  "open_partial app st = (ok, st1) \<Longrightarrow> dl_final st1 = dl_final st \<and> dl_answers st1 = dl_answers st \<and>
     (ok \<longrightarrow> dl_partial st1 = Some (if app then on_disk st else []))"
  by (cases "fst (pop (dl_faults st))") (auto simp: open_partial_def faulty_def)

text \<open>The arithmetic of an honest total: it is the length of the file whenever it is announced.\<close>

lemma prefix_full: "prefix xs ys \<Longrightarrow> length ys \<le> length xs \<Longrightarrow> xs = ys"
  by (auto simp: prefix_def)

lemma unat_of_nat_small: "n < 2 ^ 64 \<Longrightarrow> unat (of_nat n :: u64) = n"
  by (simp add: unsigned_of_nat take_bit_eq_mod)

lemma of_nat_less_64:
  "m < 2 ^ 64 \<Longrightarrow> n < 2 ^ 64 \<Longrightarrow> (of_nat m :: u64) < of_nat n \<longleftrightarrow> m < n"
  by (simp add: word_less_nat_alt unat_of_nat_small)

lemma full_response_complete:
  assumes "honest_full F x" and "status x = 200" and "length F < 2 ^ 64" and "clean x"
    and "case response_total x bytes known of Some t \<Rightarrow> \<not> (of_nat (length (body_bytes (body x))) :: u64) < t | None \<Rightarrow> True"
  shows "body_bytes (body x) = F"
proof (cases "content_length x")
  case None
  then show ?thesis using assms by (simp add: honest_full_def)
next
  case (Some n)
  have pre: "prefix (body_bytes (body x)) F" and n: "n = of_nat (length F)" using assms(1) Some by (simp_all add: honest_full_def)
  have "length (body_bytes (body x)) < 2 ^ 64" using assms(3) prefix_length_le [OF pre] by simp
  then show ?thesis
    using assms(2,3,5) Some n pre by (intro prefix_full) (simp_all add: response_total_def of_nat_less_64)
qed

lemma partial_response_complete:
  assumes "honest_partial F off x" and "status x = 206" and "length F < 2 ^ 64" and "clean x"
    and "case response_total x (of_nat off) known of
        Some t \<Rightarrow> \<not> (of_nat (off + length (body_bytes (body x))) :: u64) < t | None \<Rightarrow> True"
  shows "body_bytes (body x) = drop off F"
proof (cases "Option.bind (content_range x) parse_content_range_total = None \<and> content_length x = None")
  case True
  then show ?thesis using assms by (simp add: honest_partial_def)
next
  case False
  have pre: "prefix (body_bytes (body x)) (drop off F)" and off: "off \<le> length F"
    using assms(1) by (simp_all add: honest_partial_def)
  have "response_total x (of_nat off) known = Some (of_nat (length F))"
    using assms(1,2) False off
    by (auto simp: response_total_def honest_partial_def Let_def of_nat_diff split: option.splits)
  moreover have "off + length (body_bytes (body x)) < 2 ^ 64" using assms(3) prefix_length_le [OF pre] off by simp
  ultimately show ?thesis
    using assms(3,5) pre off by (intro prefix_full) (auto simp: of_nat_less_64 simp del: of_nat_add)
qed

text \<open>A round leaves a prefix of the file on disk, and the whole file when it reports completion.\<close>

lemma download_round_result:
  assumes "download_round ss url bytes m st = (r, st1)"
    and "list_all (honest F) (dl_answers st)" and "length F < 2 ^ 64"
    and "prefix (on_disk st) F" and "bytes = of_nat (length (on_disk st))"
  shows "list_all (honest F) (dl_answers st1) \<and> dl_final st1 = dl_final st \<and> prefix (on_disk st1) F \<and>
    (case r of Inl e \<Rightarrow> True | Inr (m', tot, complete) \<Rightarrow> complete \<longrightarrow> dl_partial st1 = Some F)"
proof -
  obtain c sa where c: "cancelled st = (c, sa)" by fastforce
  obtain q sb where q: "request_round ss url bytes sa = (q, sb)" by fastforce
  note fc = cancelled_facts [OF c]
  have "list_all (honest F) (dl_answers sa)" using assms(2) fc by simp
  note fq = request_round_result [OF q this]
  show ?thesis
  proof (cases "c \<or> (\<exists>e. q = Inl e)")
    case True
    then show ?thesis using assms(1,2,4) c q fc fq
      by (cases c) (auto simp: download_round_def split: option.splits)
  next
    case False
    then obtain x off where x: "q = Inr (x, off)" by (cases q) auto
    define n0 where "n0 = (if status x = 200 \<and> 0 < off then 0 else off)"
    define tot where "tot = response_total x n0 (pm_total_bytes m)"
    define app where "app = (status x = 206 \<and> 0 < n0)"
    obtain m' sc where u: "update_total tot m sb = (m', sc)" by fastforce
    obtain ok sd where o: "open_partial app sc = (ok, sd)" by fastforce
    obtain w se where w: "write_chunks (body x) n0 sd = (w, se)" by fastforce
    note fu = update_total_facts [OF u] and fo = open_partial_facts [OF o]
    have res: "(r, st1) = (if \<not> ok then (Inl io_error, cleanup_on_exit True sd)
        else (case w of Inl e \<Rightarrow> (Inl e, se)
          | Inr (n, broken) \<Rightarrow> (Inr (m', tot, \<not> broken \<and> (case tot of Some t \<Rightarrow> \<not> n < t | None \<Rightarrow> True)), se)))"
      using assms(1) c q x u o w False
      by (auto simp: download_round_def Let_def n0_def [symmetric] tot_def [symmetric] app_def [symmetric]
          split: sum.splits prod.splits bool.splits)
    show ?thesis
    proof (cases ok)
      case False
      then show ?thesis using res fq fu fo fc by simp
    next
      case ok: True
      define p where "p = (if app then on_disk sc else [])"
      have sd: "dl_partial sd = Some p" using fo ok by (simp add: p_def)
      have n0: "n0 = of_nat (length p)" and p: "prefix p F" and app_len: "app \<Longrightarrow> length p = unat off \<and> p = on_disk st"
      proof -
        have "app \<Longrightarrow> off \<noteq> 0" by (auto simp: app_def n0_def)
        then have same: "app \<Longrightarrow> off = bytes \<and> on_disk sc = on_disk st" using fq x fu fc by auto
        have small: "length (on_disk st) < 2 ^ 64" using assms(3) prefix_length_le [OF assms(4)] by simp
        show "app \<Longrightarrow> length p = unat off \<and> p = on_disk st" using same assms(5) small by (auto simp: p_def unat_of_nat_small)
        show "prefix p F" using same assms(4) by (auto simp: p_def)
        show "n0 = of_nat (length p)"
        proof (cases app)
          case True
          then have "n0 = off" by (auto simp: app_def n0_def)
          then show ?thesis using same True assms(5) by (simp add: p_def)
        next
          case False
          have "status x = 206 \<or> status x = 200" using fq x by (auto split: if_splits)
          then have "\<not> 0 < n0" using False by (auto simp: app_def n0_def)
          then show ?thesis using False by (simp add: p_def word_gt_0)
        qed
      qed
      note fw = write_chunks_result [OF w sd n0]
      have body: "prefix (p @ body_bytes (body x)) F \<and>
          (clean x \<and> (case tot of Some t \<Rightarrow> \<not> (of_nat (length (p @ body_bytes (body x))) :: u64) < t | None \<Rightarrow> True) \<longrightarrow>
            p @ body_bytes (body x) = F)"
      proof (cases "status x = 206")
        case True
        then have h: "honest_partial F (unat off) x" using fq x by simp
        then have pre: "prefix (body_bytes (body x)) (drop (unat off) F)" by (simp add: honest_partial_def)
        have "length p = unat off" using app_len True by (auto simp: app_def n0_def p_def word_gt_0)
        moreover have "p = take (unat off) F" using p calculation by (metis append_eq_conv_conj prefix_def)
        ultimately have pd: "p @ drop (unat off) F = F" "of_nat (unat off) = n0" using n0 by simp_all
        show ?thesis
        proof (intro conjI impI)
          show "prefix (p @ body_bytes (body x)) F" using pre pd(1) by (metis same_prefix_prefix)
          assume "clean x \<and> (case tot of Some t \<Rightarrow> \<not> (of_nat (length (p @ body_bytes (body x))) :: u64) < t | None \<Rightarrow> True)"
          moreover have len: "unat off + length (body_bytes (body x)) = length (p @ body_bytes (body x))"
            using \<open>length p = unat off\<close> by simp
          ultimately have "body_bytes (body x) = drop (unat off) F"
            using partial_response_complete [OF h True assms(3), of "pm_total_bytes m", unfolded pd(2) len, folded tot_def]
            by blast
          then show "p @ body_bytes (body x) = F" using pd(1) by simp
        qed
      next
        case False
        then have h: "honest_full F x" "status x = 200" using fq x by simp_all
        then have p0: "p @ body_bytes (body x) = body_bytes (body x)" by (simp add: p_def app_def)
        show ?thesis
          unfolding p0 tot_def
          using h(1) full_response_complete [OF h assms(3), of n0 "pm_total_bytes m"] by (simp add: honest_full_def)
      qed
      have keep: "list_all (honest F) (dl_answers se)" "dl_final se = dl_final st"
        using fw fo fu fq fc by simp_all
      show ?thesis
      proof (cases w)
        case (Inl e)
        then show ?thesis using res ok fw keep by simp
      next
        case (Inr nb)
        obtain n broken where w': "w = Inr (n, broken)" using Inr by (cases nb) auto
        have n: "n = of_nat (length (p @ body_bytes (body x)))" and part: "dl_partial se = Some (p @ body_bytes (body x))"
          and br: "broken \<longleftrightarrow> StreamError \<in> set (body x)" using fw w' by simp_all
        show ?thesis using body [folded n] res ok w' part br keep by (simp add: clean_def)
      qed
    qed
  qed
qed

lemma on_disk_len: "disk_len st = Some n \<Longrightarrow> n = of_nat (length (on_disk st))" "disk_len st = None \<Longrightarrow> on_disk st = []"
  by (auto simp: disk_len_def)

lemma disk_len_default: "(case disk_len st of Some n \<Rightarrow> n | None \<Rightarrow> 0) = of_nat (length (on_disk st))"
  by (auto simp: disk_len_def split: option.split)

lemma download_loop_result:
  assumes "download_loop ss rq retries bytes m st = (r, st1)"
    and "list_all (honest F) (dl_answers st)" and "length F < 2 ^ 64"
    and "prefix (on_disk st) F" and "bytes = of_nat (length (on_disk st))"
  shows "dl_final st1 = dl_final st \<and> prefix (on_disk st1) F \<and> (case r of Inl e \<Rightarrow> True | Inr tot \<Rightarrow> dl_partial st1 = Some F)"
  using assms
proof (induction retries arbitrary: bytes m st)
  case (0 bytes m st)
  obtain q sa where q: "download_round ss (rq_url rq) bytes m st = (q, sa)" by fastforce
  note f = download_round_result [OF q "0.prems"(2-5)]
  show ?case using "0.prems"(1) q f by (subst (asm) download_loop.simps) (auto split: sum.splits prod.splits if_splits)
next
  case (Suc k bytes m st)
  obtain q sa where q: "download_round ss (rq_url rq) bytes m st = (q, sa)" by fastforce
  note f = download_round_result [OF q Suc.prems(2-5)]
  show ?case
  proof (cases "\<exists>m' tot. q = Inr (m', tot, False)")
    case True
    then obtain m' tot where "q = Inr (m', tot, False)" by blast
    then have l: "download_loop ss rq k (of_nat (length (on_disk sa))) m' sa = (r, st1)"
      using Suc.prems(1) q by (subst (asm) download_loop.simps) (simp add: disk_len_default)
    show ?thesis using Suc.IH [OF l] f Suc.prems(3) by simp
  next
    case False
    then show ?thesis
      using Suc.prems(1) q f by (subst (asm) download_loop.simps) (auto split: sum.splits prod.splits if_splits)
  qed
qed

lemma promote_result:
  assumes "promote sha256 rq tot st = (r, st1)" and "dl_partial st = Some F"
  shows "case r of
      Inl e \<Rightarrow> dl_final st1 = dl_final st \<and> (dl_partial st1 = None \<or> dl_partial st1 = Some F)
    | Inr _ \<Rightarrow> dl_final st1 = Some F \<and> dl_partial st1 = None \<and> dl_meta st1 = None \<and> \<not> dl_registered st1 \<and>
        (case rq_sha256 rq of Some h \<Rightarrow> to_lowercase (sha256 F) = to_lowercase h | None \<Rightarrow> True)"
proof -
  obtain f sa where f: "faulty st = (f, sa)" by fastforce
  obtain g sb where g: "faulty sa = (g, sb)" by fastforce
  note faulty_facts [OF f] faulty_facts [OF g]
  then show ?thesis using assms f g
    by (cases f; cases g) (auto simp: promote_def Let_def split: if_splits option.splits)
qed


subsection \<open>An interrupted download completes\<close>

text \<open>
  A server of the file \<open>F\<close> that breaks off after \<open>k\<close> bytes of each response: it answers a range request with the rest and its
  length, any other request with all of the file, and a range past the end with 416.
\<close>

definition broken_body :: "nat \<Rightarrow> u8 list \<Rightarrow> chunk list" where
  "broken_body k bs = Chunk (take k bs) # (if k < length bs then [StreamError] else [])"

definition file_server :: "u8 list \<Rightarrow> nat \<Rightarrow> u64 \<Rightarrow> http" where
  "file_server F k off =
    (let n = unat off in
     if n = 0 then Response \<lparr>status = 200, content_range = None, content_length = Some (of_nat (length F)), body = broken_body k F\<rparr>
     else if n < length F
     then Response \<lparr>status = 206, content_range = None, content_length = Some (of_nat (length F - n)), body = broken_body k (drop n F)\<rparr>
     else Response \<lparr>status = 416, content_range = None, content_length = None, body = []\<rparr>)"

lemma broken_body_bytes: "body_bytes (broken_body k bs) = take k bs"
  by (simp add: broken_body_def)

lemma honest_file_server: "honest F (file_server F k)"
  by (auto simp: honest_def file_server_def honest_full_def honest_partial_def broken_body_bytes is_success_def Let_def take_is_prefix)

lemma attempts_file_server:
  assumes "unat off < length F \<or> off = 0"
  shows "\<exists>r. file_server F k off = Response r \<and> attempts ss url off mx left (file_server F k # as) = (Inr r, as)"
  using assms by (subst attempts.simps) (auto simp: file_server_def Let_def is_success_def)

definition quiet :: "dl_state \<Rightarrow> bool" where "quiet st \<longleftrightarrow> dl_cancels st = [] \<and> dl_faults st = []"

lemma quiet_facts: "quiet st \<Longrightarrow> cancelled st = (False, st) \<and> faulty st = (False, st)"
  by (simp add: quiet_def cancelled_def faulty_def)

lemma quiet_simps [simp]:
  "quiet (st\<lparr>dl_partial := x\<rparr>) = quiet st" "quiet (st\<lparr>dl_meta := y\<rparr>) = quiet st" "quiet (st\<lparr>dl_answers := z\<rparr>) = quiet st"
  "quiet (st\<lparr>dl_registered := b\<rparr>) = quiet st"
  by (simp_all add: quiet_def)

lemma quiet_write_meta: "quiet st \<Longrightarrow> write_meta_atomic m st = (True, st\<lparr>dl_meta := Some (Some m)\<rparr>)"
  by (simp add: write_meta_atomic_def quiet_facts)

lemma quiet_update_total:
  "quiet st \<Longrightarrow> update_total t m st = (m', st1) \<Longrightarrow> quiet st1 \<and> dl_answers st1 = dl_answers st \<and> dl_partial st1 = dl_partial st"
  by (cases "t \<noteq> None \<and> t \<noteq> pm_total_bytes m") (auto simp: update_total_def Let_def quiet_write_meta)

lemma write_broken_body:
  assumes "quiet st"
  shows "write_chunks (broken_body k bs) n st =
    (Inr (n + of_nat (length (take k bs)), k < length bs), st\<lparr>dl_partial := Some (on_disk st @ take k bs)\<rparr>)"
  using quiet_facts [of st] quiet_facts [of "st\<lparr>dl_partial := Some (on_disk st @ take k bs)\<rparr>"] assms
  by (simp add: broken_body_def del: length_take)

text \<open>One round against this server gets exactly the next \<open>k\<close> bytes.\<close>

lemma round_of_file_server:
  assumes "quiet st" and "dl_answers st = file_server F k # as" and "length F < 2 ^ 64"
    and "on_disk st = take j F" and "j < length F" and "bytes = of_nat j"
  shows "\<exists>m' st1. download_round ss url bytes m st = (Inr (m', Some (of_nat (length F)), length F \<le> j + k), st1) \<and>
     quiet st1 \<and> dl_answers st1 = as \<and> dl_partial st1 = Some (take (j + k) F)"
proof -
  have j: "j < 2 ^ 64" "unat bytes = j" using assms(3,5,6) by (simp_all add: unat_of_nat_small)
  obtain r where r: "file_server F k bytes = Response r"
    and a: "send_with_retry ss url bytes 3 st = (Inr r, st\<lparr>dl_answers := as\<rparr>)"
    using attempts_file_server [of bytes F k ss url 3 3 as] assms(2,5) j by (auto simp: send_with_retry_def)
  let ?sa = "st\<lparr>dl_answers := as\<rparr>"
  have q: "quiet ?sa" using assms(1) by simp
  have tot: "response_total r bytes known = Some (of_nat (length F))"
    and body: "body r = broken_body k (drop j F)"
    and st: "status r = (if j = 0 then 200 else 206)" for known
    using r j assms(5,6) by (auto simp: file_server_def response_total_def Let_def of_nat_diff split: if_splits)
  have bytes0: "0 < bytes \<longleftrightarrow> j \<noteq> 0" using j by (auto simp: word_less_nat_alt)
  obtain m' sb where u: "update_total (Some (of_nat (length F))) m ?sa = (m', sb)" by fastforce
  have sb: "quiet sb" "dl_answers sb = as" "dl_partial sb = dl_partial st"
    using quiet_update_total [OF q u] by simp_all
  define app where "app = (status r = 206 \<and> 0 < bytes)"
  define sc where "sc = sb\<lparr>dl_partial := Some (if app then on_disk sb else [])\<rparr>"
  have o: "open_partial app sb = (True, sc)" using quiet_facts [OF sb(1)] by (simp add: open_partial_def sc_def)
  have app: "app \<longleftrightarrow> j \<noteq> 0" using st bytes0 by (simp add: app_def)
  have "on_disk sb = take j F" using sb(3) assms(4) by simp
  then have sc: "quiet sc" "dl_answers sc = as" "on_disk sc = take j F"
    using sb(1,2) app by (cases "j = 0"; simp add: sc_def)+
  have w: "write_chunks (body r) bytes sc = (Inr (bytes + of_nat (length (take k (drop j F))), k < length (drop j F)),
      sc\<lparr>dl_partial := Some (take (j + k) F)\<rparr>)"
    using write_broken_body [OF sc(1), of k "drop j F" bytes] sc(3) body by (simp add: take_add del: length_take length_drop)
  have fin: "k < length (drop j F) \<or> \<not> bytes + of_nat (length (take k (drop j F))) < (of_nat (length F) :: u64)"
  proof (cases "k < length (drop j F)")
    case False
    then have "bytes + of_nat (length (take k (drop j F))) = (of_nat (length F) :: u64)"
      using assms(5,6) by (simp add: of_nat_diff)
    then show ?thesis by simp
  qed simp
  have n: "(if status r = 200 \<and> 0 < bytes then 0 else bytes) = bytes" using st bytes0 by auto
  have "download_round ss url bytes m st =
      (Inr (m', Some (of_nat (length F)), length F \<le> j + k), sc\<lparr>dl_partial := Some (take (j + k) F)\<rparr>)"
    using quiet_facts [OF assms(1)] a n tot u o w fin assms(5)
    by (auto simp: download_round_def request_round_def app_def [symmetric] Let_def)
  then show ?thesis using sc by auto
qed

lemma loop_of_file_server:
  assumes "quiet st" and "dl_answers st = map (file_server F) (ks @ [k])" and "length F < 2 ^ 64"
    and "on_disk st = take j F" and "j < length F" and "bytes = of_nat j"
    and "length ks \<le> retries" and "length F \<le> k"
  shows "\<exists>st1. download_loop ss rq retries bytes m st = (Inr (Some (of_nat (length F))), st1) \<and> quiet st1 \<and> dl_partial st1 = Some F"
  using assms
proof (induction ks arbitrary: retries bytes j m st)
  case Nil
  then obtain m' st1 where "download_round ss (rq_url rq) bytes m st = (Inr (m', Some (of_nat (length F)), True), st1)"
      "quiet st1" "dl_partial st1 = Some F"
    using round_of_file_server [of st F k "[]" j bytes ss "rq_url rq" m] by auto
  then show ?case by (subst download_loop.simps) simp
next
  case (Cons k1 ks)
  obtain m' st1 where r: "download_round ss (rq_url rq) bytes m st = (Inr (m', Some (of_nat (length F)), length F \<le> j + k1), st1)"
      and st1: "quiet st1" "dl_answers st1 = map (file_server F) (ks @ [k])" "dl_partial st1 = Some (take (j + k1) F)"
    using round_of_file_server [of st F k1 "map (file_server F) (ks @ [k])" j bytes ss "rq_url rq" m] Cons.prems by auto
  show ?case
  proof (cases "length F \<le> j + k1")
    case True
    then show ?thesis using r st1 by (subst download_loop.simps) simp
  next
    case False
    obtain rt where rt: "retries = Suc rt" "length ks \<le> rt" using Cons.prems(7) by (cases retries) auto
    have len: "(case disk_len st1 of Some n \<Rightarrow> n | None \<Rightarrow> 0) = of_nat (j + k1)"
      using st1(3) False by (simp add: disk_len_default del: of_nat_add)
    have "on_disk st1 = take (j + k1) F" "j + k1 < length F" using st1(3) False by simp_all
    then obtain st2 where
      "download_loop ss rq rt (of_nat (j + k1)) m' st1 = (Inr (Some (of_nat (length F))), st2)" "quiet st2" "dl_partial st2 = Some F"
      using Cons.IH [OF st1(1,2) Cons.prems(3) _ _ refl rt(2) Cons.prems(8), of "j + k1" m'] by auto
    then show ?thesis using r False rt(1) len by (subst download_loop.simps) simp
  qed
qed

lemma resume_from_prefix:
  assumes "on_disk st = take j F" and "j < length F" and "length F < 2 ^ 64"
    and "case dl_meta st of Some (Some m) \<Rightarrow> pm_url m = url | _ \<Rightarrow> True"
  shows "resume_from url st = (of_nat j, st)"
proof -
  have prev: "case previous_meta st of Some m \<Rightarrow> pm_url m = url | None \<Rightarrow> True"
    using assms(4) by (auto simp: previous_meta_def split: option.splits)
  have nz: "j \<noteq> 0 \<Longrightarrow> of_nat j \<noteq> (0 :: u64)" "unat (of_nat j :: u64) = j"
    using assms(2,3) unat_of_nat_small [of j] by (auto simp del: unsigned_of_nat)
  have "plan_resume (disk_len st) (previous_meta st) url = (if j = 0 then Fresh else ContinueAt (of_nat j))"
  proof (cases "dl_partial st")
    case None
    then have "j = 0" using assms(1,2) by auto
    then show ?thesis using None by (simp add: plan_resume_def disk_len_def)
  next
    case (Some p)
    then have "length p = j" using assms(1,2) by simp
    then show ?thesis using Some nz prev by (auto simp: plan_resume_def disk_len_def split: option.splits)
  qed
  then show ?thesis by (simp add: resume_from_def split: if_splits)
qed


definition demo_request :: dl_request where
  "demo_request = \<lparr>rq_url = ''http://h/f'', rq_filename = ''f'', rq_sha256 = None, rq_model_id = ''m'', rq_retries = 5\<rparr>"

definition demo_state :: "(u64 \<Rightarrow> http) list \<Rightarrow> u8 list option \<Rightarrow> partial_meta option option \<Rightarrow> dl_state" where
  "demo_state answers part pmeta = \<lparr>dl_partial = part, dl_meta = pmeta, dl_final = None, dl_registered = False,
     dl_answers = answers, dl_cancels = [], dl_faults = []\<rparr>"


definition demo_interrupted :: dl_state where
  "demo_interrupted = demo_state (map (file_server [1, 2, 3, 4, 5, 6]) [2, 1, 9]) (Some [1]) None"


subsection \<open>Two ways to lose a download\<close>

definition demo_meta :: "string \<Rightarrow> u64 option \<Rightarrow> partial_meta" where
  "demo_meta url tot = \<lparr>pm_url = url, pm_total_bytes = tot, sha256_expected = None, pm_model_id = ''m'', pm_filename = ''f'', started_at = 0\<rparr>"

definition unsized :: "u64 \<Rightarrow> http" where
  "unsized off = Response \<lparr>status = 200, content_range = None, content_length = None, body = [Chunk [1, 2, 3, 4]]\<rparr>"

text \<open>
  A size that belongs to another file blocks a download.  When the partial file of another URL is discarded, the size in its
  metadata is kept; a server that announces no length then delivers the complete file six times, and each time it is
  taken for a truncated stream, until the download fails.  Without the old metadata the first delivery succeeds.
\<close>

theorem stale_total_blocks_download:
  "fst (download show_nat (\<lambda>b. []) 0 demo_request
      (demo_state (replicate 6 unsized) (Some [9, 9]) (Some (Some (demo_meta ''http://h/old'' (Some 10)))))) = Inl (DownloadInterrupted ''m'') \<and>
   fst (download show_nat (\<lambda>b. []) 0 demo_request (demo_state (replicate 6 unsized) None None)) = Inr ()"
  by code_simp


end
