(* ===== verification/Json.thy ===== *)
theory Json
  imports Text
begin

section \<open>JSON values\<close>

text \<open>
  \<open>serde_json::Value\<close> as the sources use it: the constructors, the accessors and the compact printing of the library's
  documentation.  A number is kept as its printed text, an object as the list of its entries in the order in which it
  iterates.
\<close>

datatype json =
  JNull
| JBool bool
| JNumber string
| JString string
| JArray "json list"
| JObject "(string \<times> json) list"

definition dquote :: char where "dquote = CHR 0x22"
definition backslash :: char where "backslash = CHR 0x5C"

definition quoted :: "string \<Rightarrow> string" where "quoted s = [dquote] @ s @ [dquote]"

fun as_str :: "json \<Rightarrow> string option" where
  "as_str (JString s) = Some s"
| "as_str _ = None"

fun as_array :: "json \<Rightarrow> json list option" where
  "as_array (JArray vs) = Some vs"
| "as_array _ = None"

fun as_object :: "json \<Rightarrow> (string \<times> json) list option" where
  "as_object (JObject kvs) = Some kvs"
| "as_object _ = None"

fun json_get :: "string \<Rightarrow> json \<Rightarrow> json option" where
  "json_get k (JObject kvs) = map_of kvs k"
| "json_get k _ = None"

definition hex_digit :: "nat \<Rightarrow> char" where
  "hex_digit n = (if n < 10 then char_of (48 + n) else char_of (87 + n))"

definition escape_char :: "char \<Rightarrow> string" where
  "escape_char c =
    (let n = (of_char c :: nat) in
     if c = dquote \<or> c = backslash then [backslash, c]
     else if n = 8 then [backslash, CHR ''b''] else if n = 9 then [backslash, CHR ''t'']
     else if n = 10 then [backslash, CHR ''n''] else if n = 12 then [backslash, CHR ''f'']
     else if n = 13 then [backslash, CHR ''r'']
     else if n < 32 then [backslash, CHR ''u'', CHR ''0'', CHR ''0'', hex_digit (n div 16), hex_digit (n mod 16)]
     else [c])"

text \<open>A faster equation for evaluation: the control characters are those without the three highest bits.\<close>

definition control_escape :: "char \<Rightarrow> string" where "control_escape c = escape_char c"

lemma escape_char_code [code]:
  "escape_char (Char b0 b1 b2 b3 b4 b5 b6 b7) =
    (if b5 \<or> b6 \<or> b7 then (if Char b0 b1 b2 b3 b4 b5 b6 b7 = dquote \<or> Char b0 b1 b2 b3 b4 b5 b6 b7 = backslash
       then [backslash, Char b0 b1 b2 b3 b4 b5 b6 b7] else [Char b0 b1 b2 b3 b4 b5 b6 b7])
     else control_escape (Char b0 b1 b2 b3 b4 b5 b6 b7))"
  by (cases b5; cases b6; cases b7) (simp_all add: control_escape_def escape_char_def Let_def dquote_def backslash_def)

lemma control_escape_code [code]: "control_escape c =
    (let n = (of_char c :: nat) in
     if n = 8 then [backslash, CHR ''b''] else if n = 9 then [backslash, CHR ''t'']
     else if n = 10 then [backslash, CHR ''n''] else if n = 12 then [backslash, CHR ''f'']
     else if n = 13 then [backslash, CHR ''r'']
     else if n < 32 then [backslash, CHR ''u'', CHR ''0'', CHR ''0'', hex_digit (n div 16), hex_digit (n mod 16)]
     else if c = dquote \<or> c = backslash then [backslash, c] else [c])"
  by (auto simp: control_escape_def escape_char_def Let_def dquote_def backslash_def)

definition show_json_string :: "string \<Rightarrow> string" where
  "show_json_string s = quoted (concat (map escape_char s))"

fun show_json :: "json \<Rightarrow> string" where
  "show_json JNull = ''null''"
| "show_json (JBool b) = (if b then ''true'' else ''false'')"
| "show_json (JNumber n) = n"
| "show_json (JString s) = show_json_string s"
| "show_json (JArray vs) = ''['' @ join '','' (map show_json vs) @ '']''"
| "show_json (JObject kvs) = ''{'' @ join '','' (map (\<lambda>(k, v). show_json_string k @ '':'' @ show_json v) kvs) @ ''}''"

subsection \<open>Objects and access\<close>

text \<open>
  \<open>serde_json::Map\<close> without the feature \<open>preserve_order\<close> is a \<open>BTreeMap\<close>: an object iterates in the order of the bytes
  of its keys.  \<open>obj_insert\<close> is the insertion, \<open>obj\<close> the macro \<open>json!\<close> for an object, and \<open>json_index\<close> the index
  operator, which is \<open>Null\<close> where \<open>get\<close> is \<open>None\<close>.
\<close>

fun str_less :: "string \<Rightarrow> string \<Rightarrow> bool" where
  "str_less s [] = False"
| "str_less [] (c # cs) = True"
| "str_less (a # as) (b # bs) = (of_char a < (of_char b :: nat) \<or> (a = b \<and> str_less as bs))"

fun obj_insert :: "string \<Rightarrow> 'v \<Rightarrow> (string \<times> 'v) list \<Rightarrow> (string \<times> 'v) list" where
  "obj_insert k v [] = [(k, v)]"
| "obj_insert k v ((k', v') # m) =
    (if k = k' then (k, v) # m else if str_less k k' then (k, v) # (k', v') # m else (k', v') # obj_insert k v m)"

definition obj_of :: "(string \<times> 'v) list \<Rightarrow> (string \<times> 'v) list" where
  "obj_of kvs = fold (\<lambda>(k, v). obj_insert k v) kvs []"

definition obj :: "(string \<times> json) list \<Rightarrow> json" where
  "obj kvs = JObject (obj_of kvs)"

fun json_at :: "nat \<Rightarrow> json \<Rightarrow> json option" where
  "json_at n (JArray vs) = (if n < length vs then Some (vs ! n) else None)"
| "json_at n _ = None"

definition json_index :: "string \<Rightarrow> json \<Rightarrow> json" where
  "json_index k v = (case json_get k v of Some x \<Rightarrow> x | None \<Rightarrow> JNull)"

text \<open>The text at a key, with \<open>and_then(as_str)\<close>.\<close>

definition get_str :: "string \<Rightarrow> json \<Rightarrow> string option" where
  "get_str k v = Option.bind (json_get k v) as_str"

definition str_or :: "string \<Rightarrow> string option \<Rightarrow> string" where
  "str_or d s = (case s of Some t \<Rightarrow> t | None \<Rightarrow> d)"

abbreviation set_if :: "bool \<Rightarrow> string \<Rightarrow> json \<Rightarrow> (string \<times> json) list \<Rightarrow> (string \<times> json) list" where
  "set_if b k v m \<equiv> (if b then obj_insert k v m else m)"

lemma map_of_obj_insert [simp]: "map_of (obj_insert k v m) = (map_of m)(k \<mapsto> v)"
  by (induction k v m rule: obj_insert.induct) auto

lemma map_of_fold_insert: "map_of (fold (\<lambda>(k, v). obj_insert k v) kvs m) = map_of m ++ map_of (rev kvs)"
  by (induction kvs arbitrary: m) (auto simp: map_add_def fun_eq_iff split: option.splits)

lemma map_of_obj_of [simp]: "map_of (obj_of kvs) = map_of (rev kvs)"
  by (simp add: obj_of_def map_of_fold_insert)

lemma json_get_obj [simp]: "json_get k (obj kvs) = map_of (rev kvs) k"
  by (simp add: obj_def)

lemma as_str_obj [simp]: "as_str (obj kvs) = None" "as_array (obj kvs) = None"
  by (simp_all add: obj_def)

lemma json_at_0 [simp]: "json_at 0 (JArray (v # vs)) = Some v"
  by simp

lemma get_str_obj [simp]: "get_str k (obj kvs) = Option.bind (map_of (rev kvs) k) as_str"
  by (simp add: get_str_def)

lemma str_or_Some [simp]: "str_or d (Some t) = t"
  by (simp add: str_or_def)

lemma set_obj_insert: "set (obj_insert k v m) \<subseteq> insert (k, v) (set m)"
  by (induction k v m rule: obj_insert.induct) auto

lemma set_fold_insert: "set (fold (\<lambda>(k, v). obj_insert k v) kvs m) \<subseteq> set kvs \<union> set m"
proof (induction kvs arbitrary: m)
  case (Cons kv kvs)
  obtain k v where kv: "kv = (k, v)" by (cases kv)
  show ?case using Cons [of "obj_insert k v m"] set_obj_insert [of k v m] by (auto simp: kv)
qed simp

lemma set_obj_of: "set (obj_of kvs) \<subseteq> set kvs"
  using set_fold_insert [of kvs "[]"] by (simp add: obj_of_def)

text \<open>The keys of an object are in order.\<close>

lemma str_less_trans: "str_less a b \<Longrightarrow> str_less b c \<Longrightarrow> str_less a c"
proof (induction a b arbitrary: c rule: str_less.induct)
  case (3 x xs y ys)
  then show ?case by (cases c) auto
next
  case (2 y ys)
  then show ?case by (cases c) auto
qed simp

lemma str_less_linear: "a \<noteq> b \<Longrightarrow> \<not> str_less a b \<Longrightarrow> str_less b a"
proof (induction a b rule: str_less.induct)
  case (1 s)
  then show ?case by (cases s) auto
next
  case (3 x xs y ys)
  then show ?case by (cases "x = y") (auto simp: not_less le_less)
qed auto

definition ordered_keys :: "(string \<times> 'v) list \<Rightarrow> bool" where
  "ordered_keys m \<longleftrightarrow> sorted_wrt str_less (map fst m)"

lemma ordered_obj_insert: "ordered_keys m \<Longrightarrow> ordered_keys (obj_insert k v m)"
proof (induction k v m rule: obj_insert.induct)
  case (2 k v k' v' m)
  have "x = (k, v) \<or> x \<in> set m" if "x \<in> set (obj_insert k v m)" for x using set_obj_insert [of k v m] that by auto
  then have "\<forall>x \<in> set (obj_insert k v m). str_less k' (fst x)" if "str_less k' k" "\<forall>x \<in> set m. str_less k' (fst x)"
    using that by force
  then show ?case using 2 str_less_linear [of k k'] str_less_trans [of k k'] by (auto simp: ordered_keys_def)
qed (simp add: ordered_keys_def)

lemma ordered_obj_of: "ordered_keys (obj_of kvs)"
proof -
  have "ordered_keys (fold (\<lambda>(k, v). obj_insert k v) kvs m)" if "ordered_keys m" for m
    using that by (induction kvs arbitrary: m) (auto simp: ordered_obj_insert)
  then show ?thesis by (simp add: obj_of_def ordered_keys_def)
qed

text \<open>The printed form of a value whose numbers are printed without control characters has none itself.\<close>

definition printable :: "string \<Rightarrow> bool" where "printable s \<longleftrightarrow> list_all (\<lambda>c. 32 \<le> (of_char c :: nat)) s"

lemma printable_simps [simp]: "printable []" "printable (c # s) \<longleftrightarrow> 32 \<le> (of_char c :: nat) \<and> printable s"
  "printable (s @ t) \<longleftrightarrow> printable s \<and> printable t"
  by (simp_all add: printable_def)

lemma printable_join: "printable sep \<Longrightarrow> list_all printable ss \<Longrightarrow> printable (join sep ss)"
  by (induction sep ss rule: join.induct) auto

lemma printable_concat: "list_all printable ss \<Longrightarrow> printable (concat ss)"
  by (induction ss) auto

fun printable_json :: "json \<Rightarrow> bool" where
  "printable_json (JNumber n) = printable n"
| "printable_json (JArray vs) = list_all printable_json vs"
| "printable_json (JObject kvs) = list_all (\<lambda>(k, v). printable_json v) kvs"
| "printable_json _ = True"

lemma printable_escape: "printable (escape_char c)"
  by (simp add: escape_char_def Let_def hex_digit_def dquote_def backslash_def)

lemma printable_json_string: "printable (show_json_string s)"
  by (simp add: show_json_string_def quoted_def dquote_def printable_concat list_all_iff printable_escape)

lemma printable_show_json: "printable_json v \<Longrightarrow> printable (show_json v)"
proof (induction v rule: show_json.induct)
  case (5 vs)
  then show ?case by (simp add: printable_join list_all_iff)
next
  case (6 kvs)
  then show ?case by (force intro!: printable_join simp: list_all_iff printable_json_string)
qed (simp_all add: printable_json_string)

lemma printable_obj: "list_all (\<lambda>(k, v). printable_json v) kvs \<Longrightarrow> printable_json (obj kvs)"
  using set_obj_of [of kvs] by (auto simp: obj_def list_all_iff)

lemma newline_not_printable: "printable s \<Longrightarrow> newline \<notin> set s"
  by (induction s) (auto simp: newline_def)

subsection \<open>Derived (de)serialization\<close>

text \<open>
  The attributes of serde's derive macros as its documentation describes them.  A struct is an object with its fields in the
  order of their declaration; a missing or null \<open>Option\<close> field is \<open>None\<close>; a field with \<open>default\<close> may be missing.  Decoding
  fails with \<open>None\<close>.  Reading a text normalises the objects: the keys are sorted and the last duplicate wins.
\<close>

definition field :: "(json \<Rightarrow> 'a option) \<Rightarrow> string \<Rightarrow> json \<Rightarrow> 'a option" where
  "field dec k v = Option.bind (json_get k v) dec"

definition opt_field :: "(json \<Rightarrow> 'a option) \<Rightarrow> string \<Rightarrow> json \<Rightarrow> 'a option option" where
  "opt_field dec k v = (case json_get k v of
     None \<Rightarrow> Some None
   | Some w \<Rightarrow> if w = JNull then Some None else map_option Some (dec w))"

definition default_field :: "(json \<Rightarrow> 'a option) \<Rightarrow> 'a \<Rightarrow> string \<Rightarrow> json \<Rightarrow> 'a option" where
  "default_field dec d k v = (case json_get k v of None \<Rightarrow> Some d | Some w \<Rightarrow> dec w)"

fun decode_all :: "(json \<Rightarrow> 'a option) \<Rightarrow> json list \<Rightarrow> 'a list option" where
  "decode_all dec [] = Some []"
| "decode_all dec (v # vs) = (case dec v of None \<Rightarrow> None | Some x \<Rightarrow> map_option ((#) x) (decode_all dec vs))"

definition as_list :: "(json \<Rightarrow> 'a option) \<Rightarrow> json \<Rightarrow> 'a list option" where
  "as_list dec v = Option.bind (as_array v) (decode_all dec)"

fun as_bool :: "json \<Rightarrow> bool option" where
  "as_bool (JBool b) = Some b"
| "as_bool _ = None"

fun as_u32 :: "json \<Rightarrow> u32 option" where
  "as_u32 (JNumber n) = map_option of_nat (parse_unsigned (2 ^ 32) n)"
| "as_u32 _ = None"

definition skip_none :: "string \<Rightarrow> json option \<Rightarrow> (string \<times> json) list" where
  "skip_none k v = (case v of Some w \<Rightarrow> [(k, w)] | None \<Rightarrow> [])"

definition or_null :: "json option \<Rightarrow> json" where
  "or_null v = (case v of Some w \<Rightarrow> w | None \<Rightarrow> JNull)"

fun norm_json :: "json \<Rightarrow> json" where
  "norm_json (JArray vs) = JArray (map norm_json vs)"
| "norm_json (JObject kvs) = obj (map (\<lambda>(k, v). (k, norm_json v)) kvs)"
| "norm_json v = v"

lemma decode_all_map: "(\<And>x. dec (enc x) = Some (f x)) \<Longrightarrow> decode_all dec (map enc xs) = Some (map f xs)"
  by (induction xs) simp_all

lemma decode_all_map_in: "(\<And>x. x \<in> set xs \<Longrightarrow> dec (enc x) = Some (f x)) \<Longrightarrow> decode_all dec (map enc xs) = Some (map f xs)"
  by (induction xs) simp_all

lemma as_u32_show [simp]: "as_u32 (JNumber (show_nat (unat n))) = Some n"
  using unsigned_less [of n, where ?'a = nat] by (simp add: parse_unsigned_show)

end
