(* ===== verification/CloudRegistry.thy ===== *)
theory CloudRegistry
  imports Json
begin

section \<open>Cloud providers\<close>

text \<open>
  \<open>crates/hivebear-inference/src/engine/cloud/registry.rs\<close>: the catalogue of providers, its lookup and the resolution of the
  API keys.  The environment is a map from the names of its variables to their values; a value that is not Unicode counts as
  missing, as in \<open>std::env::var\<close>.
\<close>

datatype api_protocol = OpenAiCompat | Anthropic | GeminiApi | Cohere

datatype auth_style = BearerToken | CustomHeader string | ApiKeyInUrl | NoAuth

record provider_capabilities =
  supports_streaming :: bool
  supports_tool_calling :: bool
  supports_vision :: bool
  supports_structured_output :: bool
  max_context_length :: "u32 option"

definition default_capabilities :: provider_capabilities where
  "default_capabilities = \<lparr>supports_streaming = True, supports_tool_calling = False, supports_vision = False,
     supports_structured_output = False, max_context_length = None\<rparr>"

record provider_def =
  pd_prefix :: string
  display_name :: string
  base_url :: string
  protocol :: api_protocol
  auth_style :: auth_style
  env_var :: string
  extra_headers :: "(string \<times> string) list"
  chat_endpoint :: string
  requires_api_key :: bool
  capabilities :: provider_capabilities

definition caps :: "bool \<Rightarrow> bool \<Rightarrow> bool \<Rightarrow> bool \<Rightarrow> u32 option \<Rightarrow> provider_capabilities" where
  "caps streaming tools vision structured ctx = \<lparr>supports_streaming = streaming, supports_tool_calling = tools,
     supports_vision = vision, supports_structured_output = structured, max_context_length = ctx\<rparr>"

text \<open>The catalogue.\<close>

definition openai_compatible_1 :: "provider_def list" where
  "openai_compatible_1 = [
  \<lparr>pd_prefix = ''openai'', display_name = ''OpenAI'', base_url = ''https://api.openai.com/v1'',
   protocol = OpenAiCompat, auth_style = BearerToken, env_var = ''OPENAI_API_KEY'', extra_headers = [],
   chat_endpoint = ''/chat/completions'', requires_api_key = True, capabilities = caps True True True True (Some 128000)\<rparr>,
  \<lparr>pd_prefix = ''groq'', display_name = ''Groq'', base_url = ''https://api.groq.com/openai/v1'',
   protocol = OpenAiCompat, auth_style = BearerToken, env_var = ''GROQ_API_KEY'', extra_headers = [],
   chat_endpoint = ''/chat/completions'', requires_api_key = True, capabilities = caps True True True True (Some 131072)\<rparr>,
  \<lparr>pd_prefix = ''together'', display_name = ''Together AI'', base_url = ''https://api.together.xyz/v1'',
   protocol = OpenAiCompat, auth_style = BearerToken, env_var = ''TOGETHER_API_KEY'', extra_headers = [],
   chat_endpoint = ''/chat/completions'', requires_api_key = True, capabilities = caps True True True True (Some 131072)\<rparr>,
  \<lparr>pd_prefix = ''fireworks'', display_name = ''Fireworks AI'', base_url = ''https://api.fireworks.ai/inference/v1'',
   protocol = OpenAiCompat, auth_style = BearerToken, env_var = ''FIREWORKS_API_KEY'', extra_headers = [],
   chat_endpoint = ''/chat/completions'', requires_api_key = True, capabilities = caps True True True True (Some 131072)\<rparr>,
  \<lparr>pd_prefix = ''deepseek'', display_name = ''DeepSeek'', base_url = ''https://api.deepseek.com'',
   protocol = OpenAiCompat, auth_style = BearerToken, env_var = ''DEEPSEEK_API_KEY'', extra_headers = [],
   chat_endpoint = ''/chat/completions'', requires_api_key = True, capabilities = caps True True False True (Some 64000)\<rparr>,
  \<lparr>pd_prefix = ''xai'', display_name = ''xAI (Grok)'', base_url = ''https://api.x.ai/v1'',
   protocol = OpenAiCompat, auth_style = BearerToken, env_var = ''XAI_API_KEY'', extra_headers = [],
   chat_endpoint = ''/chat/completions'', requires_api_key = True, capabilities = caps True True True True (Some 131072)\<rparr>,
  \<lparr>pd_prefix = ''cerebras'', display_name = ''Cerebras'', base_url = ''https://api.cerebras.ai/v1'',
   protocol = OpenAiCompat, auth_style = BearerToken, env_var = ''CEREBRAS_API_KEY'', extra_headers = [],
   chat_endpoint = ''/chat/completions'', requires_api_key = True, capabilities = caps True True False True (Some 8192)\<rparr>,
  \<lparr>pd_prefix = ''sambanova'', display_name = ''SambaNova'', base_url = ''https://api.sambanova.ai/v1'',
   protocol = OpenAiCompat, auth_style = BearerToken, env_var = ''SAMBANOVA_API_KEY'', extra_headers = [],
   chat_endpoint = ''/chat/completions'', requires_api_key = True, capabilities = caps True True False True (Some 8192)\<rparr>,
  \<lparr>pd_prefix = ''perplexity'', display_name = ''Perplexity'', base_url = ''https://api.perplexity.ai'',
   protocol = OpenAiCompat, auth_style = BearerToken, env_var = ''PERPLEXITY_API_KEY'', extra_headers = [],
   chat_endpoint = ''/chat/completions'', requires_api_key = True, capabilities = caps True False False False (Some 127072)\<rparr>,
  \<lparr>pd_prefix = ''mistral'', display_name = ''Mistral'', base_url = ''https://api.mistral.ai/v1'',
   protocol = OpenAiCompat, auth_style = BearerToken, env_var = ''MISTRAL_API_KEY'', extra_headers = [],
   chat_endpoint = ''/chat/completions'', requires_api_key = True, capabilities = caps True True True True (Some 128000)\<rparr>,
  \<lparr>pd_prefix = ''openrouter'', display_name = ''OpenRouter'', base_url = ''https://openrouter.ai/api/v1'',
   protocol = OpenAiCompat, auth_style = BearerToken, env_var = ''OPENROUTER_API_KEY'', extra_headers = [],
   chat_endpoint = ''/chat/completions'', requires_api_key = True, capabilities = caps True True True True (Some 200000)\<rparr>,
  \<lparr>pd_prefix = ''nvidia'', display_name = ''NVIDIA NIM'', base_url = ''https://integrate.api.nvidia.com/v1'',
   protocol = OpenAiCompat, auth_style = BearerToken, env_var = ''NVIDIA_API_KEY'', extra_headers = [],
   chat_endpoint = ''/chat/completions'', requires_api_key = True, capabilities = caps True True False True (Some 32768)\<rparr>]"

definition openai_compatible_2 :: "provider_def list" where
  "openai_compatible_2 = [
  \<lparr>pd_prefix = ''cloudflare'', display_name = ''Cloudflare Workers AI'', base_url = ''https://api.cloudflare.com/client/v4/accounts/{account_id}/ai/v1'',
   protocol = OpenAiCompat, auth_style = BearerToken, env_var = ''CLOUDFLARE_API_KEY'', extra_headers = [],
   chat_endpoint = ''/chat/completions'', requires_api_key = True, capabilities = caps True False False False (Some 4096)\<rparr>,
  \<lparr>pd_prefix = ''huggingface'', display_name = ''HuggingFace Inference'', base_url = ''https://api-inference.huggingface.co/v1'',
   protocol = OpenAiCompat, auth_style = BearerToken, env_var = ''HF_API_KEY'', extra_headers = [],
   chat_endpoint = ''/chat/completions'', requires_api_key = True, capabilities = caps True True False False (Some 32768)\<rparr>,
  \<lparr>pd_prefix = ''replicate'', display_name = ''Replicate'', base_url = ''https://openai-proxy.replicate.com/v1'',
   protocol = OpenAiCompat, auth_style = BearerToken, env_var = ''REPLICATE_API_KEY'', extra_headers = [],
   chat_endpoint = ''/chat/completions'', requires_api_key = True, capabilities = caps True False False False None\<rparr>,
  \<lparr>pd_prefix = ''lepton'', display_name = ''Lepton AI'', base_url = ''https://api.lepton.ai/v1'',
   protocol = OpenAiCompat, auth_style = BearerToken, env_var = ''LEPTON_API_KEY'', extra_headers = [],
   chat_endpoint = ''/chat/completions'', requires_api_key = True, capabilities = caps True True False False (Some 32768)\<rparr>,
  \<lparr>pd_prefix = ''octoai'', display_name = ''OctoAI'', base_url = ''https://text.octoai.run/v1'',
   protocol = OpenAiCompat, auth_style = BearerToken, env_var = ''OCTOAI_API_KEY'', extra_headers = [],
   chat_endpoint = ''/chat/completions'', requires_api_key = True, capabilities = caps True True False False (Some 32768)\<rparr>,
  \<lparr>pd_prefix = ''anyscale'', display_name = ''Anyscale'', base_url = ''https://api.endpoints.anyscale.com/v1'',
   protocol = OpenAiCompat, auth_style = BearerToken, env_var = ''ANYSCALE_API_KEY'', extra_headers = [],
   chat_endpoint = ''/chat/completions'', requires_api_key = True, capabilities = caps True True False False (Some 16384)\<rparr>,
  \<lparr>pd_prefix = ''moonshot'', display_name = ''Moonshot AI'', base_url = ''https://api.moonshot.cn/v1'',
   protocol = OpenAiCompat, auth_style = BearerToken, env_var = ''MOONSHOT_API_KEY'', extra_headers = [],
   chat_endpoint = ''/chat/completions'', requires_api_key = True, capabilities = caps True True False False (Some 128000)\<rparr>,
  \<lparr>pd_prefix = ''dashscope'', display_name = ''Alibaba DashScope'', base_url = ''https://dashscope.aliyuncs.com/compatible-mode/v1'',
   protocol = OpenAiCompat, auth_style = BearerToken, env_var = ''DASHSCOPE_API_KEY'', extra_headers = [],
   chat_endpoint = ''/chat/completions'', requires_api_key = True, capabilities = caps True True True True (Some 128000)\<rparr>,
  \<lparr>pd_prefix = ''zhipu'', display_name = ''Zhipu AI (GLM)'', base_url = ''https://open.bigmodel.cn/api/paas/v4'',
   protocol = OpenAiCompat, auth_style = BearerToken, env_var = ''ZHIPU_API_KEY'', extra_headers = [],
   chat_endpoint = ''/chat/completions'', requires_api_key = True, capabilities = caps True True True False (Some 128000)\<rparr>,
  \<lparr>pd_prefix = ''baichuan'', display_name = ''Baichuan'', base_url = ''https://api.baichuan-ai.com/v1'',
   protocol = OpenAiCompat, auth_style = BearerToken, env_var = ''BAICHUAN_API_KEY'', extra_headers = [],
   chat_endpoint = ''/chat/completions'', requires_api_key = True, capabilities = caps True True False False (Some 32768)\<rparr>,
  \<lparr>pd_prefix = ''minimax'', display_name = ''Minimax'', base_url = ''https://api.minimax.chat/v1'',
   protocol = OpenAiCompat, auth_style = BearerToken, env_var = ''MINIMAX_API_KEY'', extra_headers = [],
   chat_endpoint = ''/text/chatcompletion_v2'', requires_api_key = True, capabilities = caps True True False False (Some 245760)\<rparr>,
  \<lparr>pd_prefix = ''yi'', display_name = ''01.AI (Yi)'', base_url = ''https://api.lingyiwanwu.com/v1'',
   protocol = OpenAiCompat, auth_style = BearerToken, env_var = ''YI_API_KEY'', extra_headers = [],
   chat_endpoint = ''/chat/completions'', requires_api_key = True, capabilities = caps True True True False (Some 200000)\<rparr>,
  \<lparr>pd_prefix = ''azure'', display_name = ''Azure OpenAI'', base_url = ''https://{resource}.openai.azure.com/openai/deployments/{deployment}'',
   protocol = OpenAiCompat, auth_style = (CustomHeader ''api-key''), env_var = ''AZURE_OPENAI_API_KEY'', extra_headers = [],
   chat_endpoint = ''/chat/completions?api-version=2024-10-21'', requires_api_key = True, capabilities = caps True True True True (Some 128000)\<rparr>]"

definition custom_providers :: "provider_def list" where
  "custom_providers = [
  \<lparr>pd_prefix = ''anthropic'', display_name = ''Anthropic'', base_url = ''https://api.anthropic.com'',
   protocol = Anthropic, auth_style = (CustomHeader ''x-api-key''), env_var = ''ANTHROPIC_API_KEY'', extra_headers = [(''anthropic-version'', ''2023-06-01'')],
   chat_endpoint = ''/v1/messages'', requires_api_key = True, capabilities = caps True True True True (Some 200000)\<rparr>,
  \<lparr>pd_prefix = ''gemini'', display_name = ''Google Gemini'', base_url = ''https://generativelanguage.googleapis.com'',
   protocol = GeminiApi, auth_style = ApiKeyInUrl, env_var = ''GEMINI_API_KEY'', extra_headers = [],
   chat_endpoint = ''/v1beta/models/{model}:generateContent'', requires_api_key = True, capabilities = caps True True True True (Some 1048576)\<rparr>,
  \<lparr>pd_prefix = ''cohere'', display_name = ''Cohere'', base_url = ''https://api.cohere.com'',
   protocol = Cohere, auth_style = BearerToken, env_var = ''COHERE_API_KEY'', extra_headers = [],
   chat_endpoint = ''/v2/chat'', requires_api_key = True, capabilities = caps True True False True (Some 128000)\<rparr>,
  \<lparr>pd_prefix = ''ai21'', display_name = ''AI21 Labs'', base_url = ''https://api.ai21.com/studio/v1'',
   protocol = OpenAiCompat, auth_style = BearerToken, env_var = ''AI21_API_KEY'', extra_headers = [],
   chat_endpoint = ''/chat/completions'', requires_api_key = True, capabilities = caps True True False False (Some 256000)\<rparr>,
  \<lparr>pd_prefix = ''reka'', display_name = ''Reka AI'', base_url = ''https://api.reka.ai/v1'',
   protocol = OpenAiCompat, auth_style = BearerToken, env_var = ''REKA_API_KEY'', extra_headers = [],
   chat_endpoint = ''/chat/completions'', requires_api_key = True, capabilities = caps True False True False (Some 128000)\<rparr>]"

definition local_providers :: "provider_def list" where
  "local_providers = [
  \<lparr>pd_prefix = ''ollama'', display_name = ''Ollama'', base_url = ''http://localhost:11434/v1'',
   protocol = OpenAiCompat, auth_style = NoAuth, env_var = ''OLLAMA_API_KEY'', extra_headers = [],
   chat_endpoint = ''/chat/completions'', requires_api_key = False, capabilities = caps True True True True (Some 131072)\<rparr>,
  \<lparr>pd_prefix = ''lmstudio'', display_name = ''LM Studio'', base_url = ''http://localhost:1234/v1'',
   protocol = OpenAiCompat, auth_style = NoAuth, env_var = ''LMSTUDIO_API_KEY'', extra_headers = [],
   chat_endpoint = ''/chat/completions'', requires_api_key = False, capabilities = caps True True False False (Some 32768)\<rparr>,
  \<lparr>pd_prefix = ''vllm'', display_name = ''vLLM'', base_url = ''http://localhost:8000/v1'',
   protocol = OpenAiCompat, auth_style = NoAuth, env_var = ''VLLM_API_KEY'', extra_headers = [],
   chat_endpoint = ''/chat/completions'', requires_api_key = False, capabilities = caps True True False True (Some 32768)\<rparr>,
  \<lparr>pd_prefix = ''tgi'', display_name = ''Text Generation Inference'', base_url = ''http://localhost:8080/v1'',
   protocol = OpenAiCompat, auth_style = NoAuth, env_var = ''TGI_API_KEY'', extra_headers = [],
   chat_endpoint = ''/chat/completions'', requires_api_key = False, capabilities = caps True True False True (Some 32768)\<rparr>,
  \<lparr>pd_prefix = ''localai'', display_name = ''LocalAI'', base_url = ''http://localhost:8080/v1'',
   protocol = OpenAiCompat, auth_style = NoAuth, env_var = ''LOCALAI_API_KEY'', extra_headers = [],
   chat_endpoint = ''/chat/completions'', requires_api_key = False, capabilities = caps True True False False (Some 32768)\<rparr>]"

definition BUILTIN_PROVIDERS :: "provider_def list" where
  "BUILTIN_PROVIDERS = openai_compatible_1 @ openai_compatible_2 @ custom_providers @ local_providers"

lemmas catalogue_defs = BUILTIN_PROVIDERS_def openai_compatible_1_def openai_compatible_2_def custom_providers_def local_providers_def

subsection \<open>Lookup\<close>

definition find_builtin :: "string \<Rightarrow> provider_def option" where
  "find_builtin prefix = find (\<lambda>p. pd_prefix p = prefix) BUILTIN_PROVIDERS"

definition is_cloud_model :: "string \<Rightarrow> bool" where
  "is_cloud_model name = (case split_once CHR ''/'' name of Some (prefix, _) \<Rightarrow> find_builtin prefix \<noteq> None | None \<Rightarrow> False)"

text \<open>\<open>entry(k).or_insert_with\<close>.\<close>

definition or_insert :: "string \<Rightarrow> string option \<Rightarrow> (string \<rightharpoonup> string) \<Rightarrow> (string \<rightharpoonup> string)" where
  "or_insert k v m = (case v of Some x \<Rightarrow> if m k = None then m(k \<mapsto> x) else m | None \<Rightarrow> m)"

definition env_key :: "(string \<rightharpoonup> string) \<Rightarrow> provider_def \<Rightarrow> (string \<rightharpoonup> string) \<Rightarrow> (string \<rightharpoonup> string)" where
  "env_key env p keys =
    (if keys (pd_prefix p) = None then (case env (env_var p) of
       Some val \<Rightarrow> if val \<noteq> [] then keys(pd_prefix p \<mapsto> val) else keys
     | None \<Rightarrow> keys)
     else keys)"

definition resolve_all_keys :: "(string \<rightharpoonup> string) \<Rightarrow> (string \<rightharpoonup> string) \<Rightarrow> string option \<Rightarrow> string option \<Rightarrow> (string \<rightharpoonup> string)" where
  "resolve_all_keys env config_keys legacy_openai legacy_anthropic =
    fold (env_key env) BUILTIN_PROVIDERS
      (or_insert ''anthropic'' legacy_anthropic (or_insert ''openai'' legacy_openai config_keys))"

subsection \<open>The catalogue is well formed\<close>

lemma builtin_prefixes_distinct: "distinct (map pd_prefix BUILTIN_PROVIDERS)"
  by (simp add: catalogue_defs)

lemma find_builtin_Some: "find_builtin prefix = Some p \<longleftrightarrow> p \<in> set BUILTIN_PROVIDERS \<and> pd_prefix p = prefix"
proof -
  have "find (\<lambda>p. pd_prefix p = prefix) ps = Some p \<longleftrightarrow> p \<in> set ps \<and> pd_prefix p = prefix" if "distinct (map pd_prefix ps)" for ps
    using that by (induction ps) auto
  then show ?thesis using builtin_prefixes_distinct by (simp add: find_builtin_def)
qed

text \<open>What every entry promises.\<close>

definition provider_ok :: "provider_def \<Rightarrow> bool" where
  "provider_ok p \<longleftrightarrow> CHR ''/'' \<notin> set (pd_prefix p) \<and> pd_prefix p \<noteq> [] \<and>
     (requires_api_key p \<longleftrightarrow> auth_style p \<noteq> NoAuth) \<and>
     (requires_api_key p = starts_with ''https://'' (base_url p)) \<and>
     (auth_style p = ApiKeyInUrl \<longleftrightarrow> protocol p = GeminiApi)"

lemma builtin_providers_ok: "list_all provider_ok BUILTIN_PROVIDERS"
  by (simp add: catalogue_defs provider_ok_def starts_with_def)

lemma find_builtin_ok: "find_builtin prefix = Some p \<Longrightarrow> provider_ok p"
  using builtin_providers_ok by (simp add: find_builtin_Some list_all_iff)

lemma builtin_env_vars_distinct: "distinct (map env_var BUILTIN_PROVIDERS)"
  by (simp add: catalogue_defs)

lemma fold_env_key:
  "distinct (map pd_prefix ps) \<Longrightarrow> fold (env_key env) ps keys k =
    (case keys k of Some v \<Rightarrow> Some v
     | None \<Rightarrow> (case find (\<lambda>p. pd_prefix p = k) ps of
         Some p \<Rightarrow> (case env (env_var p) of Some val \<Rightarrow> if val \<noteq> [] then Some val else None | None \<Rightarrow> None)
       | None \<Rightarrow> None))"
proof (induction ps arbitrary: keys)
  case (Cons p ps)
  have "find (\<lambda>q. pd_prefix q = pd_prefix p) ps = None" using Cons.prems unfolding find_None_iff by auto (metis imageI)
  then show ?case using Cons by (auto simp: env_key_def split: option.splits)
qed (simp split: option.split)

lemma or_insert_apply: "or_insert k v m x = (case m x of Some y \<Rightarrow> Some y | None \<Rightarrow> if x = k then v else None)"
  by (simp add: or_insert_def split: option.split)

text \<open>
  Where a key comes from: the configuration wins, then the two legacy fields, then the environment variable of the provider
  if it is not empty; a prefix that is not in the catalogue only has a key if the configuration names it.  An empty key in the
  configuration is a key.
\<close>

theorem key_resolution_order:
  "resolve_all_keys env config lo la prefix =
    (case config prefix of Some k \<Rightarrow> Some k
     | None \<Rightarrow> (case (if prefix = ''openai'' then lo else if prefix = ''anthropic'' then la else None) of Some k \<Rightarrow> Some k
       | None \<Rightarrow> (case find_builtin prefix of
           Some p \<Rightarrow> (case env (env_var p) of Some val \<Rightarrow> if val \<noteq> [] then Some val else None | None \<Rightarrow> None)
         | None \<Rightarrow> None)))"
  unfolding resolve_all_keys_def fold_env_key [OF builtin_prefixes_distinct] find_builtin_def or_insert_apply
  by (cases "config prefix"; cases "find (\<lambda>p. pd_prefix p = prefix) BUILTIN_PROVIDERS")
    (auto split: option.splits)

end
