(* ===== verification/CloudProtocols.thy ===== *)
theory CloudProtocols
  imports CloudRegistry ChatTemplate MeshTypes F32
begin

section \<open>Cloud protocols\<close>

text \<open>
  \<open>crates/hivebear-inference/src/engine/cloud/protocol.rs\<close> and \<open>protocols/\<close>: the trait \<open>CloudProtocol\<close> is a record of its
  methods, and each handler is a value of it.  What other crates do is the record \<open>cloud_lib\<close>: the standard base64 of
  \<open>base64\<close>, the JSON form of an \<open>f32\<close> and its reading, \<open>from_str\<close> of \<open>serde_json\<close> with the message of its error, the display of a
  status by \<open>http\<close>, and the decoding of a body to text by \<open>reqwest\<close>.
\<close>

record cloud_lib =
  base64_encode :: "nat list \<Rightarrow> string"
  float_json :: "f32 \<Rightarrow> json"
  from_str :: "string \<Rightarrow> (string, json) result"
  show_status :: "nat \<Rightarrow> string"
  decode_text :: "u8 list \<Rightarrow> string"
  read_float :: "json \<Rightarrow> f32 option"

subsection \<open>Requests and responses (types.rs)\<close>

datatype tool_choice = ToolAuto | ToolRequired | ToolNone | ToolSpecific string

record sampling_params =
  temperature :: f32
  top_p :: f32
  top_k :: u32
  repeat_penalty :: f32
  frequency_penalty :: f32
  presence_penalty :: f32

definition default_sampling :: sampling_params where
  "default_sampling = \<lparr>temperature = lit32 (7 / 10), top_p = lit32 (9 / 10), top_k = 40, repeat_penalty = lit32 (11 / 10),
     frequency_penalty = Fin 0, presence_penalty = Fin 0\<rparr>"

record generate_request =
  gr_messages :: "chat_message list"
  max_tokens :: u32
  sampling :: sampling_params
  output_schema :: "json option"
  gr_tools :: "tool_definition list"
  gr_tool_choice :: tool_choice
  stop_sequences :: "string list"
  gr_grammar :: "string option"
  gr_model_name :: "string option"

definition default_request :: generate_request where
  "default_request = \<lparr>gr_messages = [], max_tokens = 2048, sampling = default_sampling, output_schema = None, gr_tools = [],
     gr_tool_choice = ToolAuto, stop_sequences = [], gr_grammar = None, gr_model_name = None\<rparr>"

datatype content_block = BlockText string | BlockCall tool_call_response

datatype generate_response = RespText string | RespCall tool_call_response | RespMixed "content_block list"

definition text_token :: "string \<Rightarrow> token" where
  "text_token t = \<lparr>tok_text = t, tok_id = 0, tok_logprob = None, is_special = False\<rparr>"

definition json_u32 :: "u32 \<Rightarrow> json" where "json_u32 n = JNumber (show_nat (unat n))"

definition json_strings :: "string list \<Rightarrow> json" where "json_strings ss = JArray (map JString ss)"

subsection \<open>The trait (protocol.rs)\<close>

record cloud_protocol =
  build_request_body :: "provider_def \<Rightarrow> string \<Rightarrow> generate_request \<Rightarrow> bool \<Rightarrow> json"
  parse_response :: "json \<Rightarrow> (inference_error, generate_response) result"
  parse_stream_chunk :: "string \<Rightarrow> (inference_error, token option) result"
  build_url :: "provider_def \<Rightarrow> string \<Rightarrow> string"
  build_headers :: "provider_def \<Rightarrow> string option \<Rightarrow> (string \<times> string) list"
  done_sentinel :: "string option"

definition default_url :: "provider_def \<Rightarrow> string \<Rightarrow> string" where
  "default_url p model_id = base_url p @ chat_endpoint p"

definition auth_headers :: "provider_def \<Rightarrow> string option \<Rightarrow> (string \<times> string) list" where
  "auth_headers p api_key = (case api_key of None \<Rightarrow> []
   | Some key \<Rightarrow> (case auth_style p of
       BearerToken \<Rightarrow> [(''Authorization'', ''Bearer '' @ key)]
     | CustomHeader name \<Rightarrow> [(name, key)]
     | ApiKeyInUrl \<Rightarrow> []
     | NoAuth \<Rightarrow> []))"

definition default_headers :: "provider_def \<Rightarrow> string option \<Rightarrow> (string \<times> string) list" where
  "default_headers p api_key = auth_headers p api_key @ extra_headers p @ [(''Content-Type'', ''application/json'')]"

subsection \<open>OpenAI and compatible (openai_compat.rs)\<close>

definition extract_text :: "content_part list \<Rightarrow> string" where
  "extract_text parts = join [newline] (List.map_filter part_text parts)"

fun openai_part :: "cloud_lib \<Rightarrow> content_part \<Rightarrow> json" where
  "openai_part lib (TextPart t) = obj [(''type'', JString ''text''), (''text'', JString t)]"
| "openai_part lib (ImagePart data media) = obj [(''type'', JString ''image_url''),
     (''image_url'', obj [(''url'', JString (''data:'' @ media @ '';base64,'' @ base64_encode lib data))])]"
| "openai_part lib (ImageUrl url) = obj [(''type'', JString ''image_url''), (''image_url'', obj [(''url'', JString url)])]"

fun openai_tool_choice :: "tool_choice \<Rightarrow> json" where
  "openai_tool_choice ToolAuto = JString ''auto''"
| "openai_tool_choice ToolRequired = JString ''required''"
| "openai_tool_choice ToolNone = JString ''none''"
| "openai_tool_choice (ToolSpecific name) = obj [(''type'', JString ''function''), (''function'', obj [(''name'', JString name)])]"

definition call_json :: "tool_call_response \<Rightarrow> json" where
  "call_json tc = obj [(''id'', JString (call_id tc)), (''type'', JString ''function''),
     (''function'', obj [(''name'', JString (tool_name tc)), (''arguments'', JString (show_json (arguments tc)))])]"

fun openai_message :: "cloud_lib \<Rightarrow> chat_message \<Rightarrow> json" where
  "openai_message lib (System s) = obj [(''role'', JString ''system''), (''content'', JString s)]"
| "openai_message lib (User parts) = obj [(''role'', JString ''user''),
     (''content'', if list_ex is_image parts then JArray (map (openai_part lib) parts) else JString (extract_text parts))]"
| "openai_message lib (Assistant content tool_calls) =
    (let m = obj_of [(''role'', JString ''assistant'')];
         m = (case content of Some t \<Rightarrow> obj_insert ''content'' (JString t) m | None \<Rightarrow> m);
         m = set_if (tool_calls \<noteq> []) ''tool_calls'' (JArray (map call_json tool_calls)) m
     in JObject m)"
| "openai_message lib (ToolResult i content) =
    obj [(''role'', JString ''tool''), (''tool_call_id'', JString i), (''content'', JString content)]"

definition openai_tool :: "tool_definition \<Rightarrow> json" where
  "openai_tool t = obj [(''type'', JString ''function''), (''function'',
     obj [(''name'', JString (td_name t)), (''description'', JString (description t)), (''parameters'', input_schema t)])]"

definition openai_body :: "cloud_lib \<Rightarrow> provider_def \<Rightarrow> string \<Rightarrow> generate_request \<Rightarrow> bool \<Rightarrow> json" where
  "openai_body lib p model_id req stream =
    (let s = sampling req;
         m = obj_of [(''model'', JString model_id), (''messages'', JArray (map (openai_message lib) (gr_messages req))),
           (''max_tokens'', json_u32 (max_tokens req)), (''temperature'', float_json lib (temperature s)),
           (''top_p'', float_json lib (top_p s)), (''stream'', JBool stream)];
         m = set_if (frequency_penalty s \<noteq> Fin 0) ''frequency_penalty'' (float_json lib (frequency_penalty s)) m;
         m = set_if (presence_penalty s \<noteq> Fin 0) ''presence_penalty'' (float_json lib (presence_penalty s)) m;
         m = set_if (stop_sequences req \<noteq> []) ''stop'' (json_strings (stop_sequences req)) m;
         m = set_if (gr_tools req \<noteq> []) ''tools'' (JArray (map openai_tool (gr_tools req))) m;
         m = set_if (gr_tools req \<noteq> []) ''tool_choice'' (openai_tool_choice (gr_tool_choice req)) m;
         m = (case output_schema req of Some schema \<Rightarrow> obj_insert ''response_format''
               (obj [(''type'', JString ''json_schema''), (''json_schema'',
                 obj [(''name'', JString ''structured_output''), (''strict'', JBool True), (''schema'', schema)])]) m
             | None \<Rightarrow> m)
     in JObject m)"

definition openai_call :: "cloud_lib \<Rightarrow> json \<Rightarrow> tool_call_response" where
  "openai_call lib tc =
    (let func = json_index ''function'' tc;
         args = str_or ''{}'' (as_str (json_index ''arguments'' func))
     in \<lparr>tool_name = str_or [] (as_str (json_index ''name'' func)),
         arguments = (case from_str lib args of Inr v \<Rightarrow> v | Inl e \<Rightarrow> obj []),
         call_id = str_or [] (as_str (json_index ''id'' tc))\<rparr>)"

definition openai_calls :: "cloud_lib \<Rightarrow> json \<Rightarrow> json list \<Rightarrow> generate_response" where
  "openai_calls lib message arr =
    (let text = str_or [] (get_str ''content'' message); calls = map (openai_call lib) arr in
     if text = [] \<and> length arr = 1 then RespCall (hd calls)
     else RespMixed ((if text \<noteq> [] then [BlockText text] else []) @ map BlockCall calls))"

definition openai_response :: "cloud_lib \<Rightarrow> json \<Rightarrow> (inference_error, generate_response) result" where
  "openai_response lib body =
    (case Option.bind (json_get ''choices'' body) (json_at 0) of
       None \<Rightarrow> Inl (GenerationError ''OpenAI response missing choices[0]'')
     | Some choice \<Rightarrow> (case json_get ''message'' choice of
         None \<Rightarrow> Inl (GenerationError ''OpenAI response missing choices[0].message'')
       | Some message \<Rightarrow> (case Option.bind (json_get ''tool_calls'' message) as_array of
           Some (tc # tcs) \<Rightarrow> Inr (openai_calls lib message (tc # tcs))
         | _ \<Rightarrow> Inr (RespText (str_or [] (get_str ''content'' message))))))"

definition openai_chunk :: "cloud_lib \<Rightarrow> string \<Rightarrow> (inference_error, token option) result" where
  "openai_chunk lib data =
    (case from_str lib data of
       Inl e \<Rightarrow> Inl (GenerationError (''Failed to parse SSE chunk: '' @ e))
     | Inr parsed \<Rightarrow>
        (case Option.bind (Option.bind (json_get ''choices'' parsed) (json_at 0)) (json_get ''delta'') of
           None \<Rightarrow> Inr None
         | Some delta \<Rightarrow> (let text = str_or [] (get_str ''content'' delta) in
             if json_get ''content'' delta = None then Inr None
             else if text = [] then Inr None else Inr (Some (text_token text)))))"

definition openai_protocol :: "cloud_lib \<Rightarrow> cloud_protocol" where
  "openai_protocol lib = \<lparr>build_request_body = openai_body lib, parse_response = openai_response lib,
     parse_stream_chunk = openai_chunk lib, build_url = default_url, build_headers = default_headers,
     done_sentinel = Some ''[DONE]''\<rparr>"

subsection \<open>Anthropic (anthropic.rs)\<close>

fun anthropic_part :: "cloud_lib \<Rightarrow> content_part \<Rightarrow> json" where
  "anthropic_part lib (TextPart t) = obj [(''type'', JString ''text''), (''text'', JString t)]"
| "anthropic_part lib (ImagePart data media) = obj [(''type'', JString ''image''), (''source'',
     obj [(''type'', JString ''base64''), (''media_type'', JString media), (''data'', JString (base64_encode lib data))])]"
| "anthropic_part lib (ImageUrl url) = obj [(''type'', JString ''image''), (''source'',
     obj [(''type'', JString ''url''), (''url'', JString url)])]"

fun anthropic_tool_choice :: "tool_choice \<Rightarrow> json" where
  "anthropic_tool_choice ToolAuto = obj [(''type'', JString ''auto'')]"
| "anthropic_tool_choice ToolRequired = obj [(''type'', JString ''any'')]"
| "anthropic_tool_choice ToolNone = obj [(''type'', JString ''none'')]"
| "anthropic_tool_choice (ToolSpecific name) = obj [(''type'', JString ''tool''), (''name'', JString name)]"

fun system_message :: "chat_message list \<Rightarrow> string option" where
  "system_message [] = None"
| "system_message (System s # ms) = Some s"
| "system_message (m # ms) = system_message ms"

definition anthropic_call :: "tool_call_response \<Rightarrow> json" where
  "anthropic_call tc = obj [(''type'', JString ''tool_use''), (''id'', JString (call_id tc)), (''name'', JString (tool_name tc)),
     (''input'', arguments tc)]"

text \<open>The blocks of an assistant message; the API does not take an empty list.\<close>

definition text_block :: "string \<Rightarrow> json" where
  "text_block t = obj [(''type'', JString ''text''), (''text'', JString t)]"

definition anthropic_blocks :: "string option \<Rightarrow> tool_call_response list \<Rightarrow> json list" where
  "anthropic_blocks content tool_calls =
    (let blocks = (case content of Some t \<Rightarrow> if t \<noteq> [] then [text_block t] else [] | None \<Rightarrow> []) @ map anthropic_call tool_calls
     in if blocks = [] then [text_block []] else blocks)"

fun anthropic_message :: "cloud_lib \<Rightarrow> chat_message \<Rightarrow> json option" where
  "anthropic_message lib (System s) = None"
| "anthropic_message lib (User parts) = Some (obj [(''role'', JString ''user''), (''content'', JArray (map (anthropic_part lib) parts))])"
| "anthropic_message lib (Assistant content tool_calls) =
     Some (obj [(''role'', JString ''assistant''), (''content'', JArray (anthropic_blocks content tool_calls))])"
| "anthropic_message lib (ToolResult i content) = Some (obj [(''role'', JString ''user''), (''content'',
     JArray [obj [(''type'', JString ''tool_result''), (''tool_use_id'', JString i), (''content'', JString content)]])])"

definition anthropic_tool :: "tool_definition \<Rightarrow> json" where
  "anthropic_tool t = obj [(''name'', JString (td_name t)), (''description'', JString (description t)), (''input_schema'', input_schema t)]"

definition differs :: "f32 \<Rightarrow> f32 \<Rightarrow> bool" where
  "differs a b \<longleftrightarrow> f32_epsilon < fabs32 (fsub32 a b)"

definition anthropic_body :: "cloud_lib \<Rightarrow> provider_def \<Rightarrow> string \<Rightarrow> generate_request \<Rightarrow> bool \<Rightarrow> json" where
  "anthropic_body lib p model_id req stream =
    (let s = sampling req;
         m = obj_of [(''model'', JString model_id),
           (''messages'', JArray (List.map_filter (anthropic_message lib) (gr_messages req))), (''max_tokens'', json_u32 (max_tokens req))];
         m = (case system_message (gr_messages req) of Some sys \<Rightarrow> obj_insert ''system'' (JString sys) m | None \<Rightarrow> m);
         m = set_if (differs (temperature s) (lit32 (7 / 10))) ''temperature'' (float_json lib (temperature s)) m;
         m = set_if (differs (top_p s) (lit32 (9 / 10))) ''top_p'' (float_json lib (top_p s)) m;
         m = set_if (stop_sequences req \<noteq> []) ''stop_sequences'' (json_strings (stop_sequences req)) m;
         m = set_if (gr_tools req \<noteq> []) ''tools'' (JArray (map anthropic_tool (gr_tools req))) m;
         m = set_if (gr_tools req \<noteq> []) ''tool_choice'' (anthropic_tool_choice (gr_tool_choice req)) m;
         m = set_if stream ''stream'' (JBool True) m
     in JObject m)"

definition anthropic_block :: "json \<Rightarrow> content_block option" where
  "anthropic_block block =
    (if get_str ''type'' block = Some ''text'' then map_option BlockText (get_str ''text'' block)
     else if get_str ''type'' block = Some ''tool_use''
       then Some (BlockCall \<lparr>tool_name = str_or [] (get_str ''name'' block),
         arguments = (case json_get ''input'' block of Some v \<Rightarrow> v | None \<Rightarrow> JNull), call_id = str_or [] (get_str ''id'' block)\<rparr>)
     else None)"

fun block_text :: "content_block \<Rightarrow> string option" where
  "block_text (BlockText t) = Some t"
| "block_text (BlockCall c) = None"

fun block_call :: "content_block \<Rightarrow> tool_call_response option" where
  "block_call (BlockText t) = None"
| "block_call (BlockCall c) = Some c"

definition anthropic_response :: "cloud_lib \<Rightarrow> json \<Rightarrow> (inference_error, generate_response) result" where
  "anthropic_response lib body =
    (case Option.bind (json_get ''content'' body) as_array of
       None \<Rightarrow> Inl (GenerationError (''Anthropic response missing '' @ [CHR 0x27] @ ''content'' @ [CHR 0x27] @ '' array: '' @ show_json body))
     | Some content \<Rightarrow>
        if content = [] then Inl (GenerationError ''Anthropic response has empty content array'')
        else (let blocks = List.map_filter anthropic_block content;
                  texts = List.map_filter block_text blocks;
                  calls = List.map_filter block_call blocks
          in if calls = [] then Inr (RespText (concat texts))
             else if texts = [] \<and> length calls = 1 then Inr (RespCall (hd calls))
             else Inr (RespMixed blocks)))"

definition anthropic_chunk :: "cloud_lib \<Rightarrow> string \<Rightarrow> (inference_error, token option) result" where
  "anthropic_chunk lib data =
    (case from_str lib data of
       Inl e \<Rightarrow> Inl (GenerationError (''Failed to parse Anthropic stream chunk: '' @ e))
     | Inr parsed \<Rightarrow>
        if str_or [] (get_str ''type'' parsed) = ''content_block_delta'' then
          (case json_get ''delta'' parsed of
             None \<Rightarrow> Inl (GenerationError (''content_block_delta missing '' @ [CHR 0x27] @ ''delta'' @ [CHR 0x27] @ '' field''))
           | Some delta \<Rightarrow>
              if str_or [] (get_str ''type'' delta) = ''text_delta'' then Inr (Some (text_token (str_or [] (get_str ''text'' delta))))
              else Inr None)
        else Inr None)"

definition anthropic_protocol :: "cloud_lib \<Rightarrow> cloud_protocol" where
  "anthropic_protocol lib = \<lparr>build_request_body = anthropic_body lib, parse_response = anthropic_response lib,
     parse_stream_chunk = anthropic_chunk lib, build_url = default_url, build_headers = default_headers, done_sentinel = None\<rparr>"

subsection \<open>Gemini (gemini.rs)\<close>

fun gemini_part :: "cloud_lib \<Rightarrow> content_part \<Rightarrow> json" where
  "gemini_part lib (TextPart t) = obj [(''text'', JString t)]"
| "gemini_part lib (ImagePart data media) =
     obj [(''inlineData'', obj [(''mimeType'', JString media), (''data'', JString (base64_encode lib data))])]"
| "gemini_part lib (ImageUrl url) = obj [(''text'', JString (''[image: '' @ url @ '']''))]"

definition gemini_call :: "tool_call_response \<Rightarrow> json" where
  "gemini_call tc = obj [(''functionCall'', obj [(''name'', JString (tool_name tc)), (''args'', arguments tc)])]"

definition gemini_parts :: "string option \<Rightarrow> tool_call_response list \<Rightarrow> json list" where
  "gemini_parts content tool_calls =
    (let parts = (case content of Some t \<Rightarrow> if t \<noteq> [] then [obj [(''text'', JString t)]] else [] | None \<Rightarrow> []) @ map gemini_call tool_calls
     in if parts = [] then [obj [(''text'', JString [])]] else parts)"

fun gemini_message :: "cloud_lib \<Rightarrow> chat_message \<Rightarrow> json option" where
  "gemini_message lib (System s) = None"
| "gemini_message lib (User parts) = Some (obj [(''role'', JString ''user''), (''parts'', JArray (map (gemini_part lib) parts))])"
| "gemini_message lib (Assistant content tool_calls) =
     Some (obj [(''role'', JString ''model''), (''parts'', JArray (gemini_parts content tool_calls))])"
| "gemini_message lib (ToolResult i content) =
     Some (obj [(''role'', JString ''user''), (''parts'', JArray [obj [(''text'', JString content)]])])"

definition gemini_body :: "cloud_lib \<Rightarrow> provider_def \<Rightarrow> string \<Rightarrow> generate_request \<Rightarrow> bool \<Rightarrow> json" where
  "gemini_body lib p model_id req stream =
    (let s = sampling req;
         c = obj_of [(''temperature'', float_json lib (temperature s)), (''maxOutputTokens'', json_u32 (max_tokens req)),
           (''topP'', float_json lib (top_p s))];
         c = set_if (stop_sequences req \<noteq> []) ''stopSequences'' (json_strings (stop_sequences req)) c;
         c = set_if (0 < top_k s) ''topK'' (json_u32 (top_k s)) c;
         m = obj_of [(''contents'', JArray (List.map_filter (gemini_message lib) (gr_messages req))), (''generationConfig'', JObject c)];
         m = (case system_message (gr_messages req) of
                Some sys \<Rightarrow> obj_insert ''systemInstruction'' (obj [(''parts'', JArray [obj [(''text'', JString sys)]])]) m
              | None \<Rightarrow> m)
     in JObject m)"

definition gemini_text :: "json \<Rightarrow> string option" where
  "gemini_text body =
    Option.bind (Option.bind (Option.bind (Option.bind (Option.bind (json_get ''candidates'' body) (json_at 0))
      (json_get ''content'')) (json_get ''parts'')) (json_at 0)) (get_str ''text'')"

definition gemini_response :: "cloud_lib \<Rightarrow> json \<Rightarrow> (inference_error, generate_response) result" where
  "gemini_response lib body = (case gemini_text body of
     Some t \<Rightarrow> Inr (RespText t)
   | None \<Rightarrow> Inl (GenerationError (''Failed to parse Gemini response: missing candidates[0].content.parts[0].text in '' @ show_json body)))"

definition gemini_chunk :: "cloud_lib \<Rightarrow> string \<Rightarrow> (inference_error, token option) result" where
  "gemini_chunk lib data = (case from_str lib data of
     Inl e \<Rightarrow> Inl (GenerationError (''Gemini stream JSON parse error: '' @ e))
   | Inr parsed \<Rightarrow> (case gemini_text parsed of
       Some t \<Rightarrow> if t \<noteq> [] then Inr (Some (text_token t)) else Inr None
     | None \<Rightarrow> Inr None))"

definition gemini_url :: "provider_def \<Rightarrow> string \<Rightarrow> string" where
  "gemini_url p model_id = base_url p @ ''/v1beta/models/'' @ model_id @ '':generateContent''"

definition gemini_headers :: "provider_def \<Rightarrow> string option \<Rightarrow> (string \<times> string) list" where
  "gemini_headers p api_key = extra_headers p @ [(''Content-Type'', ''application/json'')]"

definition gemini_protocol :: "cloud_lib \<Rightarrow> cloud_protocol" where
  "gemini_protocol lib = \<lparr>build_request_body = gemini_body lib, parse_response = gemini_response lib,
     parse_stream_chunk = gemini_chunk lib, build_url = gemini_url, build_headers = gemini_headers, done_sentinel = None\<rparr>"

subsection \<open>Cohere (cohere.rs)\<close>

fun cohere_message :: "chat_message \<Rightarrow> json" where
  "cohere_message (System t) = obj [(''role'', JString ''system''), (''content'', JString t)]"
| "cohere_message (User parts) = obj [(''role'', JString ''user''), (''content'', JString (extract_text parts))]"
| "cohere_message (Assistant content tool_calls) =
     JObject (set_if (tool_calls \<noteq> []) ''tool_calls'' (JArray (map call_json tool_calls))
       (obj_of [(''role'', JString ''assistant''), (''content'', JString (str_or [] content))]))"
| "cohere_message (ToolResult i content) =
     obj [(''role'', JString ''tool''), (''tool_call_id'', JString i), (''content'', JString content)]"

definition cohere_body :: "cloud_lib \<Rightarrow> provider_def \<Rightarrow> string \<Rightarrow> generate_request \<Rightarrow> bool \<Rightarrow> json" where
  "cohere_body lib p model_id req stream =
    (let s = sampling req;
         m = obj_of [(''model'', JString model_id), (''messages'', JArray (map cohere_message (gr_messages req))),
           (''max_tokens'', json_u32 (max_tokens req)), (''temperature'', float_json lib (temperature s)), (''stream'', JBool stream)];
         m = set_if (top_p s < Fin 1) ''p'' (float_json lib (top_p s)) m;
         m = set_if (0 < top_k s) ''k'' (json_u32 (top_k s)) m;
         m = set_if (frequency_penalty s \<noteq> Fin 0) ''frequency_penalty'' (float_json lib (frequency_penalty s)) m;
         m = set_if (presence_penalty s \<noteq> Fin 0) ''presence_penalty'' (float_json lib (presence_penalty s)) m;
         m = set_if (stop_sequences req \<noteq> []) ''stop_sequences'' (json_strings (stop_sequences req)) m
     in JObject m)"

definition cohere_response :: "cloud_lib \<Rightarrow> json \<Rightarrow> (inference_error, generate_response) result" where
  "cohere_response lib body =
    (case Option.bind (Option.bind (Option.bind (json_get ''message'' body) (json_get ''content'')) (json_at 0)) (get_str ''text'') of
       Some t \<Rightarrow> Inr (RespText t)
     | None \<Rightarrow> (case get_str ''text'' body of
         Some t \<Rightarrow> Inr (RespText t)
       | None \<Rightarrow> Inl (GenerationError
           (''Failed to parse Cohere response: expected message.content[0].text or text field in '' @ show_json body))))"

definition cohere_chunk :: "cloud_lib \<Rightarrow> string \<Rightarrow> (inference_error, token option) result" where
  "cohere_chunk lib data = (case from_str lib data of
     Inl e \<Rightarrow> Inl (GenerationError (''Cohere stream JSON parse error: '' @ e))
   | Inr parsed \<Rightarrow>
      if get_str ''event_type'' parsed = Some ''stream-end'' then Inr None
      else if get_str ''event_type'' parsed = Some ''text-generation''
        then (let text = str_or [] (get_str ''text'' parsed) in if text = [] then Inr None else Inr (Some (text_token text)))
      else Inr None)"

definition cohere_protocol :: "cloud_lib \<Rightarrow> cloud_protocol" where
  "cohere_protocol lib = \<lparr>build_request_body = cohere_body lib, parse_response = cohere_response lib,
     parse_stream_chunk = cohere_chunk lib, build_url = default_url, build_headers = default_headers, done_sentinel = None\<rparr>"

end
