(* ===== verification/Sse.thy ===== *)
theory Sse
  imports Text MeshTypes
begin

section \<open>Server-sent events of the cloud providers\<close>

text \<open>
  \<open>crates/hivebear-inference/src/engine/cloud/sse.rs\<close>.  The stream of the HTTP client is the list of the chunks, or
  errors, that it yields; \<open>parse\<close> is the protocol's \<open>parse_chunk\<close>.  The parser's stream is the list of its items;
  an error ends it.
\<close>

datatype 't line_result = Skip | Stop | Yield 't

definition sse_payload :: "string \<Rightarrow> string option" where
  "sse_payload line = (case strip_prefix ''data: '' line of Some d \<Rightarrow> Some d | None \<Rightarrow> strip_prefix ''data:'' line)"

definition is_sentinel :: "string option \<Rightarrow> string \<Rightarrow> bool" where
  "is_sentinel sentinel data = (case sentinel of Some s \<Rightarrow> trim data = s | None \<Rightarrow> False)"

definition sse_data :: "string option \<Rightarrow> (string \<Rightarrow> (inference_error, 't option) result) \<Rightarrow> string \<Rightarrow> 't line_result" where
  "sse_data sentinel parse data =
    (if is_sentinel sentinel data then Stop
     else if trim data = [] then Skip
     else (case parse data of Inr (Some t) \<Rightarrow> Yield t | Inr None \<Rightarrow> Skip | Inl e \<Rightarrow> Skip))"

definition sse_line :: "string option \<Rightarrow> (string \<Rightarrow> (inference_error, 't option) result) \<Rightarrow> string \<Rightarrow> 't line_result" where
  "sse_line sentinel parse line =
    (if line = [] then Skip
     else if starts_with '':'' line then Skip
     else if starts_with ''event:'' line then Skip
     else (case sse_payload line of None \<Rightarrow> Skip | Some data \<Rightarrow> sse_data sentinel parse data))"

text \<open>All complete lines of the buffer: the tokens, what is left, and whether the sentinel was met.\<close>

function sse_drain :: "string option \<Rightarrow> (string \<Rightarrow> (inference_error, 't option) result) \<Rightarrow> string \<Rightarrow> 't list \<times> string \<times> bool" where
  "sse_drain sentinel parse buffer = (case split_line buffer of
     None \<Rightarrow> ([], buffer, False)
   | Some (l, rest) \<Rightarrow> (case sse_line sentinel parse (trim_end_cr l) of
       Stop \<Rightarrow> ([], rest, True)
     | Skip \<Rightarrow> sse_drain sentinel parse rest
     | Yield t \<Rightarrow> (case sse_drain sentinel parse rest of (ts, r, stop) \<Rightarrow> (t # ts, r, stop))))"
  by pat_completeness auto
termination by (relation "measure (\<lambda>(s, p, b). length b)") (auto dest: split_line_length)

declare sse_drain.simps [simp del]

text \<open>The lines left when the connection closes.\<close>

fun sse_rest :: "string option \<Rightarrow> (string \<Rightarrow> (inference_error, 't option) result) \<Rightarrow> string list \<Rightarrow> 't list" where
  "sse_rest sentinel parse [] = []"
| "sse_rest sentinel parse (l # ls) = (case sse_payload (trim l) of
     None \<Rightarrow> sse_rest sentinel parse ls
   | Some data \<Rightarrow> (case sse_data sentinel parse data of
       Stop \<Rightarrow> [] | Skip \<Rightarrow> sse_rest sentinel parse ls | Yield t \<Rightarrow> t # sse_rest sentinel parse ls))"

definition sse_close :: "string option \<Rightarrow> (string \<Rightarrow> (inference_error, 't option) result) \<Rightarrow> string \<Rightarrow> 't list" where
  "sse_close sentinel parse buffer = (if trim buffer = [] then [] else sse_rest sentinel parse (str_lines buffer))"

fun sse_stream :: "string option \<Rightarrow> (string \<Rightarrow> (inference_error, 't option) result) \<Rightarrow> string \<Rightarrow> (string, u8 list) result list \<Rightarrow>
    (inference_error, 't) result list" where
  "sse_stream sentinel parse buffer [] = map Inr (sse_close sentinel parse buffer)"
| "sse_stream sentinel parse buffer (Inl e # cs) = [Inl (GenerationError (''Stream read error: '' @ e))]"
| "sse_stream sentinel parse buffer (Inr chunk # cs) =
    (case sse_drain sentinel parse (buffer @ from_utf8_lossy chunk) of (ts, rest, stop) \<Rightarrow>
       map Inr ts @ (if stop then [] else sse_stream sentinel parse rest cs))"

definition stream_sse_with_parser :: "string option \<Rightarrow> (string \<Rightarrow> (inference_error, 't option) result) \<Rightarrow>
    (string, u8 list) result list \<Rightarrow> (inference_error, 't) result list" where
  "stream_sse_with_parser sentinel parse chunks = sse_stream sentinel parse [] chunks"

subsection \<open>Chunk boundaries\<close>

text \<open>The parser on text that arrives in pieces, without the decoding.\<close>

fun sse_text :: "string option \<Rightarrow> (string \<Rightarrow> (inference_error, 't option) result) \<Rightarrow> string \<Rightarrow> string list \<Rightarrow> 't list" where
  "sse_text sentinel parse buffer [] = sse_close sentinel parse buffer"
| "sse_text sentinel parse buffer (t # ts) =
    (case sse_drain sentinel parse (buffer @ t) of (toks, rest, stop) \<Rightarrow>
       toks @ (if stop then [] else sse_text sentinel parse rest ts))"

lemma sse_stream_text:
  "sse_stream sentinel parse buffer (map Inr cs) = map Inr (sse_text sentinel parse buffer (map from_utf8_lossy cs))"
  by (induction cs arbitrary: buffer) (auto split: prod.splits)

lemma sse_drain_append:
  "sse_drain sentinel parse (b @ t) = (case sse_drain sentinel parse b of (toks, rest, stop) \<Rightarrow>
     if stop then (toks, rest @ t, True)
     else (case sse_drain sentinel parse (rest @ t) of (toks', r, s) \<Rightarrow> (toks @ toks', r, s)))"
proof (induction sentinel parse b rule: sse_drain.induct)
  case (1 sentinel parse b)
  show ?case
  proof (cases "split_line b")
    case None
    then show ?thesis by (simp add: sse_drain.simps [of sentinel parse b] split: prod.split)
  next
    case (Some lr)
    obtain l r where lr: "lr = (l, r)" by (cases lr)
    note d = sse_drain.simps [of sentinel parse b] and d' = sse_drain.simps [of sentinel parse "b @ t"]
    have s: "split_line (b @ t) = Some (l, r @ t)" using Some lr split_line_append by simp
    show ?thesis
    proof (cases "sse_line sentinel parse (trim_end_cr l)")
      case Skip
      then show ?thesis unfolding d d' s using Some lr 1(1) [OF Some] by simp
    next
      case Stop
      then show ?thesis unfolding d d' s using Some lr by simp
    next
      case (Yield x)
      then show ?thesis unfolding d d' s using Some lr 1(2) [OF Some] by (simp split: prod.splits)
    qed
  qed
qed

lemma sse_drain_rest: "sse_drain sentinel parse b = (toks, rest, False) \<Longrightarrow> newline \<notin> set rest"
proof (induction sentinel parse b arbitrary: toks rule: sse_drain.induct)
  case (1 sentinel parse b)
  then show ?case
    by (subst (asm) (3) sse_drain.simps) (auto simp: split_line_None split: option.splits line_result.splits prod.splits)
qed

lemma sse_text_join:
  "sse_text sentinel parse buffer (t # ts) = sse_text sentinel parse (buffer @ t) ([] # ts)"
  by simp

lemma sse_text_concat:
  "newline \<notin> set buffer \<Longrightarrow> sse_text sentinel parse buffer ts = sse_text sentinel parse buffer [concat ts]"
proof (induction ts arbitrary: buffer)
  case Nil
  have "sse_drain sentinel parse buffer = ([], buffer, False)"
    using Nil by (subst sse_drain.simps) (simp add: split_line_None [symmetric])
  then show ?case by simp
next
  case (Cons t ts)
  obtain toks rest stop where d: "sse_drain sentinel parse (buffer @ t) = (toks, rest, stop)" by (cases "sse_drain sentinel parse (buffer @ t)")
  show ?case
  proof (cases stop)
    case True
    then show ?thesis using d sse_drain_append [of sentinel parse "buffer @ t" "concat ts"] by simp
  next
    case False
    then have "newline \<notin> set rest" using sse_drain_rest [of sentinel parse "buffer @ t" toks rest] d by simp
    then show ?thesis
      using Cons.IH [of rest] d False sse_drain_append [of sentinel parse "buffer @ t" "concat ts"]
      by (simp split: prod.splits)
  qed
qed

text \<open>
  C12: The tokens do not depend on how the network cuts the response, as long as it does not cut a character: chunks of
  well-formed UTF-8 yield what the whole response in one chunk yields.
\<close>
theorem sse_chunking_equivalent:
  assumes "list_all valid_utf8 chunks"
  shows "stream_sse_with_parser sentinel parse (map Inr chunks) = stream_sse_with_parser sentinel parse [Inr (concat chunks)]"
  using sse_stream_text [of sentinel parse "[]" chunks] sse_stream_text [of sentinel parse "[]" "[concat chunks]"]
    sse_text_concat [of "[]" sentinel parse "map from_utf8_lossy chunks"] from_utf8_lossy_concat [of chunks] assms
  by (simp add: stream_sse_with_parser_def list_all_iff)

definition ascii :: "string \<Rightarrow> u8 list" where "ascii s = map (\<lambda>c. of_nat (of_char c)) s"

lemma sse_chunking_equivalent_witness:
  "stream_sse_with_parser None (\<lambda>d. Inr (Some d)) (map Inr [ascii ''data: a'', ascii ''b''])
   = stream_sse_with_parser None (\<lambda>d. Inr (Some d)) [Inr (ascii ''data: ab'')]"
  using sse_chunking_equivalent [of "[ascii ''data: a'', ascii ''b'']" None "\<lambda>d. Inr (Some d)"]
  by (simp add: ascii_def)

text \<open>
  Each chunk is decoded alone: when a chunk ends inside a character, both parts become replacement characters.
\<close>

lemma split_character_is_replaced:
  "utf8_lossy [0xC3] @ utf8_lossy [0xA9] = [239, 191, 189, 239, 191, 189]" "utf8_lossy [0xC3, 0xA9] = [0xC3, 0xA9]"
  by (simp_all add: lead_def in_bytes_def)

end
