(* ===== verification/CloudBackend.thy ===== *)
theory CloudBackend
  imports CloudProtocols Sse
begin

section \<open>Cloud backend\<close>

text \<open>
  \<open>crates/hivebear-inference/src/engine/cloud/mod.rs\<close>: the routing of a model name to a provider, the HTTP request, and the
  reading of its answer.  The request that is sent is a value; the answer of the HTTP client is an argument.  The map of the
  handlers is total on the protocols, as \<open>with_keys\<close> fills it.
\<close>

fun protocol_handlers :: "cloud_lib \<Rightarrow> api_protocol \<Rightarrow> cloud_protocol" where
  "protocol_handlers lib OpenAiCompat = openai_protocol lib"
| "protocol_handlers lib Anthropic = anthropic_protocol lib"
| "protocol_handlers lib GeminiApi = gemini_protocol lib"
| "protocol_handlers lib Cohere = cohere_protocol lib"

type_synonym api_keys = "string \<rightharpoonup> string"

definition tick :: string where "tick = [CHR 0x27]"

definition bad_model_name :: "string \<Rightarrow> inference_error" where
  "bad_model_name name = GenerationError (''Cloud model name must be '' @ tick @ ''provider/model'' @ tick @ '', got '' @ tick @ name @ tick)"

definition available_provider_list :: string where
  "available_provider_list = join '', '' (map pd_prefix BUILTIN_PROVIDERS)"

definition resolve_provider :: "api_keys \<Rightarrow> string \<Rightarrow> (inference_error, provider_def \<times> string option \<times> string) result" where
  "resolve_provider keys name = (case split_once CHR ''/'' name of
     None \<Rightarrow> Inl (bad_model_name name)
   | Some (prefix, model_id) \<Rightarrow> (case find_builtin prefix of
       None \<Rightarrow> Inl (GenerationError (''Unknown cloud provider '' @ tick @ prefix @ tick @ ''. Available providers: '' @ available_provider_list))
     | Some p \<Rightarrow>
        if requires_api_key p \<and> keys prefix = None
        then Inl (GenerationError (display_name p @ '' API key not set. Set '' @ env_var p @
          '' env var or add to config [cloud.api_keys.'' @ pd_prefix p @ ''].''))
        else Inr (p, keys prefix, model_id)))"

definition available_providers :: "api_keys \<Rightarrow> provider_def list" where
  "available_providers keys = filter (\<lambda>p. \<not> requires_api_key p \<or> keys (pd_prefix p) \<noteq> None) BUILTIN_PROVIDERS"

definition has_provider :: "string \<Rightarrow> bool" where
  "has_provider prefix \<longleftrightarrow> find_builtin prefix \<noteq> None"

definition cloud_available :: "api_keys \<Rightarrow> bool" where
  "cloud_available keys \<longleftrightarrow> list_ex (\<lambda>p. \<not> requires_api_key p \<or> keys (pd_prefix p) \<noteq> None) BUILTIN_PROVIDERS"

definition cloud_load_model :: "api_keys \<Rightarrow> string \<Rightarrow> (inference_error, string) result" where
  "cloud_load_model keys path = (case resolve_provider keys path of Inl e \<Rightarrow> Inl e | Inr _ \<Rightarrow> Inr path)"

subsection \<open>The request\<close>

record http_request =
  hr_url :: string
  hr_headers :: "(string \<times> string) list"
  hr_body :: json

text \<open>A key that the provider wants in the URL becomes a query parameter.\<close>

definition url_with_key :: "provider_def \<Rightarrow> string option \<Rightarrow> string \<Rightarrow> string" where
  "url_with_key p api_key url = (case api_key of
     Some key \<Rightarrow> if auth_style p = ApiKeyInUrl
       then url @ (if str_contains ''?'' url then ''&'' else ''?'') @ ''key='' @ key else url
   | None \<Rightarrow> url)"

definition build_request :: "cloud_lib \<Rightarrow> provider_def \<Rightarrow> string option \<Rightarrow> string \<Rightarrow> generate_request \<Rightarrow> bool \<Rightarrow> http_request" where
  "build_request lib p api_key model_id req stream =
    (let h = protocol_handlers lib (protocol p) in
     \<lparr>hr_url = url_with_key p api_key (build_url h p model_id), hr_headers = build_headers h p api_key,
      hr_body = build_request_body h p model_id req stream\<rparr>)"

definition cloud_request :: "cloud_lib \<Rightarrow> api_keys \<Rightarrow> string \<Rightarrow> generate_request \<Rightarrow>
    (inference_error, provider_def \<times> http_request) result" where
  "cloud_request lib keys name req = (case resolve_provider keys name of
     Inl e \<Rightarrow> Inl e | Inr (p, api_key, model_id) \<Rightarrow> Inr (p, build_request lib p api_key model_id req False))"

text \<open>\<open>stream\<close> repeats the routing of \<open>resolve_provider\<close> with shorter messages.\<close>

definition stream_request :: "cloud_lib \<Rightarrow> api_keys \<Rightarrow> string \<Rightarrow> generate_request \<Rightarrow>
    (inference_error, provider_def \<times> http_request) result" where
  "stream_request lib keys name req = (case split_once CHR ''/'' name of
     None \<Rightarrow> Inl (bad_model_name name)
   | Some (prefix, model_id) \<Rightarrow> (case find_builtin prefix of
       None \<Rightarrow> Inl (GenerationError (''Unknown cloud provider '' @ tick @ prefix @ tick))
     | Some p \<Rightarrow>
        if requires_api_key p \<and> keys prefix = None
        then Inl (GenerationError (display_name p @ '' API key not set. Set '' @ env_var p @ '' env var.''))
        else Inr (p, build_request lib p (keys prefix) model_id req True)))"

subsection \<open>The answer\<close>

type_synonym body_chunks = "(string, u8 list) result list"

record http_answer =
  ha_status :: nat
  ha_body :: body_chunks

fun read_body :: "body_chunks \<Rightarrow> (string, u8 list) result" where
  "read_body [] = Inr []"
| "read_body (Inl e # cs) = Inl e"
| "read_body (Inr c # cs) = (case read_body cs of Inl e \<Rightarrow> Inl e | Inr bs \<Rightarrow> Inr (c @ bs))"

definition body_text :: "cloud_lib \<Rightarrow> body_chunks \<Rightarrow> (string, string) result" where
  "body_text lib cs = (case read_body cs of Inl e \<Rightarrow> Inl e | Inr bs \<Rightarrow> Inr (decode_text lib bs))"

definition is_success :: "nat \<Rightarrow> bool" where "is_success s \<longleftrightarrow> 200 \<le> s \<and> s < 300"

definition api_error :: "cloud_lib \<Rightarrow> provider_def \<Rightarrow> nat \<Rightarrow> string \<Rightarrow> inference_error" where
  "api_error lib p status text =
    GenerationError (display_name p @ '' API error ('' @ show_status lib status @ ''): '' @ text)"

definition cloud_generate :: "cloud_lib \<Rightarrow> api_keys \<Rightarrow> (http_request \<Rightarrow> (string, http_answer) result) \<Rightarrow>
    string \<Rightarrow> generate_request \<Rightarrow> (inference_error, generate_response) result" where
  "cloud_generate lib keys send name req = (case cloud_request lib keys name req of
     Inl e \<Rightarrow> Inl e
   | Inr (p, r) \<Rightarrow> (case send r of
       Inl e \<Rightarrow> Inl (GenerationError (''HTTP error: '' @ e))
     | Inr a \<Rightarrow> (case body_text lib (ha_body a) of
         Inl e \<Rightarrow> Inl (GenerationError (''Read error: '' @ e))
       | Inr text \<Rightarrow>
          if \<not> is_success (ha_status a) then Inl (api_error lib p (ha_status a) text)
          else (case from_str lib text of
            Inl e \<Rightarrow> Inl (GenerationError (''Parse error: '' @ e))
          | Inr v \<Rightarrow> parse_response (protocol_handlers lib (protocol p)) v))))"

text \<open>The items of the stream; an error ends it.\<close>

fun relay_stream :: "(inference_error, 't) result list \<Rightarrow> (inference_error, 't) result list" where
  "relay_stream [] = []"
| "relay_stream (Inr t # rs) = Inr t # relay_stream rs"
| "relay_stream (Inl e # rs) = [Inl e]"

definition cloud_stream :: "cloud_lib \<Rightarrow> api_keys \<Rightarrow> (http_request \<Rightarrow> (string, http_answer) result) \<Rightarrow>
    string \<Rightarrow> generate_request \<Rightarrow> (inference_error, token) result list" where
  "cloud_stream lib keys send name req = (case stream_request lib keys name req of
     Inl e \<Rightarrow> [Inl e]
   | Inr (p, r) \<Rightarrow> (case send r of
       Inl e \<Rightarrow> [Inl (GenerationError (''HTTP error: '' @ e))]
     | Inr a \<Rightarrow>
        if \<not> is_success (ha_status a)
        then [Inl (api_error lib p (ha_status a) (case body_text lib (ha_body a) of Inl e \<Rightarrow> [] | Inr text \<Rightarrow> text))]
        else (let h = protocol_handlers lib (protocol p) in
          relay_stream (stream_sse_with_parser (done_sentinel h) (parse_stream_chunk h) (ha_body a)))))"

subsection \<open>Keys stay with their provider\<close>

definition outgoing :: "bool \<Rightarrow> cloud_lib \<Rightarrow> api_keys \<Rightarrow> string \<Rightarrow> generate_request \<Rightarrow>
    (inference_error, provider_def \<times> http_request) result" where
  "outgoing stream = (if stream then stream_request else cloud_request)"

lemma outgoing_Inr:
  "outgoing stream lib keys name req = Inr (p, r) \<longleftrightarrow>
    (\<exists>m. name = pd_prefix p @ CHR ''/'' # m \<and> find_builtin (pd_prefix p) = Some p \<and>
       (requires_api_key p \<longrightarrow> keys (pd_prefix p) \<noteq> None) \<and> r = build_request lib p (keys (pd_prefix p)) m req stream)"
proof (cases "split_once CHR ''/'' name")
  case None
  then have "CHR ''/'' \<notin> set name" by (simp add: split_once_None)
  then show ?thesis using None by (auto simp: outgoing_def stream_request_def cloud_request_def resolve_provider_def)
next
  case (Some am)
  obtain x m where am: "split_once CHR ''/'' name = Some (x, m)" using Some by (cases am) auto
  have name: "name = y @ CHR ''/'' # m' \<longleftrightarrow> y = x \<and> m' = m" if "CHR ''/'' \<notin> set y" for y m'
    using am that split_once_Some [of "CHR ''/''" name y m'] by auto
  have f: "find_builtin y = Some p \<Longrightarrow> y = pd_prefix p \<and> CHR ''/'' \<notin> set (pd_prefix p)" for y
    using find_builtin_ok [of y p] by (simp add: find_builtin_Some provider_ok_def)
  have "outgoing stream lib keys name req = Inr (p, r) \<longleftrightarrow>
      find_builtin x = Some p \<and> (requires_api_key p \<longrightarrow> keys x \<noteq> None) \<and> r = build_request lib p (keys x) m req stream"
    by (cases "find_builtin x") (auto simp: outgoing_def stream_request_def cloud_request_def resolve_provider_def am)
  then show ?thesis using f [of x] f [of "pd_prefix p"] name [of "pd_prefix p"] by metis
qed

lemma base_url_of_request: "p \<in> set BUILTIN_PROVIDERS \<Longrightarrow> starts_with (base_url p) (hr_url (build_request lib p k m req stream))"
  by (cases "protocol p") (auto simp: build_request_def Let_def url_with_key_def openai_protocol_def anthropic_protocol_def
      gemini_protocol_def cohere_protocol_def default_url_def gemini_url_def starts_with_append split: option.split)

lemma request_without_key: "auth_style p = NoAuth \<Longrightarrow> build_request lib p k m req stream = build_request lib p None m req stream"
  by (cases "protocol p") (simp_all add: build_request_def Let_def url_with_key_def openai_protocol_def anthropic_protocol_def
      gemini_protocol_def cohere_protocol_def default_headers_def auth_headers_def gemini_headers_def split: option.split)

text \<open>
  C23: An API key never leaves its provider.  Every request that is sent goes to the base URL of the provider the model name
  asks for, it is the same whatever keys are configured for other providers, and it depends on a key at all only if it goes
  over HTTPS.
\<close>

theorem api_keys_confined:
  assumes "outgoing stream lib keys name req = Inr (p, r)"
  shows "find_builtin (pd_prefix p) = Some p \<and> starts_with (pd_prefix p @ ''/'') name \<and> starts_with (base_url p) (hr_url r) \<and>
    (\<forall>keys'. keys' (pd_prefix p) = keys (pd_prefix p) \<longrightarrow> outgoing stream lib keys' name req = Inr (p, r)) \<and>
    (starts_with ''https://'' (hr_url r) \<or> (\<forall>keys'. outgoing stream lib keys' name req = Inr (p, r)))"
proof -
  obtain m where m: "name = pd_prefix p @ CHR ''/'' # m" "find_builtin (pd_prefix p) = Some p"
      "requires_api_key p \<longrightarrow> keys (pd_prefix p) \<noteq> None" "r = build_request lib p (keys (pd_prefix p)) m req stream"
    using assms outgoing_Inr by blast
  have base: "starts_with (base_url p) (hr_url r)" using m(2,4) base_url_of_request by (simp add: find_builtin_Some)
  have "starts_with ''https://'' (hr_url r) \<or> (\<forall>keys'. outgoing stream lib keys' name req = Inr (p, r))"
  proof (cases "requires_api_key p")
    case True
    then have "starts_with ''https://'' (base_url p)" using find_builtin_ok [OF m(2)] by (simp add: provider_ok_def)
    then show ?thesis using base by (force simp: starts_with_append)
  next
    case False
    then have "auth_style p = NoAuth" using find_builtin_ok [OF m(2)] by (simp add: provider_ok_def)
    then show ?thesis using m False request_without_key by (metis outgoing_Inr)
  qed
  then show ?thesis using m base by (auto simp: outgoing_Inr starts_with_append)
qed

definition demo_lib :: cloud_lib where
  "demo_lib = \<lparr>base64_encode = (\<lambda>b. []), float_json = (\<lambda>x. JNull), from_str = (\<lambda>s. Inl []), show_status = show_nat, decode_text = bytes_string,
     read_float = (\<lambda>v. Some (Fin 1))\<rparr>"

theorem api_keys_confined_witness:
  "case outgoing True demo_lib [''groq'' \<mapsto> ''k1'', ''openai'' \<mapsto> ''k2''] ''groq/llama'' default_request of
     Inl e \<Rightarrow> False
   | Inr (p, r) \<Rightarrow> starts_with (base_url p) (hr_url r) \<and>
       (\<forall>keys'. keys' (pd_prefix p) = Some ''k1'' \<longrightarrow> outgoing True demo_lib keys' ''groq/llama'' default_request = Inr (p, r))"
proof -
  have "find_builtin ''groq'' \<noteq> None" by code_simp
  then obtain p where p: "find_builtin ''groq'' = Some p" by blast
  then have x: "pd_prefix p = ''groq''" by (simp add: find_builtin_Some)
  obtain r where r: "outgoing True demo_lib [''groq'' \<mapsto> ''k1'', ''openai'' \<mapsto> ''k2''] ''groq/llama'' default_request = Inr (p, r)"
    using p x by (auto simp: outgoing_Inr)
  show ?thesis using api_keys_confined [OF r] x unfolding r by simp
qed

end
