(* ===== verification/CloudStreams.thy ===== *)
theory CloudStreams
  imports CloudBackend
begin

section \<open>What arrives from a cloud provider\<close>

text \<open>
  The composition of the protocol handlers with the stream parser: a protocol whose chunks are one line of JSON each is an
  \<open>event_protocol\<close>, and its streams deliver every text; the answers of two of the providers have no such lines at all.
\<close>

subsection \<open>Lines of a stream\<close>

lemma split_line_line: "newline \<notin> set l \<Longrightarrow> split_line (l @ newline # r) = Some (l, r)"
  by (induction l) auto

lemma sse_drain_line:
  "newline \<notin> set l \<Longrightarrow> sse_drain sentinel parse (l @ newline # r) = (case sse_line sentinel parse (trim_end_cr l) of
     Stop \<Rightarrow> ([], r, True)
   | Skip \<Rightarrow> sse_drain sentinel parse r
   | Yield t \<Rightarrow> (case sse_drain sentinel parse r of (ts, rest, stop) \<Rightarrow> (t # ts, rest, stop)))"
  by (subst sse_drain.simps) (simp add: split_line_line)

lemma sse_drain_Nil [simp]: "sse_drain sentinel parse [] = ([], [], False)"
  by (subst sse_drain.simps) simp

lemma sse_drain_blank [simp]: "sse_drain sentinel parse (newline # r) = sse_drain sentinel parse r"
  using sse_drain_line [of "[]"] by (simp add: trim_end_cr_def sse_line_def)

lemma newline_char: "newline = CHR 0x0A"
  by code_simp

lemma carriage_char: "carriage = CHR 0x0D"
  by code_simp

definition data_line :: "string \<Rightarrow> string" where
  "data_line d = ''data: '' @ d @ [newline, newline]"

lemma trim_Nil [simp]: "trim [] = []"
  by (simp add: trim_def trim_start_def trim_end_def strip_any_Nil)

lemma sse_close_Nil [simp]: "sse_close sentinel parse [] = []"
  by (simp add: sse_close_def)

lemma stream_of_text:
  assumes "list_all valid_utf8 chunks" and "concat chunks = str_bytes text"
  shows "stream_sse_with_parser sentinel parse (map Inr chunks) =
    (case sse_drain sentinel parse text of (ts, rest, stop) \<Rightarrow> map Inr (ts @ (if stop then [] else sse_close sentinel parse rest)))"
proof -
  have "from_utf8_lossy (str_bytes text) = text"
    using valid_utf8_concat [OF assms(1)] assms(2) by (simp add: from_utf8_lossy_def valid_utf8_lossy)
  then show ?thesis
    using sse_stream_text [of sentinel parse "[]" chunks] sse_text_concat [of "[]" sentinel parse "map from_utf8_lossy chunks"]
      from_utf8_lossy_concat [of chunks] assms
    by (simp add: stream_sse_with_parser_def list_all_iff split: prod.split)
qed

lemma relay_Inr [simp]: "relay_stream (map Inr ts) = map Inr ts"
  by (induction ts) simp_all

lemma relay_map [simp]: "relay_stream (map (\<lambda>t. Inr (f t)) ts) = map (\<lambda>t. Inr (f t)) ts"
  by (induction ts) simp_all

subsection \<open>Protocols with one line of JSON per token\<close>

definition braced :: "string \<Rightarrow> bool" where
  "braced s \<longleftrightarrow> (\<exists>t. s = ''{'' @ t @ ''}'') \<and> newline \<notin> set s"

locale event_protocol =
  fixes sentinel :: "string option"
    and parse :: "string \<Rightarrow> (inference_error, token option) result"
    and heads :: "string list"
    and event :: "'a \<Rightarrow> string"
    and says :: "'a \<Rightarrow> string option"
    and readable :: "'a \<Rightarrow> bool"
  assumes parses: "readable t \<Longrightarrow> parse (event t) = Inr (map_option text_token (says t))"
    and braced: "braced (event t)"
    and other_sentinel: "braced s \<Longrightarrow> sentinel \<noteq> Some s"
    and skipped: "list_all (\<lambda>h. newline \<notin> set h \<and> sse_line sentinel parse (trim_end_cr h) = Skip) heads"
begin

definition frame :: "'a \<Rightarrow> string" where
  "frame t = concat (map (\<lambda>h. h @ [newline]) heads) @ data_line (event t)"

lemma drain_heads: "sse_drain sentinel parse (concat (map (\<lambda>h. h @ [newline]) heads) @ r) = sse_drain sentinel parse r"
proof -
  have "sse_drain sentinel parse (concat (map (\<lambda>h. h @ [newline]) hs) @ r) = sse_drain sentinel parse r"
    if "list_all (\<lambda>h. newline \<notin> set h \<and> sse_line sentinel parse (trim_end_cr h) = Skip) hs" for hs
    using that by (induction hs) (simp_all add: sse_drain_line)
  then show ?thesis using skipped by blast
qed

lemma event_trim: "trim (event t) = event t" "event t \<noteq> []" "newline \<notin> set (event t)"
  using braced [of t] trim_framed [of "event t"] by (auto simp: braced_def)

lemma event_line:
  assumes "readable t"
  shows "sse_line sentinel parse (trim_end_cr (''data: '' @ event t)) = (case says t of Some s \<Rightarrow> Yield (text_token s) | None \<Rightarrow> Skip)"
proof -
  have "trim_end_cr (''data: '' @ event t) = ''data: '' @ event t"
    using braced [of t] by (auto simp: braced_def trim_end_cr_def carriage_char)
  moreover have "\<not> is_sentinel sentinel (event t)"
    using event_trim [of t] other_sentinel [OF braced [of t]] by (auto simp: is_sentinel_def split: option.split)
  then have "sse_data sentinel parse (event t) = (case says t of Some s \<Rightarrow> Yield (text_token s) | None \<Rightarrow> Skip)"
    using parses [OF assms] event_trim [of t] by (cases "says t") (simp_all add: sse_data_def)
  ultimately show ?thesis by (simp add: sse_line_def sse_payload_def strip_prefix_def starts_with_def)
qed

lemma drain_events:
  "list_all readable ts \<Longrightarrow> sse_drain sentinel parse (concat (map frame ts) @ r) =
     (case sse_drain sentinel parse r of (us, rest, stop) \<Rightarrow> (map text_token (List.map_filter says ts) @ us, rest, stop))"
proof (induction ts)
  case (Cons t ts)
  have "sse_drain sentinel parse (data_line (event t) @ s) = (case sse_drain sentinel parse s of (us, rest, stop) \<Rightarrow>
      ((case says t of Some x \<Rightarrow> [text_token x] | None \<Rightarrow> []) @ us, rest, stop))" for s
    using Cons.prems event_line [of t] sse_drain_line [of "''data: '' @ event t" sentinel parse "newline # s"] event_trim(3) [of t]
    by (cases "says t") (simp_all add: data_line_def newline_char sse_drain_blank [unfolded newline_char])
  then show ?case using Cons by (simp add: frame_def drain_heads map_filter_simps split: prod.splits option.splits)
qed (simp add: map_filter_simps split: prod.split)

lemma events_delivered:
  assumes "list_all readable ts" and "list_all valid_utf8 chunks" and "concat chunks = str_bytes (concat (map frame ts) @ r)"
    and "sse_drain sentinel parse r = ([], rest, stop)" and "stop \<or> rest = []"
  shows "stream_sse_with_parser sentinel parse (map Inr chunks) = map (\<lambda>t. Inr (text_token t)) (List.map_filter says ts)"
  using stream_of_text [OF assms(2,3), of sentinel parse] drain_events [OF assms(1), of r] assms(4,5) by auto

end

lemma braced_object:
  assumes "list_all (\<lambda>(k, v). printable_json v) kvs"
  shows "braced (show_json (JObject kvs))"
  using printable_show_json [of "JObject kvs"] assms newline_not_printable [of "show_json (JObject kvs)"] by (simp add: braced_def)

text \<open>The events of Anthropic's documentation, without their event lines.\<close>

definition anthropic_event :: "string \<Rightarrow> json" where
  "anthropic_event t = obj [(''type'', JString ''content_block_delta''), (''index'', JNumber ''0''),
     (''delta'', obj [(''type'', JString ''text_delta''), (''text'', JString t)])]"

lemma braced_obj: "list_all (\<lambda>(k, v). printable_json v) kvs \<Longrightarrow> braced (show_json (obj kvs))"
  using printable_obj [of kvs] unfolding obj_def by (intro braced_object) simp

definition anthropic_readable :: "cloud_lib \<Rightarrow> string \<Rightarrow> bool" where
  "anthropic_readable lib t \<longleftrightarrow> from_str lib (show_json (anthropic_event t)) = Inr (anthropic_event t)"

interpretation anthropic_events: event_protocol None "anthropic_chunk lib" "[''event: content_block_delta'']"
    "\<lambda>t. show_json (anthropic_event t)" Some "anthropic_readable lib" for lib
proof
  show "braced (show_json (anthropic_event t))" for t
    unfolding anthropic_event_def by (rule braced_obj) (simp add: printable_obj)
qed (simp_all add: anthropic_readable_def anthropic_chunk_def anthropic_event_def newline_char trim_end_cr_def carriage_char
    sse_line_def starts_with_def)

lemma outgoing_builtin:
  "find_builtin x = Some p \<Longrightarrow> \<not> requires_api_key p \<or> keys x \<noteq> None \<Longrightarrow> outgoing stream lib keys (x @ CHR ''/'' # m) req =
     Inr (p, build_request lib p (keys x) m req stream)"
  by (simp add: outgoing_Inr find_builtin_Some)

lemma cloud_stream_body:
  assumes "outgoing True lib keys name req = Inr (p, r)" and "send r = Inr \<lparr>ha_status = 200, ha_body = body\<rparr>"
  shows "cloud_stream lib keys send name req =
    (let h = protocol_handlers lib (protocol p) in
     relay_stream (stream_sse_with_parser (done_sentinel h) (parse_stream_chunk h) body))"
  using assms by (simp add: cloud_stream_def outgoing_def is_success_def)

lemma map_filter_Some_id: "List.map_filter Some xs = xs"
  by (induction xs) (simp_all add: map_filter_simps)


lemma valid_ascii: "list_all (\<lambda>c. (of_char c :: nat) < 128) s \<Longrightarrow> valid_utf8 (str_bytes s)"
  by (induction s) (simp_all add: str_bytes_def word_less_nat_alt unat_of_nat)

definition one_answer :: "cloud_lib \<Rightarrow> json \<Rightarrow> cloud_lib" where
  "one_answer lib v = lib\<lparr>from_str := \<lambda>s. if s = show_json v then Inr v else Inl ''error''\<rparr>"

definition anthropic_frame :: "string \<Rightarrow> string" where
  "anthropic_frame t = ''event: content_block_delta'' @ [newline] @ data_line (show_json (anthropic_event t))"


subsection \<open>Answers without data lines\<close>

definition undelivered :: "string \<Rightarrow> bool" where
  "undelivered l \<longleftrightarrow> \<not> starts_with ''data:'' (trim_end_cr l) \<and> \<not> starts_with ''data:'' (trim l)"

lemma payload_None: "\<not> starts_with ''data:'' l \<Longrightarrow> sse_payload l = None"
  by (auto simp: sse_payload_def strip_prefix_def starts_with_append)

lemma undelivered_line: "undelivered l \<Longrightarrow> sse_line sentinel parse (trim_end_cr l) = Skip"
  by (simp add: undelivered_def sse_line_def payload_None)

lemma split_on_newline: "split_on newline s \<noteq> [] \<and> (case split_line s of
    None \<Rightarrow> split_on newline s = [s] | Some (l, r) \<Rightarrow> split_on newline s = l # split_on newline r)"
  by (induction s) (auto split: list.splits option.splits)

lemma drain_undelivered:
  "list_all undelivered (split_on newline s) \<Longrightarrow>
   \<exists>rest. sse_drain sentinel parse s = ([], rest, False) \<and> newline \<notin> set rest \<and> (rest = [] \<or> undelivered rest)"
proof (induction s rule: measure_induct_rule [where f = length])
  case (less s)
  show ?case
  proof (cases "split_line s")
    case None
    then show ?thesis using less.prems split_on_newline [of s]
      by (subst sse_drain.simps) (simp add: split_line_None [symmetric])
  next
    case (Some lr)
    obtain l r where lr: "lr = (l, r)" by (cases lr)
    have u: "undelivered l" "list_all undelivered (split_on newline r)" using less.prems split_on_newline [of s] Some lr by simp_all
    then show ?thesis
      using less.IH [of r] split_line_length [of s l r] Some lr undelivered_line [OF u(1), of sentinel parse] by (subst sse_drain.simps) simp
  qed
qed

lemma stream_undelivered:
  assumes "list_all valid_utf8 chunks" and "concat chunks = str_bytes text" and "list_all undelivered (split_on newline text)"
  shows "stream_sse_with_parser sentinel parse (map Inr chunks) = []"
proof -
  obtain rest where "sse_drain sentinel parse text = ([], rest, False)" "newline \<notin> set rest" "rest = [] \<or> undelivered rest"
    using drain_undelivered [OF assms(3)] by blast
  then show ?thesis using stream_of_text [OF assms(1,2), of sentinel parse]
    by (auto simp: sse_close_def str_lines_single undelivered_def payload_None)
qed

text \<open>
  C26: Streaming from Gemini delivers nothing.  The request for a stream is the request for a whole answer, to the same URL with the
  same body, and an answer in JSON, in which no line starts with \<open>data:\<close>, yields neither a token nor an error.
\<close>

theorem gemini_stream_is_silent:
  assumes "outgoing True lib keys (''gemini/'' @ m) req = Inr (p, r)" and "send r = Inr \<lparr>ha_status = 200, ha_body = map Inr chunks\<rparr>"
    and "list_all valid_utf8 chunks" and "concat chunks = str_bytes answer" and "list_all undelivered (split_on newline answer)"
  shows "outgoing False lib keys (''gemini/'' @ m) req = Inr (p, r) \<and> cloud_stream lib keys send (''gemini/'' @ m) req = []"
proof -
  obtain m' where m: "''gemini/'' @ m = pd_prefix p @ CHR ''/'' # m'" "find_builtin (pd_prefix p) = Some p"
      "requires_api_key p \<longrightarrow> keys (pd_prefix p) \<noteq> None" "r = build_request lib p (keys (pd_prefix p)) m' req True"
    using assms(1) by (auto simp: outgoing_Inr)
  have "CHR ''/'' \<notin> set (pd_prefix p)" using find_builtin_ok [OF m(2)] by (simp add: provider_ok_def)
  then have "split_once CHR ''/'' (''gemini/'' @ m) = Some (pd_prefix p, m')" using m(1) split_once_Some by blast
  then have x: "pd_prefix p = ''gemini''" by simp
  obtain q where "find_builtin ''gemini'' = Some q" "protocol q = GeminiApi" by (simp add: find_builtin_def catalogue_defs)
  then have g: "protocol p = GeminiApi" using m(2) x by simp
  have "r = build_request lib p (keys (pd_prefix p)) m' req False"
    using m(4) g by (simp add: build_request_def Let_def gemini_protocol_def gemini_body_def)
  then have "outgoing False lib keys (''gemini/'' @ m) req = Inr (p, r)" using m by (auto simp: outgoing_Inr)
  moreover have "cloud_stream lib keys send (''gemini/'' @ m) req = []"
    using cloud_stream_body [OF assms(1), of send, OF assms(2)] stream_undelivered [OF assms(3-5),
        of "done_sentinel (protocol_handlers lib (protocol p))" "parse_stream_chunk (protocol_handlers lib (protocol p))"]
    by (simp add: Let_def)
  ultimately show ?thesis by blast
qed

definition gemini_answer :: string where
  "gemini_answer = show_json (obj [(''candidates'', JArray [obj [(''content'', obj [(''parts'', JArray [obj [(''text'', JString ''Hi'')]])])]])])"

theorem gemini_stream_is_silent_witness:
  "cloud_stream demo_lib [''gemini'' \<mapsto> ''k''] (\<lambda>r. Inr \<lparr>ha_status = 200, ha_body = map Inr [str_bytes gemini_answer]\<rparr>)
     (''gemini/'' @ ''flash'') default_request = []"
proof -
  obtain p where p: "find_builtin ''gemini'' = Some p" by (simp add: find_builtin_def catalogue_defs)
  have "list_all (\<lambda>c. (of_char c :: nat) < 128) gemini_answer" by code_simp
  note u = valid_ascii [OF this]
  have "split_on newline gemini_answer = [gemini_answer] \<and> List.hd gemini_answer = CHR ''{'' \<and> List.last gemini_answer = CHR ''}''" by code_simp
  moreover have "trim_end_cr gemini_answer = gemini_answer" by code_simp
  moreover have "gemini_answer \<noteq> []" "\<not> starts_with ''data:'' gemini_answer" by code_simp+
  ultimately have "list_all undelivered (split_on newline gemini_answer)"
    using trim_framed [of gemini_answer] by (simp add: undelivered_def)
  then show ?thesis
    using outgoing_builtin [OF p, of "[''gemini'' \<mapsto> ''k'']" True demo_lib "''flash''" default_request] u
      gemini_stream_is_silent [where lib = demo_lib and keys = "[''gemini'' \<mapsto> ''k'']" and m = "''flash''" and req = default_request
        and send = "\<lambda>r. Inr \<lparr>ha_status = 200, ha_body = map Inr [str_bytes gemini_answer]\<rparr>" and chunks = "[str_bytes gemini_answer]"
        and answer = gemini_answer and p = p]
    by simp
qed

definition read_text :: "string option \<Rightarrow> tool_call_response list \<Rightarrow> content_block list" where
  "read_text content tool_calls =
    (if str_or [] content = [] then (if tool_calls = [] then [BlockText []] else []) else [BlockText (str_or [] content)])"

lemma map_filter_Some: "(\<And>x. f (g x) = Some (h x)) \<Longrightarrow> List.map_filter f (map g xs) = map h xs"
  by (induction xs) (simp_all add: map_filter_simps)

lemma map_filter_append: "List.map_filter f (xs @ ys) = List.map_filter f xs @ List.map_filter f ys"
  by (simp add: List.map_filter_def)

lemma map_filter_None: "(\<And>x. f (g x) = None) \<Longrightarrow> List.map_filter f (map g xs) = []"
  by (induction xs) (simp_all add: map_filter_simps)

lemma read_anthropic_blocks:
  "List.map_filter anthropic_block (anthropic_blocks content tool_calls) = read_text content tool_calls @ map BlockCall tool_calls"
proof -
  have c: "List.map_filter anthropic_block (map anthropic_call tool_calls) = map BlockCall tool_calls"
    by (rule map_filter_Some) (simp add: anthropic_block_def anthropic_call_def)
  have t: "anthropic_block (text_block t) = Some (BlockText t)" for t by (simp add: anthropic_block_def text_block_def)
  show ?thesis
    by (cases "tool_calls = []"; cases content) (simp_all add: anthropic_blocks_def Let_def read_text_def t c map_filter_append str_or_def map_filter_simps)
qed

lemma blocks_of_text_and_calls:
  "List.map_filter block_text (read_text content tool_calls @ map BlockCall cs) = List.map_filter block_text (read_text content tool_calls)"
  "List.map_filter block_call (read_text content tool_calls @ map BlockCall cs) = cs"
  using map_filter_None [of block_text BlockCall cs] map_filter_Some [of block_call BlockCall "\<lambda>c. c" cs]
  by (auto simp: map_filter_append read_text_def map_filter_simps)

text \<open>
  What an assistant said survives its way through Anthropic's format: the blocks that are sent for an assistant message are
  read as that message, the text if there is no call, the call if there is one and no text, and else both in order.
\<close>

theorem anthropic_blocks_roundtrip:
  "anthropic_response lib (obj [(''content'', JArray (anthropic_blocks content tool_calls))]) = Inr
    (if tool_calls = [] then RespText (str_or [] content)
     else if str_or [] content = [] \<and> length tool_calls = 1 then RespCall (hd tool_calls)
     else RespMixed ((if str_or [] content = [] then [] else [BlockText (str_or [] content)]) @ map BlockCall tool_calls))"
proof -
  have "anthropic_blocks content tool_calls \<noteq> []" by (simp add: anthropic_blocks_def Let_def)
  then show ?thesis
    by (simp add: anthropic_response_def read_anthropic_blocks blocks_of_text_and_calls Let_def) (simp add: read_text_def map_filter_simps)
qed

lemma gemini_body_ignores:
  "gemini_body lib p m (req\<lparr>gr_tools := ts, gr_tool_choice := c, output_schema := sch\<rparr>) stream = gemini_body lib p m req stream"
  by (simp add: gemini_body_def Let_def cong: if_cong option.case_cong)

lemma cohere_body_ignores:
  "cohere_body lib p m (req\<lparr>gr_tools := ts, gr_tool_choice := c, output_schema := sch\<rparr>) stream = cohere_body lib p m req stream"
  by (simp add: cohere_body_def Let_def cong: if_cong option.case_cong)

lemma anthropic_body_ignores:
  "anthropic_body lib p m (req\<lparr>output_schema := sch\<rparr>) stream = anthropic_body lib p m req stream"
  by (simp add: anthropic_body_def Let_def cong: if_cong option.case_cong)

lemma later_system_message:
  "List.map_filter (anthropic_message lib) (ms @ [System b]) = List.map_filter (anthropic_message lib) ms"
  "List.map_filter (gemini_message lib) (ms @ [System b]) = List.map_filter (gemini_message lib) ms"
  by (simp_all add: map_filter_append map_filter_simps)

text \<open>
  Three protocols promise what they do not send.  The catalogue says that Gemini and Cohere call tools, and that all three
  handlers give structured output, yet the requests to Gemini and Cohere are the same whatever tools are offered, and none of
  the three depends on the schema; Anthropic and Gemini keep the first system message only.
\<close>

theorem protocols_drop_what_they_advertise:
  "list_all (\<lambda>p. supports_tool_calling (capabilities p)) (filter (\<lambda>p. protocol p = GeminiApi \<or> protocol p = Cohere) BUILTIN_PROVIDERS) \<and>
   list_all (\<lambda>p. supports_structured_output (capabilities p)) (filter (\<lambda>p. protocol p \<noteq> OpenAiCompat) BUILTIN_PROVIDERS) \<and>
   gemini_body lib p m (req\<lparr>gr_tools := ts, gr_tool_choice := c, output_schema := sch\<rparr>) stream = gemini_body lib p m req stream \<and>
   cohere_body lib p m (req\<lparr>gr_tools := ts, gr_tool_choice := c, output_schema := sch\<rparr>) stream = cohere_body lib p m req stream \<and>
   anthropic_body lib p m (req\<lparr>output_schema := sch\<rparr>) stream = anthropic_body lib p m req stream \<and>
   anthropic_body lib p m (req\<lparr>gr_messages := System a # ms @ [System b]\<rparr>) stream = anthropic_body lib p m (req\<lparr>gr_messages := System a # ms\<rparr>) stream \<and>
   gemini_body lib p m (req\<lparr>gr_messages := System a # ms @ [System b]\<rparr>) stream = gemini_body lib p m (req\<lparr>gr_messages := System a # ms\<rparr>) stream"
proof (intro conjI)
  show "list_all (\<lambda>p. supports_tool_calling (capabilities p)) (filter (\<lambda>p. protocol p = GeminiApi \<or> protocol p = Cohere) BUILTIN_PROVIDERS)"
    "list_all (\<lambda>p. supports_structured_output (capabilities p)) (filter (\<lambda>p. protocol p \<noteq> OpenAiCompat) BUILTIN_PROVIDERS)"
    by code_simp+
qed (simp_all only: gemini_body_ignores cohere_body_ignores anthropic_body_ignores,
    simp_all add: anthropic_body_def gemini_body_def later_system_message Let_def cong: if_cong option.case_cong)

text \<open>The default temperature is left out of a request to Anthropic, whose own default then applies.\<close>

lemma anthropic_omits_default_temperature:
  "json_get ''temperature'' (anthropic_body lib p m default_request stream) = None"
proof -
  have "\<not> differs (lit32 (7 / 10)) (lit32 (7 / 10))" "\<not> differs (lit32 (9 / 10)) (lit32 (9 / 10))" by code_simp+
  then show ?thesis by (simp add: anthropic_body_def default_request_def default_sampling_def Let_def)
qed

end
