(* ===== verification/ApiServer.thy ===== *)
theory ApiServer
  imports CloudStreams Orchestrator
begin

section \<open>The OpenAI-compatible server\<close>

text \<open>
  \<open>crates/hivebear-cli/src/api/mod.rs\<close>: the requests it reads, their conversion, the state with the loaded models, the
  handlers, and the answers.  The body of a request is its JSON value, and the decoding that the derive macros generate is
  written with the combinators of \<open>Json\<close>; a rejected body is \<open>None\<close>.  What the registry and the backends answer, and the
  random ids, are arguments.
\<close>

subsection \<open>Requests\<close>

datatype api_part = PartText string | PartImageUrl string

datatype api_content = ContentText string | ContentParts "api_part list"

record api_tool_call =
  atc_id :: string
  atc_type :: string
  atc_name :: string
  atc_arguments :: string

record api_message =
  am_role :: string
  am_content :: "api_content option"
  am_tool_calls :: "api_tool_call list option"
  am_tool_call_id :: "string option"

record api_tool =
  at_type :: string
  at_name :: string
  at_description :: "string option"
  at_parameters :: "json option"

record api_response_format =
  rf_type :: string
  rf_json_schema :: "json option"

datatype stop_sequences = StopSingle string | StopMultiple "string list"

record chat_request =
  cr_model :: "string option"
  cr_messages :: "api_message list"
  cr_max_tokens :: u32
  cr_temperature :: f32
  cr_stream :: bool
  cr_top_p :: "f32 option"
  cr_tools :: "api_tool list"
  cr_tool_choice :: "json option"
  cr_response_format :: "api_response_format option"
  cr_stop :: "stop_sequences option"
  cr_frequency_penalty :: "f32 option"
  cr_presence_penalty :: "f32 option"

definition default_max_tokens :: u32 where "default_max_tokens = 2048"
definition default_temperature :: f32 where "default_temperature = lit32 (7 / 10)"

definition part_of :: "json \<Rightarrow> api_part option" where
  "part_of v = (case get_str ''type'' v of
     None \<Rightarrow> None
   | Some t \<Rightarrow>
      if t = ''text'' then map_option PartText (get_str ''text'' v)
      else if t = ''image_url'' then map_option PartImageUrl (field (get_str ''url'') ''image_url'' v)
      else None)"

text \<open>An untagged enum is the first of its variants that decodes.\<close>

definition content_of :: "json \<Rightarrow> api_content option" where
  "content_of v = (case as_str v of Some s \<Rightarrow> Some (ContentText s) | None \<Rightarrow> map_option ContentParts (as_list part_of v))"

definition stop_of :: "json \<Rightarrow> stop_sequences option" where
  "stop_of v = (case as_str v of Some s \<Rightarrow> Some (StopSingle s) | None \<Rightarrow> map_option StopMultiple (as_list as_str v))"

definition tool_call_of :: "json \<Rightarrow> api_tool_call option" where
  "tool_call_of v =
    Option.bind (get_str ''id'' v) (\<lambda>i. Option.bind (get_str ''type'' v) (\<lambda>t. Option.bind (json_get ''function'' v) (\<lambda>f.
      Option.bind (get_str ''name'' f) (\<lambda>n. map_option (\<lambda>a. \<lparr>atc_id = i, atc_type = t, atc_name = n, atc_arguments = a\<rparr>)
        (get_str ''arguments'' f)))))"

definition message_of :: "json \<Rightarrow> api_message option" where
  "message_of v =
    Option.bind (get_str ''role'' v) (\<lambda>r. Option.bind (opt_field content_of ''content'' v) (\<lambda>c.
      Option.bind (opt_field (as_list tool_call_of) ''tool_calls'' v) (\<lambda>tcs.
        map_option (\<lambda>i. \<lparr>am_role = r, am_content = c, am_tool_calls = tcs, am_tool_call_id = i\<rparr>) (opt_field as_str ''tool_call_id'' v))))"

definition tool_of :: "json \<Rightarrow> api_tool option" where
  "tool_of v =
    Option.bind (get_str ''type'' v) (\<lambda>t. Option.bind (json_get ''function'' v) (\<lambda>f. Option.bind (get_str ''name'' f) (\<lambda>n.
      Option.bind (opt_field as_str ''description'' f) (\<lambda>d.
        map_option (\<lambda>p. \<lparr>at_type = t, at_name = n, at_description = d, at_parameters = p\<rparr>) (opt_field Some ''parameters'' f)))))"

definition response_format_of :: "json \<Rightarrow> api_response_format option" where
  "response_format_of v =
    Option.bind (get_str ''type'' v) (\<lambda>t. map_option (\<lambda>s. \<lparr>rf_type = t, rf_json_schema = s\<rparr>) (opt_field Some ''json_schema'' v))"

definition chat_request_of :: "cloud_lib \<Rightarrow> json \<Rightarrow> chat_request option" where
  "chat_request_of lib v =
    Option.bind (opt_field as_str ''model'' v) (\<lambda>model. Option.bind (field (as_list message_of) ''messages'' v) (\<lambda>ms.
    Option.bind (default_field as_u32 default_max_tokens ''max_tokens'' v) (\<lambda>mt.
    Option.bind (default_field (read_float lib) default_temperature ''temperature'' v) (\<lambda>temp.
    Option.bind (default_field as_bool False ''stream'' v) (\<lambda>st. Option.bind (opt_field (read_float lib) ''top_p'' v) (\<lambda>tp.
    Option.bind (default_field (as_list tool_of) [] ''tools'' v) (\<lambda>tools. Option.bind (opt_field Some ''tool_choice'' v) (\<lambda>tc.
    Option.bind (opt_field response_format_of ''response_format'' v) (\<lambda>rf. Option.bind (opt_field stop_of ''stop'' v) (\<lambda>stop.
    Option.bind (opt_field (read_float lib) ''frequency_penalty'' v) (\<lambda>fp.
    map_option (\<lambda>pp. \<lparr>cr_model = model, cr_messages = ms, cr_max_tokens = mt, cr_temperature = temp, cr_stream = st,
        cr_top_p = tp, cr_tools = tools, cr_tool_choice = tc, cr_response_format = rf, cr_stop = stop,
        cr_frequency_penalty = fp, cr_presence_penalty = pp\<rparr>)
      (opt_field (read_float lib) ''presence_penalty'' v))))))))))))"

subsection \<open>Conversion\<close>

definition or_default :: "'a \<Rightarrow> 'a option \<Rightarrow> 'a" where
  "or_default d v = (case v of Some x \<Rightarrow> x | None \<Rightarrow> d)"

fun content_text :: "api_content option \<Rightarrow> string option" where
  "content_text (Some (ContentText s)) = Some s"
| "content_text _ = None"

definition call_of :: "cloud_lib \<Rightarrow> api_tool_call \<Rightarrow> tool_call_response" where
  "call_of lib tc = \<lparr>tool_name = atc_name tc,
     arguments = (case from_str lib (atc_arguments tc) of Inr v \<Rightarrow> v | Inl e \<Rightarrow> JNull), call_id = atc_id tc\<rparr>"

fun convert_part :: "api_part \<Rightarrow> content_part" where
  "convert_part (PartText t) = TextPart t"
| "convert_part (PartImageUrl url) = ImageUrl url"

definition convert_message :: "cloud_lib \<Rightarrow> api_message \<Rightarrow> chat_message" where
  "convert_message lib m =
    (if am_role m = ''system'' then System (str_or [] (content_text (am_content m)))
     else if am_role m = ''assistant''
       then Assistant (content_text (am_content m)) (map (call_of lib) (or_default [] (am_tool_calls m)))
     else if am_role m = ''tool''
       then ToolResult (str_or [] (am_tool_call_id m)) (str_or [] (content_text (am_content m)))
     else (case am_content m of
       Some (ContentParts ps) \<Rightarrow> User (map convert_part ps)
     | Some (ContentText s) \<Rightarrow> user_text s
     | None \<Rightarrow> user_text []))"

definition convert_api_messages :: "cloud_lib \<Rightarrow> api_message list \<Rightarrow> chat_message list" where
  "convert_api_messages lib ms = map (convert_message lib) ms"

definition convert_tools :: "api_tool list \<Rightarrow> tool_definition list" where
  "convert_tools ts = map (\<lambda>t. \<lparr>td_name = at_name t, description = str_or [] (at_description t),
     input_schema = or_default (obj []) (at_parameters t)\<rparr>) ts"

definition convert_tool_choice :: "json option \<Rightarrow> tool_choice" where
  "convert_tool_choice choice = (case choice of
     None \<Rightarrow> ToolAuto
   | Some v \<Rightarrow> (case as_str v of
       Some s \<Rightarrow> if s = ''none'' then ToolNone else if s = ''required'' then ToolRequired else ToolAuto
     | None \<Rightarrow> (case field (get_str ''name'') ''function'' v of Some name \<Rightarrow> ToolSpecific name | None \<Rightarrow> ToolAuto)))"

fun convert_stop :: "stop_sequences option \<Rightarrow> string list" where
  "convert_stop None = []"
| "convert_stop (Some (StopSingle s)) = [s]"
| "convert_stop (Some (StopMultiple ss)) = ss"

definition convert_request :: "cloud_lib \<Rightarrow> string \<Rightarrow> chat_request \<Rightarrow> generate_request" where
  "convert_request lib model r = default_request
    \<lparr>gr_messages := convert_api_messages lib (cr_messages r),
     max_tokens := cr_max_tokens r,
     sampling := default_sampling
       \<lparr>temperature := cr_temperature r, top_p := or_default (lit32 (9 / 10)) (cr_top_p r),
        frequency_penalty := or_default (Fin 0) (cr_frequency_penalty r),
        presence_penalty := or_default (Fin 0) (cr_presence_penalty r)\<rparr>,
     gr_tools := convert_tools (cr_tools r),
     gr_tool_choice := convert_tool_choice (cr_tool_choice r),
     stop_sequences := convert_stop (cr_stop r),
     output_schema := Option.bind (cr_response_format r) rf_json_schema,
     gr_model_name := Some model\<rparr>"

subsection \<open>Requests of the own client\<close>

text \<open>
  The OpenAI-compatible client of \<open>CloudProtocols\<close> talking to this server.  \<open>received\<close> is the request that the server
  generates for: texts of a message without images are joined, inline images are data URLs, and the fields that the format
  does not carry have their defaults.
\<close>

fun wire_part :: "cloud_lib \<Rightarrow> content_part \<Rightarrow> content_part" where
  "wire_part lib (ImagePart data media) = ImageUrl (''data:'' @ media @ '';base64,'' @ base64_encode lib data)"
| "wire_part lib p = p"

fun wire_message :: "cloud_lib \<Rightarrow> chat_message \<Rightarrow> chat_message" where
  "wire_message lib (User parts) = (if list_ex is_image parts then User (map (wire_part lib) parts) else user_text (extract_text parts))"
| "wire_message lib m = m"

definition wire_tool :: "tool_definition \<Rightarrow> tool_definition" where
  "wire_tool t = (if input_schema t = JNull then t\<lparr>input_schema := obj []\<rparr> else t)"

definition wrapped_schema :: "json \<Rightarrow> json" where
  "wrapped_schema schema = obj [(''name'', JString ''structured_output''), (''strict'', JBool True), (''schema'', schema)]"

definition received :: "cloud_lib \<Rightarrow> string \<Rightarrow> generate_request \<Rightarrow> generate_request" where
  "received lib model req = req
    \<lparr>gr_messages := map (wire_message lib) (gr_messages req),
     sampling := (sampling req)\<lparr>top_k := 40, repeat_penalty := lit32 (11 / 10)\<rparr>,
     gr_tools := map wire_tool (gr_tools req),
     gr_tool_choice := (if gr_tools req = [] then ToolAuto else gr_tool_choice req),
     output_schema := map_option wrapped_schema (output_schema req),
     gr_grammar := None, gr_model_name := Some model\<rparr>"

fun calls_readable :: "cloud_lib \<Rightarrow> chat_message \<Rightarrow> bool" where
  "calls_readable lib (Assistant c tcs) \<longleftrightarrow> list_all (\<lambda>tc. from_str lib (show_json (arguments tc)) = Inr (arguments tc)) tcs"
| "calls_readable lib _ \<longleftrightarrow> True"

lemma map_of_set_if [simp]: "map_of (set_if b k v m) k' = (if b \<and> k' = k then Some v else map_of m k')"
  by simp

lemma part_of_openai [simp]: "map_option convert_part (part_of (openai_part lib p)) = Some (wire_part lib p)"
  by (cases p) (simp_all add: part_of_def field_def)

lemma parts_of_openai:
  "\<exists>qs. decode_all part_of (map (openai_part lib) ps) = Some qs \<and> map convert_part qs = map (wire_part lib) ps"
proof (induction ps)
  case (Cons p ps)
  obtain q where "part_of (openai_part lib p) = Some q" "convert_part q = wire_part lib p"
    using part_of_openai [of lib p] by (auto simp del: part_of_openai)
  then show ?case using Cons by auto
qed simp

lemma call_of_openai:
  "tool_call_of (call_json tc) = Some \<lparr>atc_id = call_id tc, atc_type = ''function'', atc_name = tool_name tc,
     atc_arguments = show_json (arguments tc)\<rparr>"
  by (simp add: tool_call_of_def call_json_def)

lemma opt_field_obj:
  "opt_field dec k (JObject m) = (case map_of m k of None \<Rightarrow> Some None | Some w \<Rightarrow> if w = JNull then Some None else map_option Some (dec w))"
  by (simp add: opt_field_def)

lemma obj_not_null [simp]: "obj kvs \<noteq> JNull" "JNull \<noteq> obj kvs"
  by (simp_all add: obj_def)

lemma message_roundtrip:
  assumes "calls_readable lib m"
  shows "\<exists>a. message_of (openai_message lib m) = Some a \<and> convert_message lib a = wire_message lib m"
proof (cases m)
  case (User ps)
  show ?thesis
  proof (cases "list_ex is_image ps")
    case True
    obtain qs where q: "decode_all part_of (map (openai_part lib) ps) = Some qs" "map convert_part qs = map (wire_part lib) ps"
      using parts_of_openai by blast
    then show ?thesis using User True
      by (simp add: message_of_def opt_field_def content_of_def as_list_def convert_message_def)
  next
    case False
    then show ?thesis using User by (simp add: message_of_def opt_field_def content_of_def convert_message_def)
  qed
next
  case (Assistant c tcs)
  have "decode_all tool_call_of (map call_json tcs) = Some (map (\<lambda>tc. \<lparr>atc_id = call_id tc, atc_type = ''function'',
      atc_name = tool_name tc, atc_arguments = show_json (arguments tc)\<rparr>) tcs)"
    by (rule decode_all_map) (rule call_of_openai)
  moreover have "map (call_of lib) (map (\<lambda>tc. \<lparr>atc_id = call_id tc, atc_type = ''function'',
      atc_name = tool_name tc, atc_arguments = show_json (arguments tc)\<rparr>) tcs) = tcs"
    using assms Assistant by (intro map_idI [THEN trans [OF map_map]]) (simp add: call_of_def list_all_iff)
  ultimately show ?thesis using Assistant
    by (cases c; cases "tcs = []") (simp_all add: message_of_def get_str_def opt_field_def content_of_def as_list_def convert_message_def
        or_default_def Let_def)
qed (simp_all add: message_of_def opt_field_def content_of_def convert_message_def)

lemma messages_roundtrip:
  "list_all (calls_readable lib) ms \<Longrightarrow>
   \<exists>as. decode_all message_of (map (openai_message lib) ms) = Some as \<and> convert_api_messages lib as = map (wire_message lib) ms"
proof (induction ms)
  case (Cons m ms)
  then show ?case using message_roundtrip [of lib m] by (auto simp: convert_api_messages_def)
qed (simp add: convert_api_messages_def)

lemma tools_roundtrip:
  "\<exists>as. decode_all tool_of (map openai_tool ts) = Some as \<and> convert_tools as = map wire_tool ts"
proof (induction ts)
  case (Cons t ts)
  have "\<exists>a. tool_of (openai_tool t) = Some a \<and> convert_tools [a] = [wire_tool t]"
    by (auto simp: tool_of_def openai_tool_def opt_field_def convert_tools_def wire_tool_def or_default_def)
  then show ?case using Cons by (auto simp: convert_tools_def)
qed (simp add: convert_tools_def)

definition openai_entries :: "cloud_lib \<Rightarrow> string \<Rightarrow> generate_request \<Rightarrow> bool \<Rightarrow> string \<rightharpoonup> json" where
  "openai_entries lib m req stream k =
    (let s = sampling req; only = (\<lambda>b v. if b then Some v else None) in
     if k = ''model'' then Some (JString m)
     else if k = ''messages'' then Some (JArray (map (openai_message lib) (gr_messages req)))
     else if k = ''max_tokens'' then Some (json_u32 (max_tokens req))
     else if k = ''temperature'' then Some (float_json lib (temperature s))
     else if k = ''top_p'' then Some (float_json lib (top_p s))
     else if k = ''stream'' then Some (JBool stream)
     else if k = ''frequency_penalty'' then only (frequency_penalty s \<noteq> Fin 0) (float_json lib (frequency_penalty s))
     else if k = ''presence_penalty'' then only (presence_penalty s \<noteq> Fin 0) (float_json lib (presence_penalty s))
     else if k = ''stop'' then only (stop_sequences req \<noteq> []) (json_strings (stop_sequences req))
     else if k = ''tools'' then only (gr_tools req \<noteq> []) (JArray (map openai_tool (gr_tools req)))
     else if k = ''tool_choice'' then only (gr_tools req \<noteq> []) (openai_tool_choice (gr_tool_choice req))
     else if k = ''response_format'' then map_option (\<lambda>schema. obj [(''type'', JString ''json_schema''), (''json_schema'', wrapped_schema schema)]) (output_schema req)
     else None)"

lemma openai_body_get: "json_get k (openai_body lib p m req stream) = openai_entries lib m req stream k"
proof -
  have "json_get k (openai_body lib p m req stream) = (if k = ''response_format'' \<and> output_schema req \<noteq> None
      then Some (obj [(''type'', JString ''json_schema''), (''json_schema'', wrapped_schema (the (output_schema req)))])
      else map_of (set_if (gr_tools req \<noteq> []) ''tool_choice'' (openai_tool_choice (gr_tool_choice req))
        (set_if (gr_tools req \<noteq> []) ''tools'' (JArray (map openai_tool (gr_tools req)))
        (set_if (stop_sequences req \<noteq> []) ''stop'' (json_strings (stop_sequences req))
        (set_if (presence_penalty (sampling req) \<noteq> Fin 0) ''presence_penalty'' (float_json lib (presence_penalty (sampling req)))
        (set_if (frequency_penalty (sampling req) \<noteq> Fin 0) ''frequency_penalty'' (float_json lib (frequency_penalty (sampling req)))
        (obj_of [(''model'', JString m), (''messages'', JArray (map (openai_message lib) (gr_messages req))),
          (''max_tokens'', json_u32 (max_tokens req)), (''temperature'', float_json lib (temperature (sampling req))),
          (''top_p'', float_json lib (top_p (sampling req))), (''stream'', JBool stream)])))))) k)"
    by (cases "output_schema req") (simp_all add: openai_body_def Let_def wrapped_schema_def del: map_of_set_if)
  then show ?thesis
    by (cases "output_schema req") (simp_all add: openai_entries_def Let_def map_of_set_if del: if_split)
qed

definition floats_readable :: "cloud_lib \<Rightarrow> sampling_params \<Rightarrow> bool" where
  "floats_readable lib s \<longleftrightarrow> list_all (\<lambda>x. read_float lib (float_json lib x) = Some x \<and> float_json lib x \<noteq> JNull)
     [temperature s, top_p s, frequency_penalty s, presence_penalty s]"

lemma tool_choice_roundtrip: "convert_tool_choice (Some (openai_tool_choice c)) = c"
  by (cases c) (simp_all add: convert_tool_choice_def field_def)

lemma strings_roundtrip: "as_list as_str (json_strings ss) = Some ss"
  using decode_all_map [of as_str JString "\<lambda>s. s" ss] by (simp add: as_list_def json_strings_def)

lemma openai_fields:
  assumes "floats_readable lib (sampling req)"
  shows "opt_field as_str ''model'' (openai_body lib p m req stream) = Some (Some m)"
    "field (as_list message_of) ''messages'' (openai_body lib p m req stream) = decode_all message_of (map (openai_message lib) (gr_messages req))"
    "default_field as_u32 d ''max_tokens'' (openai_body lib p m req stream) = Some (max_tokens req)"
    "default_field (read_float lib) x ''temperature'' (openai_body lib p m req stream) = Some (temperature (sampling req))"
    "default_field as_bool b ''stream'' (openai_body lib p m req stream) = Some stream"
    "opt_field (read_float lib) ''top_p'' (openai_body lib p m req stream) = Some (Some (top_p (sampling req)))"
    "default_field (as_list tool_of) [] ''tools'' (openai_body lib p m req stream) = decode_all tool_of (map openai_tool (gr_tools req))"
    "opt_field Some ''tool_choice'' (openai_body lib p m req stream) =
      Some (if gr_tools req = [] then None else Some (openai_tool_choice (gr_tool_choice req)))"
    "opt_field response_format_of ''response_format'' (openai_body lib p m req stream) =
      Some (map_option (\<lambda>schema. \<lparr>rf_type = ''json_schema'', rf_json_schema = Some (wrapped_schema schema)\<rparr>) (output_schema req))"
    "opt_field stop_of ''stop'' (openai_body lib p m req stream) =
      Some (if stop_sequences req = [] then None else Some (StopMultiple (stop_sequences req)))"
    "opt_field (read_float lib) ''frequency_penalty'' (openai_body lib p m req stream) =
      Some (if frequency_penalty (sampling req) = Fin 0 then None else Some (frequency_penalty (sampling req)))"
    "opt_field (read_float lib) ''presence_penalty'' (openai_body lib p m req stream) =
      Some (if presence_penalty (sampling req) = Fin 0 then None else Some (presence_penalty (sampling req)))"
proof -
  have f: "read_float lib (float_json lib x) = Some x" "float_json lib x \<noteq> JNull"
    if "x \<in> {temperature (sampling req), top_p (sampling req), frequency_penalty (sampling req), presence_penalty (sampling req)}" for x
    using assms that by (auto simp: floats_readable_def)
  have c: "openai_tool_choice (gr_tool_choice req) \<noteq> JNull" by (cases "gr_tool_choice req") simp_all
  show "default_field as_u32 d ''max_tokens'' (openai_body lib p m req stream) = Some (max_tokens req)"
    by (simp add: default_field_def openai_body_get openai_entries_def json_u32_def del: as_u32.simps)
  show "opt_field stop_of ''stop'' (openai_body lib p m req stream) =
      Some (if stop_sequences req = [] then None else Some (StopMultiple (stop_sequences req)))"
    using strings_roundtrip [of "stop_sequences req"]
    by (simp add: opt_field_def openai_body_get openai_entries_def stop_of_def json_strings_def)
  show "opt_field response_format_of ''response_format'' (openai_body lib p m req stream) =
      Some (map_option (\<lambda>schema. \<lparr>rf_type = ''json_schema'', rf_json_schema = Some (wrapped_schema schema)\<rparr>) (output_schema req))"
    by (cases "output_schema req") (simp_all add: opt_field_def openai_body_get openai_entries_def response_format_of_def wrapped_schema_def)
  show "default_field (read_float lib) x ''temperature'' (openai_body lib p m req stream) = Some (temperature (sampling req))"
    "opt_field (read_float lib) ''top_p'' (openai_body lib p m req stream) = Some (Some (top_p (sampling req)))"
    "opt_field (read_float lib) ''frequency_penalty'' (openai_body lib p m req stream) =
      Some (if frequency_penalty (sampling req) = Fin 0 then None else Some (frequency_penalty (sampling req)))"
    "opt_field (read_float lib) ''presence_penalty'' (openai_body lib p m req stream) =
      Some (if presence_penalty (sampling req) = Fin 0 then None else Some (presence_penalty (sampling req)))"
    by (simp_all add: default_field_def opt_field_def openai_body_get openai_entries_def f)
  show "opt_field Some ''tool_choice'' (openai_body lib p m req stream) =
      Some (if gr_tools req = [] then None else Some (openai_tool_choice (gr_tool_choice req)))"
    by (simp add: opt_field_def openai_body_get openai_entries_def c)
qed (simp_all add: field_def default_field_def opt_field_def openai_body_get openai_entries_def as_list_def)

text \<open>
  C22: The server understands its own client: the body that the OpenAI-compatible client builds is accepted and is converted to
  the client's request for the same model, with the same conversation, tools, choice, stop sequences, limits and the four
  sampling parameters the format carries, provided the numbers and the arguments of the calls are read as they were written.
  One field is not restored: the schema of a structured output comes back inside its wrapper.
\<close>

theorem client_request_roundtrip:
  assumes "floats_readable lib (sampling req)" and "list_all (calls_readable lib) (gr_messages req)"
  shows "case chat_request_of lib (openai_body lib p m req stream) of
     None \<Rightarrow> False
   | Some r \<Rightarrow> cr_model r = Some m \<and> cr_stream r = stream \<and> convert_request lib m r = received lib m req"
proof -
  obtain ms ts where ms: "decode_all message_of (map (openai_message lib) (gr_messages req)) = Some ms"
      "convert_api_messages lib ms = map (wire_message lib) (gr_messages req)"
    and ts: "decode_all tool_of (map openai_tool (gr_tools req)) = Some ts" "convert_tools ts = map wire_tool (gr_tools req)"
    using messages_roundtrip [OF assms(2)] tools_roundtrip [of "gr_tools req"] by blast
  let ?s = "sampling req"
  let ?r = "\<lparr>cr_model = Some m, cr_messages = ms, cr_max_tokens = max_tokens req, cr_temperature = temperature ?s, cr_stream = stream,
      cr_top_p = Some (top_p ?s), cr_tools = ts,
      cr_tool_choice = if gr_tools req = [] then None else Some (openai_tool_choice (gr_tool_choice req)),
      cr_response_format = map_option (\<lambda>schema. \<lparr>rf_type = ''json_schema'', rf_json_schema = Some (wrapped_schema schema)\<rparr>) (output_schema req),
      cr_stop = if stop_sequences req = [] then None else Some (StopMultiple (stop_sequences req)),
      cr_frequency_penalty = if frequency_penalty ?s = Fin 0 then None else Some (frequency_penalty ?s),
      cr_presence_penalty = if presence_penalty ?s = Fin 0 then None else Some (presence_penalty ?s)\<rparr>"
  have "chat_request_of lib (openai_body lib p m req stream) = Some ?r"
    by (simp add: chat_request_of_def openai_fields [OF assms(1)] ms ts)
  moreover have sch: "Option.bind (map_option (\<lambda>schema. \<lparr>rf_type = ''json_schema'', rf_json_schema = Some (wrapped_schema schema)\<rparr>)
      (output_schema req)) rf_json_schema = map_option wrapped_schema (output_schema req)"
    by (cases "output_schema req") simp_all
  moreover have "sampling (convert_request lib m ?r) = sampling (received lib m req)"
    by (rule sampling_params.equality) (simp_all add: convert_request_def received_def default_request_def default_sampling_def or_default_def)
  then have "convert_request lib m ?r = received lib m req"
    by (intro generate_request.equality) (simp_all add: convert_request_def received_def default_request_def ms ts sch
      tool_choice_roundtrip convert_tool_choice_def [of None] split: option.split)
  ultimately show ?thesis by simp
qed

subsection \<open>State and models\<close>

record app_state =
  as_orchestrator :: orchestrator
  as_models :: "string \<rightharpoonup> model_handle"
  as_registry :: bool
  as_api_key :: "string option"
  as_default_model :: "string option"
  as_cloud :: bool

text \<open>
  What the outside answers to one resolution: the backends, the local lookup of the registry and its installation, both with the
  path of the model.  \<open>as_cloud\<close> is the feature of the build and \<open>as_registry\<close> whether there is a registry.
\<close>

record resolve_world =
  rw_load :: load_world
  rw_resolve :: "(string, string) result"
  rw_install :: "(string, string) result"

definition server_load_config :: load_config where
  "server_load_config = default_load_config\<lparr>lc_context_length := 4096, lc_offload := default_offload\<lparr>oc_auto := True\<rparr>\<rparr>"

definition insert_model :: "string \<Rightarrow> model_handle \<Rightarrow> app_state \<Rightarrow> app_state" where
  "insert_model name h st = st\<lparr>as_models := (as_models st)(name \<mapsto> h)\<rparr>"

definition model_path :: "resolve_world \<Rightarrow> string \<Rightarrow> (string, string) result" where
  "model_path w name = (case rw_resolve w of
     Inr path \<Rightarrow> Inr path
   | Inl e \<Rightarrow> (case rw_install w of
       Inr path \<Rightarrow> Inr path
     | Inl e' \<Rightarrow> Inl (''Model '' @ tick @ name @ tick @ '' not found and download failed: '' @ e')))"

text \<open>The lookup, and the load with what it changes in the orchestrator; a panic of the format detection is \<open>None\<close>.\<close>

definition load_named :: "resolve_world \<Rightarrow> string \<Rightarrow> app_state \<Rightarrow> app_state \<times> (string, model_handle) result option" where
  "load_named w name st =
    (if as_cloud st \<and> is_cloud_model name then
       (case load_cloud (rw_load w) name (as_orchestrator st) of
          (o', Inr (h, b)) \<Rightarrow> (st\<lparr>as_orchestrator := o'\<rparr>, Some (Inr h))
        | (o', Inl e) \<Rightarrow> (st\<lparr>as_orchestrator := o'\<rparr>,
            Some (Inl (''Cloud model '' @ tick @ name @ tick @ '': '' @ show_inference_error e))))
     else if \<not> as_registry st then
       (st, Some (Inl (''Model '' @ tick @ name @ tick @ '' is not loaded and no registry is available for on-demand loading'')))
     else (case model_path w name of
       Inl e \<Rightarrow> (st, Some (Inl e))
     | Inr path \<Rightarrow> (case orch_load (rw_load w) path server_load_config (as_orchestrator st) of
         (o', None) \<Rightarrow> (st\<lparr>as_orchestrator := o'\<rparr>, None)
       | (o', Some (Inr (h, b))) \<Rightarrow> (st\<lparr>as_orchestrator := o'\<rparr>, Some (Inr h))
       | (o', Some (Inl e)) \<Rightarrow> (st\<lparr>as_orchestrator := o'\<rparr>,
           Some (Inl (''Failed to load model '' @ tick @ name @ tick @ '': '' @ show_inference_error e))))))"

definition resolve_model :: "resolve_world \<Rightarrow> string \<Rightarrow> app_state \<Rightarrow> app_state \<times> (string, model_handle) result option" where
  "resolve_model w name st = (case as_models st name of
     Some h \<Rightarrow> (st, Some (Inr h))
   | None \<Rightarrow> (case load_named w name st of
       (st', Some (Inr h)) \<Rightarrow> (insert_model name h st', Some (Inr h))
     | (st', r) \<Rightarrow> (st', r)))"

text \<open>\<open>order\<close> is the order in which the map of the models iterates.\<close>

definition default_handle :: "resolve_world \<Rightarrow> string list \<Rightarrow> app_state \<Rightarrow> app_state \<times> (string, string \<times> model_handle) result option" where
  "default_handle w order st = (case as_default_model st of
     Some name \<Rightarrow> (case resolve_model w name st of
       (st', Some (Inr h)) \<Rightarrow> (st', Some (Inr (name, h)))
     | (st', Some (Inl e)) \<Rightarrow> (st', Some (Inl e))
     | (st', None) \<Rightarrow> (st', None))
   | None \<Rightarrow> (case entries order (as_models st) of
       [(name, h)] \<Rightarrow> (st, Some (Inr (name, h)))
     | [] \<Rightarrow> (st, Some (Inl ''No models loaded. Specify a model in your request.''))
     | _ \<Rightarrow> (st, Some (Inl (''Multiple models loaded ('' @ join '', '' order @
         ''). Specify which model to use in your request.'')))))"

subsection \<open>Authentication and binding\<close>

datatype api_reply = Reply nat json | Events "string list"

definition authorized :: "string option \<Rightarrow> string \<Rightarrow> string option \<Rightarrow> bool" where
  "authorized key path auth = (case key of
     None \<Rightarrow> True
   | Some k \<Rightarrow> path = ''/health'' \<or> (case auth of Some a \<Rightarrow> strip_prefix ''Bearer '' a = Some k | None \<Rightarrow> False))"

definition unauthorized_reply :: api_reply where
  "unauthorized_reply = Reply 401 (obj [(''error'', obj
     [(''message'', JString ''Invalid or missing API key. Use Authorization: Bearer <key>''),
      (''type'', JString ''authentication_error''), (''code'', JString ''invalid_api_key'')])])"

text \<open>\<open>next\<close> is the rest of the service; the header is \<open>None\<close> when it is missing or not visible ASCII.\<close>

definition auth_middleware :: "string \<Rightarrow> string option \<Rightarrow> (app_state \<Rightarrow> app_state \<times> api_reply option) \<Rightarrow> app_state \<Rightarrow> app_state \<times> api_reply option" where
  "auth_middleware path auth next_service st =
    (if authorized (as_api_key st) path auth then next_service st else (st, Some unauthorized_reply))"

datatype bind_outcome = Bound | AddrInUse string | BindFailed string

fun bind_loop :: "(u16 \<Rightarrow> bind_outcome) \<Rightarrow> u16 \<Rightarrow> nat list \<Rightarrow> string option \<Rightarrow> (string, u16) result" where
  "bind_loop bind port [] err = Inl (case err of Some e \<Rightarrow> e | None \<Rightarrow> ''no free port in range'')"
| "bind_loop bind port (off # offs) err =
    (if 2 ^ 16 \<le> unat port + off then Inl (case err of Some e \<Rightarrow> e | None \<Rightarrow> ''no free port in range'')
     else (case bind (port + of_nat off) of
       Bound \<Rightarrow> Inr (port + of_nat off)
     | AddrInUse e \<Rightarrow> bind_loop bind port offs (Some e)
     | BindFailed e \<Rightarrow> Inl e))"

definition bind_with_fallback :: "(u16 \<Rightarrow> bind_outcome) \<Rightarrow> u16 \<Rightarrow> u16 \<Rightarrow> (string, u16) result" where
  "bind_with_fallback bind port max_attempts = bind_loop bind port [0..<unat max_attempts] None"

lemma bind_loop_Inr:
  "bind_loop bind port [i..<n] err = Inr p \<longleftrightarrow>
    (\<exists>k. i \<le> k \<and> k < n \<and> unat port + k < 2 ^ 16 \<and> p = port + of_nat k \<and> bind p = Bound \<and>
       (\<forall>j. i \<le> j \<longrightarrow> j < k \<longrightarrow> (\<exists>e. bind (port + of_nat j) = AddrInUse e)))"
proof (induction "n - i" arbitrary: i err)
  case 0
  then show ?case by simp
next
  case (Suc d)
  then have u: "[i..<n] = i # [Suc i..<n]" by (simp add: upt_conv_Cons)
  have "2 ^ 16 \<le> unat port + i \<Longrightarrow> \<not> (i \<le> k \<and> unat port + k < 2 ^ 16)" for k by simp
  note IH = Suc.hyps(1) [of "Suc i"]
  show ?case
  proof (cases "2 ^ 16 \<le> unat port + i")
    case True
    then show ?thesis unfolding u by auto
  next
    case False
    show ?thesis
    proof (cases "bind (port + of_nat i)")
      case Bound
      have "k = i" if "i \<le> k" "\<forall>j. i \<le> j \<longrightarrow> j < k \<longrightarrow> (\<exists>e. bind (port + of_nat j) = AddrInUse e)" for k
        using that Bound by (cases "i < k") auto
      moreover have "i < n" using Suc.hyps(2) by simp
      moreover have "bind_loop bind port [i..<n] err = Inr (port + of_nat i)" using False Bound unfolding u by simp
      ultimately show ?thesis using False Bound by (auto dest: leD)
    next
      case (AddrInUse e)
      have "(\<exists>k. Suc i \<le> k \<and> Q k \<and> (\<forall>j. Suc i \<le> j \<longrightarrow> j < k \<longrightarrow> (\<exists>e. bind (port + of_nat j) = AddrInUse e))) \<longleftrightarrow>
          (\<exists>k. i \<le> k \<and> Q k \<and> (\<forall>j. i \<le> j \<longrightarrow> j < k \<longrightarrow> (\<exists>e. bind (port + of_nat j) = AddrInUse e)))" if "\<not> Q i" for Q
        using that AddrInUse by (metis Suc_leD Suc_leI le_neq_implies_less)
      note eq = this [of "\<lambda>k. k < n \<and> unat port + k < 2 ^ 16 \<and> p = port + of_nat k \<and> bind p = Bound"]
      have "bind_loop bind port [i..<n] err = bind_loop bind port [Suc i..<n] (Some e)" using False AddrInUse unfolding u by simp
      then show ?thesis using IH [of "Some e"] Suc.hyps(2) eq AddrInUse by auto
    next
      case (BindFailed e)
      have "k = i" if "i \<le> k" "\<forall>j. i \<le> j \<longrightarrow> j < k \<longrightarrow> (\<exists>e. bind (port + of_nat j) = AddrInUse e)" for k
        using that BindFailed by (cases "i < k") auto
      moreover have "bind_loop bind port [i..<n] err = Inl e" using False BindFailed unfolding u by simp
      ultimately show ?thesis using BindFailed by (metis Inl_Inr_False bind_outcome.distinct(3))
    qed
  qed
qed

text \<open>
  The server binds to the first port of the range that is free: all ports before it are in use, there are at most
  \<open>max_attempts\<close> of them, and the port number does not wrap.  Any other failure to bind ends the search.
\<close>

theorem binds_first_free_port:
  "bind_with_fallback bind port max_attempts = Inr p \<longleftrightarrow>
    (\<exists>k. k < unat max_attempts \<and> unat port + k < 2 ^ 16 \<and> p = port + of_nat k \<and> bind p = Bound \<and>
       (\<forall>j. j < k \<longrightarrow> (\<exists>e. bind (port + of_nat j) = AddrInUse e)))"
  by (simp add: bind_with_fallback_def bind_loop_Inr)

theorem binds_first_free_port_witness:
  "bind_with_fallback (\<lambda>p. if p < 8082 then AddrInUse ''in use'' else Bound) 8080 10 = Inr 8082"
proof -
  have "\<exists>k. k < unat (10 :: u16) \<and> unat (8080 :: u16) + k < 2 ^ 16 \<and> (8082 :: u16) = 8080 + of_nat k \<and>
      (if (8082 :: u16) < 8082 then AddrInUse ''in use'' else Bound) = Bound \<and>
      (\<forall>j. j < k \<longrightarrow> (\<exists>e. (if 8080 + of_nat j < (8082 :: u16) then AddrInUse ''in use'' else Bound) = AddrInUse e))"
    by (rule exI [of _ 2]) (auto simp: less_2_cases_iff)
  then show ?thesis by (rule binds_first_free_port [THEN iffD2])
qed

subsection \<open>Answers\<close>

definition error_response :: "string \<Rightarrow> api_reply" where
  "error_response e = Reply 500 (obj [(''error'', obj [(''message'', JString e), (''type'', JString ''server_error'')])])"

definition call_reply :: "tool_call_response \<Rightarrow> json" where
  "call_reply tc = JObject [(''id'', JString (call_id tc)), (''type'', JString ''function''),
     (''function'', JObject [(''name'', JString (tool_name tc)), (''arguments'', JString (show_json (arguments tc)))])]"

fun reply_parts :: "generate_response \<Rightarrow> string option \<times> tool_call_response list option \<times> string" where
  "reply_parts (RespText t) = (Some t, None, ''stop'')"
| "reply_parts (RespCall tc) = (None, Some [tc], ''tool_calls'')"
| "reply_parts (RespMixed blocks) =
    (let texts = List.map_filter block_text blocks; calls = List.map_filter block_call blocks
     in (if texts = [] then None else Some (concat texts), if calls = [] then None else Some calls,
         if calls = [] then ''stop'' else ''tool_calls''))"

definition completion_json :: "string \<Rightarrow> string \<Rightarrow> generate_response \<Rightarrow> json" where
  "completion_json chat_id model r = (case reply_parts r of (content, calls, reason) \<Rightarrow>
     JObject [(''id'', JString (''chatcmpl-'' @ chat_id)), (''object'', JString ''chat.completion''), (''model'', JString model),
       (''choices'', JArray [JObject [(''index'', JNumber ''0''),
          (''message'', JObject ([(''role'', JString ''assistant'')] @ skip_none ''content'' (map_option JString content) @
             skip_none ''tool_calls'' (map_option (\<lambda>cs. JArray (map call_reply cs)) calls))),
          (''finish_reason'', JString reason)]])])"

definition non_stream_response :: "string \<Rightarrow> string \<Rightarrow> (inference_error, generate_response) result \<Rightarrow> api_reply" where
  "non_stream_response chat_id model answer = (case answer of
     Inr r \<Rightarrow> Reply 200 (completion_json chat_id model r)
   | Inl e \<Rightarrow> error_response (show_inference_error e))"

definition chunk_json :: "string \<Rightarrow> string \<Rightarrow> string option \<Rightarrow> string option \<Rightarrow> string option \<Rightarrow> u32 option \<Rightarrow> json" where
  "chunk_json chat_id model role content finish used =
     JObject ([(''id'', JString (''chatcmpl-'' @ chat_id)), (''object'', JString ''chat.completion.chunk''), (''model'', JString model),
       (''choices'', JArray [JObject [(''index'', JNumber ''0''),
          (''delta'', JObject (skip_none ''role'' (map_option JString role) @ skip_none ''content'' (map_option JString content))),
          (''finish_reason'', or_null (map_option JString finish))]])] @
       skip_none ''usage'' (map_option (\<lambda>n. JObject [(''prompt_tokens'', JNumber ''0''), (''completion_tokens'', json_u32 n),
          (''total_tokens'', json_u32 n)]) used))"

text \<open>The events of a stream: \<open>first\<close> and the number of tokens so far are the state of the closure.\<close>

fun stream_chunks :: "string \<Rightarrow> string \<Rightarrow> bool \<Rightarrow> u32 \<Rightarrow> (inference_error, token) result list \<Rightarrow> json list" where
  "stream_chunks chat_id model is_first n [] = []"
| "stream_chunks chat_id model is_first n (Inr t # rs) =
    chunk_json chat_id model (if is_first then Some ''assistant'' else None) (Some (tok_text t)) None None
    # stream_chunks chat_id model False (n + 1) rs"
| "stream_chunks chat_id model is_first n (Inl e # rs) =
    chunk_json chat_id model None None (Some ''stop'') (Some n) # stream_chunks chat_id model is_first n rs"

definition stream_events :: "string \<Rightarrow> string \<Rightarrow> (inference_error, token) result list \<Rightarrow> string list" where
  "stream_events chat_id model items =
    map show_json (stream_chunks chat_id model True 0 items) @ [show_json (chunk_json chat_id model None None (Some ''stop'') None), ''[DONE]'']"

definition stream_response :: "string \<Rightarrow> string \<Rightarrow> (inference_error, (inference_error, token) result list) result \<Rightarrow> api_reply" where
  "stream_response chat_id model opened = (case opened of
     Inr items \<Rightarrow> Events (stream_events chat_id model items)
   | Inl e \<Rightarrow> error_response (show_inference_error e))"

subsection \<open>Handlers\<close>

record serve_world =
  sw_resolve :: resolve_world
  sw_order :: "string list"
  sw_up :: "backend \<Rightarrow> bool"
  sw_generate :: "backend \<Rightarrow> generate_request \<Rightarrow> (inference_error, generate_response) result"
  sw_stream :: "backend \<Rightarrow> generate_request \<Rightarrow> (inference_error, token) result list"
  sw_id :: string

definition answer_chat :: "serve_world \<Rightarrow> bool \<Rightarrow> string \<Rightarrow> generate_request \<Rightarrow> model_handle \<Rightarrow> app_state \<Rightarrow> api_reply" where
  "answer_chat w stream name req h st =
    (if stream then stream_response (sw_id w) name (orch_stream (sw_up w) (\<lambda>b. sw_stream w b req) h (as_orchestrator st))
     else non_stream_response (sw_id w) name (orch_generate (sw_up w) (\<lambda>b. sw_generate w b req) h (as_orchestrator st)))"

definition chat_completions :: "cloud_lib \<Rightarrow> serve_world \<Rightarrow> chat_request \<Rightarrow> app_state \<Rightarrow> app_state \<times> api_reply option" where
  "chat_completions lib w r st =
    (case (case cr_model r of
        Some name \<Rightarrow> map_prod id (map_option (map_sum id (\<lambda>h. (name, h)))) (resolve_model (sw_resolve w) name st)
      | None \<Rightarrow> default_handle (sw_resolve w) (sw_order w) st) of
       (st', None) \<Rightarrow> (st', None)
     | (st', Some (Inl e)) \<Rightarrow> (st', Some (error_response e))
     | (st', Some (Inr (name, h))) \<Rightarrow> (st', Some (answer_chat w (cr_stream r) name (convert_request lib name r) h st')))"

definition model_entry :: "string \<Rightarrow> string \<Rightarrow> json" where
  "model_entry i owner = JObject [(''id'', JString i), (''object'', JString ''model''), (''owned_by'', JString owner)]"

definition list_provider :: "(string \<rightharpoonup> string) \<Rightarrow> provider_def \<Rightarrow> (string \<times> string) list \<Rightarrow> (string \<times> string) list" where
  "list_provider env p listed =
    (if \<not> requires_api_key p \<or> (case env (env_var p) of Some v \<Rightarrow> v \<noteq> [] | None \<Rightarrow> False)
     then if list_ex (\<lambda>(i, owner). starts_with (pd_prefix p) i) listed then listed
          else listed @ [(pd_prefix p @ ''/*'', display_name p)]
     else listed)"

definition listed_models :: "(string \<rightharpoonup> string) \<Rightarrow> string list \<Rightarrow> app_state \<Rightarrow> (string \<times> string) list" where
  "listed_models env order st =
    (let loaded = map (\<lambda>(name, h). (name, ''hivebear-local'')) (entries order (as_models st)) in
     if as_cloud st then fold (list_provider env) BUILTIN_PROVIDERS loaded else loaded)"

definition list_models :: "(string \<rightharpoonup> string) \<Rightarrow> string list \<Rightarrow> app_state \<Rightarrow> api_reply" where
  "list_models env order st = Reply 200 (JObject [(''object'', JString ''list''),
     (''data'', JArray (map (\<lambda>(i, owner). model_entry i owner) (listed_models env order st)))])"

end
