(* ===== verification/ClientServer.thy ===== *)
theory ClientServer
  imports ApiServer
begin

section \<open>The client in front of the server\<close>

text \<open>
  The two ends of the OpenAI format in this repository composed: what \<open>ApiServer\<close> answers is what \<open>CloudBackend\<close>
  reads.  The text in between is the printed JSON; that it is read as the value it was printed from, with the keys in order, is
  the contract of \<open>serde_json\<close> and a hypothesis.
\<close>

type_synonym chunk_content = "string option \<times> string option \<times> string option \<times> u32 option"

fun content_chunk :: "string \<Rightarrow> string \<Rightarrow> chunk_content \<Rightarrow> json" where
  "content_chunk i model (role, content, finish, used) = chunk_json i model role content finish used"

fun chunk_says :: "chunk_content \<Rightarrow> string option" where
  "chunk_says (role, content, finish, used) = (case content of Some t \<Rightarrow> if t = [] then None else Some t | None \<Rightarrow> None)"

definition readable_json :: "cloud_lib \<Rightarrow> json \<Rightarrow> bool" where
  "readable_json lib v \<longleftrightarrow> from_str lib (show_json v) = Inr (norm_json v)"

lemma printable_digits: "printable (show_nat n)"
  using show_nat_digits [of _ n] by (force simp: printable_def list_all_iff)

lemma printable_chunk: "printable_json (content_chunk i model c)"
  by (cases c) (auto simp: chunk_json_def skip_none_def or_null_def json_u32_def printable_digits split: option.split)

lemma braced_chunk: "braced (show_json (content_chunk i model c))"
proof -
  obtain kvs where "content_chunk i model c = JObject kvs" by (cases c) (simp add: chunk_json_def)
  then show ?thesis using printable_chunk [of i model c] braced_object [of kvs] by simp
qed

lemma openai_chunk_read:
  assumes "readable_json lib (content_chunk i model c)"
  shows "openai_chunk lib (show_json (content_chunk i model c)) = Inr (map_option text_token (chunk_says c))"
proof -
  obtain role content finish used where c: "c = (role, content, finish, used)" by (cases c)
  have "Option.bind (json_get ''choices'' (norm_json (content_chunk i model c))) (json_at 0) =
      Some (obj [(''index'', JNumber ''0''), (''delta'', obj (skip_none ''role'' (map_option JString role) @
        skip_none ''content'' (map_option JString content))), (''finish_reason'', or_null (map_option JString finish))])"
    by (cases used; cases finish; cases role; cases content) (simp_all add: c chunk_json_def or_null_def skip_none_def)
  then show ?thesis
    using assms by (cases role; cases content) (simp_all add: openai_chunk_def readable_json_def c skip_none_def Let_def)
qed

interpretation server_events: event_protocol "Some ''[DONE]''" "openai_chunk lib" "[]" "\<lambda>c. show_json (content_chunk i model c)"
    chunk_says "\<lambda>c. readable_json lib (content_chunk i model c)" for lib i model
proof
  show "braced (show_json (content_chunk i model c))" for c by (rule braced_chunk)
qed (auto simp: openai_chunk_read, simp add: braced_def)

fun item_chunk :: "bool \<Rightarrow> u32 \<Rightarrow> (inference_error, token) result \<Rightarrow> chunk_content" where
  "item_chunk is_first n (Inr t) = (if is_first then Some ''assistant'' else None, Some (tok_text t), None, None)"
| "item_chunk is_first n (Inl e) = (None, None, Some ''stop'', Some n)"

fun item_chunks :: "bool \<Rightarrow> u32 \<Rightarrow> (inference_error, token) result list \<Rightarrow> chunk_content list" where
  "item_chunks is_first n [] = []"
| "item_chunks is_first n (Inr t # rs) = item_chunk is_first n (Inr t) # item_chunks False (n + 1) rs"
| "item_chunks is_first n (Inl e # rs) = item_chunk is_first n (Inl e) # item_chunks is_first n rs"

lemma stream_chunks_content: "stream_chunks i model is_first n items = map (content_chunk i model) (item_chunks is_first n items)"
  by (induction is_first n items rule: item_chunks.induct) simp_all

text \<open>The texts a stream delivers: those of its tokens, without the empty ones.\<close>

definition spoken_texts :: "(inference_error, token) result list \<Rightarrow> string list" where
  "spoken_texts items = filter (\<lambda>t. t \<noteq> []) (List.map_filter (\<lambda>r. case r of Inr t \<Rightarrow> Some (tok_text t) | Inl e \<Rightarrow> None) items)"

lemma item_chunks_say: "List.map_filter chunk_says (item_chunks is_first n items) = spoken_texts items"
  by (induction is_first n items rule: item_chunks.induct) (simp_all add: spoken_texts_def map_filter_simps)

definition final_chunk :: chunk_content where "final_chunk = (None, None, Some ''stop'', None)"

lemma stream_events_frames:
  "concat (map data_line (stream_events i model items)) =
   concat (map (server_events.frame i model) (item_chunks True 0 items @ [final_chunk])) @ data_line ''[DONE]''"
proof -
  have "server_events.frame i model = (\<lambda>c. data_line (show_json (content_chunk i model c)))"
    by (simp add: server_events.frame_def fun_eq_iff)
  then show ?thesis by (simp add: stream_events_def stream_chunks_content final_chunk_def comp_def)
qed

definition text_readable :: "cloud_lib \<Rightarrow> string \<Rightarrow> string \<Rightarrow> (inference_error, token) result list \<Rightarrow> bool" where
  "text_readable lib i model items \<longleftrightarrow>
     list_all (\<lambda>c. readable_json lib (content_chunk i model c)) (item_chunks True 0 items @ [final_chunk])"


subsection \<open>Whole answers\<close>

fun client_view :: "generate_response \<Rightarrow> generate_response" where
  "client_view (RespMixed blocks) =
    (let t = concat (List.map_filter block_text blocks); calls = List.map_filter block_call blocks in
     if calls = [] then RespText t
     else if t = [] \<and> length calls = 1 then RespCall (hd calls)
     else RespMixed ((if t = [] then [] else [BlockText t]) @ map BlockCall calls))"
| "client_view r = r"

fun response_calls :: "generate_response \<Rightarrow> tool_call_response list" where
  "response_calls (RespText t) = []"
| "response_calls (RespCall tc) = [tc]"
| "response_calls (RespMixed blocks) = List.map_filter block_call blocks"

definition arguments_readable :: "cloud_lib \<Rightarrow> tool_call_response \<Rightarrow> bool" where
  "arguments_readable lib tc \<longleftrightarrow> from_str lib (show_json (arguments tc)) = Inr (arguments tc)"

lemma call_reply_read: "arguments_readable lib tc \<Longrightarrow> openai_call lib (norm_json (call_reply tc)) = tc"
  by (simp add: openai_call_def call_reply_def json_index_def Let_def arguments_readable_def)

text \<open>The message of an answer: its texts and calls, each absent or present.\<close>

definition reply_message :: "string option \<Rightarrow> tool_call_response list option \<Rightarrow> json" where
  "reply_message content calls = norm_json (JObject ([(''role'', JString ''assistant'')] @ skip_none ''content'' (map_option JString content) @
     skip_none ''tool_calls'' (map_option (\<lambda>cs. JArray (map call_reply cs)) calls)))"

lemma reply_message_get:
  "get_str ''content'' (reply_message content calls) = content"
  "Option.bind (json_get ''tool_calls'' (reply_message content calls)) as_array = map_option (map (norm_json \<circ> call_reply)) calls"
  by (cases content; cases calls; simp add: reply_message_def skip_none_def)+

lemma completion_choice:
  "Option.bind (json_get ''choices'' (norm_json (completion_json i model r))) (json_at 0) =
   (case reply_parts r of (content, calls, reason) \<Rightarrow>
     Some (obj [(''index'', JNumber ''0''), (''message'', reply_message content calls), (''finish_reason'', JString reason)]))"
  by (cases "reply_parts r") (simp add: completion_json_def reply_message_def del: norm_json.simps(2), simp)

lemma openai_calls_read:
  assumes "list_all (arguments_readable lib) cs" and "cs \<noteq> []"
  shows "openai_calls lib (reply_message content calls) (map (norm_json \<circ> call_reply) cs) =
    (let t = str_or [] content in if t = [] \<and> length cs = 1 then RespCall (hd cs)
     else RespMixed ((if t = [] then [] else [BlockText t]) @ map BlockCall cs))"
proof -
  have "map (openai_call lib \<circ> (norm_json \<circ> call_reply)) cs = cs"
    using assms(1) by (intro map_idI) (simp add: call_reply_read list_all_iff)
  then show ?thesis by (simp add: openai_calls_def reply_message_get Let_def)
qed

lemma openai_response_reply:
  assumes "list_all (arguments_readable lib) (response_calls r)"
  shows "openai_response lib (norm_json (completion_json i model r)) = Inr (client_view r)"
proof -
  obtain content calls reason where p: "reply_parts r = (content, calls, reason)" by (cases "reply_parts r")
  have "openai_response lib (norm_json (completion_json i model r)) =
      (case calls of
         Some cs \<Rightarrow> if cs = [] then Inr (RespText (str_or [] content))
           else Inr (openai_calls lib (reply_message content calls) (map (norm_json \<circ> call_reply) cs))
       | None \<Rightarrow> Inr (RespText (str_or [] content)))"
    by (cases calls) (auto simp: openai_response_def completion_choice p reply_message_get split: list.split)
  also have "\<dots> = Inr (client_view r)"
    using p assms by (cases r) (auto simp: openai_calls_read openai_calls_read [where cs = "[tc]" for tc, simplified] Let_def str_or_def split: if_splits)
  finally show ?thesis .
qed

text \<open>
  C?: An answer survives the server and the client: what a backend generates comes out of the client as its text and its tool
  calls in order, the texts of a mixed answer joined in front of the calls; an error of the backend becomes an error of the
  client.
\<close>

theorem served_answer_reaches_client:
  assumes "outgoing False lib keys name req = Inr (p, r)" and "protocol p = OpenAiCompat"
    and "non_stream_response i model answer = Reply status v" and "send r = Inr \<lparr>ha_status = status, ha_body = [Inr bytes]\<rparr>"
    and "decode_text lib bytes = show_json v" and "readable_json lib v"
    and "list_all (arguments_readable lib) (case answer of Inr a \<Rightarrow> response_calls a | Inl e \<Rightarrow> [])"
  shows "case answer of Inr a \<Rightarrow> cloud_generate lib keys send name req = Inr (client_view a)
     | Inl e \<Rightarrow> cloud_generate lib keys send name req = Inl (api_error lib p 500 (show_json v))"
proof -
  have g: "cloud_generate lib keys send name req =
      (if \<not> is_success status then Inl (api_error lib p status (show_json v))
       else (case from_str lib (show_json v) of Inl e \<Rightarrow> Inl (GenerationError (''Parse error: '' @ e)) | Inr w \<Rightarrow> openai_response lib w))"
    using assms(1,2,4,5) by (simp add: cloud_generate_def outgoing_def body_text_def openai_protocol_def split: sum.split)
  show ?thesis
  proof (cases answer)
    case (Inl e)
    then show ?thesis using assms(3) g by (simp add: non_stream_response_def error_response_def is_success_def)
  next
    case (Inr a)
    then have "status = 200" "v = completion_json i model a" using assms(3) by (simp_all add: non_stream_response_def)
    then show ?thesis using g assms(6,7) Inr openai_response_reply [of lib a i model] by (simp add: is_success_def readable_json_def)
  qed
qed

subsection \<open>Examples\<close>

definition reads :: "json list \<Rightarrow> cloud_lib" where
  "reads vs = demo_lib\<lparr>from_str := \<lambda>s. case find (\<lambda>v. show_json v = s) vs of Some v \<Rightarrow> Inr (norm_json v) | None \<Rightarrow> Inl ''error'',
     float_json := \<lambda>x. JNumber (if x = Fin 0 then ''0'' else ''1''), read_float := \<lambda>v. Some (if v = JNumber ''0'' then Fin 0 else Fin 1)\<rparr>"

lemma reads_readable:
  assumes "distinct (map show_json vs)" and "v \<in> set vs"
  shows "from_str (reads vs) (show_json v) = Inr (norm_json v)"
proof -
  have "find (\<lambda>u. show_json u = show_json v) vs = Some v"
    using assms by (induction vs) (auto simp: image_iff)
  then show ?thesis by (simp add: reads_def)
qed

definition demo_items :: "(inference_error, token) result list" where
  "demo_items = [Inr (text_token ''Hi''), Inl (GenerationError ''out of memory'')]"

definition demo_stream_lib :: cloud_lib where
  "demo_stream_lib = reads (map (content_chunk ''1'' ''m'') (item_chunks True 0 demo_items @ [final_chunk]))"

definition demo_stream_bytes :: "u8 list" where
  "demo_stream_bytes = str_bytes (concat (map data_line (stream_events ''1'' ''m'' demo_items)))"


definition demo_answer :: generate_response where
  "demo_answer = RespMixed [BlockText ''Let me see. '', BlockCall \<lparr>tool_name = ''time'', arguments = obj [], call_id = ''c1''\<rparr>, BlockText ''Now.'']"

definition demo_answer_lib :: cloud_lib where
  "demo_answer_lib = reads [completion_json ''1'' ''m'' demo_answer, obj []]"

theorem served_answer_reaches_client_witness:
  "cloud_generate demo_answer_lib Map.empty
     (\<lambda>r. Inr \<lparr>ha_status = 200, ha_body = [Inr (str_bytes (show_json (completion_json ''1'' ''m'' demo_answer)))]\<rparr>) ''ollama/m'' default_request =
   Inr (RespMixed [BlockText ''Let me see. Now.'', BlockCall \<lparr>tool_name = ''time'', arguments = obj [], call_id = ''c1''\<rparr>])"
proof -
  obtain p where p: "find_builtin ''ollama'' = Some p" "protocol p = OpenAiCompat" "\<not> requires_api_key p"
    by (simp add: find_builtin_def catalogue_defs)
  then obtain r where r: "outgoing False demo_answer_lib Map.empty ''ollama/m'' default_request = Inr (p, r)"
    using outgoing_builtin [of "''ollama''" p Map.empty False demo_answer_lib "''m''" default_request] by simp
  have d: "distinct (map show_json [completion_json ''1'' ''m'' demo_answer, obj []])" by code_simp
  have "readable_json demo_answer_lib (completion_json ''1'' ''m'' demo_answer)"
    unfolding readable_json_def demo_answer_lib_def by (rule reads_readable [OF d]) simp
  moreover have "norm_json (obj []) = obj []" by code_simp
  then have "list_all (arguments_readable demo_answer_lib) (response_calls demo_answer)"
    using reads_readable [OF d, of "obj []"] by (simp add: demo_answer_def demo_answer_lib_def arguments_readable_def map_filter_simps)
  ultimately have "cloud_generate demo_answer_lib Map.empty
     (\<lambda>r. Inr \<lparr>ha_status = 200, ha_body = [Inr (str_bytes (show_json (completion_json ''1'' ''m'' demo_answer)))]\<rparr>) ''ollama/m'' default_request =
     Inr (client_view demo_answer)"
    using served_answer_reaches_client [OF r p(2), where answer = "Inr demo_answer" and i = "''1''" and model = "''m''" and status = 200
        and bytes = "str_bytes (show_json (completion_json ''1'' ''m'' demo_answer))"
        and send = "\<lambda>r. Inr \<lparr>ha_status = 200, ha_body = [Inr (str_bytes (show_json (completion_json ''1'' ''m'' demo_answer)))]\<rparr>"]
    by (simp add: non_stream_response_def demo_answer_lib_def reads_def demo_lib_def)
  moreover have "client_view demo_answer = RespMixed [BlockText ''Let me see. Now.'',
      BlockCall \<lparr>tool_name = ''time'', arguments = obj [], call_id = ''c1''\<rparr>]" by code_simp
  ultimately show ?thesis by simp
qed

definition demo_chat :: generate_request where
  "demo_chat = default_request\<lparr>gr_messages := [System ''Be brief.'', User [TextPart ''Hi'', ImagePart [1] ''image/png''],
       Assistant None [\<lparr>tool_name = ''time'', arguments = obj [], call_id = ''c1''\<rparr>], ToolResult ''c1'' ''noon''],
     sampling := \<lparr>temperature = Fin 1, top_p = Fin 1, top_k = 10, repeat_penalty = Fin 1, frequency_penalty = Fin 0, presence_penalty = Fin 1\<rparr>,
     stop_sequences := [''END''], output_schema := Some (obj [(''type'', JString ''integer'')])\<rparr>"

theorem client_request_roundtrip_witness:
  "case chat_request_of (reads [obj []]) (openai_body (reads [obj []]) (hd BUILTIN_PROVIDERS) ''m'' demo_chat True) of
     None \<Rightarrow> False
   | Some r \<Rightarrow> convert_request (reads [obj []]) ''m'' r = received (reads [obj []]) ''m'' demo_chat"
proof -
  have "floats_readable (reads [obj []]) (sampling demo_chat)" "list_all (calls_readable (reads [obj []])) (gr_messages demo_chat)" by code_simp+
  from client_request_roundtrip [OF this, where p = "hd BUILTIN_PROVIDERS" and m = "''m''" and stream = True] show ?thesis
    by (cases "chat_request_of (reads [obj []]) (openai_body (reads [obj []]) (hd BUILTIN_PROVIDERS) ''m'' demo_chat True)") simp_all
qed

end
