(* ===== verification/OllamaApi.thy ===== *)
theory OllamaApi
  imports ApiServer
begin

section \<open>The Ollama-compatible server\<close>

text \<open>
  \<open>crates/hivebear-cli/src/api/ollama.rs\<close>: the requests, the handlers for chat, generation, listing, showing and deleting, and
  the lines of their streams.  A stream is the list of the lines of newline-delimited JSON.  The answers of the registry are
  arguments.
\<close>

subsection \<open>Requests\<close>

record ollama_options =
  oo_temperature :: f32
  oo_top_p :: "f32 option"
  oo_num_predict :: "u32 option"

text \<open>
  The struct derives \<open>Default\<close>, which gives every field the default of its type; \<open>default_temperature\<close> is the default of the
  field when an object of options lacks it.
\<close>

definition default_options :: ollama_options where
  "default_options = \<lparr>oo_temperature = Fin 0, oo_top_p = None, oo_num_predict = None\<rparr>"

definition ollama_default_temperature :: f32 where "ollama_default_temperature = lit32 (7 / 10)"

definition options_of :: "cloud_lib \<Rightarrow> json \<Rightarrow> ollama_options option" where
  "options_of lib v =
    (if as_object v = None then None
     else Option.bind (default_field (read_float lib) ollama_default_temperature ''temperature'' v) (\<lambda>t.
       Option.bind (opt_field (read_float lib) ''top_p'' v) (\<lambda>p.
         map_option (\<lambda>n. \<lparr>oo_temperature = t, oo_top_p = p, oo_num_predict = n\<rparr>) (opt_field as_u32 ''num_predict'' v))))"

record ollama_chat_request =
  oc_model :: string
  oc_messages :: "(string \<times> string) list"
  oc_stream :: bool
  oc_options :: ollama_options

definition role_message_of :: "json \<Rightarrow> (string \<times> string) option" where
  "role_message_of v = Option.bind (get_str ''role'' v) (\<lambda>r. map_option (Pair r) (get_str ''content'' v))"

definition ollama_chat_of :: "cloud_lib \<Rightarrow> json \<Rightarrow> ollama_chat_request option" where
  "ollama_chat_of lib v =
    Option.bind (get_str ''model'' v) (\<lambda>m. Option.bind (field (as_list role_message_of) ''messages'' v) (\<lambda>ms.
      Option.bind (default_field as_bool True ''stream'' v) (\<lambda>s.
        map_option (\<lambda>opts. \<lparr>oc_model = m, oc_messages = ms, oc_stream = s, oc_options = opts\<rparr>)
          (default_field (options_of lib) default_options ''options'' v))))"

record ollama_generate_request =
  og_model :: string
  og_prompt :: string
  og_stream :: bool
  og_options :: ollama_options

definition ollama_generate_of :: "cloud_lib \<Rightarrow> json \<Rightarrow> ollama_generate_request option" where
  "ollama_generate_of lib v =
    Option.bind (get_str ''model'' v) (\<lambda>m. Option.bind (get_str ''prompt'' v) (\<lambda>p.
      Option.bind (default_field as_bool True ''stream'' v) (\<lambda>s.
        map_option (\<lambda>opts. \<lparr>og_model = m, og_prompt = p, og_stream = s, og_options = opts\<rparr>)
          (default_field (options_of lib) default_options ''options'' v))))"

fun ollama_message :: "string \<times> string \<Rightarrow> chat_message" where
  "ollama_message (role, content) =
    (if role = ''system'' then System content else if role = ''assistant'' then assistant content else user_text content)"

definition ollama_request :: "string \<Rightarrow> ollama_options \<Rightarrow> chat_message list \<Rightarrow> generate_request" where
  "ollama_request model opts ms = default_request
    \<lparr>gr_messages := ms, max_tokens := or_default 2048 (oo_num_predict opts),
     sampling := default_sampling\<lparr>temperature := oo_temperature opts, top_p := or_default (lit32 (9 / 10)) (oo_top_p opts)\<rparr>,
     gr_model_name := Some model\<rparr>"

subsection \<open>Chat and generation\<close>

definition ollama_error :: "string \<Rightarrow> api_reply" where
  "ollama_error e = Reply 500 (obj [(''error'', JString e)])"

definition chat_line :: "string \<Rightarrow> string \<Rightarrow> bool \<Rightarrow> json" where
  "chat_line model content is_done = JObject [(''model'', JString model),
     (''message'', JObject [(''role'', JString ''assistant''), (''content'', JString content)]), (''done'', JBool is_done)]"

definition generate_line :: "string \<Rightarrow> string \<Rightarrow> bool \<Rightarrow> json" where
  "generate_line model content is_done =
     JObject [(''model'', JString model), (''response'', JString content), (''done'', JBool is_done)]"

definition ndjson_lines :: "(string \<Rightarrow> bool \<Rightarrow> json) \<Rightarrow> (inference_error, token) result list \<Rightarrow> string list" where
  "ndjson_lines line items =
    map (\<lambda>r. show_json (case r of Inr t \<Rightarrow> line (tok_text t) False | Inl e \<Rightarrow> line [] True)) items @ [show_json (line [] True)]"

definition only_text :: "generate_response \<Rightarrow> string" where
  "only_text r = (case r of RespText t \<Rightarrow> t | _ \<Rightarrow> [])"

definition ollama_answer :: "serve_world \<Rightarrow> (string \<Rightarrow> bool \<Rightarrow> json) \<Rightarrow> bool \<Rightarrow> generate_request \<Rightarrow> model_handle \<Rightarrow> app_state \<Rightarrow> api_reply" where
  "ollama_answer w line stream req h st =
    (if stream then (case orch_stream (sw_up w) (\<lambda>b. sw_stream w b req) h (as_orchestrator st) of
         Inr items \<Rightarrow> Events (ndjson_lines line items)
       | Inl e \<Rightarrow> ollama_error (show_inference_error e))
     else (case orch_generate (sw_up w) (\<lambda>b. sw_generate w b req) h (as_orchestrator st) of
         Inr r \<Rightarrow> Reply 200 (line (only_text r) True)
       | Inl e \<Rightarrow> ollama_error (show_inference_error e)))"

definition ollama_serve :: "serve_world \<Rightarrow> string \<Rightarrow> (string \<Rightarrow> bool \<Rightarrow> json) \<Rightarrow> bool \<Rightarrow> generate_request \<Rightarrow> app_state \<Rightarrow>
    app_state \<times> api_reply option" where
  "ollama_serve w model line stream req st =
    (case resolve_model (sw_resolve w) model st of
       (st', None) \<Rightarrow> (st', None)
     | (st', Some (Inl e)) \<Rightarrow> (st', Some (ollama_error e))
     | (st', Some (Inr h)) \<Rightarrow> (st', Some (ollama_answer w line stream req h st')))"

definition ollama_chat :: "serve_world \<Rightarrow> ollama_chat_request \<Rightarrow> app_state \<Rightarrow> app_state \<times> api_reply option" where
  "ollama_chat w r = ollama_serve w (oc_model r) (chat_line (oc_model r)) (oc_stream r)
     (ollama_request (oc_model r) (oc_options r) (map ollama_message (oc_messages r)))"

definition ollama_generate :: "serve_world \<Rightarrow> ollama_generate_request \<Rightarrow> app_state \<Rightarrow> app_state \<times> api_reply option" where
  "ollama_generate w r = ollama_serve w (og_model r) (generate_line (og_model r)) (og_stream r)
     (ollama_request (og_model r) (og_options r) [user_text (og_prompt r)])"

subsection \<open>Listing, showing and deleting\<close>

text \<open>The details of a model; \<open>installed\<close> lists the ids and sizes of the registry.\<close>

definition hivebear_details :: json where
  "hivebear_details = JObject [(''format'', JString ''gguf''), (''family'', JString ''hivebear'')]"

definition model_info_json :: "string \<Rightarrow> u64 \<Rightarrow> json" where
  "model_info_json name n = JObject [(''name'', JString name), (''model'', JString name), (''size'', JNumber (show_nat (unat n))),
     (''details'', hivebear_details)]"

definition add_installed :: "string \<times> u64 option \<Rightarrow> (string \<times> u64) list \<Rightarrow> (string \<times> u64) list" where
  "add_installed m listed = (case m of (i, n) \<Rightarrow>
     if list_ex (\<lambda>(name, _). name = i) listed then listed else listed @ [(i, or_default 0 n)])"

definition tagged_models :: "(string \<times> u64 option) list \<Rightarrow> string list \<Rightarrow> app_state \<Rightarrow> (string \<times> u64) list" where
  "tagged_models installed order st =
    (let loaded = map (\<lambda>(name, h). (name, 0)) (entries order (as_models st)) in
     if as_registry st then fold add_installed installed loaded else loaded)"

definition ollama_tags :: "(string \<times> u64 option) list \<Rightarrow> string list \<Rightarrow> app_state \<Rightarrow> api_reply" where
  "ollama_tags installed order st = Reply 200 (JObject [(''models'',
     JArray (map (\<lambda>(name, n). model_info_json name n) (tagged_models installed order st)))])"

definition ollama_ps :: "string list \<Rightarrow> app_state \<Rightarrow> api_reply" where
  "ollama_ps order st = Reply 200 (JObject [(''models'', JArray (map (\<lambda>(name, h). model_info_json name 0) (entries order (as_models st))))])"

text \<open>
  \<open>orch_unload\<close> answers for the handle that was removed; a failure is only logged.  \<open>removed\<close> is the answer of the registry.
\<close>

definition unload_named :: "(backend \<Rightarrow> bool) \<Rightarrow> (backend \<Rightarrow> (inference_error, unit) result) \<Rightarrow> string \<Rightarrow> app_state \<Rightarrow> app_state" where
  "unload_named up answer name st = (case as_models st name of
     None \<Rightarrow> st
   | Some h \<Rightarrow> st\<lparr>as_models := (as_models st)(name := None),
       as_orchestrator := fst (orch_unload up answer h (as_orchestrator st))\<rparr>)"

definition ollama_delete :: "(backend \<Rightarrow> bool) \<Rightarrow> (backend \<Rightarrow> (inference_error, unit) result) \<Rightarrow> (string, u64) result \<Rightarrow> string \<Rightarrow>
    app_state \<Rightarrow> app_state \<times> api_reply" where
  "ollama_delete up answer removed name st =
    (let st' = unload_named up answer name st in
     if \<not> as_registry st then (st', ollama_error ''Registry not available for model deletion'')
     else (case removed of
       Inr freed \<Rightarrow> (st', Reply 200 JNull)
     | Inl e \<Rightarrow> (st', ollama_error (''Failed to delete '' @ tick @ name @ tick @ '': '' @ e))))"

text \<open>\<open>format!("{:?}").to_lowercase()\<close> of a format; \<open>found\<close> is the registry's entry with its formats and tags.\<close>

fun format_tag :: "model_format \<Rightarrow> string" where
  "format_tag Gguf = ''gguf''"
| "format_tag Onnx = ''onnx''"
| "format_tag FormatMlx = ''mlx''"
| "format_tag SafeTensors = ''safetensors''"

definition show_reply :: "string \<Rightarrow> string \<Rightarrow> string \<Rightarrow> api_reply" where
  "show_reply i fmt family = Reply 200 (JObject [(''modelfile'', JString (''FROM '' @ i)),
     (''details'', JObject [(''format'', JString fmt), (''family'', JString family)])])"

definition ollama_show :: "(string \<times> model_format list \<times> string list) option \<Rightarrow> string \<Rightarrow> app_state \<Rightarrow> api_reply" where
  "ollama_show found name st =
    (case (if as_registry st then found else None) of
       Some (i, fmts, tags) \<Rightarrow> show_reply i (case fmts of f # fs \<Rightarrow> format_tag f | [] \<Rightarrow> ''gguf'')
         (case tags of t # ts \<Rightarrow> t | [] \<Rightarrow> ''hivebear'')
     | None \<Rightarrow> show_reply name ''gguf'' ''hivebear'')"

subsection \<open>Pulling\<close>

definition pull_status :: "string \<Rightarrow> string option \<Rightarrow> u64 option \<Rightarrow> u64 option \<Rightarrow> json" where
  "pull_status s digest tot completed = JObject ([(''status'', JString s)] @ skip_none ''digest'' (map_option JString digest) @
     skip_none ''total'' (map_option (\<lambda>n. JNumber (show_nat (unat n))) tot) @
     skip_none ''completed'' (map_option (\<lambda>n. JNumber (show_nat (unat n))) completed))"

definition plain_status :: "string \<Rightarrow> json" where "plain_status s = pull_status s None None None"

text \<open>
  The two tasks of a streaming pull send into one channel: the first announces the pull, the second relays the progress of the
  installation, from which a full channel drops items, and reports the result.  \<open>relayed\<close> are the items of the progress that
  were not dropped.
\<close>

definition announcement :: "string \<Rightarrow> string list" where
  "announcement name = map (show_json \<circ> plain_status) [''pulling manifest'', ''downloading '' @ name]"

definition installation :: "(u64 option \<times> u64) list \<Rightarrow> (string, unit) result \<Rightarrow> string list" where
  "installation relayed outcome =
    map (\<lambda>(tot, n). show_json (pull_status ''downloading'' (Some ''sha256:downloading'') tot (Some n))) relayed @
    [show_json (plain_status (case outcome of Inr _ \<Rightarrow> ''success'' | Inl e \<Rightarrow> ''error: '' @ e))]"

datatype pull_reply = PullReply api_reply | PullStream "string list set"

definition ollama_pull :: "bool \<Rightarrow> (u64 option \<times> u64) list \<Rightarrow> (string, unit) result \<Rightarrow> string \<Rightarrow> bool \<Rightarrow> app_state \<Rightarrow> pull_reply" where
  "ollama_pull installed relayed outcome name stream st =
    (if \<not> as_registry st then PullReply (ollama_error ''Registry not available for model downloads'')
     else if installed then
       (if stream then PullReply (Events [show_json (plain_status ''success'')]) else PullReply (Reply 200 (plain_status ''success'')))
     else if \<not> stream then
       (case outcome of
          Inr _ \<Rightarrow> PullReply (Reply 200 (plain_status ''success''))
        | Inl e \<Rightarrow> PullReply (ollama_error (''Pull failed: '' @ e)))
     else PullStream (shuffles (announcement name) (installation relayed outcome)))"

subsection \<open>What a client sees\<close>

text \<open>
  Without options the temperature is zero.  A request that leaves \<open>options\<close> out is not the same as one with empty options:
  the first is answered greedily, the second with the default temperature.
\<close>

theorem missing_options_are_greedy:
  "map_option (\<lambda>r. temperature (sampling (ollama_request (oc_model r) (oc_options r) [])))
     (ollama_chat_of lib (obj [(''model'', JString m), (''messages'', JArray [])])) = Some (Fin 0) \<and>
   map_option (\<lambda>r. temperature (sampling (ollama_request (oc_model r) (oc_options r) [])))
     (ollama_chat_of lib (obj [(''model'', JString m), (''messages'', JArray []), (''options'', obj [])])) = Some ollama_default_temperature \<and>
   ollama_default_temperature \<noteq> Fin 0"
proof -
  have "ollama_default_temperature \<noteq> Fin 0" by code_simp
  moreover have "as_object (obj []) \<noteq> None" by (simp add: obj_def)
  ultimately show ?thesis
    by (simp add: ollama_chat_of_def field_def as_list_def default_field_def default_options_def options_of_def
        opt_field_def ollama_request_def default_request_def default_sampling_def)
qed

text \<open>
  The lines of a stream are one line for each item of the backend and a last one, and they say \<open>done\<close> exactly for an error and at
  the end; the texts are those of the tokens in order.  After an error there are at least two lines that say \<open>done\<close>, and none
  says what went wrong.
\<close>

theorem ndjson_stream_lines:
  "ndjson_lines (chat_line m) items = map show_json (map (\<lambda>r. case r of Inr t \<Rightarrow> chat_line m (tok_text t) False | Inl e \<Rightarrow> chat_line m [] True) items @ [chat_line m [] True]) \<and>
   length (filter (\<lambda>l. l = show_json (chat_line m [] True)) (ndjson_lines (chat_line m) items)) = Suc (length (filter isl items))"
proof
  show "ndjson_lines (chat_line m) items = map show_json (map (\<lambda>r. case r of Inr t \<Rightarrow> chat_line m (tok_text t) False | Inl e \<Rightarrow> chat_line m [] True) items @ [chat_line m [] True])"
    by (auto simp: ndjson_lines_def split: sum.split)
  have "rev (show_json (chat_line m t False)) \<noteq> rev (show_json (chat_line m [] True))" for t
    by (simp add: chat_line_def)
  then have "show_json (chat_line m t False) \<noteq> show_json (chat_line m [] True)" for t by metis
  then show "length (filter (\<lambda>l. l = show_json (chat_line m [] True)) (ndjson_lines (chat_line m) items)) = Suc (length (filter isl items))"
    by (induction items) (auto simp: ndjson_lines_def split: sum.split)
qed

text \<open>The lines of a pull race: the result of the installation can be the first line of the stream, before the announcement.\<close>

lemma pull_result_can_come_first:
  assumes "as_registry st" and "ollama_pull False relayed outcome name True st = PullStream runs"
  shows "installation relayed outcome @ announcement name \<in> runs"
proof -
  have "ys @ xs \<in> shuffles xs ys" for xs ys :: "string list"
  proof (induction ys)
    case (Cons y ys)
    then show ?case by (cases xs) (auto intro: Cons_in_shuffles_rightI)
  qed simp
  then show ?thesis using assms by (auto simp: ollama_pull_def)
qed

end
