(* ===== verification/ServerState.thy ===== *)
theory ServerState
  imports OllamaApi
begin

section \<open>Requests of the server side by side\<close>

text \<open>
  The handlers of \<open>ApiServer\<close> and \<open>OllamaApi\<close> share the orchestrator and the map of the models.  A request for a model that is not
  loaded looks the name up, loads the model, and inserts its handle, and other requests run in between: the steps below are
  the parts between which the server can switch.  A handle that is loaded and not yet inserted is pending.
\<close>

record serving =
  sv_app :: app_state
  sv_pending :: "(string \<times> model_handle) list"

definition live :: "app_state \<Rightarrow> model_handle \<Rightarrow> bool" where
  "live st h \<longleftrightarrow> handle_backends (as_orchestrator st) (handle_id h) \<noteq> None"

text \<open>\<open>ModelHandle::new\<close> counts: a handle that a backend makes has an id that no loaded model has.\<close>

definition new_handles :: "resolve_world \<Rightarrow> app_state \<Rightarrow> bool" where
  "new_handles w st \<longleftrightarrow> (\<forall>i. handle_backends (as_orchestrator st) i \<noteq> None \<longrightarrow> fresh_answers i (rw_load w))"

inductive server_step :: "serving \<Rightarrow> serving \<Rightarrow> bool" where
  loaded: "new_handles w (sv_app s) \<Longrightarrow> load_named w name (sv_app s) = (st', Some (Inr h)) \<Longrightarrow>
    server_step s (s\<lparr>sv_app := st', sv_pending := sv_pending s @ [(name, h)]\<rparr>)"
| not_loaded: "new_handles w (sv_app s) \<Longrightarrow> load_named w name (sv_app s) = (st', r) \<Longrightarrow> (case r of Some (Inr h) \<Rightarrow> False | _ \<Rightarrow> True) \<Longrightarrow>
    server_step s (s\<lparr>sv_app := st'\<rparr>)"
| inserted: "i < length (sv_pending s) \<Longrightarrow> sv_pending s ! i = (name, h) \<Longrightarrow>
    server_step s (s\<lparr>sv_app := insert_model name h (sv_app s), sv_pending := remove_at i (sv_pending s)\<rparr>)"
| deleted: "server_step s (s\<lparr>sv_app := fst (ollama_delete up answer removed name (sv_app s))\<rparr>)"

inductive_cases server_stepE: "server_step s s'"

text \<open>Every handle that is served or about to be is live, and no two of them have the same id.\<close>

definition served_live :: "serving \<Rightarrow> bool" where
  "served_live s \<longleftrightarrow>
     (\<forall>n h. as_models (sv_app s) n = Some h \<longrightarrow> live (sv_app s) h) \<and>
     (\<forall>n h. (n, h) \<in> set (sv_pending s) \<longrightarrow> live (sv_app s) h) \<and>
     (\<forall>n h n' h'. as_models (sv_app s) n = Some h \<longrightarrow> as_models (sv_app s) n' = Some h' \<longrightarrow> handle_id h = handle_id h' \<longrightarrow> n = n') \<and>
     distinct (map (handle_id \<circ> snd) (sv_pending s)) \<and>
     (\<forall>n h n' h'. as_models (sv_app s) n = Some h \<longrightarrow> (n', h') \<in> set (sv_pending s) \<longrightarrow> handle_id h \<noteq> handle_id h')"

lemma served_liveI:
  assumes "\<And>n h. as_models (sv_app s) n = Some h \<Longrightarrow> live (sv_app s) h"
    and "\<And>n h. (n, h) \<in> set (sv_pending s) \<Longrightarrow> live (sv_app s) h"
    and "\<And>n h n' h'. as_models (sv_app s) n = Some h \<Longrightarrow> as_models (sv_app s) n' = Some h' \<Longrightarrow> handle_id h = handle_id h' \<Longrightarrow> n = n'"
    and "distinct (map (handle_id \<circ> snd) (sv_pending s))"
    and "\<And>n h n' h'. as_models (sv_app s) n = Some h \<Longrightarrow> (n', h') \<in> set (sv_pending s) \<Longrightarrow> handle_id h \<noteq> handle_id h'"
  shows "served_live s"
  unfolding served_live_def using assms by blast

lemma served_liveD:
  assumes "served_live s"
  shows "as_models (sv_app s) n = Some h \<Longrightarrow> live (sv_app s) h"
    and "(n, h) \<in> set (sv_pending s) \<Longrightarrow> live (sv_app s) h"
    and "as_models (sv_app s) n = Some h \<Longrightarrow> as_models (sv_app s) n' = Some h' \<Longrightarrow> handle_id h = handle_id h' \<Longrightarrow> n = n'"
    and "distinct (map (handle_id \<circ> snd) (sv_pending s))"
    and "as_models (sv_app s) n = Some h \<Longrightarrow> (n', h') \<in> set (sv_pending s) \<Longrightarrow> handle_id h \<noteq> handle_id h'"
  using assms unfolding served_live_def by blast+

lemma load_on_answer: "load_on w b cfg path st = (st1, Inr (h, c)) \<Longrightarrow> \<exists>b' cfg'. load_answer w b' cfg' = Inr h"
  by (auto simp: load_on_def Let_def split: sum.splits option.splits)

lemma orch_load_answer: "orch_load w path cfg st = (st1, Some (Inr (h, c))) \<Longrightarrow> \<exists>b' cfg'. load_answer w b' cfg' = Inr h"
  by (auto simp: orch_load_def map_prod_def dest: load_on_answer split: option.splits sum.splits prod.splits)

lemma load_cloud_effect:
  assumes "load_cloud w name st = (st1, r)"
  shows "fresh_answers i w \<Longrightarrow> handle_backends st1 i = handle_backends st i"
    and "r = Inr (h, c) \<Longrightarrow> handle_backends st1 (handle_id h) \<noteq> None \<and> (\<exists>b' cfg'. load_answer w b' cfg' = Inr h)"
  using assms by (fastforce simp: load_cloud_def fresh_answers_def split: option.splits sum.splits)+

lemma load_named_effect:
  assumes "load_named w name st = (st', r)"
  shows "as_models st' = as_models st" and "as_registry st' = as_registry st"
    and "fresh_answers i (rw_load w) \<Longrightarrow> handle_backends (as_orchestrator st') i = handle_backends (as_orchestrator st) i"
    and "r = Some (Inr h) \<Longrightarrow> live st' h \<and> (\<exists>b cfg. load_answer (rw_load w) b cfg = Inr h)"
proof -
  consider (cloud) o' q where "load_cloud (rw_load w) name (as_orchestrator st) = (o', q)" "st' = st\<lparr>as_orchestrator := o'\<rparr>"
      "r = Some (case q of Inr (h, b) \<Rightarrow> Inr h | Inl e \<Rightarrow> Inl (''Cloud model '' @ tick @ name @ tick @ '': '' @ show_inference_error e))"
    | (none) e where "st' = st" "r = Some (Inl e)"
    | (disk) path o' q where "orch_load (rw_load w) path server_load_config (as_orchestrator st) = (o', q)" "st' = st\<lparr>as_orchestrator := o'\<rparr>"
      "r = map_option (\<lambda>q. case q of Inr (h, b) \<Rightarrow> Inr h | Inl e \<Rightarrow> Inl (''Failed to load model '' @ tick @ name @ tick @ '': '' @ show_inference_error e)) q"
    using assms by (fastforce simp: load_named_def split: if_splits sum.splits option.splits prod.splits)
  note cases = this
  show "as_models st' = as_models st" "as_registry st' = as_registry st" by (cases rule: cases; simp)+
  show "handle_backends (as_orchestrator st') i = handle_backends (as_orchestrator st) i" if "fresh_answers i (rw_load w)"
  proof (cases rule: cases)
    case cloud
    then show ?thesis using load_cloud_effect(1) [OF cloud(1) that] by simp
  next
    case disk
    then show ?thesis using keep_load(1) [OF that, of path server_load_config "as_orchestrator st"] by simp
  qed simp
  show "live st' h \<and> (\<exists>b cfg. load_answer (rw_load w) b cfg = Inr h)" if res: "r = Some (Inr h)"
  proof (cases rule: cases)
    case cloud
    then show ?thesis using res load_cloud_effect(2) [OF cloud(1)] by (auto simp: live_def split: sum.splits prod.splits)
  next
    case disk
    then obtain c where "q = Some (Inr (h, c))" using res disk(3) by (cases q) (auto split: sum.splits prod.splits)
    then show ?thesis using disk(1,2) orch_load_result(1) orch_load_answer by (fastforce simp: live_def)
  qed (use res in simp)
qed

lemma delete_effect:
  "as_models (fst (ollama_delete up answer removed name st)) = (as_models st)(name := None)"
  "(case as_models st name of Some h \<Rightarrow> handle_id h \<noteq> i | None \<Rightarrow> True) \<Longrightarrow>
     handle_backends (as_orchestrator (fst (ollama_delete up answer removed name st))) i = handle_backends (as_orchestrator st) i"
  by (auto simp: ollama_delete_def Let_def unload_named_def orch_unload_def fun_upd_idem split: option.splits sum.splits)

lemma distinct_map_remove_at:
  assumes "i < length xs" and "xs ! i = x" and "distinct (map f xs)"
  shows "distinct (map f (remove_at i xs))" and "y \<in> set (remove_at i xs) \<Longrightarrow> f y \<noteq> f x"
proof -
  have "mset xs = add_mset x (mset (remove_at i xs))"
    using mset_remove_at [OF assms(1)] assms(1,2) by (metis insert_DiffM nth_mem set_mset_mset)
  then have "mset (map f xs) = mset (f x # map f (remove_at i xs))" by simp
  then have "distinct (f x # map f (remove_at i xs))" using assms(3) by (metis mset_eq_imp_distinct_iff)
  then show "distinct (map f (remove_at i xs))" and "y \<in> set (remove_at i xs) \<Longrightarrow> f y \<noteq> f x" by (auto simp: image_iff)
qed

lemma served_live_insert:
  assumes inv: "served_live s" and i: "i < length (sv_pending s)" "sv_pending s ! i = (name, h)"
  shows "served_live (s\<lparr>sv_app := insert_model name h (sv_app s), sv_pending := remove_at i (sv_pending s)\<rparr>)" (is "served_live ?s")
proof (rule served_liveI)
  have l: "live (insert_model name h (sv_app s)) = live (sv_app s)" by (simp add: live_def insert_model_def fun_eq_iff)
  have m: "as_models (sv_app ?s) n = Some g \<Longrightarrow> (n = name \<and> g = h) \<or> (n \<noteq> name \<and> as_models (sv_app s) n = Some g)" for n g
    by (auto simp: insert_model_def split: if_splits)
  have h: "(name, h) \<in> set (sv_pending s)" using nth_mem [OF i(1)] i(2) by simp
  have sub: "(n, g) \<in> set (sv_pending ?s) \<Longrightarrow> (n, g) \<in> set (sv_pending s)" for n g
    using set_remove_at_subset [of i "sv_pending s"] by auto
  note d = distinct_map_remove_at [OF i served_liveD(4) [OF inv]]
  note inv = served_liveD [OF inv]
  show "live (sv_app ?s) g" if "as_models (sv_app ?s) n = Some g" for n g using m [OF that] inv(1,2) h l by auto
  show "live (sv_app ?s) g" if "(n, g) \<in> set (sv_pending ?s)" for n g using inv(2) [OF sub [OF that]] l by simp
  show "n = n'" if "as_models (sv_app ?s) n = Some g" "as_models (sv_app ?s) n' = Some g'" "handle_id g = handle_id g'" for n n' g g'
    using m [OF that(1)] m [OF that(2)] that(3) inv(3,5) h by metis
  show "distinct (map (handle_id \<circ> snd) (sv_pending ?s))" using d(1) by simp
  show "handle_id g \<noteq> handle_id g'" if "as_models (sv_app ?s) n = Some g" "(n', g') \<in> set (sv_pending ?s)" for n n' g g'
    using m [OF that(1)] inv(5) [OF _ sub [OF that(2)]] d(2) [of "(n', g')"] that(2) by auto
qed

lemma served_live_delete:
  assumes inv: "served_live s"
  shows "served_live (s\<lparr>sv_app := fst (ollama_delete up answer removed name (sv_app s))\<rparr>)" (is "served_live ?s")
proof (rule served_liveI)
  have m: "as_models (sv_app ?s) n = Some g \<Longrightarrow> n \<noteq> name \<and> as_models (sv_app s) n = Some g" for n g
    by (auto simp: delete_effect(1) split: if_splits)
  have keep: "live (sv_app ?s) g" if "live (sv_app s) g" "\<And>h. as_models (sv_app s) name = Some h \<Longrightarrow> handle_id h \<noteq> handle_id g" for g
    using delete_effect(2) [where st = "sv_app s" and name = name and i = "handle_id g" and up = up and answer = answer and removed = removed] that
    by (cases "as_models (sv_app s) name") (simp_all add: live_def)
  note inv = served_liveD [OF inv]
  show "live (sv_app ?s) g" if "as_models (sv_app ?s) n = Some g" for n g
    using keep [of g] m [OF that] inv(1,3) by blast
  show "live (sv_app ?s) g" if "(n, g) \<in> set (sv_pending ?s)" for n g
    using keep [of g] that inv(2,5) by simp
  show "n = n'" if "as_models (sv_app ?s) n = Some g" "as_models (sv_app ?s) n' = Some g'" "handle_id g = handle_id g'" for n n' g g'
    using m [OF that(1)] m [OF that(2)] that(3) inv(3) by blast
  show "distinct (map (handle_id \<circ> snd) (sv_pending ?s))" using inv(4) by simp
  show "handle_id g \<noteq> handle_id g'" if "as_models (sv_app ?s) n = Some g" "(n', g') \<in> set (sv_pending ?s)" for n n' g g'
    using m [OF that(1)] inv(5) [of n g n' g'] that(2) by simp
qed

lemma served_live_load:
  assumes inv: "served_live s" and new: "new_handles w (sv_app s)" and l: "load_named w name (sv_app s) = (st', Some (Inr h))"
  shows "served_live (s\<lparr>sv_app := st', sv_pending := sv_pending s @ [(name, h)]\<rparr>)" (is "served_live ?s")
proof (rule served_liveI)
  note e = load_named_effect [OF l]
  obtain b cfg where ans: "load_answer (rw_load w) b cfg = Inr h" using e(4) by blast
  have keep: "live st' g \<and> handle_id g \<noteq> handle_id h" if "live (sv_app s) g" for g
  proof -
    have f: "fresh_answers (handle_id g) (rw_load w)" using new that by (simp add: live_def new_handles_def)
    then have "handle_id g \<noteq> handle_id h" using ans unfolding fresh_answers_def by metis
    then show ?thesis using e(3) [OF f] that by (simp add: live_def)
  qed
  have h: "live st' h" using e(4) by blast
  note inv = served_liveD [OF inv]
  show "live (sv_app ?s) g" if "as_models (sv_app ?s) n = Some g" for n g
    using that keep [OF inv(1)] by (simp add: e(1))
  show "live (sv_app ?s) g" if "(n, g) \<in> set (sv_pending ?s)" for n g
    using that keep [OF inv(2)] h by auto
  show "n = n'" if "as_models (sv_app ?s) n = Some g" "as_models (sv_app ?s) n' = Some g'" "handle_id g = handle_id g'" for n n' g g'
    using that inv(3) by (simp add: e(1))
  have "handle_id g \<noteq> handle_id h" if "(n, g) \<in> set (sv_pending s)" for n g using keep [OF inv(2) [OF that]] by simp
  then show "distinct (map (handle_id \<circ> snd) (sv_pending ?s))" using inv(4) by (simp add: image_iff) (metis prod.collapse)
  show "handle_id g \<noteq> handle_id g'" if "as_models (sv_app ?s) n = Some g" "(n', g') \<in> set (sv_pending ?s)" for n n' g g'
    using that inv(5) keep [OF inv(1)] by (auto simp: e(1))
qed

lemma served_live_step: "server_step s s' \<Longrightarrow> served_live s \<Longrightarrow> served_live s'"
proof (induction rule: server_step.induct)
  case (loaded w s name st' h)
  then show ?case by (intro served_live_load)
next
  case (inserted i s name h)
  then show ?case by (intro served_live_insert)
next
  case (deleted s up answer removed name)
  then show ?case by (intro served_live_delete)
next
  case (not_loaded w s name st' r)
  note e = load_named_effect [OF not_loaded(2)]
  have "live (sv_app s) g \<Longrightarrow> live st' g" for g
    using not_loaded(1) e(3) [of "handle_id g"] by (auto simp: live_def new_handles_def)
  then show ?case using not_loaded(4) unfolding served_live_def by (simp add: e(1))
qed

text \<open>A server with the cloud engine alone, and a load that answers with handle \<open>i\<close>.\<close>

definition cloud_handle :: "u64 \<Rightarrow> model_handle" where
  "cloud_handle i = \<lparr>handle_id = i, handle_path = ''groq/llama'', handle_engine = Cloud\<rparr>"

definition cloud_world :: "u64 \<Rightarrow> resolve_world" where
  "cloud_world i = \<lparr>rw_load = demo_world\<lparr>load_answer := (\<lambda>b cfg. Inr (cloud_handle i))\<rparr>, rw_resolve = Inl ''not found'', rw_install = Inl ''offline''\<rparr>"

definition cloud_app :: app_state where
  "cloud_app = \<lparr>as_orchestrator = demo_orchestrator\<lparr>registry := [cloud_backend]\<rparr>, as_models = Map.empty, as_registry = False,
     as_api_key = None, as_default_model = None, as_cloud = True\<rparr>"

definition cloud_loaded :: "u64 \<Rightarrow> app_state \<Rightarrow> app_state" where
  "cloud_loaded i st = fst (load_named (cloud_world i) ''groq/llama'' st)"

lemma load_from_cloud:
  assumes "as_cloud st" and "registry (as_orchestrator st) = [cloud_backend]"
  shows "load_named (cloud_world i) ''groq/llama'' st = (cloud_loaded i st, Some (Inr (cloud_handle i)))"
    and "as_cloud (cloud_loaded i st)" and "registry (as_orchestrator (cloud_loaded i st)) = [cloud_backend]"
    and "handle_backends (as_orchestrator (cloud_loaded i st)) = (handle_backends (as_orchestrator st))(i \<mapsto> Cloud)"
    and "as_models (cloud_loaded i st) = as_models st"
proof -
  have c: "is_cloud_model ''groq/llama''" by code_simp
  have g: "get (w_up (rw_load (cloud_world i))) [cloud_backend] Cloud = Some cloud_backend"
    by (simp add: get_def cloud_backend_def cloud_world_def demo_world_def)
  show "load_named (cloud_world i) ''groq/llama'' st = (cloud_loaded i st, Some (Inr (cloud_handle i)))"
    "as_cloud (cloud_loaded i st)" "registry (as_orchestrator (cloud_loaded i st)) = [cloud_backend]"
    "handle_backends (as_orchestrator (cloud_loaded i st)) = (handle_backends (as_orchestrator st))(i \<mapsto> Cloud)"
    "as_models (cloud_loaded i st) = as_models st"
    using assms c g by (simp_all add: cloud_loaded_def load_named_def load_cloud_def)
      (simp_all add: cloud_world_def cloud_backend_def cloud_handle_def)
qed

lemma cloud_app_simps:
  "as_cloud cloud_app" "registry (as_orchestrator cloud_app) = [cloud_backend]" "as_models cloud_app = Map.empty"
  "handle_backends (as_orchestrator cloud_app) = Map.empty"
  by (simp_all add: cloud_app_def demo_orchestrator_def register_backend_def new_orchestrator_def Let_def)

lemmas first_load = load_from_cloud [OF cloud_app_simps(1,2)]
lemmas second_load = load_from_cloud [OF first_load(2,3)]

lemma first_request:
  "server_step \<lparr>sv_app = cloud_app, sv_pending = []\<rparr> \<lparr>sv_app = cloud_loaded 1 cloud_app, sv_pending = [(''groq/llama'', cloud_handle 1)]\<rparr>"
  "server_step \<lparr>sv_app = cloud_loaded 1 cloud_app, sv_pending = [(''groq/llama'', cloud_handle 1)]\<rparr>
     \<lparr>sv_app = insert_model ''groq/llama'' (cloud_handle 1) (cloud_loaded 1 cloud_app), sv_pending = []\<rparr>"
proof -
  have n: "new_handles (cloud_world 1) cloud_app" by (simp add: new_handles_def cloud_app_simps)
  show "server_step \<lparr>sv_app = cloud_app, sv_pending = []\<rparr> \<lparr>sv_app = cloud_loaded 1 cloud_app, sv_pending = [(''groq/llama'', cloud_handle 1)]\<rparr>"
    using server_step.loaded [where s = "\<lparr>sv_app = cloud_app, sv_pending = []\<rparr>" and w = "cloud_world 1", unfolded serving.simps, OF n first_load(1)]
    by simp
  show "server_step \<lparr>sv_app = cloud_loaded 1 cloud_app, sv_pending = [(''groq/llama'', cloud_handle 1)]\<rparr>
     \<lparr>sv_app = insert_model ''groq/llama'' (cloud_handle 1) (cloud_loaded 1 cloud_app), sv_pending = []\<rparr>"
    using server_step.inserted [of 0 "\<lparr>sv_app = cloud_loaded 1 cloud_app, sv_pending = [(''groq/llama'', cloud_handle 1)]\<rparr>"]
    by (simp add: remove_at_def)
qed

lemma first_requests:
  "server_step\<^sup>*\<^sup>* \<lparr>sv_app = cloud_app, sv_pending = []\<rparr>
     \<lparr>sv_app = insert_model ''groq/llama'' (cloud_handle 1) (cloud_loaded 1 cloud_app), sv_pending = []\<rparr>"
  by (rule converse_rtranclp_into_rtranclp [of server_step], rule first_request(1), rule r_into_rtranclp [of server_step], rule first_request(2))

text \<open>
  C21: What the server serves is loaded.  However requests that load models, requests that delete them and requests that fail
  interleave, every name that is served has a handle the orchestrator knows, and no two names share one, so deleting a
  model never unloads another.
\<close>

theorem served_models_are_live:
  assumes "server_step\<^sup>*\<^sup>* s s'" and "as_models (sv_app s) = Map.empty" and "sv_pending s = []"
    and "as_models (sv_app s') name = Some h"
  shows "handle_backends (as_orchestrator (sv_app s')) (handle_id h) \<noteq> None \<and>
    (\<forall>name' h'. as_models (sv_app s') name' = Some h' \<longrightarrow> handle_id h' = handle_id h \<longrightarrow> name' = name)"
proof -
  have "served_live s" using assms(2,3) by (simp add: served_live_def)
  with assms(1) have "served_live s'" by (induction rule: rtranclp_induct) (auto dest: served_live_step)
  then show ?thesis using assms(4) unfolding served_live_def live_def by metis
qed

theorem served_models_are_live_witness:
  "handle_backends (as_orchestrator (insert_model ''groq/llama'' (cloud_handle 1) (cloud_loaded 1 cloud_app))) (handle_id (cloud_handle 1)) \<noteq> None"
proof -
  have m: "as_models (insert_model ''groq/llama'' (cloud_handle 1) (cloud_loaded 1 cloud_app)) ''groq/llama'' = Some (cloud_handle 1)"
    by (simp add: insert_model_def)
  show ?thesis
    using served_models_are_live [OF first_requests, unfolded serving.select_convs, OF cloud_app_simps(3) refl m] by (rule conjunct1)
qed

text \<open>
  C24: Two requests for the same model lose one.  When both find the name not loaded, both load it; the second handle replaces the
  first, and after a deletion that succeeds the first model is still loaded although no name leads to it.
\<close>

theorem concurrent_loads_leak:
  assumes "load_named w1 name st = (st1, Some (Inr h1))" and "load_named w2 name st1 = (st2, Some (Inr h2))"
    and "new_handles w2 st1" and "as_models st name = None"
  shows "as_models (insert_model name h2 (insert_model name h1 st2)) name = Some h2 \<and>
    (let st' = fst (ollama_delete up answer removed name (insert_model name h2 (insert_model name h1 st2)))
     in as_models st' = as_models st \<and> live st' h1)"
proof -
  note e1 = load_named_effect [OF assms(1)] and e2 = load_named_effect [OF assms(2)]
  obtain b cfg where ans: "load_answer (rw_load w2) b cfg = Inr h2" using e2(4) by blast
  have l1: "live st1 h1" using e1(4) by blast
  then have f: "fresh_answers (handle_id h1) (rw_load w2)" using assms(3) by (simp add: live_def new_handles_def)
  then have "live st2 h1" "handle_id h2 \<noteq> handle_id h1"
    using e2(3) l1 ans by (simp add: live_def, unfold fresh_answers_def, metis)
  then have "live (fst (ollama_delete up answer removed name (insert_model name h2 (insert_model name h1 st2)))) h1"
    using delete_effect(2) [where st = "insert_model name h2 (insert_model name h1 st2)" and name = name and i = "handle_id h1"
        and up = up and answer = answer and removed = removed]
    by (simp add: live_def insert_model_def)
  then show ?thesis using assms(4) e1(1) e2(1) by (auto simp: delete_effect(1) insert_model_def Let_def)
qed

theorem concurrent_loads_leak_witness:
  "let st = insert_model ''groq/llama'' (cloud_handle 2) (insert_model ''groq/llama'' (cloud_handle 1) (cloud_loaded 2 (cloud_loaded 1 cloud_app)))
   in as_models st ''groq/llama'' = Some (cloud_handle 2) \<and>
     (let st' = fst (ollama_delete (\<lambda>b. True) (\<lambda>b. Inr ()) (Inr 0) ''groq/llama'' st)
      in as_models st' = Map.empty \<and> live st' (cloud_handle 1))"
proof -
  have "new_handles (cloud_world 2) (cloud_loaded 1 cloud_app)"
    by (simp add: new_handles_def first_load(4) cloud_app_simps fresh_answers_def cloud_world_def cloud_handle_def)
  from concurrent_loads_leak [OF first_load(1) second_load(1) this, of "\<lambda>b. True" "\<lambda>b. Inr ()" "Inr 0"] show ?thesis
    by (simp add: cloud_app_simps Let_def)
qed

end
