(* ===== verification/Grammar.thy ===== *)
theory Grammar
  imports CloudProtocols
begin

section \<open>Grammars for structured output and tool calls\<close>

text \<open>
  \<open>crates/hivebear-inference/src/structured_output.rs\<close> and \<open>tool_calling.rs\<close> print GBNF grammars, the format of llama.cpp.  Here the
  printed rules are values of a syntax with a printer, so that the texts are those of the sources and their languages can be
  stated.  A text is the list of its UTF-8 bytes, and a class matches a byte.  \<open>Lit\<close> and \<open>Key\<close> are texts that the sources put
  between quotes as they are; their language is what is between the quotes if it contains nothing that GBNF escapes.
\<close>

datatype gbnf =
  Nothing
| Lit string
| Key string
| Quote
| Slash
| Blank
| Digit
| StringChar
| AnyChar
| NotNul
| Ref string
| Seq gbnf gbnf
| Alt gbnf gbnf
| Group gbnf
| Star gbnf
| Plus gbnf
| Maybe gbnf
| Times gbnf nat nat

fun show_gbnf :: "gbnf \<Rightarrow> string" where
  "show_gbnf Nothing = []"
| "show_gbnf (Lit s) = quoted s"
| "show_gbnf (Key s) = quoted ([backslash, dquote] @ s @ [backslash, dquote])"
| "show_gbnf Quote = quoted [backslash, dquote]"
| "show_gbnf Slash = quoted [backslash, backslash]"
| "show_gbnf Blank = ''[ '' @ [backslash] @ ''t'' @ [backslash] @ ''n'' @ [backslash] @ ''r]''"
| "show_gbnf Digit = ''[0-9]''"
| "show_gbnf StringChar = ''[^'' @ [dquote, backslash, backslash] @ '']''"
| "show_gbnf AnyChar = ''.''"
| "show_gbnf NotNul = ''[^'' @ [backslash] @ ''x00]''"
| "show_gbnf (Ref n) = n"
| "show_gbnf (Seq a b) = show_gbnf a @ '' '' @ show_gbnf b"
| "show_gbnf (Alt a b) = show_gbnf a @ '' | '' @ show_gbnf b"
| "show_gbnf (Group a) = ''('' @ show_gbnf a @ '')''"
| "show_gbnf (Star a) = show_gbnf a @ ''*''"
| "show_gbnf (Plus a) = show_gbnf a @ ''+''"
| "show_gbnf (Maybe a) = show_gbnf a @ ''?''"
| "show_gbnf (Times a m n) = show_gbnf a @ ''{'' @ show_nat m @ '','' @ show_nat n @ ''}''"

type_synonym rule = "string \<times> gbnf"

definition show_rule :: "rule \<Rightarrow> string" where
  "show_rule r = fst r @ '' ::= '' @ show_gbnf (snd r)"

text \<open>An entry of the vector of rules is a text of one rule or, for an object of any kind, of several.\<close>

type_synonym entry = "rule list"

definition show_entry :: "entry \<Rightarrow> string" where
  "show_entry e = join [newline] (map show_rule e)"

fun seqs :: "gbnf list \<Rightarrow> gbnf" where
  "seqs [] = Nothing"
| "seqs [a] = a"
| "seqs (a # as) = Seq a (seqs as)"

fun alts :: "gbnf list \<Rightarrow> gbnf" where
  "alts [] = Nothing"
| "alts [a] = a"
| "alts (a # as) = Alt a (alts as)"

abbreviation ws :: gbnf where "ws \<equiv> Ref ''ws''"

definition ws_rule :: rule where "ws_rule = (''ws'', Star Blank)"

definition string_body :: gbnf where
  "string_body = seqs [Quote, Star (Group (Alt StringChar (Seq Slash AnyChar))), Quote]"

definition integer_body :: gbnf where
  "integer_body = Seq (Maybe (Lit ''-'')) (Plus Digit)"

definition fraction :: gbnf where
  "fraction = Maybe (Group (Seq (Lit ''.'') (Plus Digit)))"

definition exponent :: gbnf where
  "exponent = Maybe (Group (seqs [Group (Alt (Lit ''e'') (Lit ''E'')), Maybe (Group (Alt (Lit ''+'') (Lit ''-''))), Plus Digit]))"

definition number_body :: gbnf where
  "number_body = seqs [Maybe (Lit ''-''), Plus Digit, fraction, exponent]"

subsection \<open>Schemas (structured\_output.rs)\<close>

definition literal_value :: "json \<Rightarrow> gbnf" where
  "literal_value v = (case as_str v of Some s \<Rightarrow> Key s | None \<Rightarrow> Lit (show_json v))"

definition any_object :: "string \<Rightarrow> entry" where
  "any_object name =
    [(name, seqs [Lit ''{'', ws, Maybe (Group (Seq (Ref ''pair'') (Star (Group (seqs [ws, Lit '','', ws, Ref ''pair'']))))), ws, Lit ''}'']),
     (''pair'', seqs [Ref ''string'', ws, Lit '':'', ws, Ref ''value'']),
     (''value'', alts [Ref ''string'', Ref ''number'', Lit ''true'', Lit ''false'', Lit ''null'']),
     (''string'', string_body),
     (''number'', seqs [Maybe (Lit ''-''), Plus Digit, fraction])]"

definition any_item :: gbnf where
  "any_item = alts [string_body, integer_body, Lit ''true'', Lit ''false'', Lit ''null'']"

definition required_keys :: "json \<Rightarrow> string list" where
  "required_keys schema = (case Option.bind (json_get ''required'' schema) as_array of
     Some vs \<Rightarrow> List.map_filter as_str vs | None \<Rightarrow> [])"

definition property_part :: "string list \<Rightarrow> string \<Rightarrow> string \<Rightarrow> gbnf" where
  "property_part required k rule_name =
    (let pair = seqs [Key k, ws, Lit '':'', ws, Ref rule_name] in if k \<in> set required then pair else Maybe (Group pair))"

fun comma_parts :: "gbnf list \<Rightarrow> gbnf" where
  "comma_parts [] = Nothing"
| "comma_parts [p] = p"
| "comma_parts (p # ps) = Seq p (Seq ws (Seq (Lit '','') (Seq ws (comma_parts ps))))"

definition object_body :: "gbnf list \<Rightarrow> gbnf" where
  "object_body parts = seqs [Lit ''{'', ws, comma_parts parts, ws, Lit ''}'']"

definition array_body :: "string \<Rightarrow> gbnf" where
  "array_body item =
    seqs [Lit ''['', ws, Maybe (Group (Seq (Ref item) (Star (Group (seqs [Lit '','', ws, Ref item]))))), ws, Lit '']'']"

lemma json_get_smaller: "json_get k v = Some w \<Longrightarrow> size w < size v"
proof (cases v)
  case (JObject kvs)
  assume "json_get k v = Some w"
  then have "(k, w) \<in> set kvs" using JObject by (auto dest: map_of_SomeD)
  then have "size w \<le> size_list (size_prod (\<lambda>s. 0) size) kvs"
    by (force intro: size_list_estimation')
  then show ?thesis using JObject by simp
qed simp_all

text \<open>The rule of a schema, and the vector of rules with what was pushed in between.\<close>

function generate_rule :: "json \<Rightarrow> string \<Rightarrow> entry list \<Rightarrow> (string, entry \<times> entry list) result"
  and generate_properties :: "(string \<times> json) list \<Rightarrow> string \<Rightarrow> string list \<Rightarrow> entry list \<Rightarrow> (string, gbnf list \<times> entry list) result" where
  "generate_rule schema name rules =
    (let t = str_or ''string'' (get_str ''type'' schema) in
     case Option.bind (json_get ''enum'' schema) as_array of
       Some vs \<Rightarrow> Inr ([(name, alts (map literal_value vs))], rules)
     | None \<Rightarrow> (case json_get ''const'' schema of
         Some v \<Rightarrow> Inr ([(name, literal_value v)], rules)
       | None \<Rightarrow>
          if t = ''object'' then (case json_get ''properties'' schema of
              None \<Rightarrow> Inr (any_object name, rules)
            | Some props \<Rightarrow> (case props of
                JObject kvs \<Rightarrow> (case generate_properties kvs name (required_keys schema) rules of
                  Inl e \<Rightarrow> Inl e
                | Inr (parts, rules') \<Rightarrow> Inr ([(name, object_body parts)], rules'))
              | _ \<Rightarrow> Inl ''properties must be an object''))
          else if t = ''array'' then (let item = name @ ''-item'' in
            case json_get ''items'' schema of
              Some items \<Rightarrow> (case generate_rule items item rules of
                Inl e \<Rightarrow> Inl e
              | Inr (r, rules') \<Rightarrow> Inr ([(name, array_body item)], rules' @ [r]))
            | None \<Rightarrow> Inr ([(name, array_body item)], rules @ [[(item, any_item)]]))
          else if t = ''string'' then Inr ([(name, string_body)], rules)
          else if t = ''number'' then Inr ([(name, number_body)], rules)
          else if t = ''integer'' then Inr ([(name, integer_body)], rules)
          else if t = ''boolean'' then Inr ([(name, Alt (Lit ''true'') (Lit ''false''))], rules)
          else if t = ''null'' then Inr ([(name, Lit ''null'')], rules)
          else Inl (''Unsupported JSON Schema type: '' @ t)))"
| "generate_properties [] name required rules = Inr ([], rules)"
| "generate_properties ((k, v) # kvs) name required rules =
    (let rule_name = name @ ''-'' @ k in
     case generate_rule v rule_name rules of
       Inl e \<Rightarrow> Inl e
     | Inr (r, rules') \<Rightarrow> (case generate_properties kvs name required (rules' @ [r]) of
         Inl e \<Rightarrow> Inl e
       | Inr (parts, rules'') \<Rightarrow> Inr (property_part required k rule_name # parts, rules'')))"
  by pat_completeness auto
termination
  by (relation "measure (\<lambda>x. case x of Inl (schema, name, rules) \<Rightarrow> size schema | Inr (kvs, name, required, rules) \<Rightarrow> size (JObject kvs))")
    (auto dest: json_get_smaller)

declare generate_rule.simps [simp del]

definition schema_rules :: "json \<Rightarrow> (string, entry list) result" where
  "schema_rules schema = (case generate_rule schema ''root'' [[ws_rule]] of
     Inl e \<Rightarrow> Inl e
   | Inr (r, rules) \<Rightarrow> Inr (r # rules))"

definition json_schema_to_gbnf :: "json \<Rightarrow> (string, string) result" where
  "json_schema_to_gbnf schema = map_sum id (\<lambda>rules. join [newline] (map show_entry rules)) (schema_rules schema)"


subsection \<open>The language of a grammar\<close>

inductive derives :: "(string \<rightharpoonup> gbnf) \<Rightarrow> gbnf \<Rightarrow> string \<Rightarrow> bool" for G where
  nothing: "derives G Nothing []"
| lit: "derives G (Lit s) s"
| key: "derives G (Key s) (quoted s)"
| quote: "derives G Quote [dquote]"
| slash: "derives G Slash [backslash]"
| blank: "c \<in> {CHR '' '', CHR 0x09, newline, carriage} \<Longrightarrow> derives G Blank [c]"
| digit: "is_digit c \<Longrightarrow> derives G Digit [c]"
| string_char: "c \<noteq> dquote \<Longrightarrow> c \<noteq> backslash \<Longrightarrow> derives G StringChar [c]"
| any_char: "derives G AnyChar [c]"
| not_nul: "c \<noteq> CHR 0x00 \<Longrightarrow> derives G NotNul [c]"
| ref: "G n = Some a \<Longrightarrow> derives G a s \<Longrightarrow> derives G (Ref n) s"
| seq: "derives G a s \<Longrightarrow> derives G b t \<Longrightarrow> derives G (Seq a b) (s @ t)"
| alt_left: "derives G a s \<Longrightarrow> derives G (Alt a b) s"
| alt_right: "derives G b s \<Longrightarrow> derives G (Alt a b) s"
| group: "derives G a s \<Longrightarrow> derives G (Group a) s"
| star_none: "derives G (Star a) []"
| star_more: "derives G a s \<Longrightarrow> derives G (Star a) t \<Longrightarrow> derives G (Star a) (s @ t)"
| plus: "derives G a s \<Longrightarrow> derives G (Star a) t \<Longrightarrow> derives G (Plus a) (s @ t)"
| maybe_none: "derives G (Maybe a) []"
| maybe_some: "derives G a s \<Longrightarrow> derives G (Maybe a) s"
| times: "list_all (derives G a) ss \<Longrightarrow> m \<le> length ss \<Longrightarrow> length ss \<le> n \<Longrightarrow> derives G (Times a m n) (concat ss)"
monos list.pred_mono_strong

inductive_simps derives_simps [simp]:
  "derives G Nothing s" "derives G (Lit t) s" "derives G (Key t) s" "derives G Quote s" "derives G Slash s" "derives G Blank s"
  "derives G Digit s" "derives G StringChar s" "derives G AnyChar s" "derives G NotNul s" "derives G (Alt a b) s" "derives G (Group a) s"
  "derives G (Maybe a) s" "derives G (Ref n) s"

inductive_simps derives_seq_iff: "derives G (Seq a b) s"

lemma derives_star: "list_all (derives G a) ss \<Longrightarrow> derives G (Star a) (concat ss)"
  by (induction ss) (auto intro: derives.intros)

lemma derives_seqs: "list_all2 (derives G) as ss \<Longrightarrow> derives G (seqs as) (concat ss)"
proof (induction as arbitrary: ss rule: seqs.induct)
  case (2 a)
  then show ?case by (auto simp: list_all2_Cons1)
next
  case (3 a b as)
  then obtain s t where "ss = s # t" "derives G a s" "list_all2 (derives G) (b # as) t" by (cases ss) auto
  then show ?case using "3.IH" by (auto intro: derives.seq)
qed simp

lemma derives_alts: "a \<in> set as \<Longrightarrow> derives G a s \<Longrightarrow> derives G (alts as) s"
  by (induction as rule: alts.induct) auto


subsection \<open>Values of a schema\<close>

definition plain :: "string \<Rightarrow> bool" where "plain s \<longleftrightarrow> list_all (\<lambda>c. escape_char c = [c]) s"

definition digits :: "string \<Rightarrow> bool" where "digits s \<longleftrightarrow> s \<noteq> [] \<and> list_all is_digit s"

fun strip_sign :: "string \<Rightarrow> string" where
  "strip_sign (c # s) = (if c = CHR ''-'' then s else c # s)"
| "strip_sign [] = []"

fun exponent_text :: "string \<Rightarrow> bool" where
  "exponent_text [] = True"
| "exponent_text [c] = False"
| "exponent_text (c # d # s) = ((c = CHR ''e'' \<or> c = CHR ''E'') \<and> digits (if d = CHR ''+'' \<or> d = CHR ''-'' then s else d # s))"

fun fraction_text :: "(string \<Rightarrow> bool) \<Rightarrow> string \<Rightarrow> bool" where
  "fraction_text tail_ok [] = tail_ok []"
| "fraction_text tail_ok (c # s) =
    (if c = CHR ''.'' then takeWhile is_digit s \<noteq> [] \<and> tail_ok (dropWhile is_digit s) else tail_ok (c # s))"

definition number_text :: "string \<Rightarrow> bool" where
  "number_text t \<longleftrightarrow> takeWhile is_digit (strip_sign t) \<noteq> [] \<and> fraction_text exponent_text (dropWhile is_digit (strip_sign t))"

definition short_number :: "string \<Rightarrow> bool" where
  "short_number t \<longleftrightarrow> takeWhile is_digit (strip_sign t) \<noteq> [] \<and> fraction_text (\<lambda>r. r = []) (dropWhile is_digit (strip_sign t))"

fun scalar :: "(string \<Rightarrow> bool) \<Rightarrow> json \<Rightarrow> bool" where
  "scalar num_ok (JNumber t) = num_ok t"
| "scalar num_ok (JArray vs) = False"
| "scalar num_ok (JObject kvs) = False"
| "scalar num_ok _ = True"

text \<open>
  The values a grammar is for: all properties of an object in the order of the schema, and names and literal texts that GBNF and
  JSON leave as they are.
\<close>

function (sequential) conforms :: "json \<Rightarrow> json \<Rightarrow> bool" and conforms_entries :: "(string \<times> json) list \<Rightarrow> (string \<times> json) list \<Rightarrow> bool" where
  "conforms schema v =
    (let t = str_or ''string'' (get_str ''type'' schema) in
     case Option.bind (json_get ''enum'' schema) as_array of
       Some vs \<Rightarrow> v \<in> set vs \<and> plain (case as_str v of Some s \<Rightarrow> s | None \<Rightarrow> show_json v)
     | None \<Rightarrow> (case json_get ''const'' schema of
         Some c \<Rightarrow> v = c \<and> plain (case as_str v of Some s \<Rightarrow> s | None \<Rightarrow> show_json v)
       | None \<Rightarrow> (case v of
           JObject es \<Rightarrow> t = ''object'' \<and> (case json_get ''properties'' schema of
               None \<Rightarrow> list_all (\<lambda>(k, x). scalar short_number x) es
             | Some props \<Rightarrow> (case props of JObject kvs \<Rightarrow> conforms_entries kvs es | _ \<Rightarrow> False))
         | JArray xs \<Rightarrow> t = ''array'' \<and> (case json_get ''items'' schema of
               Some i \<Rightarrow> list_all (conforms i) xs
             | None \<Rightarrow> list_all (scalar (\<lambda>n. digits (strip_sign n))) xs)
         | JString x \<Rightarrow> t = ''string''
         | JNumber x \<Rightarrow> (t = ''number'' \<and> number_text x) \<or> (t = ''integer'' \<and> digits (strip_sign x))
         | JBool b \<Rightarrow> t = ''boolean''
         | JNull \<Rightarrow> t = ''null'')))"
| "conforms_entries [] es = (es = [])"
| "conforms_entries ((k, v) # kvs) [] = False"
| "conforms_entries ((k, v) # kvs) ((k', x) # es) = (k = k' \<and> plain k \<and> conforms v x \<and> conforms_entries kvs es)"
  by pat_completeness auto
termination
  by (relation "measure (\<lambda>x. case x of Inl (schema, v) \<Rightarrow> size schema | Inr (kvs, es) \<Rightarrow> size (JObject kvs))")
    (auto dest: json_get_smaller)

declare conforms.simps [simp del]

lemma plain_string: "plain s \<Longrightarrow> show_json_string s = quoted s"
proof -
  have "plain s \<Longrightarrow> concat (map escape_char s) = s" by (induction s) (simp_all add: plain_def)
  then show "plain s \<Longrightarrow> ?thesis" by (simp add: show_json_string_def)
qed

lemma derives_star_append: "derives G (Star a) s \<Longrightarrow> derives G (Star a) t \<Longrightarrow> derives G (Star a) (s @ t)"
proof (induction "Star a" s rule: derives.induct)
  case (star_more s u)
  then show ?case by (auto intro: derives.star_more)
qed simp

lemma derives_star_concat: "(\<And>x. x \<in> set xs \<Longrightarrow> derives G (Star a) (f x)) \<Longrightarrow> derives G (Star a) (concat (map f xs))"
  by (induction xs) (auto intro: derives.star_none derives_star_append)

lemma derives_star_each: "(\<And>x. x \<in> set xs \<Longrightarrow> derives G a (f x)) \<Longrightarrow> derives G (Star a) (concat (map f xs))"
  by (rule derives_star) (simp add: list_all_iff)

lemma derives_star_chars: "list_all (\<lambda>c. derives G a [c]) s \<Longrightarrow> derives G (Star a) s"
  using derives_star_each [of s G a "\<lambda>c. [c]"] by (simp add: list_all_iff)

lemma derives_string: "derives G string_body (show_json_string s)"
proof -
  let ?a = "Group (Alt StringChar (Seq Slash AnyChar))"
  have pair: "derives G ?a [backslash, c]" for c
    using derives.seq [of G Slash "[backslash]" AnyChar "[c]"] by simp
  have "list_all (\<lambda>n. hex_digit n \<noteq> dquote \<and> hex_digit n \<noteq> backslash) [0..<16]" by code_simp
  then have hex: "hex_digit n \<noteq> dquote \<and> hex_digit n \<noteq> backslash" if "n < 16" for n
    using that by (simp add: list_all_iff)
  have "derives G (Star ?a) (escape_char c)" for c
  proof -
    have one: "derives G ?a s \<Longrightarrow> derives G (Star ?a) s" for s using derives_star [of G ?a "[s]"] by simp
    have u: "derives G (Star ?a) [backslash, CHR ''u'', CHR ''0'', CHR ''0'', hex_digit (of_char c div 16), hex_digit (of_char c mod 16)]"
      if "of_char c < (32 :: nat)"
      using that hex [of "of_char c div 16"] hex [of "of_char c mod 16"]
        derives_star [of G ?a "[[backslash, CHR ''u''], [CHR ''0''], [CHR ''0''], [hex_digit (of_char c div 16)], [hex_digit (of_char c mod 16)]]"] pair
      by (simp add: dquote_def backslash_def)
    show ?thesis using one pair u by (auto simp: escape_char_def Let_def)
  qed
  then have "derives G (Star ?a) (concat (map escape_char s))" by (intro derives_star_concat) simp
  then show ?thesis
    using derives_seqs [of G "[Quote, Star ?a, Quote]" "[[dquote], concat (map escape_char s), [dquote]]"]
    by (simp add: string_body_def show_json_string_def quoted_def)
qed

lemma derives_digits: "list_all is_digit s \<Longrightarrow> derives G (Star Digit) s"
  by (rule derives_star_chars) (simp add: list_all_iff)

lemma derives_plus_digits: "digits s \<Longrightarrow> derives G (Plus Digit) s"
  using derives.plus [of G Digit "[hd s]" "tl s"] derives_digits [of "tl s" G] by (cases s) (auto simp: digits_def)

lemma digits_takeWhile: "takeWhile is_digit s \<noteq> [] \<Longrightarrow> digits (takeWhile is_digit s)"
  by (simp add: digits_def list_all_iff) (metis set_takeWhileD)

lemma derives_sign: "derives G (Maybe (Lit ''-'')) (take (length t - length (strip_sign t)) t)"
  "take (length t - length (strip_sign t)) t @ strip_sign t = t"
  by (cases t; simp)+

lemma derives_exponent: "exponent_text r \<Longrightarrow> derives G exponent r"
proof (cases r rule: exponent_text.cases)
  case (3 c d s)
  assume "exponent_text r"
  then have c: "c = CHR ''e'' \<or> c = CHR ''E''" "digits (if d = CHR ''+'' \<or> d = CHR ''-'' then s else d # s)" using 3 by auto
  let ?es = "[Group (Alt (Lit ''e'') (Lit ''E'')), Maybe (Group (Alt (Lit ''+'') (Lit ''-''))), Plus Digit]"
  have "derives G (seqs ?es) r"
  proof (cases "d = CHR ''+'' \<or> d = CHR ''-''")
    case True
    then show ?thesis using derives_seqs [of G ?es "[[c], [d], s]"] c 3 derives_plus_digits [of s G] by auto
  next
    case False
    then show ?thesis using derives_seqs [of G ?es "[[c], [], d # s]"] c 3 derives_plus_digits [of "d # s" G] by auto
  qed
  then show ?thesis by (simp add: exponent_def)
qed (simp_all add: exponent_def)

lemma fraction_parts:
  assumes "fraction_text tail_ok r"
  obtains f u where "r = f @ u" "derives G fraction f" "tail_ok u"
proof (cases r)
  case (Cons c s)
  show ?thesis
  proof (cases "c = CHR ''.''")
    case True
    let ?d = "takeWhile is_digit s"
    have d: "?d \<noteq> []" "tail_ok (dropWhile is_digit s)" using assms Cons True by auto
    have "derives G (Seq (Lit ''.'') (Plus Digit)) (''.'' @ ?d)"
      using derives_plus_digits [OF digits_takeWhile [OF d(1)], of G] by (intro derives.seq) simp_all
    then have "derives G fraction (c # ?d)" using True by (simp add: fraction_def)
    then show ?thesis using that [of "c # ?d" "dropWhile is_digit s"] d(2) Cons by simp
  next
    case False
    then show ?thesis using that [of "[]" r] assms Cons by (simp add: fraction_def)
  qed
qed (use assms that [of "[]" "[]"] in \<open>simp add: fraction_def\<close>)

lemma derives_number:
  assumes "number_text t" shows "derives G number_body t"
proof -
  let ?u = "strip_sign t"
  have d: "takeWhile is_digit ?u \<noteq> []" "fraction_text exponent_text (dropWhile is_digit ?u)" using assms by (auto simp: number_text_def)
  obtain f r where f: "dropWhile is_digit ?u = f @ r" "derives G fraction f" "exponent_text r" using d(2) by (rule fraction_parts)
  have "derives G number_body (concat [take (length t - length ?u) t, takeWhile is_digit ?u, f, r])"
    using derives_sign(1) derives_plus_digits [OF digits_takeWhile [OF d(1)]] f(2) derives_exponent [OF f(3)]
    unfolding number_body_def by (intro derives_seqs) simp
  then show ?thesis using derives_sign(2) [of t] f(1) takeWhile_dropWhile_id [of is_digit ?u] by simp
qed

lemma derives_short_number:
  assumes "short_number t" shows "derives G (seqs [Maybe (Lit ''-''), Plus Digit, fraction]) t"
proof -
  let ?u = "strip_sign t"
  have d: "takeWhile is_digit ?u \<noteq> []" "fraction_text (\<lambda>r. r = []) (dropWhile is_digit ?u)" using assms by (auto simp: short_number_def)
  obtain f r where f: "dropWhile is_digit ?u = f @ r" "derives G fraction f" "r = []" using d(2) by (rule fraction_parts)
  have "derives G (seqs [Maybe (Lit ''-''), Plus Digit, fraction]) (concat [take (length t - length ?u) t, takeWhile is_digit ?u, f])"
    using derives_sign(1) derives_plus_digits [OF digits_takeWhile [OF d(1)]] f(2) by (intro derives_seqs) simp
  then show ?thesis using derives_sign(2) [of t] f(1,3) takeWhile_dropWhile_id [of is_digit ?u] by simp
qed

lemma derives_integer: "digits (strip_sign t) \<Longrightarrow> derives G integer_body t"
  using derives.seq [OF derives_sign(1) [of G t] derives_plus_digits [of "strip_sign t" G]] derives_sign(2) [of t]
  by (simp add: integer_body_def)


subsection \<open>Every conforming value is accepted\<close>

definition knows :: "(string \<rightharpoonup> gbnf) \<Rightarrow> rule list \<Rightarrow> bool" where
  "knows G rs \<longleftrightarrow> list_all (\<lambda>(n, a). G n = Some a) (ws_rule # rs)"

lemma knows_simps [simp]:
  "knows G [] \<longleftrightarrow> G ''ws'' = Some (Star Blank)"
  "knows G (r # rs) \<longleftrightarrow> G (fst r) = Some (snd r) \<and> knows G rs"
  "knows G (rs @ rs') \<longleftrightarrow> knows G rs \<and> knows G rs'"
  by (auto simp: knows_def ws_rule_def)

lemma derives_ws: "G ''ws'' = Some (Star Blank) \<Longrightarrow> derives G ws []"
  by (simp add: derives.star_none)

lemma derives_list:
  assumes "\<And>x. x \<in> set xs \<Longrightarrow> derives G item (f x)" and "\<And>x. x \<in> set xs \<Longrightarrow> derives G further ('','' @ f x)"
  shows "derives G (Maybe (Group (Seq item (Star (Group further))))) (join '','' (map f xs))"
proof (cases xs)
  case (Cons x ys)
  have j: "join '','' (map f (x # ys)) = f x @ concat (map (\<lambda>y. '','' @ f y) ys)" for x ys
    by (induction ys arbitrary: x) auto
  have "derives G (Star (Group further)) (concat (map (\<lambda>y. '','' @ f y) ys))"
    using assms Cons by (intro derives_star_each) simp
  then have "derives G (Seq item (Star (Group further))) (join '','' (map f xs))"
    unfolding Cons j using assms Cons by (intro derives.seq) simp_all
  then show ?thesis by simp
qed simp

lemma derives_array:
  assumes "\<And>x. x \<in> set xs \<Longrightarrow> derives G (Ref item) (show_json x)" and w: "G ''ws'' = Some (Star Blank)"
  shows "derives G (array_body item) (show_json (JArray xs))"
proof -
  have "derives G (seqs [Lit '','', ws, Ref item]) ('','' @ show_json x)" if "x \<in> set xs" for x
    using derives_seqs [of G "[Lit '','', ws, Ref item]" "['','', [], show_json x]"] assms(1) [OF that] derives_ws [of G, OF w] by simp
  with assms(1) have "derives G (Maybe (Group (Seq (Ref item) (Star (Group (seqs [Lit '','', ws, Ref item])))))) (join '','' (map show_json xs))"
    by (rule derives_list)
  then show ?thesis
    using derives_seqs [of G "[Lit ''['', ws, Maybe (Group (Seq (Ref item) (Star (Group (seqs [Lit '','', ws, Ref item]))))), ws, Lit '']'']"
        "[''['', [], join '','' (map show_json xs), [], '']'']"] derives_ws [of G, OF w]
    by (simp add: array_body_def derives.lit del: seqs.simps derives_simps)
qed

lemma derives_flat_object:
  assumes d: "knows G (any_object name)" and es: "list_all (\<lambda>(k, x). scalar short_number x) es"
  shows "derives G (snd (hd (any_object name))) (show_json (JObject es))"
proof -
  have w: "derives G ws []" and r: "G ''pair'' = Some (seqs [Ref ''string'', ws, Lit '':'', ws, Ref ''value''])"
    "G ''value'' = Some (alts [Ref ''string'', Ref ''number'', Lit ''true'', Lit ''false'', Lit ''null''])"
    "G ''string'' = Some string_body" "G ''number'' = Some (seqs [Maybe (Lit ''-''), Plus Digit, fraction])"
    using d by (simp_all add: any_object_def derives_ws del: derives_simps)
  have val: "derives G (Ref ''value'') (show_json x)" if "scalar short_number x" for x
    using that r(2-4) derives_string derives_short_number by (cases x) (auto simp: show_json_string_def)
  have pair: "derives G (Ref ''pair'') (show_json_string k @ '':'' @ show_json x)" if "(k, x) \<in> set es" for k x
  proof -
    have "scalar short_number x" using es that by (auto simp: list_all_iff)
    then have "derives G (seqs [Ref ''string'', ws, Lit '':'', ws, Ref ''value'']) (concat [show_json_string k, [], '':'', [], show_json x])"
      using w r(3) derives_string val by (intro derives_seqs) simp
    then show ?thesis using r(1) by simp
  qed
  have "derives G (seqs [ws, Lit '','', ws, Ref ''pair'']) ('','' @ show_json_string k @ '':'' @ show_json x)" if "(k, x) \<in> set es" for k x
    using derives_seqs [of G "[ws, Lit '','', ws, Ref ''pair'']" "[[], '','', [], show_json_string k @ '':'' @ show_json x]"] pair [OF that] w
    by (simp del: seqs.simps)
  with pair have "derives G (Maybe (Group (Seq (Ref ''pair'') (Star (Group (seqs [ws, Lit '','', ws, Ref ''pair''])))))) (join '','' (map (\<lambda>(k, v). show_json_string k @ '':'' @ show_json v) es))"
    by (intro derives_list) auto
  then show ?thesis
    using w derives_seqs [of G "[Lit ''{'', ws, Maybe (Group (Seq (Ref ''pair'') (Star (Group (seqs [ws, Lit '','', ws, Ref ''pair'']))))), ws, Lit ''}'']"
        "[''{'', [], join '','' (map (\<lambda>(k, v). show_json_string k @ '':'' @ show_json v) es), [], ''}'']"]
    by (simp add: any_object_def derives.lit del: seqs.simps derives_simps)
qed


lemma derives_pair:
  assumes "G ''ws'' = Some (Star Blank)" and "plain k" and "derives G (Ref rule_name) t"
  shows "derives G (property_part required k rule_name) (show_json_string k @ '':'' @ t)"
proof -
  have "derives G (seqs [Key k, ws, Lit '':'', ws, Ref rule_name]) (concat [quoted k, [], '':'', [], t])"
    using assms derives_ws [of G, OF assms(1)] by (intro derives_seqs) (simp add: derives.lit derives.key del: derives_simps)
  then show ?thesis using plain_string [OF assms(2)] by (simp add: property_part_def Let_def del: seqs.simps)
qed

lemma derives_literal:
  assumes "v \<in> set vs" and "plain (case as_str v of Some s \<Rightarrow> s | None \<Rightarrow> show_json v)"
  shows "derives G (alts (map literal_value vs)) (show_json v)"
proof (rule derives_alts)
  show "literal_value v \<in> set (map literal_value vs)" using assms(1) by simp
  show "derives G (literal_value v) (show_json v)"
    using assms(2) by (cases v) (simp_all only: literal_value_def as_str.simps option.simps show_json.simps plain_string derives_simps)
qed

lemma derives_comma_parts:
  assumes "derives G p s" and "derives G (comma_parts ps) t" and "ps \<noteq> []" and "G ''ws'' = Some (Star Blank)"
  shows "derives G (comma_parts (p # ps)) (s @ '','' @ t)"
proof -
  have "comma_parts (p # ps) = seqs [p, ws, Lit '','', ws, comma_parts ps]" using assms(3) by (cases ps) simp_all
  moreover have "derives G (seqs [p, ws, Lit '','', ws, comma_parts ps]) (concat [s, [], '','', [], t])"
    using assms(1,2) derives_ws [of G, OF assms(4)] by (intro derives_seqs) (simp add: derives.lit del: derives_simps)
  ultimately show ?thesis by simp
qed

definition accepts :: "rule list \<Rightarrow> gbnf \<Rightarrow> json \<Rightarrow> bool" where
  "accepts rs b schema \<longleftrightarrow> (\<forall>G v. knows G rs \<longrightarrow> conforms schema v \<longrightarrow> derives G b (show_json v))"

lemma acceptsI: "(\<And>G v. knows G rs \<Longrightarrow> conforms schema v \<Longrightarrow> derives G b (show_json v)) \<Longrightarrow> accepts rs b schema"
  by (simp add: accepts_def)

lemma accepts_leaf:
  assumes "Option.bind (json_get ''enum'' schema) as_array = None" and "json_get ''const'' schema = None"
  shows "str_or ''string'' (get_str ''type'' schema) = ''string'' \<Longrightarrow> accepts rs string_body schema"
    and "str_or ''string'' (get_str ''type'' schema) = ''number'' \<Longrightarrow> accepts rs number_body schema"
    and "str_or ''string'' (get_str ''type'' schema) = ''integer'' \<Longrightarrow> accepts rs integer_body schema"
    and "str_or ''string'' (get_str ''type'' schema) = ''boolean'' \<Longrightarrow> accepts rs (Alt (Lit ''true'') (Lit ''false'')) schema"
    and "str_or ''string'' (get_str ''type'' schema) = ''null'' \<Longrightarrow> accepts rs (Lit ''null'') schema"
proof -
  have c: "conforms schema v = (case v of JObject es \<Rightarrow> str_or ''string'' (get_str ''type'' schema) = ''object'' \<and> conforms schema v
      | JArray xs \<Rightarrow> str_or ''string'' (get_str ''type'' schema) = ''array'' \<and> conforms schema v
      | JString x \<Rightarrow> str_or ''string'' (get_str ''type'' schema) = ''string''
      | JNumber x \<Rightarrow> (str_or ''string'' (get_str ''type'' schema) = ''number'' \<and> number_text x) \<or>
          (str_or ''string'' (get_str ''type'' schema) = ''integer'' \<and> digits (strip_sign x))
      | JBool b \<Rightarrow> str_or ''string'' (get_str ''type'' schema) = ''boolean''
      | JNull \<Rightarrow> str_or ''string'' (get_str ''type'' schema) = ''null'')" for v
    using assms by (cases v) (simp_all add: conforms.simps(1) [of schema] Let_def)
  show "accepts rs string_body schema" if "str_or ''string'' (get_str ''type'' schema) = ''string''"
    using that by (intro acceptsI) (subst (asm) c, auto simp: derives_string split: json.splits)
  show "accepts rs number_body schema" if "str_or ''string'' (get_str ''type'' schema) = ''number''"
    using that by (intro acceptsI) (subst (asm) c, auto simp: derives_number split: json.splits)
  show "accepts rs integer_body schema" if "str_or ''string'' (get_str ''type'' schema) = ''integer''"
    using that by (intro acceptsI) (subst (asm) c, auto simp: derives_integer split: json.splits)
  show "accepts rs (Alt (Lit ''true'') (Lit ''false'')) schema" if "str_or ''string'' (get_str ''type'' schema) = ''boolean''"
    using that by (intro acceptsI) (subst (asm) c, auto split: json.splits)
  show "accepts rs (Lit ''null'') schema" if "str_or ''string'' (get_str ''type'' schema) = ''null''"
    using that by (intro acceptsI) (subst (asm) c, auto split: json.splits)
qed

lemma accepts_literals:
  assumes "Option.bind (json_get ''enum'' schema) as_array = Some vs"
  shows "accepts rs (alts (map literal_value vs)) schema"
  using assms by (intro acceptsI derives_literal) (simp_all add: conforms.simps(1) [of schema] Let_def)

lemma accepts_const:
  assumes "Option.bind (json_get ''enum'' schema) as_array = None" and "json_get ''const'' schema = Some c"
  shows "accepts rs (literal_value c) schema"
  using assms derives_literal [of _ "[c]"] by (intro acceptsI) (simp add: conforms.simps(1) [of schema] Let_def)


lemma accepts_item:
  assumes "Option.bind (json_get ''enum'' schema) as_array = None" "json_get ''const'' schema = None"
    "str_or ''string'' (get_str ''type'' schema) = ''array''" "json_get ''items'' schema = Some items"
    and "accepts (concat added @ (item, b) # rest) b items"
  shows "accepts (concat (added @ [(item, b) # rest]) @ [(name, array_body item)]) (array_body item) schema"
proof (rule acceptsI)
  fix G v
  assume G: "knows G (concat (added @ [(item, b) # rest]) @ [(name, array_body item)])" and v: "conforms schema v"
  have w: "G ''ws'' = Some (Star Blank)" using G by (simp add: knows_def ws_rule_def)
  have k: "knows G (concat added @ (item, b) # rest)" "G item = Some b" using G by simp_all
  obtain xs where x: "v = JArray xs" "list_all (conforms items) xs"
    using v assms(1-4) by (cases v) (simp_all add: conforms.simps(1) [of schema] Let_def)
  have "derives G (Ref item) (show_json x)" if "x \<in> set xs" for x
    using assms(5) k that x(2) by (auto simp: accepts_def list_all_iff)
  then show "derives G (array_body item) (show_json v)" using derives_array [of xs G item] w x(1) by simp
qed

lemma accepts_any_item:
  assumes "Option.bind (json_get ''enum'' schema) as_array = None" "json_get ''const'' schema = None"
    "str_or ''string'' (get_str ''type'' schema) = ''array''" "json_get ''items'' schema = None"
  shows "accepts ((item, any_item) # rs) (array_body item) schema"
proof (rule acceptsI)
  fix G v
  assume G: "knows G ((item, any_item) # rs)" and v: "conforms schema v"
  have w: "G ''ws'' = Some (Star Blank)" using G by (simp add: knows_def ws_rule_def)
  obtain xs where x: "v = JArray xs" "list_all (scalar (\<lambda>n. digits (strip_sign n))) xs"
    using v assms by (cases v) (simp_all add: conforms.simps(1) [of schema] Let_def)
  have "derives G any_item (show_json x)" if "scalar (\<lambda>n. digits (strip_sign n)) x" for x
    using that derives_string [of G] derives_integer [of _ G] by (cases x) (auto simp: any_item_def)
  then have "derives G (Ref item) (show_json x)" if "x \<in> set xs" for x
    using G x(2) that by (auto simp: list_all_iff)
  then show "derives G (array_body item) (show_json v)" using derives_array [of xs G item] w x(1) by simp
qed


definition show_fields :: "(string \<times> json) list \<Rightarrow> string" where
  "show_fields es = join '','' (map (\<lambda>(k, v). show_json_string k @ '':'' @ show_json v) es)"

definition accepts_entries :: "rule list \<Rightarrow> gbnf list \<Rightarrow> (string \<times> json) list \<Rightarrow> bool" where
  "accepts_entries rs parts kvs \<longleftrightarrow>
    (\<forall>G es. knows G rs \<longrightarrow> conforms_entries kvs es \<longrightarrow> derives G (comma_parts parts) (show_fields es))"

lemma accepts_object:
  assumes "Option.bind (json_get ''enum'' schema) as_array = None" "json_get ''const'' schema = None"
    "str_or ''string'' (get_str ''type'' schema) = ''object''" "json_get ''properties'' schema = Some (JObject kvs)"
    and "accepts_entries rs parts kvs"
  shows "accepts (rs @ [(name, object_body parts)]) (object_body parts) schema"
proof (rule acceptsI)
  fix G v
  assume G: "knows G (rs @ [(name, object_body parts)])" and v: "conforms schema v"
  have w: "G ''ws'' = Some (Star Blank)" using G by (simp add: knows_def ws_rule_def)
  obtain es where x: "v = JObject es" "conforms_entries kvs es"
    using v assms(1-4) by (cases v) (simp_all add: conforms.simps(1) [of schema] Let_def)
  have "derives G (comma_parts parts) (show_fields es)" using assms(5) G x(2) by (simp add: accepts_entries_def)
  then have "derives G (object_body parts) (concat [''{'', [], show_fields es, [], ''}''])"
    unfolding object_body_def using derives_ws [of G, OF w] by (intro derives_seqs) (simp add: derives.lit del: derives_simps)
  then show "derives G (object_body parts) (show_json v)" using x(1) by (simp add: show_fields_def)
qed

lemma accepts_any_object:
  assumes "Option.bind (json_get ''enum'' schema) as_array = None" "json_get ''const'' schema = None"
    "str_or ''string'' (get_str ''type'' schema) = ''object''" "json_get ''properties'' schema = None"
  shows "accepts (any_object name) (snd (hd (any_object name))) schema"
proof (rule acceptsI)
  fix G v
  assume G: "knows G (any_object name)" and v: "conforms schema v"
  obtain es where x: "v = JObject es" "list_all (\<lambda>(k, x). scalar short_number x) es"
    using v assms by (cases v) (simp_all add: conforms.simps(1) [of schema] Let_def)
  then show "derives G (snd (hd (any_object name))) (show_json v)" using derives_flat_object [OF G x(2)] by simp
qed

lemma accepts_property:
  assumes "accepts (concat added @ (name @ ''-'' @ k, b) # rest) b v" and "accepts_entries (concat added') parts kvs"
    and "length parts = length kvs"
  shows "accepts_entries (concat (added @ ((name @ ''-'' @ k, b) # rest) # added')) (property_part required k (name @ ''-'' @ k) # parts) ((k, v) # kvs)"
  unfolding accepts_entries_def
proof (intro allI impI)
  fix G es
  assume G: "knows G (concat (added @ ((name @ ''-'' @ k, b) # rest) # added'))" and c: "conforms_entries ((k, v) # kvs) es"
  obtain x es' where es: "es = (k, x) # es'" "plain k" "conforms v x" "conforms_entries kvs es'"
    using c by (cases es) auto
  have w: "G ''ws'' = Some (Star Blank)" using G by (simp add: knows_def ws_rule_def)
  have "derives G (Ref (name @ ''-'' @ k)) (show_json x)" using assms(1) G es(3) by (simp add: accepts_def)
  then have p: "derives G (property_part required k (name @ ''-'' @ k)) (show_json_string k @ '':'' @ show_json x)"
    by (rule derives_pair [of G, OF w es(2)])
  have r: "derives G (comma_parts parts) (show_fields es')" using assms(2) G es(4) by (simp add: accepts_entries_def)
  show "derives G (comma_parts (property_part required k (name @ ''-'' @ k) # parts)) (show_fields es)"
  proof (cases "parts = []")
    case True
    then have "es' = []" using assms(3) es(4) by simp
    then show ?thesis using True p es(1) by (simp add: show_fields_def)
  next
    case False
    then have "es' \<noteq> []" using assms(3) es(4) by (cases kvs) auto
    then have "show_fields es = (show_json_string k @ '':'' @ show_json x) @ '','' @ show_fields es'"
      using es(1) by (cases es') (simp_all add: show_fields_def)
    then show ?thesis using derives_comma_parts [of G, OF p r False w] by simp
  qed
qed

lemma generate_accepts:
  "generate_rule schema name rules = Inr (e, rules') \<Longrightarrow>
    \<exists>added b rest. rules' = rules @ added \<and> e = (name, b) # rest \<and> accepts (concat added @ e) b schema"
  "generate_properties kvs name required rules = Inr (parts, rules') \<Longrightarrow>
    \<exists>added. rules' = rules @ added \<and> length parts = length kvs \<and> accepts_entries (concat added) parts kvs"
proof (induction schema name rules and kvs name required rules arbitrary: e rules' and parts rules' rule: generate_rule_generate_properties.induct)
  case (1 schema name rules)
  let ?t = "str_or ''string'' (get_str ''type'' schema)"
  show ?case
  proof (cases "Option.bind (json_get ''enum'' schema) as_array")
    case (Some vs)
    then show ?thesis using 1(3) accepts_literals [OF Some] by (auto simp: generate_rule.simps Let_def)
  next
    case en: None
    show ?thesis
    proof (cases "json_get ''const'' schema")
      case (Some c)
      then show ?thesis using 1(3) accepts_const [OF en Some] en by (auto simp: generate_rule.simps Let_def)
    next
      case co: None
      note leaf = accepts_leaf [OF en co]
      consider "?t = ''object'' \<and> json_get ''properties'' schema = None"
        | kvs where "?t = ''object'' \<and> json_get ''properties'' schema = Some (JObject kvs)"
        | items where "?t = ''array'' \<and> json_get ''items'' schema = Some items"
        | "?t = ''array'' \<and> json_get ''items'' schema = None"
        | "?t \<in> {''string'', ''number'', ''integer'', ''boolean'', ''null''}"
        using 1(3) en co by (auto simp: generate_rule.simps Let_def split: if_splits option.splits json.splits)
      then show ?thesis
      proof cases
        case 1
        then have "e = any_object name" "rules' = rules" "accepts (any_object name) (snd (hd (any_object name))) schema"
          using \<open>generate_rule schema name rules = Inr (e, rules')\<close> en co accepts_any_object [OF en co, of name]
          by (simp_all add: generate_rule.simps Let_def)
        moreover have "any_object name = (name, snd (hd (any_object name))) # tl (any_object name)" by (simp add: any_object_def)
        ultimately show ?thesis by (metis append_Nil append_Nil2 concat.simps(1))
      next
        case (2 kvs)
        obtain parts where g: "generate_properties kvs name (required_keys schema) rules = Inr (parts, rules')" "e = [(name, object_body parts)]"
          using \<open>generate_rule schema name rules = Inr (e, rules')\<close> en co 2 by (simp add: generate_rule.simps Let_def split: sum.splits prod.splits)
        obtain added where "rules' = rules @ added" "accepts_entries (concat added) parts kvs"
          using "1.IH"(1) [OF refl en co _ _ refl g(1)] 2 by auto
        then show ?thesis using accepts_object [OF en co _ _, of kvs "concat added" parts name] 2 g(2) by auto
      next
        case (3 items)
        obtain r rules1 where g: "generate_rule items (name @ ''-item'') rules = Inr (r, rules1)" "e = [(name, array_body (name @ ''-item''))]" "rules' = rules1 @ [r]"
          using \<open>generate_rule schema name rules = Inr (e, rules')\<close> en co 3 by (auto simp: generate_rule.simps Let_def split: sum.splits prod.splits)
        obtain added b rest where i: "rules1 = rules @ added" "r = (name @ ''-item'', b) # rest" "accepts (concat added @ r) b items"
          using "1.IH"(2) [OF refl en co _ _ refl _ g(1)] 3 by auto
        show ?thesis using accepts_item [OF en co _ _ i(3) [unfolded i(2)], of name] 3 g i by auto
      next
        case 4
        then show ?thesis using \<open>generate_rule schema name rules = Inr (e, rules')\<close> en co
            accepts_any_item [OF en co, of "name @ ''-item''" "[(name, array_body (name @ ''-item''))]"]
          by (auto simp: generate_rule.simps Let_def)
      next
        case 5
        then show ?thesis using \<open>generate_rule schema name rules = Inr (e, rules')\<close> en co leaf
          by (auto simp: generate_rule.simps Let_def)
      qed
    qed
  qed
next
  case (2 name required rules)
  then show ?case by (auto simp: accepts_entries_def show_fields_def)
next
  case (3 k v kvs name required rules)
  obtain r rules1 parts1 where g: "generate_rule v (name @ ''-'' @ k) rules = Inr (r, rules1)"
      "generate_properties kvs name required (rules1 @ [r]) = Inr (parts1, rules')" "parts = property_part required k (name @ ''-'' @ k) # parts1"
    using "3.prems" by (auto simp: generate_rule.simps Let_def split: sum.splits prod.splits)
  obtain added b rest where i: "rules1 = rules @ added" "r = (name @ ''-'' @ k, b) # rest" "accepts (concat added @ r) b v"
    using "3.IH"(1) [OF refl g(1)] by blast
  obtain added' where j: "rules' = (rules1 @ [r]) @ added'" "length parts1 = length kvs" "accepts_entries (concat added') parts1 kvs"
    using "3.IH"(2) [OF refl g(1) refl g(2)] by blast
  show ?case
    using accepts_property [OF i(3) [unfolded i(2)] j(3,2), of required] i(1,2) j(1,2) g(3) by auto
qed


lemma schema_rules_split:
  assumes "schema_rules schema = Inr rules"
  obtains added b rest where "generate_rule schema ''root'' [[ws_rule]] = Inr ((''root'', b) # rest, [ws_rule] # added)"
    "rules = ((''root'', b) # rest) # [ws_rule] # added" "accepts (concat added @ (''root'', b) # rest) b schema"
proof -
  obtain e rules' where g: "generate_rule schema ''root'' [[ws_rule]] = Inr (e, rules')" "rules = e # rules'"
    using assms by (auto simp: schema_rules_def split: sum.splits)
  show ?thesis using generate_accepts(1) [OF g(1)] g that by auto
qed

lemma knows_map_of: "distinct (map fst rs) \<Longrightarrow> ws_rule \<in> set rs \<Longrightarrow> set rs' \<subseteq> set rs \<Longrightarrow> knows (map_of rs) rs'"
  by (auto simp: knows_def list_all_iff)


definition demo_schema :: json where
  "demo_schema = obj [(''type'', JString ''object''),
     (''properties'', obj [(''name'', JString ''x''), (''tags'', obj [(''type'', JString ''array''), (''items'', obj [(''enum'', JArray [JString ''a'', JString ''b''])])])]),
     (''required'', JArray [JString ''tags''])]"

definition demo_value :: json where
  "demo_value = JObject [(''name'', JString ''n''), (''tags'', JArray [JString ''b'', JString ''a''])]"


subsection \<open>Every rule a grammar refers to exists\<close>

fun refs :: "gbnf \<Rightarrow> string list" where
  "refs (Ref n) = [n]"
| "refs (Seq a b) = refs a @ refs b"
| "refs (Alt a b) = refs a @ refs b"
| "refs (Group a) = refs a"
| "refs (Star a) = refs a"
| "refs (Plus a) = refs a"
| "refs (Maybe a) = refs a"
| "refs (Times a m n) = refs a"
| "refs a = []"

definition closed_in :: "string set \<Rightarrow> rule list \<Rightarrow> bool" where
  "closed_in ns rs \<longleftrightarrow> (\<forall>r \<in> set rs. set (refs (snd r)) \<subseteq> insert ''ws'' ns)"

lemma closed_in_simps [simp]:
  "closed_in ns []" "closed_in ns (r # rs) \<longleftrightarrow> set (refs (snd r)) \<subseteq> insert ''ws'' ns \<and> closed_in ns rs"
  "closed_in ns (rs @ rs') \<longleftrightarrow> closed_in ns rs \<and> closed_in ns rs'"
  by (auto simp: closed_in_def)

lemma closed_in_mono: "closed_in ns rs \<Longrightarrow> ns \<subseteq> ns' \<Longrightarrow> closed_in ns' rs"
  by (auto simp: closed_in_def)

lemma refs_bodies [simp]:
  "refs string_body = []" "refs integer_body = []" "refs number_body = []" "refs any_item = []" "refs fraction = []"
  by (simp_all add: string_body_def integer_body_def number_body_def any_item_def fraction_def exponent_def)

lemma refs_literals [simp]: "refs (alts (map literal_value vs)) = []"
proof -
  have l: "refs (literal_value v) = []" for v by (simp add: literal_value_def split: option.split)
  then have "refs (alts as) = []" if "list_all (\<lambda>a. refs a = []) as" for as
    using that by (induction as rule: alts.induct) auto
  then show ?thesis using l by (simp add: list_all_iff)
qed

lemma refs_comma_parts: "set (refs (comma_parts ps)) \<subseteq> insert ''ws'' (\<Union>p \<in> set ps. set (refs p))"
  by (induction ps rule: comma_parts.induct) auto

lemma refs_literal_value [simp]: "refs (literal_value v) = []"
  by (simp add: literal_value_def split: option.split)

lemma generate_rule_shape:
  assumes "generate_rule schema name rules = Inr (e, rules')"
  obtains (leaf) b where "e = [(name, b)]" "refs b = []" "rules' = rules"
    | (any_obj) "e = any_object name" "rules' = rules"
    | (props) kvs parts where "str_or ''string'' (get_str ''type'' schema) = ''object''" "json_get ''properties'' schema = Some (JObject kvs)"
        "Option.bind (json_get ''enum'' schema) as_array = None" "json_get ''const'' schema = None"
        "generate_properties kvs name (required_keys schema) rules = Inr (parts, rules')" "e = [(name, object_body parts)]"
    | (items) i r rules1 where "str_or ''string'' (get_str ''type'' schema) = ''array''" "json_get ''items'' schema = Some i"
        "Option.bind (json_get ''enum'' schema) as_array = None" "json_get ''const'' schema = None"
        "generate_rule i (name @ ''-item'') rules = Inr (r, rules1)" "e = [(name, array_body (name @ ''-item''))]" "rules' = rules1 @ [r]"
    | (any_items) "e = [(name, array_body (name @ ''-item''))]" "rules' = rules @ [[(name @ ''-item'', any_item)]]"
proof (cases "\<exists>b. e = [(name, b)] \<and> refs b = [] \<and> rules' = rules")
  case False
  have en: "Option.bind (json_get ''enum'' schema) as_array = None"
    using assms False by (cases "Option.bind (json_get ''enum'' schema) as_array") (auto simp: generate_rule.simps Let_def)
  have co: "json_get ''const'' schema = None"
    using assms False en by (cases "json_get ''const'' schema") (auto simp: generate_rule.simps Let_def)
  let ?t = "str_or ''string'' (get_str ''type'' schema)"
  note unfold = generate_rule.simps(1) [of schema name rules] en co Let_def
  have no: "e = [(name, b)] \<Longrightarrow> rules' = rules \<Longrightarrow> refs b \<noteq> []" for b using False by blast
  consider "?t = ''object''" "json_get ''properties'' schema = None"
    | kvs where "?t = ''object''" "json_get ''properties'' schema = Some (JObject kvs)"
    | i where "?t = ''array''" "json_get ''items'' schema = Some i"
    | "?t = ''array''" "json_get ''items'' schema = None"
    using assms no [of string_body] no [of number_body] no [of integer_body] no [of "Alt (Lit ''true'') (Lit ''false'')"] no [of "Lit ''null''"]
    by (auto simp: unfold split: if_splits option.splits json.splits)
  then show ?thesis
  proof cases
    case 1
    then show ?thesis using assms any_obj by (simp add: unfold)
  next
    case (2 kvs)
    then obtain parts where "generate_properties kvs name (required_keys schema) rules = Inr (parts, rules')" "e = [(name, object_body parts)]"
      using assms by (simp add: unfold split: sum.splits prod.splits)
    then show ?thesis using props 2 en co by blast
  next
    case (3 i)
    then obtain r rules1 where "generate_rule i (name @ ''-item'') rules = Inr (r, rules1)" "e = [(name, array_body (name @ ''-item''))]" "rules' = rules1 @ [r]"
      using assms by (simp add: unfold split: sum.splits prod.splits)
    then show ?thesis using items 3 en co by blast
  next
    case 4
    then show ?thesis using assms any_items by (simp add: unfold)
  qed
qed (use leaf in blast)

lemma generate_closed:
  "generate_rule schema name rules = Inr (e, rules') \<Longrightarrow>
    \<exists>added. rules' = rules @ added \<and> name \<in> fst ` set e \<and> closed_in (fst ` set (concat added @ e)) (concat added @ e)"
  "generate_properties kvs name required rules = Inr (parts, rules') \<Longrightarrow>
    \<exists>added. rules' = rules @ added \<and> closed_in (fst ` set (concat added)) (concat added) \<and>
      (\<Union>p \<in> set parts. set (refs p)) \<subseteq> insert ''ws'' (fst ` set (concat added))"
proof (induction schema name rules and kvs name required rules arbitrary: e rules' and parts rules' rule: generate_rule_generate_properties.induct)
  case (1 schema name rules)
  show ?case
  proof (rule generate_rule_shape [OF 1(3)])
    fix kvs parts
    assume h: "str_or ''string'' (get_str ''type'' schema) = ''object''" "json_get ''properties'' schema = Some (JObject kvs)"
        "Option.bind (json_get ''enum'' schema) as_array = None" "json_get ''const'' schema = None"
        "generate_properties kvs name (required_keys schema) rules = Inr (parts, rules')" "e = [(name, object_body parts)]"
    obtain added where "rules' = rules @ added" "closed_in (fst ` set (concat added)) (concat added)"
        "(\<Union>p \<in> set parts. set (refs p)) \<subseteq> insert ''ws'' (fst ` set (concat added))"
      using 1(1) [OF refl h(3,4,1,2) refl h(5)] by blast
    moreover from this(3) have "set (refs (comma_parts parts)) \<subseteq> insert ''ws'' (fst ` set (concat added))"
      using refs_comma_parts [of parts] by blast
    ultimately show ?thesis using h(6)
      by (intro exI [of _ added]) (auto simp: object_body_def intro: closed_in_mono)
  next
    fix i r rules1
    assume h: "str_or ''string'' (get_str ''type'' schema) = ''array''" "json_get ''items'' schema = Some i"
        "Option.bind (json_get ''enum'' schema) as_array = None" "json_get ''const'' schema = None"
        "generate_rule i (name @ ''-item'') rules = Inr (r, rules1)" "e = [(name, array_body (name @ ''-item''))]" "rules' = rules1 @ [r]"
    have "\<not> str_or ''string'' (get_str ''type'' schema) = ''object''" using h(1) by simp
    then obtain added where "rules1 = rules @ added" "name @ ''-item'' \<in> fst ` set r" "closed_in (fst ` set (concat added @ r)) (concat added @ r)"
      using 1(2) [OF refl h(3,4) _ h(1) refl h(2,5)] by blast
    then show ?thesis using h(6,7)
      by (intro exI [of _ "added @ [r]"]) (auto simp: array_body_def intro: closed_in_mono)
  qed (auto simp: any_object_def array_body_def)
next
  case (2 name required rules)
  then show ?case by simp
next
  case (3 k v kvs name required rules)
  obtain r rules1 parts1 where g: "generate_rule v (name @ ''-'' @ k) rules = Inr (r, rules1)"
      "generate_properties kvs name required (rules1 @ [r]) = Inr (parts1, rules')" "parts = property_part required k (name @ ''-'' @ k) # parts1"
    using "3.prems" by (auto simp: generate_rule.simps Let_def split: sum.splits prod.splits)
  obtain added where i: "rules1 = rules @ added" "name @ ''-'' @ k \<in> fst ` set r" "closed_in (fst ` set (concat added @ r)) (concat added @ r)"
    using "3.IH"(1) [OF refl g(1)] by blast
  obtain added' where j: "rules' = (rules1 @ [r]) @ added'" "closed_in (fst ` set (concat added')) (concat added')"
      "(\<Union>p \<in> set parts1. set (refs p)) \<subseteq> insert ''ws'' (fst ` set (concat added'))"
    using "3.IH"(2) [OF refl g(1) refl g(2)] by blast
  let ?ns = "fst ` set (concat (added @ r # added'))"
  have "closed_in ?ns (concat added @ r)" "closed_in ?ns (concat added')"
    by (rule closed_in_mono [OF i(3)], force) (rule closed_in_mono [OF j(2)], force)
  moreover have "set (refs (property_part required k (name @ ''-'' @ k))) \<subseteq> insert ''ws'' ?ns"
    using i(2) by (auto simp: property_part_def Let_def)
  ultimately show ?case using i(1) j(1,3) g(3) by (intro exI [of _ "added @ r # added'"]) auto
qed



subsection \<open>Optional properties\<close>

definition commas :: "string \<Rightarrow> nat" where "commas s = length (filter (\<lambda>c. c = CHR '','') s)"

lemma commas_append [simp]: "commas (s @ t) = commas s + commas t"
  by (simp add: commas_def)

lemma comma_parts_commas: "derives G (comma_parts ps) s \<Longrightarrow> length ps \<le> Suc (commas s)"
proof (induction ps arbitrary: s rule: comma_parts.induct)
  case (3 p q ps)
  then obtain u v w x where "s = u @ v @ '','' @ w @ x" "derives G (comma_parts (q # ps)) x"
    by (auto simp: derives_seq_iff)
  then show ?case using "3.IH" [of x] by (simp add: commas_def)
qed simp_all

lemma comma_parts_empty:
  assumes "G ''ws'' = Some (Star Blank)" and "list_all (\<lambda>p. derives G p []) ps"
  shows "derives G (comma_parts ps) (replicate (length ps - 1) CHR '','')"
  using assms(2)
proof (induction ps rule: comma_parts.induct)
  case (3 p q ps)
  then show ?case using derives_comma_parts [of G p "[]" "q # ps", OF _ _ _ assms(1)] by simp
qed simp_all

lemma generate_properties_optional:
  "generate_properties kvs name [] rules = Inr (parts, rules') \<Longrightarrow> length parts = length kvs \<and> list_all (\<lambda>p. derives G p []) parts"
  by (induction kvs arbitrary: rules parts rules')
    (auto simp: property_part_def Let_def split: sum.splits prod.splits)


definition optional_schema :: json where
  "optional_schema = JObject [(''properties'', JObject [(''a'', obj []), (''b'', obj [])]), (''type'', JString ''object'')]"


end
