(* ===== verification/ToolCalling.thy ===== *)
theory ToolCalling
  imports Grammar CloudBackend
begin

section \<open>Tool calls of local models\<close>

text \<open>
  \<open>crates/hivebear-inference/src/tool_calling.rs\<close>: the grammar for a set of tools, the reading of a call from the text of a model,
  and the ratings of model families.  The identifier of a call is an argument.
\<close>

definition tool_object :: gbnf where
  "tool_object = seqs [Lit ''{'', ws, Maybe (Group (Seq (Ref ''pair'') (Star (Group (seqs [Lit '','', ws, Ref ''pair'']))))), ws, Lit ''}'']"

definition tool_values :: "rule list" where
  "tool_values =
    [(''object'', tool_object),
     (''pair'', seqs [Ref ''string'', ws, Lit '':'', ws, Ref ''value'']),
     (''value'', alts [Ref ''string'', Ref ''number'', Lit ''true'', Lit ''false'', Lit ''null'', Ref ''object'', Ref ''array'']),
     (''array'', array_body ''value''),
     (''string'', string_body),
     (''number'', number_body),
     ws_rule]"

definition tool_call_body :: gbnf where
  "tool_call_body = seqs [Lit ''{'', ws, Key ''tool'', ws, Lit '':'', ws, Ref ''tool-name'', ws, Lit '','', ws, Key ''arguments'', ws,
     Lit '':'', ws, Ref ''object'', ws, Lit ''}'']"

definition tool_rules :: "tool_definition list \<Rightarrow> rule list" where
  "tool_rules tools =
    [(''root'', Alt (Ref ''tool-call'') (Ref ''free-text'')), (''free-text'', Times NotNul 1 4096), (''tool-call'', tool_call_body),
     (''tool-name'', alts (map (\<lambda>t. Key (td_name t)) tools))] @ tool_values"

definition generate_tool_grammar :: "tool_definition list \<Rightarrow> string" where
  "generate_tool_grammar tools =
    (if tools = [] then [] else concat (map (\<lambda>r. show_rule r @ [newline]) (tool_rules tools)))"

fun first_key :: "string list \<Rightarrow> (string \<times> json) list \<Rightarrow> json option" where
  "first_key [] m = None"
| "first_key (k # ks) m = (case map_of m k of Some v \<Rightarrow> Some v | None \<Rightarrow> first_key ks m)"

definition parse_tool_call :: "cloud_lib \<Rightarrow> string \<Rightarrow> string \<Rightarrow> tool_call_response option" where
  "parse_tool_call lib uuid output =
    (case from_str lib (trim output) of
       Inr (JObject m) \<Rightarrow>
         (case Option.bind (first_key [''tool'', ''name'', ''function''] m) as_str of
            None \<Rightarrow> None
          | Some name \<Rightarrow> Some \<lparr>tool_name = name,
              arguments = (case first_key [''arguments'', ''parameters'', ''args''] m of Some v \<Rightarrow> v | None \<Rightarrow> JObject []), call_id = uuid\<rparr>)
     | _ \<Rightarrow> None)"

datatype tool_call_reliability = High | Medium | Low | Unknown

definition model_reliability :: "string \<Rightarrow> tool_call_reliability" where
  "model_reliability model =
    (let name = lower_utf8 model; has = (\<lambda>p. str_contains p name) in
     if has ''llama-3.1'' \<or> has ''llama-3.2'' then High
     else if has ''qwen'' then High
     else if has ''mistral'' \<and> has ''instruct'' then High
     else if has ''phi-3'' \<or> has ''gemma'' then Medium
     else if has ''starcoder'' \<or> has ''deepseek-coder'' then Low
     else Unknown)"

definition tool_calling_warning :: "string \<Rightarrow> string option" where
  "tool_calling_warning model = (case model_reliability model of
     Low \<Rightarrow> Some (''Warning: '' @ model @ '' has poor tool calling support. Results may be unreliable.'')
   | Unknown \<Rightarrow> Some (''Note: Tool calling support for '' @ model @
       '' is untested. Grammar constraints will be used to force valid output.'')
   | _ \<Rightarrow> None)"

subsection \<open>The grammar and the reader\<close>

fun numeric :: "json \<Rightarrow> bool" where
  "numeric (JNumber t) = number_text t"
| "numeric (JArray vs) = list_all numeric vs"
| "numeric (JObject kvs) = list_all (\<lambda>(k, v). numeric v) kvs"
| "numeric _ = True"

lemma tool_map: "map_of (tool_rules tools) = (map_of (tool_rules []))(''tool-name'' \<mapsto> alts (map (\<lambda>t. Key (td_name t)) tools))"
  by (simp add: tool_rules_def tool_values_def fun_upd_twist)

lemma knows_tool_values: "knows (map_of (tool_rules tools)) tool_values"
  by (simp add: tool_rules_def tool_values_def ws_rule_def)

lemma tool_refs:
  assumes "knows G tool_values"
  shows "derives G tool_object s \<Longrightarrow> derives G (Ref ''object'') s"
    and "derives G (seqs [Ref ''string'', ws, Lit '':'', ws, Ref ''value'']) s \<Longrightarrow> derives G (Ref ''pair'') s"
    and "derives G (array_body ''value'') s \<Longrightarrow> derives G (Ref ''array'') s"
    and "derives G string_body s \<Longrightarrow> derives G (Ref ''string'') s"
    and "derives G number_body s \<Longrightarrow> derives G (Ref ''number'') s"
    and "a \<in> {Ref ''string'', Ref ''number'', Lit ''true'', Lit ''false'', Lit ''null'', Ref ''object'', Ref ''array''} \<Longrightarrow>
      derives G a s \<Longrightarrow> derives G (Ref ''value'') s"
    and "G ''ws'' = Some (Star Blank)"
proof -
  have r: "G ''object'' = Some tool_object" "G ''pair'' = Some (seqs [Ref ''string'', ws, Lit '':'', ws, Ref ''value''])"
    "G ''value'' = Some (alts [Ref ''string'', Ref ''number'', Lit ''true'', Lit ''false'', Lit ''null'', Ref ''object'', Ref ''array''])"
    "G ''array'' = Some (array_body ''value'')" "G ''string'' = Some string_body" "G ''number'' = Some number_body"
    using assms by (simp_all add: tool_values_def)
  show "derives G tool_object s \<Longrightarrow> derives G (Ref ''object'') s"
    "derives G (seqs [Ref ''string'', ws, Lit '':'', ws, Ref ''value'']) s \<Longrightarrow> derives G (Ref ''pair'') s"
    "derives G (array_body ''value'') s \<Longrightarrow> derives G (Ref ''array'') s"
    "derives G string_body s \<Longrightarrow> derives G (Ref ''string'') s"
    "derives G number_body s \<Longrightarrow> derives G (Ref ''number'') s"
    by (rule derives.ref [of G], rule r, assumption)+
  show "derives G (Ref ''value'') s" if "a \<in> {Ref ''string'', Ref ''number'', Lit ''true'', Lit ''false'', Lit ''null'', Ref ''object'', Ref ''array''}" "derives G a s"
    by (rule derives.ref [of G], rule r(3), rule derives_alts [of a]) (use that in \<open>simp_all del: derives_simps\<close>)
  show "G ''ws'' = Some (Star Blank)" using assms by (simp add: knows_def ws_rule_def)
qed

lemma tool_object_derives:
  assumes G: "knows G tool_values" and es: "\<And>k x. (k, x) \<in> set es \<Longrightarrow> derives G (Ref ''value'') (show_json x)"
  shows "derives G (Ref ''object'') (show_json (JObject es))"
proof -
  note r = tool_refs [OF G]
  note w = derives_ws [of G, OF r(7)]
  have pair: "derives G (Ref ''pair'') (show_json_string k @ '':'' @ show_json x)" if "(k, x) \<in> set es" for k x
    using derives_seqs [of G "[Ref ''string'', ws, Lit '':'', ws, Ref ''value'']" "[show_json_string k, [], '':'', [], show_json x]"]
      w r(4) [OF derives_string, of k] es [OF that] r(2)
    by (simp add: derives.lit del: seqs.simps derives_simps)
  have "derives G (seqs [Lit '','', ws, Ref ''pair'']) ('','' @ show_json_string k @ '':'' @ show_json x)" if "(k, x) \<in> set es" for k x
    using derives_seqs [of G "[Lit '','', ws, Ref ''pair'']" "['','', [], show_json_string k @ '':'' @ show_json x]"] pair [OF that] w
    by (simp add: derives.lit del: seqs.simps derives_simps)
  with pair have "derives G (Maybe (Group (Seq (Ref ''pair'') (Star (Group (seqs [Lit '','', ws, Ref ''pair'']))))))
      (join '','' (map (\<lambda>(k, v). show_json_string k @ '':'' @ show_json v) es))"
    by (intro derives_list) auto
  then have "derives G tool_object (concat [''{'', [], join '','' (map (\<lambda>(k, v). show_json_string k @ '':'' @ show_json v) es), [], ''}''])"
    unfolding tool_object_def using w by (intro derives_seqs) (simp add: derives.lit del: derives_simps)
  then show ?thesis using r(1) by simp
qed

lemma tool_value_derives: "knows G tool_values \<Longrightarrow> numeric v \<Longrightarrow> derives G (Ref ''value'') (show_json v)"
proof (induction v)
  case (JArray vs)
  then have "derives G (array_body ''value'') (show_json (JArray vs))"
    using derives_array [of vs G "''value''"] tool_refs(7) [OF JArray(2)] by (simp add: list_all_iff)
  then show ?case using tool_refs(3,6) [OF JArray(2)] by blast
next
  case (JObject kvs)
  have "derives G (Ref ''value'') (show_json x)" if "(k, x) \<in> set kvs" for k x
    using JObject.IH [of "(k, x)" x] JObject.prems that by (auto simp: list_all_iff)
  then show ?case using tool_refs(6) [OF JObject(2)] tool_object_derives [OF JObject(2)] by blast
next
  case (JString s)
  then show ?case using tool_refs(4,6) derives_string by fastforce
next
  case (JNumber t)
  then show ?case using tool_refs(5,6) derives_number by fastforce
next
  case (JBool b)
  then show ?case using tool_refs(6) [OF JBool(1), of "if b then Lit ''true'' else Lit ''false''"] by (simp add: derives.lit del: derives_simps)
next
  case JNull
  then show ?case using tool_refs(6) [OF JNull(1), of "Lit ''null''"] by (simp add: derives.lit del: derives_simps)
qed

definition call_text :: "string \<Rightarrow> (string \<times> json) list \<Rightarrow> string" where
  "call_text name args = ''{'' @ quoted ''tool'' @ '':'' @ quoted name @ '','' @ quoted ''arguments'' @ '':'' @ show_json (JObject args) @ ''}''"

lemma tool_call_derives:
  assumes "t \<in> set tools" and "numeric (JObject args)"
  shows "derives (map_of (tool_rules tools)) (Ref ''root'') (call_text (td_name t) args)"
proof -
  let ?G = "map_of (tool_rules tools)"
  note v = knows_tool_values [of tools]
  note w = derives_ws [of ?G, OF tool_refs(7) [OF v]]
  have "derives ?G (alts (map (\<lambda>t. Key (td_name t)) tools)) (quoted (td_name t))"
    using assms(1) by (intro derives_alts [of "Key (td_name t)"]) auto
  then have n: "derives ?G (Ref ''tool-name'') (quoted (td_name t))" by (simp add: tool_rules_def)
  have "derives ?G (Ref ''value'') (show_json x)" if "(k, x) \<in> set args" for k x
    using tool_value_derives [OF v] assms(2) that by (auto simp: list_all_iff)
  then have "derives ?G (Ref ''object'') (show_json (JObject args))" by (rule tool_object_derives [OF v])
  then have "derives ?G tool_call_body (concat [''{'', [], quoted ''tool'', [], '':'', [], quoted (td_name t), [], '','', [], quoted ''arguments'', [],
      '':'', [], show_json (JObject args), [], ''}''])"
    unfolding tool_call_body_def using n w by (intro derives_seqs) (simp add: derives.lit derives.key del: derives_simps)
  then show ?thesis by (simp add: call_text_def tool_rules_def)
qed

text \<open>
  C31: A call that follows the grammar is understood: for every tool on offer and every object of arguments the compact text of the
  call is a sentence of the grammar, and it is read as that call.  But the grammar keeps nothing out: every text of up to
  4096 bytes without a zero byte is a sentence too, whatever tool it names.
\<close>

theorem tool_calls_accepted_and_read:
  assumes "t \<in> set tools" and "numeric (JObject args)"
    and "from_str lib (call_text (td_name t) args) = Inr (obj [(''tool'', JString (td_name t)), (''arguments'', JObject args)])"
  shows "derives (map_of (tool_rules tools)) (Ref ''root'') (call_text (td_name t) args) \<and>
    parse_tool_call lib uuid (call_text (td_name t) args) = Some \<lparr>tool_name = td_name t, arguments = JObject args, call_id = uuid\<rparr> \<and>
    (list_all (\<lambda>c. c \<noteq> CHR 0x00) s \<and> 0 < length s \<and> length s \<le> 4096 \<longrightarrow> derives (map_of (tool_rules tools)) (Ref ''root'') s)"
proof -
  have tr: "trim (call_text (td_name t) args) = call_text (td_name t) args"
    by (rule trim_framed) (simp_all add: call_text_def)
  then have "parse_tool_call lib uuid (call_text (td_name t) args) = Some \<lparr>tool_name = td_name t, arguments = JObject args, call_id = uuid\<rparr>"
    using assms(3) by (simp add: parse_tool_call_def obj_def obj_of_def)
  moreover have "derives (map_of (tool_rules tools)) (Ref ''root'') s" if "list_all (\<lambda>c. c \<noteq> CHR 0x00) s" "0 < length s" "length s \<le> 4096"
    using derives.times [of _ NotNul "map (\<lambda>c. [c]) s" 1 4096] that by (simp add: tool_rules_def list_all_iff)
  ultimately show ?thesis using tool_call_derives [OF assms(1,2)] by blast
qed

definition demo_tool :: tool_definition where
  "demo_tool = \<lparr>td_name = ''sum'', description = ''adds'', input_schema = obj []\<rparr>"

definition demo_args :: "(string \<times> json) list" where
  "demo_args = [(''xs'', JArray [JNumber ''1'', JNumber ''2.5''])]"

definition tool_lib :: cloud_lib where
  "tool_lib = demo_lib\<lparr>from_str := (\<lambda>s. if s = call_text ''sum'' demo_args
     then Inr (obj [(''tool'', JString ''sum''), (''arguments'', JObject demo_args)]) else Inl ''invalid'')\<rparr>"

theorem tool_calls_accepted_and_read_witness:
  "derives (map_of (tool_rules [demo_tool])) (Ref ''root'') (call_text ''sum'' demo_args) \<and>
    parse_tool_call tool_lib ''id'' (call_text ''sum'' demo_args) = Some \<lparr>tool_name = ''sum'', arguments = JObject demo_args, call_id = ''id''\<rparr> \<and>
    derives (map_of (tool_rules [demo_tool])) (Ref ''root'') ''no call''"
proof -
  have n: "numeric (JObject demo_args)" by code_simp
  have "demo_tool \<in> set [demo_tool]" "td_name demo_tool = ''sum''" by (simp_all add: demo_tool_def)
  from tool_calls_accepted_and_read [OF this(1) n, of tool_lib "''id''" "''no call''"] this(2) show ?thesis
    by (simp add: tool_lib_def)
qed

end
