(* ===== verification/Spec2Isabelle.thy ===== *)
theory Spec2Isabelle
  imports Coordinator Reputation Trust Rebalance Formation Router Health Replicated Speculative Discovery Tensor NatTraversal
    Node Orchestrator Recommender Download ClientServer ServerState ToolCalling
begin

text \<open>
  HiveBear: a verification library of the mesh, the inference engines and the servers.
\<close>

end
